(* ===== verification/Prelude.thy ===== *)
theory Prelude
  imports Main "HOL-Library.List_Lexorder" "HOL-Library.Char_ord"
begin

text \<open>
  What every component shares: the Go values the program is written in, as HOL types, and
  the parts of Go's standard library the code calls.

  \<^item> A Go string is a byte sequence: a \<open>string\<close> (list of \<open>char\<close>, one \<open>char\<close> a byte).
    Text the source writes in UTF-8 beyond ASCII is spelled out in bytes (\<open>em_dash\<close>,
    \<open>micro_sign\<close>).
  \<^item> A \<open>time.Time\<close> is the number of nanoseconds since Go's zero time
    (0001-01-01T00:00:00Z) as an \<open>int\<close>, read in UTC; the zero time is \<open>0\<close>.
    A \<open>time.Duration\<close> is an int64 count of nanoseconds: \<open>time_sub\<close> saturates at its
    bounds as \<open>Time.Sub\<close> does.
  \<^item> A pointer that may be nil is an \<open>option\<close>; a \<open>(T, error)\<close> result is a sum
    \<open>'e + 'a\<close> with the error left.

  The collections \<open>go_defs\<close> and \<open>go_simps\<close> gather the definitions to unfold when a
  closed term is evaluated and the rewrite rules the component proofs share.
\<close>

named_theorems go_defs "definitions unfolded when a closed instance is evaluated"

named_theorems go_simps "rewrite rules shared by the component proofs"

section \<open>Results\<close>

text \<open>A \<open>(T, error)\<close> result threaded through an early return.\<close>

fun bind_result :: "'e + 'a \<Rightarrow> ('a \<Rightarrow> 'e + 'b) \<Rightarrow> 'e + 'b" where
  "bind_result (Inl e) f = Inl e"
| "bind_result (Inr a) f = f a"

lemma bind_result_Inr [go_simps]:
  "bind_result r f = Inr b \<longleftrightarrow> (\<exists>a. r = Inr a \<and> f a = Inr b)"
  by (cases r) auto

lemma bind_result_Inl [go_simps]:
  "bind_result r f = Inl e \<longleftrightarrow> r = Inl e \<or> (\<exists>a. r = Inr a \<and> f a = Inl e)"
  by (cases r) auto

section \<open>Calls that change the world\<close>

text \<open>
  A call of an outside service: it takes the service's state and returns the new one with an
  error or a value. \<open>io_bind\<close> is the early return on an error, \<open>io_wrap\<close> a call whose
  error is wrapped by \<open>fmt.Errorf\<close>, \<open>io_try\<close> a call whose error the caller looks at.
\<close>

type_synonym ('g, 'e, 'a) io = "'g \<Rightarrow> 'g \<times> ('e + 'a)"

definition io_ret :: "'a \<Rightarrow> ('g, 'e, 'a) io" where
  "io_ret x g = (g, Inr x)"

definition io_fail :: "'e \<Rightarrow> ('g, 'e, 'a) io" where
  "io_fail e g = (g, Inl e)"

definition io_bind :: "('g, 'e, 'a) io \<Rightarrow> ('a \<Rightarrow> ('g, 'e, 'b) io) \<Rightarrow> ('g, 'e, 'b) io" where
  "io_bind m f g = (case m g of (g', Inl e) \<Rightarrow> (g', Inl e) | (g', Inr x) \<Rightarrow> f x g')"

definition io_wrap :: "('e \<Rightarrow> 'f) \<Rightarrow> ('g, 'e, 'a) io \<Rightarrow> ('g, 'f, 'a) io" where
  "io_wrap w m g = (case m g of (g', Inl e) \<Rightarrow> (g', Inl (w e)) | (g', Inr x) \<Rightarrow> (g', Inr x))"

definition io_try :: "('g, 'e, 'a) io \<Rightarrow> ('g, 'f, 'e + 'a) io" where
  "io_try m g = (case m g of (g', r) \<Rightarrow> (g', Inr r))"

definition io_of :: "'e + 'a \<Rightarrow> ('g, 'e, 'a) io" where
  "io_of r g = (g, r)"

lemma io_simps [simp]:
  "io_ret x g = (g, Inr x)" "io_fail e g = (g, Inl e)" "io_of r g = (g, r)"
  by (simp_all add: io_ret_def io_fail_def io_of_def)

lemma io_bind_Inr [go_simps]:
  "io_bind m f g = (g'', Inr y) \<longleftrightarrow> (\<exists>g' x. m g = (g', Inr x) \<and> f x g' = (g'', Inr y))"
  by (auto simp: io_bind_def split: prod.splits sum.splits)

lemma io_wrap_Inr [go_simps]: "io_wrap w m g = (g', Inr x) \<longleftrightarrow> m g = (g', Inr x)"
  by (auto simp: io_wrap_def split: prod.splits sum.splits)

lemma io_try_Inr [go_simps]: "io_try m g = (g', Inr r) \<longleftrightarrow> m g = (g', r)"
  by (auto simp: io_try_def split: prod.splits)

text \<open>A property of the state that every call in a program keeps.\<close>

definition io_keeps :: "('g \<Rightarrow> 'x) \<Rightarrow> ('g, 'e, 'a) io \<Rightarrow> bool" where
  "io_keeps v m \<longleftrightarrow> (\<forall>g g' r. m g = (g', r) \<longrightarrow> v g' = v g)"

lemma io_keepsD: "io_keeps v m \<Longrightarrow> m g = (g', r) \<Longrightarrow> v g' = v g"
  by (simp add: io_keeps_def)

lemma io_keeps_ret [intro]: "io_keeps v (io_ret x)"
  by (simp add: io_keeps_def)

lemma io_keeps_fail [intro]: "io_keeps v (io_fail e)"
  by (simp add: io_keeps_def)

lemma io_keeps_of [intro]: "io_keeps v (io_of r)"
  by (simp add: io_keeps_def)

lemma io_keeps_bind [intro]:
  assumes "io_keeps v m" and "\<And>x. io_keeps v (f x)"
  shows "io_keeps v (io_bind m f)"
  unfolding io_keeps_def
proof (intro allI impI)
  fix g g' r assume eq: "io_bind m f g = (g', r)"
  obtain g1 r1 where m: "m g = (g1, r1)" by fastforce
  then have "v g1 = v g" using assms(1) io_keepsD by metis
  moreover have "v g' = v g1"
    using eq m assms(2) by (cases r1) (auto simp: io_bind_def dest: io_keepsD)
  ultimately show "v g' = v g" by simp
qed

lemma io_keeps_wrap [intro]: "io_keeps v m \<Longrightarrow> io_keeps v (io_wrap w m)"
  by (auto simp: io_keeps_def io_wrap_def split: prod.splits sum.splits)

lemma io_keeps_try [intro]: "io_keeps v m \<Longrightarrow> io_keeps v (io_try m)"
  by (auto simp: io_keeps_def io_try_def split: prod.splits)

text \<open>A loop of calls over a list, stopping at the first error.\<close>

fun io_fold :: "('x \<Rightarrow> 'a \<Rightarrow> ('g, 'e, 'a) io) \<Rightarrow> 'x list \<Rightarrow> 'a \<Rightarrow> ('g, 'e, 'a) io" where
  "io_fold f [] a = io_ret a"
| "io_fold f (x # xs) a = io_bind (f x a) (io_fold f xs)"

lemma io_keeps_fold [intro]: "(\<And>x a. io_keeps v (f x a)) \<Longrightarrow> io_keeps v (io_fold f xs a)"
  by (induction xs arbitrary: a) auto

text \<open>A call that may never return: \<open>None\<close> is a loop without an end or a nil dereference.\<close>

type_synonym ('g, 'e, 'a) pio = "'g \<Rightarrow> ('g \<times> ('e + 'a)) option"

definition pio_of :: "('g, 'e, 'a) io \<Rightarrow> ('g, 'e, 'a) pio" where
  "pio_of m g = Some (m g)"

definition pio_bind :: "('g, 'e, 'a) pio \<Rightarrow> ('a \<Rightarrow> ('g, 'e, 'b) pio) \<Rightarrow> ('g, 'e, 'b) pio" where
  "pio_bind m f g = (case m g of None \<Rightarrow> None | Some (g', Inl e) \<Rightarrow> Some (g', Inl e) | Some (g', Inr x) \<Rightarrow> f x g')"

definition pio_wrap :: "('e \<Rightarrow> 'f) \<Rightarrow> ('g, 'e, 'a) pio \<Rightarrow> ('g, 'f, 'a) pio" where
  "pio_wrap w m g = (case m g of None \<Rightarrow> None | Some (g', Inl e) \<Rightarrow> Some (g', Inl (w e)) | Some (g', Inr x) \<Rightarrow> Some (g', Inr x))"

lemma pio_of_simp [simp]: "pio_of m g = Some (m g)"
  by (simp add: pio_of_def)

lemma pio_bind_Inr [go_simps]:
  "pio_bind m f g = Some (g'', Inr y) \<longleftrightarrow> (\<exists>g' x. m g = Some (g', Inr x) \<and> f x g' = Some (g'', Inr y))"
  by (auto simp: pio_bind_def split: option.splits prod.splits sum.splits)

lemma pio_wrap_Inr [go_simps]: "pio_wrap w m g = Some (g', Inr x) \<longleftrightarrow> m g = Some (g', Inr x)"
  by (auto simp: pio_wrap_def split: option.splits prod.splits sum.splits)

definition pio_keeps :: "('g \<Rightarrow> 'x) \<Rightarrow> ('g, 'e, 'a) pio \<Rightarrow> bool" where
  "pio_keeps v m \<longleftrightarrow> (\<forall>g g' r. m g = Some (g', r) \<longrightarrow> v g' = v g)"

lemma pio_keepsD: "pio_keeps v m \<Longrightarrow> m g = Some (g', r) \<Longrightarrow> v g' = v g"
  by (simp add: pio_keeps_def)

lemma pio_keeps_of [intro]: "io_keeps v m \<Longrightarrow> pio_keeps v (pio_of m)"
  by (auto simp: pio_keeps_def dest: io_keepsD)

lemma pio_keeps_wrap [intro]: "pio_keeps v m \<Longrightarrow> pio_keeps v (pio_wrap w m)"
  by (auto simp: pio_keeps_def pio_wrap_def split: option.splits prod.splits sum.splits)

lemma pio_keeps_bind [intro]:
  assumes "pio_keeps v m" and "\<And>x. pio_keeps v (f x)"
  shows "pio_keeps v (pio_bind m f)"
  unfolding pio_keeps_def
proof (intro allI impI)
  fix g g' r assume eq: "pio_bind m f g = Some (g', r)"
  then obtain g1 r1 where m: "m g = Some (g1, r1)" by (cases "m g") (auto simp: pio_bind_def)
  then have "v g1 = v g" using assms(1) pio_keepsD by metis
  moreover have "v g' = v g1"
    using eq m assms(2) by (cases r1) (auto simp: pio_bind_def dest: pio_keepsD)
  ultimately show "v g' = v g" by simp
qed

section \<open>Strings\<close>

text \<open>\<open>strings.HasPrefix\<close>, \<open>strings.HasSuffix\<close>, \<open>strings.TrimPrefix\<close>.\<close>

definition has_prefix :: "string \<Rightarrow> string \<Rightarrow> bool" where
  "has_prefix s p \<longleftrightarrow> take (length p) s = p"

definition has_suffix :: "string \<Rightarrow> string \<Rightarrow> bool" where
  "has_suffix s p \<longleftrightarrow> length p \<le> length s \<and> drop (length s - length p) s = p"

definition trim_prefix :: "string \<Rightarrow> string \<Rightarrow> string" where
  "trim_prefix s p = (if has_prefix s p then drop (length p) s else s)"

definition trim_suffix :: "string \<Rightarrow> string \<Rightarrow> string" where
  "trim_suffix s p = (if has_suffix s p then take (length s - length p) s else s)"

lemma has_prefix_append [simp]: "has_prefix (p @ s) p"
  by (simp add: has_prefix_def)

lemma has_prefix_conv: "has_prefix s p \<longleftrightarrow> (\<exists>t. s = p @ t)"
  by (metis append_take_drop_id has_prefix_append has_prefix_def)

lemma trim_prefix_append [simp]: "trim_prefix (p @ s) p = s"
  by (simp add: trim_prefix_def)

lemma has_suffix_append [simp]: "has_suffix (s @ p) p"
  by (simp add: has_suffix_def)

lemma has_suffix_conv: "has_suffix s p \<longleftrightarrow> (\<exists>t. s = t @ p)"
  by (metis append_take_drop_id has_suffix_append has_suffix_def)

text \<open>\<open>strings.Index\<close> (\<open>None\<close> for -1), \<open>strings.Contains\<close> and \<open>strings.Cut\<close>.\<close>

fun str_index :: "string \<Rightarrow> string \<Rightarrow> nat option" where
  "str_index [] sub = (if sub = [] then Some 0 else None)"
| "str_index (c # cs) sub =
     (if has_prefix (c # cs) sub then Some 0 else map_option Suc (str_index cs sub))"

definition str_contains :: "string \<Rightarrow> string \<Rightarrow> bool" where
  "str_contains s sub \<longleftrightarrow> str_index s sub \<noteq> None"

definition str_cut :: "string \<Rightarrow> string \<Rightarrow> string \<times> string \<times> bool" where
  "str_cut s sep = (case str_index s sep of
      None \<Rightarrow> (s, [], False)
    | Some i \<Rightarrow> (take i s, drop (i + length sep) s, True))"

lemma str_index_Some: "str_index s sub = Some i \<Longrightarrow> \<exists>a b. s = a @ sub @ b \<and> length a = i"
proof (induction s arbitrary: i)
  case Nil
  then show ?case by (auto split: if_splits)
next
  case (Cons c cs)
  show ?case
  proof (cases "has_prefix (c # cs) sub")
    case True
    with Cons.prems show ?thesis by (auto simp: has_prefix_conv)
  next
    case False
    with Cons.prems obtain j where "str_index cs sub = Some j" "i = Suc j" by auto
    with Cons.IH obtain a b where "cs = a @ sub @ b" "length a = j" by blast
    with \<open>i = Suc j\<close> have "c # cs = (c # a) @ sub @ b \<and> length (c # a) = i" by simp
    then show ?thesis by blast
  qed
qed

lemma str_index_None: "str_index s sub = None \<Longrightarrow> s \<noteq> a @ sub @ b"
proof (induction s arbitrary: a)
  case Nil
  then show ?case by (auto split: if_splits)
next
  case (Cons c cs)
  then have np: "\<not> has_prefix (c # cs) sub" and no: "str_index cs sub = None"
    by (auto split: if_splits)
  show ?case
  proof (cases a)
    case Nil
    then show ?thesis using np by (auto simp: has_prefix_conv)
  next
    case (Cons d ds)
    then show ?thesis using Cons.IH [OF no, of ds] by auto
  qed
qed

lemma str_contains_conv: "str_contains s sub \<longleftrightarrow> (\<exists>a b. s = a @ sub @ b)"
proof
  assume "str_contains s sub"
  then obtain i where "str_index s sub = Some i" by (auto simp: str_contains_def)
  then show "\<exists>a b. s = a @ sub @ b" using str_index_Some by blast
next
  assume "\<exists>a b. s = a @ sub @ b"
  then show "str_contains s sub" using str_index_None by (fastforce simp: str_contains_def)
qed

text \<open>\<open>strings.Join\<close>, \<open>strings.Split\<close> on a one-byte separator and
  \<open>strings.ReplaceAll\<close> of one byte.\<close>

fun str_join :: "string list \<Rightarrow> string \<Rightarrow> string" where
  "str_join [] sep = []"
| "str_join [x] sep = x"
| "str_join (x # y # ys) sep = x @ sep @ str_join (y # ys) sep"

fun split_on :: "char \<Rightarrow> string \<Rightarrow> string list" where
  "split_on c [] = [[]]"
| "split_on c (x # xs) =
     (if x = c then [] # split_on c xs
      else (case split_on c xs of [] \<Rightarrow> [[x]] | l # ls \<Rightarrow> (x # l) # ls))"

definition replace_byte :: "char \<Rightarrow> string \<Rightarrow> string \<Rightarrow> string" where
  "replace_byte c new s = concat (map (\<lambda>x. if x = c then new else [x]) s)"

lemma split_on_ne [simp]: "split_on c s \<noteq> []"
  by (induction s) (auto split: list.splits)

lemma join_split_on: "str_join (split_on c s) [c] = s"
proof (induction s)
  case (Cons x xs)
  then show ?case
    by (cases "split_on c xs"; cases "tl (split_on c xs)") (auto simp: neq_Nil_conv)
qed simp

text \<open>
  \<open>strings.TrimSpace\<close>: the white space runes of Unicode at either end, read in their UTF-8
  bytes. \<open>space_len\<close> is the number of bytes of the white space rune a string starts
  with, 0 when it starts with another; \<open>space_len_rev\<close> the same for the last rune of a
  string given reversed.
\<close>

definition ascii_space :: "char \<Rightarrow> bool" where
  "ascii_space c \<longleftrightarrow> of_char c \<in> {9::nat, 10, 11, 12, 13, 32}"

definition space_rune3 :: "nat \<Rightarrow> nat \<Rightarrow> nat \<Rightarrow> bool" where
  "space_rune3 a b c \<longleftrightarrow>
     (a = 0xE1 \<and> b = 0x9A \<and> c = 0x80) \<or>
     (a = 0xE2 \<and> b = 0x80 \<and> (0x80 \<le> c \<and> c \<le> 0x8A \<or> c \<in> {0xA8, 0xA9, 0xAF})) \<or>
     (a = 0xE2 \<and> b = 0x81 \<and> c = 0x9F) \<or> (a = 0xE3 \<and> b = 0x80 \<and> c = 0x80)"

fun space_len :: "string \<Rightarrow> nat" where
  "space_len [] = 0"
| "space_len (a # s) =
     (if ascii_space a then 1 else
      case s of [] \<Rightarrow> 0
      | b # t \<Rightarrow>
         if of_char a = (0xC2::nat) \<and> of_char b \<in> {0x85::nat, 0xA0} then 2 else
         case t of [] \<Rightarrow> 0
         | c # _ \<Rightarrow> if space_rune3 (of_char a) (of_char b) (of_char c) then 3 else 0)"

fun space_len_rev :: "string \<Rightarrow> nat" where
  "space_len_rev [] = 0"
| "space_len_rev (a # s) =
     (if ascii_space a then 1 else
      case s of [] \<Rightarrow> 0
      | b # t \<Rightarrow>
         if of_char b = (0xC2::nat) \<and> of_char a \<in> {0x85::nat, 0xA0} then 2 else
         case t of [] \<Rightarrow> 0
         | c # _ \<Rightarrow> if space_rune3 (of_char c) (of_char b) (of_char a) then 3 else 0)"

lemma space_len_le [simp]: "space_len s \<le> length s"
  by (cases s) (auto split: list.splits)

lemma space_len_rev_le [simp]: "space_len_rev s \<le> length s"
  by (cases s) (auto split: list.splits)

function trim_left :: "string \<Rightarrow> string" where
  "trim_left s = (if space_len s = 0 then s else trim_left (drop (space_len s) s))"
  by pat_completeness auto
termination
proof (relation "measure length")
  fix s :: string
  assume "space_len s \<noteq> 0"
  then show "(drop (space_len s) s, s) \<in> measure length"
    using space_len_le [of s] by (simp del: space_len_le)
qed simp

function trim_left_rev :: "string \<Rightarrow> string" where
  "trim_left_rev s =
     (if space_len_rev s = 0 then s else trim_left_rev (drop (space_len_rev s) s))"
  by pat_completeness auto
termination
proof (relation "measure length")
  fix s :: string
  assume "space_len_rev s \<noteq> 0"
  then show "(drop (space_len_rev s) s, s) \<in> measure length"
    using space_len_rev_le [of s] by (simp del: space_len_rev_le)
qed simp

declare trim_left.simps [simp del] trim_left_rev.simps [simp del]

definition trim_space :: "string \<Rightarrow> string" where
  "trim_space s = rev (trim_left_rev (rev (trim_left s)))"

text \<open>Characters beyond ASCII the messages use, in UTF-8.\<close>

definition em_dash :: string where "em_dash = [CHR 0xE2, CHR 0x80, CHR 0x94]"

text \<open>\<open>strings.TrimRight\<close> of one byte.\<close>

definition trim_right_byte :: "char \<Rightarrow> string \<Rightarrow> string" where
  "trim_right_byte c s = rev (dropWhile (\<lambda>x. x = c) (rev s))"

lemma trim_left_fix: "space_len s = 0 \<Longrightarrow> trim_left s = s"
  by (subst trim_left.simps) simp

lemma trim_left_rev_fix: "space_len_rev s = 0 \<Longrightarrow> trim_left_rev s = s"
  by (subst trim_left_rev.simps) simp

lemma trim_space_fix:
  "space_len s = 0 \<Longrightarrow> space_len_rev (rev s) = 0 \<Longrightarrow> trim_space s = s"
  by (simp add: trim_space_def trim_left_fix trim_left_rev_fix)

lemmas trim_eval [go_defs] = trim_space_fix ascii_space_def space_rune3_def

end
