(* ===== verification/Times.thy ===== *)
theory Times
  imports Prelude
begin

text \<open>
  Numbers and times in text: \<open>%d\<close>, \<open>Time.Sub\<close>, \<open>Time.Format(time.RFC3339)\<close> and
  \<open>Duration.Round(time.Second).String()\<close> as Go's standard library computes them.
\<close>

section \<open>Numbers\<close>

text \<open>\<open>fmt.Sprintf("%d", n)\<close> and \<open>strconv.Itoa\<close>.\<close>

definition digit :: "int \<Rightarrow> char" where
  "digit d = char_of (48 + nat d)"

function show_pos :: "int \<Rightarrow> string" where
  "show_pos n = (if n < 10 then [digit n] else show_pos (n div 10) @ [digit (n mod 10)])"
  by pat_completeness auto
termination
  by (relation "measure nat") auto

declare show_pos.simps [simp del]

lemma show_pos_small [go_simps]: "n < 10 \<Longrightarrow> show_pos n = [digit n]"
  by (subst show_pos.simps) simp

lemma show_pos_step [go_simps]:
  "10 \<le> n \<Longrightarrow> show_pos n = show_pos (n div 10) @ [digit (n mod 10)]"
  by (subst show_pos.simps) simp

definition show_int :: "int \<Rightarrow> string" where
  "show_int i = (if i < 0 then ''-'' @ show_pos (- i) else show_pos i)"

definition show_nat :: "nat \<Rightarrow> string" where
  "show_nat n = show_pos (int n)"

definition pad_left :: "nat \<Rightarrow> string \<Rightarrow> string" where
  "pad_left w s = replicate (w - length s) (CHR ''0'') @ s"

definition read_pos :: "string \<Rightarrow> int" where
  "read_pos s = foldl (\<lambda>a c. 10 * a + (of_char c - 48)) 0 s"

lemma read_digit: "0 \<le> d \<Longrightarrow> d < 10 \<Longrightarrow> of_char (digit d) = 48 + d"
proof -
  assume "0 \<le> d" "d < 10"
  moreover have "(of_char (char_of (48 + nat d)) :: int) = int (of_char (char_of (48 + nat d) :: char))"
    by (rule of_nat_of_char [symmetric])
  ultimately show ?thesis by (simp add: digit_def)
qed

lemma read_show_pos: "0 \<le> n \<Longrightarrow> read_pos (show_pos n) = n"
proof (induction n rule: show_pos.induct)
  case (1 n)
  show ?case
  proof (cases "n < 10")
    case True
    with 1 show ?thesis
      by (subst show_pos.simps) (simp add: read_pos_def read_digit)
  next
    case False
    then have "read_pos (show_pos n) = 10 * read_pos (show_pos (n div 10)) + n mod 10"
      by (subst show_pos.simps) (simp add: read_pos_def read_digit)
    with False 1 show ?thesis by simp
  qed
qed

lemma show_nat_inj [simp]: "show_nat m = show_nat n \<longleftrightarrow> m = n"
  by (metis of_nat_0_le_iff of_nat_eq_iff read_show_pos show_nat_def)

section \<open>Times and durations\<close>

type_synonym time = int

type_synonym duration = int

definition zero_time :: time where "zero_time = 0"

definition microsecond :: duration where "microsecond = 1000"
definition millisecond :: duration where "millisecond = 1000000"
definition second :: duration where "second = 1000000000"
definition minute :: duration where "minute = 60 * second"
definition hour :: duration where "hour = 60 * minute"

lemmas duration_units [go_defs] =
  microsecond_def millisecond_def second_def minute_def hour_def

definition max_duration :: duration where "max_duration = 2 ^ 63 - 1"
definition min_duration :: duration where "min_duration = - (2 ^ 63)"

text \<open>\<open>Time.Sub\<close> saturates where the difference does not fit an int64.\<close>

definition time_sub :: "time \<Rightarrow> time \<Rightarrow> duration" where
  "time_sub t u = max min_duration (min max_duration (t - u))"

lemma time_sub_exact:
  "min_duration \<le> t - u \<Longrightarrow> t - u \<le> max_duration \<Longrightarrow> time_sub t u = t - u"
  by (simp add: time_sub_def)

lemma time_sub_bounds: "min_duration \<le> time_sub t u \<and> time_sub t u \<le> max_duration"
  by (auto simp: time_sub_def min_duration_def max_duration_def)

lemma time_sub_less_iff:
  "min_duration < d \<Longrightarrow> d \<le> max_duration \<Longrightarrow> time_sub t u < d \<longleftrightarrow> t - u < d"
  by (auto simp: time_sub_def)

text \<open>The civil date of a day counted from 0001-01-01, in the proleptic Gregorian calendar.\<close>

definition civil :: "int \<Rightarrow> int \<times> int \<times> int" where
  "civil days = (let z = days + 306; era = z div 146097; doe = z mod 146097;
     yoe = (doe - doe div 1460 + doe div 36524 - doe div 146096) div 365;
     doy = doe - (365 * yoe + yoe div 4 - yoe div 100);
     mp = (5 * doy + 2) div 153; d = doy - (153 * mp + 2) div 5 + 1;
     m = (if mp < 10 then mp + 3 else mp - 9); y = yoe + era * 400
   in (if m \<le> 2 then y + 1 else y, m, d))"

definition pad2 :: "int \<Rightarrow> string" where "pad2 i = pad_left 2 (show_int i)"

text \<open>\<open>t.UTC().Format(time.RFC3339)\<close>: whole seconds, \<open>Z\<close> for UTC.\<close>

definition rfc3339 :: "time \<Rightarrow> string" where
  "rfc3339 t = (let s = t div second; days = s div 86400; sod = s mod 86400; (y, m, d) = civil days
     in pad_left 4 (show_int y) @ ''-'' @ pad2 m @ ''-'' @ pad2 d @ ''T'' @
        pad2 (sod div 3600) @ '':'' @ pad2 (sod div 60 mod 60) @ '':'' @ pad2 (sod mod 60) @ ''Z'')"

text \<open>\<open>Duration.Round(time.Second)\<close>: half away from zero, saturating at the int64 bounds.\<close>

definition round_second :: "duration \<Rightarrow> duration" where
  "round_second d =
     (if d < 0 then
        (let r = (- d) mod second in
         if 2 * r < second then d + r
         else if min_duration \<le> d - second + r then d - second + r else min_duration)
      else
        (let r = d mod second in
         if 2 * r < second then d - r
         else if d + second - r \<le> max_duration then d + second - r else max_duration))"

text \<open>\<open>Duration.String()\<close>.\<close>

definition micro_sign :: string where "micro_sign = [CHR 0xC2, CHR 0xB5]"

definition frac :: "int \<Rightarrow> nat \<Rightarrow> string" where
  "frac v prec = (let r = v mod 10 ^ prec in
     if r = 0 then [] else ''.'' @ trim_right_byte (CHR ''0'') (pad_left prec (show_pos r)))"

definition abs_duration_text :: "int \<Rightarrow> string" where
  "abs_duration_text u =
     (if u = 0 then ''0s''
      else if u < microsecond then show_pos u @ ''ns''
      else if u < millisecond then show_pos (u div microsecond) @ frac u 3 @ micro_sign @ ''s''
      else if u < second then show_pos (u div millisecond) @ frac u 6 @ ''ms''
      else (let s = u div second; f = frac u 9; m = s div 60; h = m div 60 in
        (if m = 0 then [] else
           (if h = 0 then [] else show_pos h @ ''h'') @ show_pos (m mod 60) @ ''m'') @
        show_pos (s mod 60) @ f @ ''s''))"

definition duration_text :: "duration \<Rightarrow> string" where
  "duration_text d = (if d < 0 then ''-'' else []) @ abs_duration_text \<bar>d\<bar>"

lemma round_second_bounds:
  assumes "min_duration \<le> d" and "d \<le> max_duration"
  shows "min_duration \<le> round_second d \<and> round_second d \<le> max_duration"
proof (cases "d < 0")
  case True
  have "0 \<le> (- d) mod second" and "(- d) mod second < second"
    by (simp_all add: second_def)
  moreover have "(- d) mod second \<le> - d" using True by (simp add: second_def zmod_le_nonneg_dividend)
  ultimately show ?thesis using True assms
    by (auto simp: round_second_def Let_def min_duration_def max_duration_def)
next
  case False
  have "0 \<le> d mod second" and "d mod second < second" by (simp_all add: second_def)
  moreover have "d mod second \<le> d" using False by (simp add: second_def zmod_le_nonneg_dividend)
  ultimately show ?thesis using False assms
    by (auto simp: round_second_def Let_def min_duration_def max_duration_def)
qed

end
