(* ===== verification/Engine.thy ===== *)
theory Engine
  imports Times
begin

text \<open>
  The values of devctl's \<open>pkg/reposetup/reconcile\<close> the program reads and writes: a run's
  result, its steps' results and their findings. devctl is not part of the repository: its
  functions are the fields of a record \<open>engine\<close>, an argument of every definition that calls
  one, and \<open>engine_ok\<close> states what the program relies on. Only the fields of the types the
  program uses are here.
\<close>

datatype verdict = VerdictOK | VerdictDrift | VerdictRepaired | VerdictReported
  | VerdictSkipped | VerdictFailed

datatype step = StepEntry | StepCircleCI | StepRelease | StepScaffold | StepOther string

datatype mode = ModeCheck | ModeRepair

type_synonym finding_kind = string

definition FindingUnchecked :: finding_kind where "FindingUnchecked = ''unchecked''"
definition FindingRedRelease :: finding_kind where "FindingRedRelease = ''red-release''"
definition FindingMissedTagBuild :: finding_kind where
  "FindingMissedTagBuild = ''missed-tag-build''"

definition FindingCircleCIWebhookMissing :: finding_kind where
  "FindingCircleCIWebhookMissing = ''circleci-webhook-missing''"

lemmas finding_kinds [go_defs] =
  FindingUnchecked_def FindingRedRelease_def FindingMissedTagBuild_def
  FindingCircleCIWebhookMissing_def

record engine_finding =
  ef_kind :: finding_kind
  ef_message :: string
  ef_fix :: string
  ef_advisory :: bool

record step_result =
  sr_step :: step
  sr_verdict :: verdict
  sr_summary :: string
  sr_changes :: "string list"
  sr_findings :: "engine_finding list"

record result =
  res_repository :: string
  res_mode :: mode
  res_steps :: "step_result list"
  res_converged :: bool

text \<open>A zero \<open>StepResult\<close> of a step, as \<open>reconcile.StepResult{Step: s}\<close> is (the empty verdict
  is overwritten wherever the program builds one).\<close>

definition step_of :: "step \<Rightarrow> verdict \<Rightarrow> step_result" where
  "step_of s v = \<lparr>sr_step = s, sr_verdict = v, sr_summary = [], sr_changes = [], sr_findings = []\<rparr>"

text \<open>
  devctl's functions: \<open>Result.Step\<close> (the index of the step's result, which the program
  writes through), \<open>StepResult.Converges\<close>, \<open>FindingKind.Advisory\<close>,
  \<open>Result.Findings\<close> and \<open>UnpublishedJobs\<close> (which of a release's failed jobs leave something
  unpublished).
\<close>

record engine =
  eng_step :: "result \<Rightarrow> step \<Rightarrow> nat option"
  eng_converges :: "step_result \<Rightarrow> bool"
  eng_advisory :: "finding_kind \<Rightarrow> bool"
  eng_findings :: "result \<Rightarrow> engine_finding list"
  eng_unpublished :: "string list \<Rightarrow> string list"

definition engine_step_ok :: "engine \<Rightarrow> bool" where
  "engine_step_ok E \<longleftrightarrow>
     (\<forall>r s i. eng_step E r s = Some i \<longrightarrow> i < length (res_steps r) \<and> sr_step (res_steps r ! i) = s)"

definition the_step :: "engine \<Rightarrow> result \<Rightarrow> step \<Rightarrow> step_result option" where
  "the_step E r s = map_option (\<lambda>i. res_steps r ! i) (eng_step E r s)"

definition set_step :: "result \<Rightarrow> nat \<Rightarrow> step_result \<Rightarrow> result" where
  "set_step r i sr = r\<lparr>res_steps := (res_steps r)[i := sr]\<rparr>"

lemma set_step_simps [simp]:
  "res_mode (set_step r i sr) = res_mode r"
  "res_repository (set_step r i sr) = res_repository r"
  "res_steps (set_step r i sr) = (res_steps r)[i := sr]"
  "res_converged (set_step r i sr) = res_converged r"
  by (simp_all add: set_step_def)

text \<open>An engine that looks up steps by position, converges by the rule the program's
  comments document (no drift, no failure, advisory findings only) and holds the three kinds
  of finding the program writes for non-advisory: the instance the witnesses use.\<close>

fun first_step :: "step_result list \<Rightarrow> step \<Rightarrow> nat option" where
  "first_step [] s = None"
| "first_step (sr # srs) s = (if sr_step sr = s then Some 0 else map_option Suc (first_step srs s))"

definition sample_engine :: engine where
  "sample_engine = \<lparr>eng_step = (\<lambda>r. first_step (res_steps r)),
     eng_converges = (\<lambda>sr. sr_verdict sr \<noteq> VerdictDrift \<and> sr_verdict sr \<noteq> VerdictFailed \<and>
        list_all ef_advisory (sr_findings sr)),
     eng_advisory = (\<lambda>k. False),
     eng_findings = (\<lambda>r. concat (map sr_findings (res_steps r))),
     eng_unpublished = filter (\<lambda>j. j \<noteq> ''publish-github-release'')\<rparr>"

lemma first_step_Some: "first_step srs s = Some i \<Longrightarrow> i < length srs \<and> sr_step (srs ! i) = s"
  by (induction srs arbitrary: i) (auto split: if_splits)

lemma sample_engine_ok: "engine_step_ok sample_engine"
  by (auto simp: engine_step_ok_def sample_engine_def dest: first_step_Some)

end
