(* ===== verification/Entries.thy ===== *)
theory Entries
  imports Times
begin

text \<open>
  internal/teamfiles/entries.go: the field names of an entry, the lifecycle values, and the
  edits of a team file that touch the lines of one entry only.
\<close>

section \<open>Field names and lifecycle values\<close>

definition FieldName :: string where "FieldName = ''name''"
definition FieldComponentType :: string where "FieldComponentType = ''componentType''"
definition FieldLifecycle :: string where "FieldLifecycle = ''lifecycle''"
definition FieldAlign :: string where "FieldAlign = ''align''"
definition FieldGen :: string where "FieldGen = ''gen''"
definition FieldVisibility :: string where "FieldVisibility = ''visibility''"
definition VisibilityPrivate :: string where "VisibilityPrivate = ''private''"

definition LifecycleDeprecated :: string where "LifecycleDeprecated = ''deprecated''"
definition LifecycleArchived :: string where "LifecycleArchived = ''archived''"
definition LifecycleDeleted :: string where "LifecycleDeleted = ''deleted''"

lemmas field_names [go_defs] =
  FieldName_def FieldComponentType_def FieldLifecycle_def FieldAlign_def FieldGen_def
  FieldVisibility_def VisibilityPrivate_def

lemmas lifecycles [go_defs] =
  LifecycleDeprecated_def LifecycleArchived_def LifecycleDeleted_def

section \<open>The libraries the edits call\<close>

text \<open>
  \<open>ynode\<close> is \<open>yaml.Node\<close> with the fields the program reads and writes; a mapping's
  content is the flat list of its keys and values, as yaml.v3 keeps it. \<open>yaml\<close> holds yaml.v3's
  \<open>Unmarshal\<close> into a node and its encoder with an indent of 2. \<open>reposetup\<close> holds what
  devctl's package of that name does with a declaration (the type \<open>'d\<close>) and a team file.
\<close>

datatype ykind = NoNode | DocumentNode | SequenceNode | MappingNode | ScalarNode | AliasNode

datatype ynode = YNode (yn_kind: ykind) (yn_value: string) (yn_line: int) (yn_headComment: string)
  (yn_content: "ynode list")

record yaml =
  y_unmarshal :: "string \<Rightarrow> string + ynode"
  y_encode :: "ynode \<Rightarrow> string + string"

record 'd reposetup =
  rs_parse :: "string \<Rightarrow> string \<Rightarrow> string + 'd list"
  rs_entry :: "'d list \<Rightarrow> string \<Rightarrow> 'd option"
  rs_name :: "'d \<Rightarrow> string"
  rs_yaml :: "'d \<Rightarrow> string + string"
  rs_insert :: "string \<Rightarrow> string \<Rightarrow> 'd \<Rightarrow> string + string"

datatype entry_error =
    ErrParseFile string
  | ErrNotAList
  | ErrEntryNotFound string
  | ErrRenderEntry string
  | ErrFileRemoved
  | ErrAtMergeBase string
  | ErrOnBranch string
  | ErrOnBase string
  | ErrEntry string entry_error
  | ErrInsert string
  | ErrLibrary string
  | ErrNotOneItem string
  | ErrExpectedOne nat
  | ErrEncodeEntry string

section \<open>Lines of a file\<close>

definition newline :: char where "newline = CHR 0x0A"

text \<open>\<open>bytes.SplitAfter(b, "\\n")\<close> without the empty tail: the lines with their line breaks.\<close>

fun split_lines :: "string \<Rightarrow> string list" where
  "split_lines [] = []"
| "split_lines (c # cs) =
     (if c = newline then [c] # split_lines cs
      else (case split_lines cs of [] \<Rightarrow> [[c]] | l # ls \<Rightarrow> (c # l) # ls))"

fun offset_of :: "string list \<Rightarrow> int \<Rightarrow> nat" where
  "offset_of [] n = 0"
| "offset_of (l # ls) n = (if n \<le> 0 then 0 else length l + offset_of ls (n - 1))"

section \<open>Locating and replacing an entry\<close>

fun mapping_value_in :: "ynode list \<Rightarrow> string \<Rightarrow> string" where
  "mapping_value_in (k # v # rest) key =
     (if yn_value k = key then yn_value v else mapping_value_in rest key)"
| "mapping_value_in _ key = []"

definition mapping_value :: "ynode \<Rightarrow> string \<Rightarrow> string" where
  "mapping_value m key = mapping_value_in (yn_content m) key"

fun find_item :: "ynode list \<Rightarrow> string \<Rightarrow> nat option" where
  "find_item [] name = None"
| "find_item (it # its) name =
     (if yn_kind it = MappingNode \<and> mapping_value it FieldName = name then Some 0
      else map_option Suc (find_item its name))"

definition list_items :: "ynode \<Rightarrow> ynode list option" where
  "list_items doc = (case yn_content doc of
      [n] \<Rightarrow> if yn_kind doc = DocumentNode \<and> yn_kind n = SequenceNode then Some (yn_content n) else None
    | _ \<Rightarrow> None)"

definition entry_lines :: "ynode list \<Rightarrow> int \<Rightarrow> nat \<Rightarrow> int \<times> int" where
  "entry_lines items n_lines idx =
     (yn_line (items ! idx) - 1,
      if idx + 1 < length items then
        (let nxt = items ! (idx + 1)
         in if yn_headComment nxt \<noteq> [] then
              yn_line nxt - 1 - (int (length (filter (\<lambda>c. c = newline) (yn_headComment nxt))) + 1)
            else yn_line nxt - 1)
      else n_lines)"

definition entry_range :: "yaml \<Rightarrow> string \<Rightarrow> string \<Rightarrow> entry_error + nat \<times> nat" where
  "entry_range Y file name = (case y_unmarshal Y file of
      Inl e \<Rightarrow> Inl (ErrParseFile e)
    | Inr doc \<Rightarrow> (case list_items doc of
        None \<Rightarrow> Inl ErrNotAList
      | Some items \<Rightarrow> (case find_item items name of
          None \<Rightarrow> Inl (ErrEntryNotFound name)
        | Some idx \<Rightarrow>
            (let ls = split_lines file; r = entry_lines items (int (length ls)) idx
             in Inr (offset_of ls (fst r), offset_of ls (snd r))))))"

text \<open>\<open>stripHeadComment\<close>: the comment lines before the first list item dropped.\<close>

lemma str_cut_shorter: "str_cut s [c] = (a, b, True) \<Longrightarrow> length b < length s"
  by (auto simp: str_cut_def split: option.splits dest!: str_index_Some)

function strip_head_comment :: "string \<Rightarrow> string" where
  "strip_head_comment s = (case str_cut s [newline] of
      (line, rest, ok) \<Rightarrow>
        if \<not> has_prefix (trim_space line) ''#'' \<or> \<not> ok then s else strip_head_comment rest)"
  by pat_completeness auto
termination
proof (relation "measure length")
  fix s line r rest ok
  assume "(line, r) = str_cut s [newline]" "(rest, ok) = r"
    "\<not> (\<not> has_prefix (trim_space line) ''#'' \<or> \<not> ok)"
  then have "str_cut s [newline] = (line, rest, True)" by (metis (full_types))
  then show "(rest, s) \<in> measure length" using str_cut_shorter by simp
qed simp

declare strip_head_comment.simps [simp del]

definition replace_entry ::
  "yaml \<Rightarrow> 'd reposetup \<Rightarrow> string \<Rightarrow> string \<Rightarrow> 'd \<Rightarrow> entry_error + string" where
  "replace_entry Y R file name d = (case entry_range Y file name of
      Inl e \<Rightarrow> Inl e
    | Inr (s, e) \<Rightarrow> (case rs_yaml R d of
        Inl err \<Rightarrow> Inl (ErrRenderEntry err)
      | Inr rendered \<Rightarrow> Inr (take s file @ trim_right_byte newline (strip_head_comment rendered) @
          [newline] @ drop e file)))"

definition remove_entry :: "yaml \<Rightarrow> string \<Rightarrow> string \<Rightarrow> entry_error + string" where
  "remove_entry Y file name = (case entry_range Y file name of
      Inl e \<Rightarrow> Inl e
    | Inr (s, e) \<Rightarrow> Inr (take s file @ drop e file))"

section \<open>Re-rendering a file on its base\<close>

definition declares :: "'d reposetup \<Rightarrow> 'd list \<Rightarrow> 'd \<Rightarrow> bool" where
  "declares R tf d = (case rs_entry R tf (rs_name R d) of
      None \<Rightarrow> False
    | Some e \<Rightarrow> (case (rs_yaml R e, rs_yaml R d) of (Inr a, Inr b) \<Rightarrow> a = b | _ \<Rightarrow> False))"

fun apply_changed ::
  "yaml \<Rightarrow> 'd reposetup \<Rightarrow> string \<Rightarrow> 'd list \<Rightarrow> 'd list \<Rightarrow> 'd list \<Rightarrow> string \<Rightarrow> string list \<Rightarrow>
   entry_error + string \<times> string list" where
  "apply_changed Y R team before current [] out names = Inr (out, names)"
| "apply_changed Y R team before current (d # ds) out names =
     (if declares R before d then apply_changed Y R team before current ds out names
      else
        (case (case rs_entry R current (rs_name R d) of
                 Some _ \<Rightarrow> replace_entry Y R out (rs_name R d) d
               | None \<Rightarrow> map_sum ErrInsert id (rs_insert R team out d)) of
           Inl e \<Rightarrow> Inl (ErrEntry (rs_name R d) e)
         | Inr out' \<Rightarrow> apply_changed Y R team before current ds out' (names @ [rs_name R d])))"

fun apply_removed ::
  "yaml \<Rightarrow> 'd reposetup \<Rightarrow> 'd list \<Rightarrow> 'd list \<Rightarrow> 'd list \<Rightarrow> string \<Rightarrow> string list \<Rightarrow>
   entry_error + string \<times> string list" where
  "apply_removed Y R after current [] out names = Inr (out, names)"
| "apply_removed Y R after current (d # ds) out names =
     (if rs_entry R after (rs_name R d) \<noteq> None then apply_removed Y R after current ds out names
      else
        (case (case rs_entry R current (rs_name R d) of
                 Some _ \<Rightarrow> remove_entry Y out (rs_name R d)
               | None \<Rightarrow> Inr out) of
           Inl e \<Rightarrow> Inl (ErrEntry (rs_name R d) e)
         | Inr out' \<Rightarrow> apply_removed Y R after current ds out' (names @ [rs_name R d])))"

text \<open>\<open>rerenderFile\<close>: \<open>None\<close> is the nil content of a file the ref does not have.\<close>

definition rerender_file ::
  "yaml \<Rightarrow> 'd reposetup \<Rightarrow> string \<Rightarrow> string option \<Rightarrow> string option \<Rightarrow> string option \<Rightarrow>
   entry_error + string \<times> string list" where
  "rerender_file Y R team was want now = (case want of
      None \<Rightarrow> Inl ErrFileRemoved
    | Some w \<Rightarrow>
        (let bytes = (\<lambda>f. case f of None \<Rightarrow> [] | Some b \<Rightarrow> b) in
         case rs_parse R team (bytes was) of
           Inl e \<Rightarrow> Inl (ErrAtMergeBase e)
         | Inr before \<Rightarrow> (case rs_parse R team w of
             Inl e \<Rightarrow> Inl (ErrOnBranch e)
           | Inr after \<Rightarrow> (case rs_parse R team (bytes now) of
               Inl e \<Rightarrow> Inl (ErrOnBase e)
             | Inr current \<Rightarrow>
                 (case apply_changed Y R team before current after (bytes now) [] of
                    Inl e \<Rightarrow> Inl e
                  | Inr (out, names) \<Rightarrow> apply_removed Y R after current before out names)))))"

section \<open>Setting a field\<close>

definition parse_entry :: "'d reposetup \<Rightarrow> string \<Rightarrow> entry_error + 'd" where
  "parse_entry R text =
     (let s = trim_space (strip_head_comment text);
          s' = (if has_prefix s ''- '' then s else ''- '' @ replace_byte newline ([newline] @ ''  '') s)
      in case rs_parse R ''entry'' s' of
           Inl e \<Rightarrow> Inl (ErrLibrary e)
         | Inr ds \<Rightarrow> (case ds of [d] \<Rightarrow> Inr d | _ \<Rightarrow> Inl (ErrExpectedOne (length ds))))"

definition scalar :: "string \<Rightarrow> ynode" where
  "scalar v = YNode ScalarNode v 0 [] []"

text \<open>The loop of \<open>SetField\<close> over the pairs from index \<open>i\<close> on: the content with the
  field's value replaced, and where an absent field goes (\<open>-1\<close>: it was there).\<close>

fun set_field_loop :: "ynode list \<Rightarrow> string \<Rightarrow> string \<Rightarrow> int \<Rightarrow> int \<Rightarrow> ynode list \<times> int" where
  "set_field_loop (k # v # rest) field val i at =
     (if yn_value k = field then
        (case set_field_loop rest field val (i + 2) (-1) of (r, a) \<Rightarrow> (k # scalar val # r, a))
      else if yn_value k = FieldGen then
        (case set_field_loop rest field val (i + 2) (if at > i then i else at) of
           (r, a) \<Rightarrow> (k # v # r, a))
      else (case set_field_loop rest field val (i + 2) at of (r, a) \<Rightarrow> (k # v # r, a)))"
| "set_field_loop rest field val i at = (rest, at)"

definition set_content :: "ynode list \<Rightarrow> string \<Rightarrow> string \<Rightarrow> ynode list" where
  "set_content content field val =
     (case set_field_loop content field val 0 (int (length content)) of (c, at) \<Rightarrow>
        if 0 \<le> at then take (nat at) c @ [scalar field, scalar val] @ drop (nat at) c else c)"

definition set_in_document :: "ynode \<Rightarrow> string \<Rightarrow> string \<Rightarrow> ynode option" where
  "set_in_document doc field val = (case doc of
      YNode DocumentNode dv dl dh [YNode SequenceNode sv sl sh [YNode k mv ml mh content]] \<Rightarrow>
        Some (YNode DocumentNode dv dl dh [YNode SequenceNode sv sl sh
          [YNode k mv ml mh (set_content content field val)]])
    | _ \<Rightarrow> None)"

definition set_field ::
  "yaml \<Rightarrow> 'd reposetup \<Rightarrow> 'd \<Rightarrow> string \<Rightarrow> string \<Rightarrow> entry_error + 'd" where
  "set_field Y R d field val = (case rs_yaml R d of
      Inl e \<Rightarrow> Inl (ErrLibrary e)
    | Inr text \<Rightarrow> (case y_unmarshal Y text of
        Inl e \<Rightarrow> Inl (ErrLibrary e)
      | Inr doc \<Rightarrow> (case set_in_document doc field val of
          None \<Rightarrow> Inl (ErrNotOneItem (rs_name R d))
        | Some doc' \<Rightarrow> (case y_encode Y doc' of
            Inl e \<Rightarrow> Inl (ErrLibrary e)
          | Inr buf \<Rightarrow> parse_entry R buf))))"

section \<open>An entry from a tool's argument\<close>

text \<open>A JSON-compatible value; \<open>JScalar\<close> is any other Go value, as its encoding.\<close>

datatype jvalue = JMap "(string \<times> jvalue) list" | JList "jvalue list" | JScalar ynode

definition key_order :: "string list" where
  "key_order = [FieldName, FieldComponentType, ''description'', FieldVisibility, FieldLifecycle,
     ''defaultBranch'', FieldAlign, ''system'', ''choreReviewers'', ''requiredChecks'', ''replace'',
     FieldGen]"

definition ordered_keys :: "string list \<Rightarrow> string list" where
  "ordered_keys ks = filter (\<lambda>k. k \<in> set ks) key_order @ sort (filter (\<lambda>k. k \<notin> set key_order) ks)"

text \<open>The node a map of ordered keys builds from its values' nodes.\<close>

definition mapping_of :: "(string \<times> ynode) list \<Rightarrow> ynode" where
  "mapping_of kvs = YNode MappingNode [] 0 []
     (concat (map (\<lambda>k. [scalar k, case map_of kvs k of Some v \<Rightarrow> v | None \<Rightarrow> scalar []])
        (ordered_keys (map fst kvs))))"

primrec order_keys :: "jvalue \<Rightarrow> ynode" where
  "order_keys (JMap kvs) = mapping_of (map (map_prod id order_keys) kvs)"
| "order_keys (JList vs) = YNode SequenceNode [] 0 [] (map order_keys vs)"
| "order_keys (JScalar n) = n"

definition entry_from_value :: "yaml \<Rightarrow> 'd reposetup \<Rightarrow> jvalue \<Rightarrow> entry_error + 'd" where
  "entry_from_value Y R v = (case y_encode Y (YNode SequenceNode [] 0 [] [order_keys v]) of
      Inl e \<Rightarrow> Inl (ErrEncodeEntry e)
    | Inr buf \<Rightarrow> parse_entry R buf)"

end
