(* ===== verification/Records.thy ===== *)
theory Records
  imports Engine Entries
begin

text \<open>
  internal/inventory/record.go: the inventory's record of one repository. Each struct is a
  record with the struct's fields in the struct's order (a short prefix keeps the field names
  of different structs apart), a pointer that may be nil an \<open>option\<close>; the methods that
  change a record return the changed one.
\<close>

section \<open>The record and its parts\<close>

definition SourceSweep :: string where "SourceSweep = ''sweep''"
definition SourceRefresh :: string where "SourceRefresh = ''refresh''"
definition SourceReconciler :: string where "SourceReconciler = ''reconciler''"

record team_declaration =
  d_team :: string
  d_file :: string
  d_componentType :: string
  d_lifecycle :: string
  d_language :: string
  d_flavours :: "string list"
  d_ciGenerate :: "bool option"
  d_releaseWorkflow :: string
  d_entry :: string
  d_accepted :: bool
  d_problems :: "string list"
  d_unknownFields :: "string list"

record commit =
  cm_date :: time
  cm_author :: string
  cm_message :: string

record align_files_pull_request =
  af_number :: int
  af_url :: string
  af_state :: string
  af_createdAt :: time
  af_closedAt :: "time option"
  af_mergedAt :: "time option"
  af_lastCommitAt :: "time option"

definition PullRequestOpen :: string where "PullRequestOpen = ''open''"
definition PullRequestMerged :: string where "PullRequestMerged = ''merged''"
definition PullRequestClosed :: string where "PullRequestClosed = ''closed''"

record pull_request =
  pr_number :: int
  pr_title :: string
  pr_author :: string
  pr_createdAt :: time

record pull_requests =
  prs_total :: int
  prs_people :: int
  prs_bots :: int
  prs_renovate :: int
  prs_oldestBotAt :: "time option"
  prs_onboarding :: "pull_request list"

record head_status =
  hs_state :: string
  hs_contexts :: "string list"
  hs_failed :: "string list"
  hs_pending :: "string list"
  hs_at :: time

record release =
  rl_tag :: string
  rl_publishedAt :: time
  rl_build :: "head_status option"
  rl_buildTruncated :: bool

record presence =
  has_renovate :: bool
  has_dependabot :: bool
  has_circleci :: bool
  has_workflows :: bool
  has_dockerfile :: bool
  has_helm :: bool
  has_readme :: bool
  has_codeowners :: bool

record reality =
  re_url :: string
  re_description :: string
  re_visibility :: string
  re_defaultBranch :: string
  re_isArchived :: bool
  re_isFork :: bool
  re_isTemplate :: bool
  re_isEmpty :: bool
  re_createdAt :: time
  re_pushedAt :: time
  re_language :: string
  re_topics :: "string list"
  re_lastCommit :: "commit option"
  re_lastPersonCommit :: "commit option"
  re_historySampled :: int
  re_botCommits :: int
  re_openPullRequests :: pull_requests
  re_alignFiles :: "align_files_pull_request option"
  re_openIssues :: int
  re_latestRelease :: "release option"
  re_codeownersTeams :: "string list"
  re_unknownCodeownersTeams :: "string list"
  re_has :: presence

record circleci =
  cc_followed :: bool
  cc_setupWorkflows :: "bool option"
  cc_webhook :: "bool option"
  cc_head :: "head_status option"
  cc_source :: string
  cc_unknown :: "string list"
  cc_error :: string

definition CircleCISourceStatuses :: string where "CircleCISourceStatuses = ''statuses''"
definition CircleCISourceArtifact :: string where "CircleCISourceArtifact = ''artifact''"
definition CircleCISourceBoth :: string where
  "CircleCISourceBoth = CircleCISourceStatuses @ ''+'' @ CircleCISourceArtifact"
definition CircleCIFactFollowed :: string where "CircleCIFactFollowed = ''followed''"
definition CircleCIFactSetupWorkflows :: string where
  "CircleCIFactSetupWorkflows = ''setupWorkflows''"
definition CircleCIFactWebhook :: string where "CircleCIFactWebhook = ''webhook''"

record issue =
  iss_number :: int
  iss_title :: string

record renovate =
  rn_configured :: bool
  rn_path :: string
  rn_enabled :: bool
  rn_preset :: bool
  rn_dashboardIssue :: "issue option"
  rn_lastPullRequest :: "pull_request option"
  rn_lastCommit :: "time option"

record catalog =
  ca_present :: bool

record mapping =
  mp_present :: bool
  mp_team :: string

record change_pull_request =
  cp_number :: int
  cp_url :: string

record release_pipeline =
  rp_number :: int
  rp_url :: string
  rp_workflow :: string

record release_watch =
  rw_tag :: string
  rw_createdAt :: time
  rw_pullRequest :: "change_pull_request option"
  rw_state :: string
  rw_pipeline :: "release_pipeline option"
  rw_failedJobs :: "string list"
  rw_reason :: string
  rw_checkedAt :: time
  rw_settledAt :: "time option"
  rw_told :: string
  rw_toldAt :: "time option"

record change =
  ch_kind :: string
  ch_by :: string
  ch_pullRequest :: "change_pull_request option"
  ch_fromTeam :: string

record last_run =
  lr_result :: result
  lr_runURL :: string
  lr_timestamp :: time
  lr_runID :: int
  lr_attempt :: int
  lr_change :: "change option"
  lr_told :: bool

record pending_run =
  pn_dispatchedAt :: time
  pn_by :: string
  pn_kind :: string
  pn_pullRequest :: "change_pull_request option"
  pn_mergedAt :: "time option"
  pn_conflictsSince :: "time option"

record missing_run =
  mr_pendingRun :: pending_run
  mr_noticedAt :: time
  mr_runsURL :: string
  mr_runURL :: string
  mr_conclusion :: string

record setup_state =
  su_checks :: "result option"
  su_checkedAt :: "time option"
  su_checkError :: string
  su_lastRun :: "last_run option"
  su_pendingRun :: "pending_run option"
  su_missingRun :: "missing_run option"
  su_told :: "string list"
  su_release :: "release_watch option"

record finding =
  fd_kind :: string
  fd_message :: string
  fd_fix :: string
  fd_source :: string
  fd_advisory :: bool

record ci_job =
  cj_name :: string
  cj_branchesOnly :: "string list"
  cj_branchesIgnore :: "string list"
  cj_tagsOnly :: "string list"
  cj_tagsIgnore :: "string list"

record ci =
  ci_files :: "string list"
  ci_generated :: bool
  ci_orb :: string
  ci_imagePush :: bool
  ci_chartPush :: bool
  ci_platforms :: "string list"
  ci_arm64 :: "bool option"
  ci_chinaPush :: string
  ci_signing :: string
  ci_signingReason :: string
  ci_jobs :: "ci_job list"
  ci_error :: string

record repo_record =
  rc_repository :: string
  rc_name :: string
  rc_declaration :: "team_declaration option"
  rc_reality :: "reality option"
  rc_circleci :: "circleci option"
  rc_ci :: "ci option"
  rc_renovate :: renovate
  rc_catalog :: catalog
  rc_mapping :: mapping
  rc_setup :: setup_state
  rc_findings :: "finding list"
  rc_refreshedAt :: time
  rc_source :: string
  rc_age :: string

record budget =
  bu_calls :: int
  bu_cost :: int
  bu_remaining :: int
  bu_limit :: int
  bu_resetAt :: "time option"

record sweep_summary =
  ss_startedAt :: time
  ss_finishedAt :: time
  ss_duration :: string
  ss_repositories :: int
  ss_declared :: int
  ss_undeclared :: int
  ss_gone :: int
  ss_archived :: int
  ss_engineChecks :: int
  ss_removed :: int
  ss_resumes :: int
  ss_carried :: int
  ss_graphql :: budget
  ss_rest :: budget
  ss_errors :: "string list"

section \<open>Zero values\<close>

text \<open>The values Go starts a struct with, which the collector fills field by field.\<close>

definition zero_presence :: presence where
  "zero_presence = \<lparr>has_renovate = False, has_dependabot = False, has_circleci = False,
     has_workflows = False, has_dockerfile = False, has_helm = False, has_readme = False,
     has_codeowners = False\<rparr>"

definition zero_pull_requests :: pull_requests where
  "zero_pull_requests = \<lparr>prs_total = 0, prs_people = 0, prs_bots = 0, prs_renovate = 0,
     prs_oldestBotAt = None, prs_onboarding = []\<rparr>"

definition zero_reality :: reality where
  "zero_reality = \<lparr>re_url = [], re_description = [], re_visibility = [], re_defaultBranch = [],
     re_isArchived = False, re_isFork = False, re_isTemplate = False, re_isEmpty = False,
     re_createdAt = zero_time, re_pushedAt = zero_time, re_language = [], re_topics = [],
     re_lastCommit = None, re_lastPersonCommit = None, re_historySampled = 0, re_botCommits = 0,
     re_openPullRequests = zero_pull_requests, re_alignFiles = None, re_openIssues = 0,
     re_latestRelease = None, re_codeownersTeams = [], re_unknownCodeownersTeams = [],
     re_has = zero_presence\<rparr>"

definition zero_renovate :: renovate where
  "zero_renovate = \<lparr>rn_configured = False, rn_path = [], rn_enabled = False, rn_preset = False,
     rn_dashboardIssue = None, rn_lastPullRequest = None, rn_lastCommit = None\<rparr>"

definition zero_setup :: setup_state where
  "zero_setup = \<lparr>su_checks = None, su_checkedAt = None, su_checkError = [], su_lastRun = None,
     su_pendingRun = None, su_missingRun = None, su_told = [], su_release = None\<rparr>"

definition zero_declaration :: team_declaration where
  "zero_declaration = \<lparr>d_team = [], d_file = [], d_componentType = [], d_lifecycle = [],
     d_language = [], d_flavours = [], d_ciGenerate = None, d_releaseWorkflow = [], d_entry = [],
     d_accepted = False, d_problems = [], d_unknownFields = []\<rparr>"

definition zero_record :: repo_record where
  "zero_record = \<lparr>rc_repository = [], rc_name = [], rc_declaration = None, rc_reality = None,
     rc_circleci = None, rc_ci = None, rc_renovate = zero_renovate,
     rc_catalog = \<lparr>ca_present = False\<rparr>, rc_mapping = \<lparr>mp_present = False, mp_team = []\<rparr>,
     rc_setup = zero_setup, rc_findings = [], rc_refreshedAt = zero_time, rc_source = [],
     rc_age = []\<rparr>"

definition zero_release_watch :: release_watch where
  "zero_release_watch = \<lparr>rw_tag = [], rw_createdAt = zero_time, rw_pullRequest = None,
     rw_state = [], rw_pipeline = None, rw_failedJobs = [], rw_reason = [],
     rw_checkedAt = zero_time, rw_settledAt = None, rw_told = [], rw_toldAt = None\<rparr>"

lemmas zero_defs [go_defs] = zero_presence_def zero_pull_requests_def zero_reality_def
  zero_renovate_def zero_setup_def zero_declaration_def zero_record_def zero_release_watch_def

end
