(* ===== verification/RecordOps.thy ===== *)
theory RecordOps
  imports Records
begin

text \<open>
  internal/inventory/record.go, the methods: the release watch's predicates, the pending and
  the missing run of a record as a state machine, and the findings derived from a record.
\<close>

section \<open>The release watch\<close>

definition ReleaseWatching :: string where "ReleaseWatching = ''watching''"
definition ReleaseBuilt :: string where "ReleaseBuilt = ''built''"
definition ReleaseRed :: string where "ReleaseRed = ''red''"
definition ReleaseUnbuilt :: string where "ReleaseUnbuilt = ''unbuilt''"
definition ReleaseUnchecked :: string where "ReleaseUnchecked = ''unchecked''"

lemmas release_states [go_defs] = ReleaseWatching_def ReleaseBuilt_def ReleaseRed_def
  ReleaseUnbuilt_def ReleaseUnchecked_def

definition settled :: "release_watch option \<Rightarrow> bool" where
  "settled w = (case w of None \<Rightarrow> False | Some v \<Rightarrow> rw_state v \<noteq> ReleaseWatching)"

definition following :: "release_watch option \<Rightarrow> bool" where
  "following w = (case w of None \<Rightarrow> False
     | Some v \<Rightarrow> rw_state v = ReleaseWatching \<or> rw_state v = ReleaseRed)"

definition untold :: "release_watch option \<Rightarrow> bool" where
  "untold w = (case w of None \<Rightarrow> False
     | Some v \<Rightarrow> (rw_state v = ReleaseRed \<or> rw_state v = ReleaseUnbuilt) \<and> rw_told v = [])"

definition settle :: "time \<Rightarrow> string \<Rightarrow> release_watch \<Rightarrow> release_watch" where
  "settle now state w = w\<lparr>rw_state := state, rw_settledAt := Some now\<rparr>"

section \<open>Runs and changes\<close>

definition run_names :: "last_run option \<Rightarrow> int \<Rightarrow> int \<Rightarrow> bool" where
  "run_names r i attempt =
     (case r of None \<Rightarrow> False | Some l \<Rightarrow> lr_runID l = i \<and> lr_attempt l = attempt)"

definition ChangeCreated :: string where "ChangeCreated = ''created''"
definition ChangeAdded :: string where "ChangeAdded = ''added''"
definition ChangeTransferred :: string where "ChangeTransferred = ''transferred''"
definition ChangeArchived :: string where "ChangeArchived = ''archived''"
definition ChangeDeleted :: string where "ChangeDeleted = ''deleted''"
definition ChangeDeprecated :: string where "ChangeDeprecated = ''deprecated''"
definition ChangeChanged :: string where "ChangeChanged = ''changed''"
definition ChangeDispatched :: string where "ChangeDispatched = ''dispatched''"
definition ChangeNightly :: string where "ChangeNightly = ''nightly''"

lemmas change_kinds [go_defs] = ChangeCreated_def ChangeAdded_def ChangeTransferred_def
  ChangeArchived_def ChangeDeleted_def ChangeDeprecated_def ChangeChanged_def
  ChangeDispatched_def ChangeNightly_def

definition person_made :: "change option \<Rightarrow> bool" where
  "person_made c = (case c of None \<Rightarrow> False
     | Some ch \<Rightarrow> ch_kind ch \<in> {ChangeCreated, ChangeAdded, ChangeTransferred, ChangeArchived,
         ChangeDeleted, ChangeDeprecated, ChangeChanged})"

definition conflicting :: "pending_run option \<Rightarrow> bool" where
  "conflicting p = (case p of None \<Rightarrow> False | Some q \<Rightarrow> pn_conflictsSince q \<noteq> None)"

definition follows :: "pending_run option \<Rightarrow> int \<Rightarrow> bool" where
  "follows p number = (case p of None \<Rightarrow> False
     | Some q \<Rightarrow> (case pn_pullRequest q of None \<Rightarrow> False | Some pr \<Rightarrow> cp_number pr = number))"

definition awaited_from :: "pending_run \<Rightarrow> time" where
  "awaited_from p = (case pn_pullRequest p of
      None \<Rightarrow> pn_dispatchedAt p
    | Some _ \<Rightarrow> (case pn_mergedAt p of Some t \<Rightarrow> t | None \<Rightarrow> zero_time))"

section \<open>Findings\<close>

definition FindingDeclaredButGone :: string where "FindingDeclaredButGone = ''declared-but-gone''"
definition FindingUndeclaredOnGitHub :: string where
  "FindingUndeclaredOnGitHub = ''undeclared-on-github''"
definition FindingReconcileRunMissing :: string where
  "FindingReconcileRunMissing = ''reconcile-run-missing''"
definition FindingEntryFieldUnknown :: string where
  "FindingEntryFieldUnknown = ''entry-field-unknown''"
definition FindingSourceInventory :: string where "FindingSourceInventory = ''inventory''"
definition FindingSourceEngine :: string where "FindingSourceEngine = ''engine''"

lemmas inventory_finding_kinds [go_defs] = FindingDeclaredButGone_def
  FindingUndeclaredOnGitHub_def FindingReconcileRunMissing_def FindingEntryFieldUnknown_def
  FindingSourceInventory_def FindingSourceEngine_def

definition unknown_fields_finding :: "repo_record \<Rightarrow> finding option" where
  "unknown_fields_finding r = (case rc_declaration r of
      None \<Rightarrow> None
    | Some d \<Rightarrow>
        if \<not> d_accepted d \<or> d_unknownFields d = [] then None
        else
          (let many = length (d_unknownFields d) > 1;
               fields = (if many then ''fields '' @ str_join (d_unknownFields d) '', ''
                         else ''field '' @ hd (d_unknownFields d));
               is = (if many then ''are'' else ''is'');
               them = (if many then ''them'' else ''it'')
           in Some \<lparr>fd_kind = FindingEntryFieldUnknown,
                fd_message = ''the entry's '' @ fields @ '' '' @ is @
                  '' newer than the manager's engine: the repositories schema '' @ d_file d @
                  '' declares accepts '' @ them @ '', the engine's checks do not cover '' @ them,
                fd_fix = ''nothing to edit: the checks cover the '' @ fields @
                  '' once the manager runs a devctl that knows '' @ them,
                fd_source = FindingSourceInventory, fd_advisory = True\<rparr>))"

definition declared_but_gone :: "repo_record \<Rightarrow> team_declaration \<Rightarrow> finding option" where
  "declared_but_gone r d =
     (if d_lifecycle d = LifecycleDeleted then None
      else
        (let fix_text =
           (if d_lifecycle d = LifecycleArchived then
              ''an archived repository is never recreated: set lifecycle: deleted on the entry in '' @
              d_file d @ '' as the record (Delete on the Repositories page, set_lifecycle), or remove the entry''
            else
              ''create the repository as yourself (Create on the Repositories page, the Repo Manager agent or `devctl repo create`) and the next run reconciles the entry in '' @
              d_file d @ ''; if it was deleted on purpose, set lifecycle: deleted on the entry as the record (Delete on the Repositories page, set_lifecycle)'')
         in Some \<lparr>fd_kind = FindingDeclaredButGone,
              fd_message = rc_repository r @ '' is declared in '' @ d_file d @
                '' but does not exist on GitHub'',
              fd_fix = fix_text, fd_source = FindingSourceInventory, fd_advisory = False\<rparr>))"

definition pull_request_noun :: "string \<Rightarrow> string" where
  "pull_request_noun kind =
     (if kind = ChangeCreated \<or> kind = ChangeAdded then ''declaration''
      else if kind = ChangeArchived then ''archive''
      else if kind = ChangeDeleted then ''deletion''
      else if kind = ChangeDeprecated then ''deprecation''
      else if kind = ChangeTransferred then ''transfer''
      else ''change'')"

definition expected_run_text :: "repo_record \<Rightarrow> missing_run \<Rightarrow> string" where
  "expected_run_text r m = (let p = mr_pendingRun m; dispatched = rfc3339 (pn_dispatchedAt p) in
     case pn_pullRequest p of
       None \<Rightarrow> ''the reconciler run '' @ pn_by p @ '' dispatched at '' @ dispatched @ '' for '' @
         rc_repository r
     | Some pr \<Rightarrow> ''the reconciler run for '' @ rc_repository r @ '', whose '' @
         pull_request_noun (pn_kind p) @ '' pull request '' @ cp_url pr @ '' '' @ pn_by p @
         '' opened at '' @ dispatched @
         (case pn_mergedAt p of None \<Rightarrow> [] | Some t \<Rightarrow> '' was merged at '' @ rfc3339 t) @ '','')"

definition missing_run_finding :: "repo_record \<Rightarrow> finding option" where
  "missing_run_finding r = (case su_missingRun (rc_setup r) of
      None \<Rightarrow> None
    | Some m \<Rightarrow>
        (let expected = expected_run_text r m; noticed = rfc3339 (mr_noticedAt m);
             not_reported = expected @ '' had not reported by '' @ noticed;
             texts =
               (if mr_runURL m \<noteq> [] then
                  (expected @ '' completed with conclusion '' @ mr_conclusion m @
                     '' and uploaded no report: '' @ mr_runURL m,
                   ''look at the run '' @ mr_runURL m @ '' '' @ em_dash @
                     '' it failed before its report step; dispatch again with align_repository'')
                else if pn_pullRequest (mr_pendingRun m) \<noteq> None then
                  (not_reported,
                   ''the run follows the pull request's merge: look for it on '' @ mr_runsURL m @
                     '' '' @ em_dash @
                     '' it may have failed before its report step; the next artifact clears this'')
                else
                  (not_reported,
                   ''look for the run on '' @ mr_runsURL m @ '' '' @ em_dash @
                     '' it may have failed before its report step, or the dispatch started none; dispatch again with align_repository''))
         in Some \<lparr>fd_kind = FindingReconcileRunMissing, fd_message = fst texts,
              fd_fix = snd texts, fd_source = FindingSourceInventory, fd_advisory = False\<rparr>))"

definition engine_finding_of :: "engine_finding \<Rightarrow> finding" where
  "engine_finding_of f = \<lparr>fd_kind = ef_kind f, fd_message = ef_message f, fd_fix = ef_fix f,
     fd_source = FindingSourceEngine, fd_advisory = ef_advisory f\<rparr>"

definition presence_findings :: "repo_record \<Rightarrow> finding list" where
  "presence_findings r = (case (rc_declaration r, rc_reality r) of
      (Some d, None) \<Rightarrow> (case declared_but_gone r d of None \<Rightarrow> [] | Some f \<Rightarrow> [f])
    | (None, Some _) \<Rightarrow> [\<lparr>fd_kind = FindingUndeclaredOnGitHub,
        fd_message = rc_repository r @ '' exists on GitHub and no team file declares it'',
        fd_fix = ''declare it in the owning team's repositories/<team>.yaml, or archive it'',
        fd_source = FindingSourceInventory, fd_advisory = False\<rparr>]
    | _ \<Rightarrow> [])"

definition findings :: "engine \<Rightarrow> repo_record \<Rightarrow> finding list" where
  "findings E r = presence_findings r
     @ (case missing_run_finding r of None \<Rightarrow> [] | Some f \<Rightarrow> [f])
     @ (case unknown_fields_finding r of None \<Rightarrow> [] | Some f \<Rightarrow> [f])
     @ (case su_checks (rc_setup r) of None \<Rightarrow> []
        | Some res \<Rightarrow> map engine_finding_of (eng_findings E res))"

definition finalize :: "engine \<Rightarrow> repo_record \<Rightarrow> repo_record" where
  "finalize E r = r\<lparr>rc_findings := findings E r\<rparr>"

definition with_age :: "time \<Rightarrow> repo_record \<Rightarrow> repo_record" where
  "with_age now r = r\<lparr>rc_age := duration_text (round_second (time_sub now (rc_refreshedAt r)))\<rparr>"

section \<open>The pending and the missing run\<close>

definition expect_run :: "engine \<Rightarrow> pending_run \<Rightarrow> repo_record \<Rightarrow> repo_record" where
  "expect_run E p r = finalize E (r\<lparr>rc_setup :=
     (rc_setup r)\<lparr>su_pendingRun := Some p, su_missingRun := None\<rparr>\<rparr>)"

definition dispatched :: "engine \<Rightarrow> time \<Rightarrow> string \<Rightarrow> repo_record \<Rightarrow> repo_record" where
  "dispatched E now by_login r = expect_run E \<lparr>pn_dispatchedAt = now, pn_by = by_login,
     pn_kind = ChangeDispatched, pn_pullRequest = None, pn_mergedAt = None,
     pn_conflictsSince = None\<rparr> r"

definition awaits_creation :: "repo_record \<Rightarrow> bool" where
  "awaits_creation r \<longleftrightarrow> rc_declaration r = None \<and> rc_reality r = None \<and>
     su_pendingRun (rc_setup r) \<noteq> None"

definition opened ::
  "engine \<Rightarrow> time \<Rightarrow> string \<Rightarrow> string \<Rightarrow> change_pull_request \<Rightarrow> repo_record \<Rightarrow> repo_record" where
  "opened E now by_login kind pr r = expect_run E \<lparr>pn_dispatchedAt = now, pn_by = by_login,
     pn_kind = kind, pn_pullRequest = Some pr, pn_mergedAt = None, pn_conflictsSince = None\<rparr> r"

text \<open>\<open>Merged\<close> writes through the pending run's pointer: \<open>None\<close> is the nil dereference.\<close>

definition merged :: "time \<Rightarrow> repo_record \<Rightarrow> repo_record option" where
  "merged at r = (case su_pendingRun (rc_setup r) of
      None \<Rightarrow> None
    | Some p \<Rightarrow> Some (r\<lparr>rc_setup :=
        (rc_setup r)\<lparr>su_pendingRun := Some (p\<lparr>pn_mergedAt := Some at\<rparr>)\<rparr>\<rparr>))"

definition closed :: "engine \<Rightarrow> repo_record \<Rightarrow> repo_record" where
  "closed E r = finalize E (r\<lparr>rc_setup := (rc_setup r)\<lparr>su_pendingRun := None\<rparr>\<rparr>)"

definition conflicts :: "time \<Rightarrow> repo_record \<Rightarrow> repo_record" where
  "conflicts at r = (case su_pendingRun (rc_setup r) of
      None \<Rightarrow> r
    | Some p \<Rightarrow>
        if pn_conflictsSince p = None then
          r\<lparr>rc_setup := (rc_setup r)\<lparr>su_pendingRun := Some (p\<lparr>pn_conflictsSince := Some at\<rparr>)\<rparr>\<rparr>
        else r)"

definition mergeable :: "repo_record \<Rightarrow> repo_record" where
  "mergeable r = (case su_pendingRun (rc_setup r) of
      None \<Rightarrow> r
    | Some p \<Rightarrow>
        r\<lparr>rc_setup := (rc_setup r)\<lparr>su_pendingRun := Some (p\<lparr>pn_conflictsSince := None\<rparr>)\<rparr>\<rparr>)"

definition give_up :: "engine \<Rightarrow> missing_run \<Rightarrow> repo_record \<Rightarrow> repo_record" where
  "give_up E m r = (case su_pendingRun (rc_setup r) of
      None \<Rightarrow> r
    | Some p \<Rightarrow> finalize E (r\<lparr>rc_setup :=
        (rc_setup r)\<lparr>su_missingRun := Some (m\<lparr>mr_pendingRun := p\<rparr>), su_pendingRun := None\<rparr>\<rparr>))"

definition no_pending_run :: pending_run where
  "no_pending_run = \<lparr>pn_dispatchedAt = zero_time, pn_by = [], pn_kind = [], pn_pullRequest = None,
     pn_mergedAt = None, pn_conflictsSince = None\<rparr>"

definition run_missing :: "engine \<Rightarrow> time \<Rightarrow> string \<Rightarrow> repo_record \<Rightarrow> repo_record" where
  "run_missing E now runsURL r = give_up E \<lparr>mr_pendingRun = no_pending_run, mr_noticedAt = now,
     mr_runsURL = runsURL, mr_runURL = [], mr_conclusion = []\<rparr> r"

definition run_failed ::
  "engine \<Rightarrow> time \<Rightarrow> string \<Rightarrow> string \<Rightarrow> string \<Rightarrow> repo_record \<Rightarrow> repo_record" where
  "run_failed E now runsURL runURL conclusion r = give_up E \<lparr>mr_pendingRun = no_pending_run,
     mr_noticedAt = now, mr_runsURL = runsURL, mr_runURL = runURL, mr_conclusion = conclusion\<rparr> r"

section \<open>Lemmas\<close>

lemmas findings_defs = findings_def presence_findings_def missing_run_finding_def
  unknown_fields_finding_def declared_but_gone_def expected_run_text_def

text \<open>The findings read neither the pending run nor the bookkeeping fields of a record.\<close>

lemma findings_cong:
  assumes "rc_declaration r = rc_declaration s" and "rc_reality r = rc_reality s"
    and "rc_repository r = rc_repository s"
    and "su_missingRun (rc_setup r) = su_missingRun (rc_setup s)"
    and "su_checks (rc_setup r) = su_checks (rc_setup s)"
  shows "findings E r = findings E s"
  unfolding findings_defs assms ..

lemma findings_pending [go_simps]:
  "findings E (r\<lparr>rc_setup := (rc_setup r)\<lparr>su_pendingRun := p\<rparr>\<rparr>) = findings E r"
  by (rule findings_cong) simp_all

lemma findings_findings [go_simps]: "findings E (r\<lparr>rc_findings := fs\<rparr>) = findings E r"
  by (rule findings_cong) simp_all

lemma findings_age [go_simps]: "findings E (r\<lparr>rc_age := a\<rparr>) = findings E r"
  by (rule findings_cong) simp_all

lemma finalize_findings [go_simps]: "rc_findings (finalize E r) = findings E (finalize E r)"
  by (simp add: finalize_def go_simps)

lemma finalize_frame [simp]:
  "rc_setup (finalize E r) = rc_setup r" "rc_declaration (finalize E r) = rc_declaration r"
  "rc_reality (finalize E r) = rc_reality r" "rc_repository (finalize E r) = rc_repository r"
  by (simp_all add: finalize_def)

lemma presence_findings_kind:
  "f \<in> set (presence_findings r) \<Longrightarrow>
   fd_kind f = FindingDeclaredButGone \<or> fd_kind f = FindingUndeclaredOnGitHub"
  by (auto simp: presence_findings_def declared_but_gone_def Let_def
      split: option.splits if_splits)

lemma presence_findings_inventory:
  "f \<in> set (presence_findings r) \<Longrightarrow> fd_source f = FindingSourceInventory \<and> \<not> fd_advisory f"
  by (auto simp: presence_findings_def declared_but_gone_def Let_def
      split: option.splits if_splits)

lemma missing_run_finding_Some:
  "missing_run_finding r = Some f \<Longrightarrow> fd_kind f = FindingReconcileRunMissing \<and>
     fd_source f = FindingSourceInventory \<and> \<not> fd_advisory f \<and> su_missingRun (rc_setup r) \<noteq> None"
  by (auto simp: missing_run_finding_def Let_def split: option.splits)

lemma missing_run_finding_None:
  "missing_run_finding r = None \<longleftrightarrow> su_missingRun (rc_setup r) = None"
  by (simp add: missing_run_finding_def Let_def split: option.splits)

lemma unknown_fields_finding_Some:
  "unknown_fields_finding r = Some f \<Longrightarrow> fd_kind f = FindingEntryFieldUnknown \<and>
     fd_source f = FindingSourceInventory \<and> fd_advisory f"
  by (auto simp: unknown_fields_finding_def Let_def split: option.splits if_splits)

lemma set_findings: "f \<in> set (findings E r) \<longleftrightarrow>
   f \<in> set (presence_findings r) \<or> missing_run_finding r = Some f \<or>
   unknown_fields_finding r = Some f \<or>
   (\<exists>res. su_checks (rc_setup r) = Some res \<and> f \<in> engine_finding_of ` set (eng_findings E res))"
  by (cases "missing_run_finding r"; cases "unknown_fields_finding r";
      cases "su_checks (rc_setup r)") (auto simp: findings_def)

lemma finding_kinds_distinct [simp]:
  "FindingReconcileRunMissing \<noteq> FindingDeclaredButGone"
  "FindingReconcileRunMissing \<noteq> FindingUndeclaredOnGitHub"
  "FindingReconcileRunMissing \<noteq> FindingEntryFieldUnknown"
  "FindingEntryFieldUnknown \<noteq> FindingDeclaredButGone"
  "FindingEntryFieldUnknown \<noteq> FindingUndeclaredOnGitHub"
  "FindingDeclaredButGone \<noteq> FindingUndeclaredOnGitHub"
  "FindingSourceEngine \<noteq> FindingSourceInventory"
  by (simp_all add: go_defs)

lemmas finding_kinds_distinct_sym [simp] = finding_kinds_distinct [THEN not_sym]

lemma missing_finding_iff:
  "(\<exists>f \<in> set (findings E r). fd_kind f = FindingReconcileRunMissing \<and>
      fd_source f = FindingSourceInventory) \<longleftrightarrow> su_missingRun (rc_setup r) \<noteq> None"
  (is "?L \<longleftrightarrow> ?R")
proof
  assume ?L
  then show ?R
    by (auto simp: set_findings engine_finding_of_def)
      (drule presence_findings_kind missing_run_finding_Some unknown_fields_finding_Some; force)+
next
  assume ?R
  then obtain f where "missing_run_finding r = Some f"
    using missing_run_finding_None by fastforce
  then show ?L by (auto simp: set_findings dest: missing_run_finding_Some)
qed

text \<open>
  The steps of a record's pending run: every method of the record that marks, moves or drops
  it. A step relation, since the poller, the tools and the sweep call them in any order.
\<close>

inductive record_step :: "engine \<Rightarrow> repo_record \<Rightarrow> repo_record \<Rightarrow> bool" for E where
  step_dispatched: "record_step E r (dispatched E now login r)"
| step_opened: "record_step E r (opened E now login kind pr r)"
| step_merged: "merged at r = Some r' \<Longrightarrow> record_step E r r'"
| step_closed: "record_step E r (closed E r)"
| step_conflicts: "record_step E r (conflicts at r)"
| step_mergeable: "record_step E r (mergeable r)"
| step_missing: "record_step E r (run_missing E now url r)"
| step_failed: "record_step E r (run_failed E now url run concl r)"
| step_finalize: "record_step E r (finalize E r)"
| step_age: "record_step E r (with_age now r)"

inductive record_reach :: "engine \<Rightarrow> repo_record \<Rightarrow> repo_record \<Rightarrow> bool" for E where
  reach_start: "record_reach E r r"
| reach_step: "record_reach E r s \<Longrightarrow> record_step E s t \<Longrightarrow> record_reach E r t"

definition record_inv :: "engine \<Rightarrow> repo_record \<Rightarrow> bool" where
  "record_inv E r \<longleftrightarrow> rc_findings r = findings E r \<and>
     (su_pendingRun (rc_setup r) = None \<or> su_missingRun (rc_setup r) = None)"

lemma finalize_inv:
  "su_pendingRun (rc_setup r) = None \<or> su_missingRun (rc_setup r) = None \<Longrightarrow>
   record_inv E (finalize E r)"
  by (simp add: record_inv_def finalize_findings)

lemma expect_run_inv: "record_inv E (expect_run E p r)"
  unfolding expect_run_def by (rule finalize_inv) simp

lemma give_up_inv: "record_inv E r \<Longrightarrow> record_inv E (give_up E m r)"
  by (auto simp: give_up_def intro!: finalize_inv split: option.splits)

lemma closed_inv: "record_inv E (closed E r)"
  unfolding closed_def by (rule finalize_inv) simp

text \<open>Methods that only rewrite the pending run of a record that has one keep the invariant.\<close>

lemma pending_rewrite_inv:
  "record_inv E r \<Longrightarrow> su_pendingRun (rc_setup r) \<noteq> None \<Longrightarrow>
   record_inv E (r\<lparr>rc_setup := (rc_setup r)\<lparr>su_pendingRun := p\<rparr>\<rparr>)"
  by (auto simp: record_inv_def findings_pending)

lemma conflicts_inv: "record_inv E r \<Longrightarrow> record_inv E (conflicts at r)"
  by (auto simp: conflicts_def intro: pending_rewrite_inv split: option.splits)

lemma mergeable_inv: "record_inv E r \<Longrightarrow> record_inv E (mergeable r)"
  by (auto simp: mergeable_def intro: pending_rewrite_inv split: option.splits)

lemma merged_inv: "record_inv E r \<Longrightarrow> merged at r = Some r' \<Longrightarrow> record_inv E r'"
  by (auto simp: merged_def intro: pending_rewrite_inv split: option.splits)

lemma record_step_inv: "record_step E r t \<Longrightarrow> record_inv E r \<Longrightarrow> record_inv E t"
  by (induction rule: record_step.induct)
    (auto simp: dispatched_def opened_def run_missing_def run_failed_def
      intro: expect_run_inv give_up_inv closed_inv conflicts_inv mergeable_inv merged_inv,
     auto simp: record_inv_def with_age_def findings_age finalize_findings)

lemma record_reach_inv: "record_reach E r s \<Longrightarrow> record_inv E r \<Longrightarrow> record_inv E s"
  by (induction rule: record_reach.induct) (auto intro: record_step_inv)

section \<open>Properties\<close>

text \<open>
  C1. Whatever the poller, the tools and the sweep do to a record's pending run, its stored
  findings stay the ones its facts give: a reconcile-run-missing finding of the inventory
  stands exactly while a missing run is noted, and never beside a pending run.
\<close>
theorem missing_run_finding_exact:
  assumes "record_inv E r" and "record_reach E r s"
  shows "((\<exists>f \<in> set (rc_findings s). fd_kind f = FindingReconcileRunMissing \<and>
            fd_source f = FindingSourceInventory) \<longleftrightarrow> su_missingRun (rc_setup s) \<noteq> None) \<and>
         (su_missingRun (rc_setup s) = None \<or> su_pendingRun (rc_setup s) = None)"
proof -
  have inv: "record_inv E s" using assms record_reach_inv by blast
  then have "rc_findings s = findings E s" by (simp add: record_inv_def)
  with inv show ?thesis using missing_finding_iff by (auto simp: record_inv_def)
qed

definition sample_missing :: repo_record where
  "sample_missing = run_missing sample_engine 5 ''url''
     (dispatched sample_engine 3 ''ann'' (finalize sample_engine zero_record))"

theorem missing_run_finding_exact_witness:
  "(\<exists>f \<in> set (rc_findings sample_missing). fd_kind f = FindingReconcileRunMissing \<and>
      fd_source f = FindingSourceInventory) \<and> su_pendingRun (rc_setup sample_missing) = None"
proof -
  let ?r = "finalize sample_engine zero_record"
  have inv: "record_inv sample_engine ?r" by (rule finalize_inv) (simp add: go_defs)
  have reach: "record_reach sample_engine ?r sample_missing"
    unfolding sample_missing_def by (blast intro: record_reach.intros record_step.intros)
  have "su_missingRun (rc_setup sample_missing) \<noteq> None"
    by (simp add: sample_missing_def run_missing_def give_up_def dispatched_def expect_run_def)
  with missing_run_finding_exact [OF inv reach] show ?thesis by blast
qed

text \<open>
  The presence findings of a record, exactly: declared-but-gone stands for a declared
  repository that is not on GitHub unless its entry says deleted (then the entry is the
  record of the deletion), undeclared-on-github for a repository no team file declares; of the
  inventory's findings only entry-field-unknown is advisory.
\<close>
theorem findings_presence:
  "((\<exists>f \<in> set (findings E r). fd_kind f = FindingDeclaredButGone \<and>
       fd_source f = FindingSourceInventory) \<longleftrightarrow>
    (\<exists>d. rc_declaration r = Some d \<and> rc_reality r = None \<and> d_lifecycle d \<noteq> LifecycleDeleted)) \<and>
   ((\<exists>f \<in> set (findings E r). fd_kind f = FindingUndeclaredOnGitHub \<and>
       fd_source f = FindingSourceInventory) \<longleftrightarrow>
    rc_declaration r = None \<and> rc_reality r \<noteq> None) \<and>
   {f \<in> set (findings E r). fd_source f = FindingSourceInventory \<and> fd_advisory f} =
   {f \<in> set (findings E r). fd_source f = FindingSourceInventory \<and> fd_kind f = FindingEntryFieldUnknown}"
proof -
  have gone: "(\<exists>f \<in> set (presence_findings r). fd_kind f = FindingDeclaredButGone) \<longleftrightarrow>
      (\<exists>d. rc_declaration r = Some d \<and> rc_reality r = None \<and> d_lifecycle d \<noteq> LifecycleDeleted)"
    by (cases "rc_declaration r"; cases "rc_reality r")
      (auto simp: presence_findings_def declared_but_gone_def Let_def)
  have undeclared: "(\<exists>f \<in> set (presence_findings r). fd_kind f = FindingUndeclaredOnGitHub) \<longleftrightarrow>
      rc_declaration r = None \<and> rc_reality r \<noteq> None"
    by (cases "rc_declaration r"; cases "rc_reality r")
      (auto simp: presence_findings_def declared_but_gone_def Let_def)
  have others: "fd_kind f \<noteq> FindingDeclaredButGone \<and> fd_kind f \<noteq> FindingUndeclaredOnGitHub"
    if "f \<in> set (findings E r)" "fd_source f = FindingSourceInventory"
      "f \<notin> set (presence_findings r)" for f
    using that by (auto simp: set_findings engine_finding_of_def
        dest!: missing_run_finding_Some unknown_fields_finding_Some)
  have adv: "fd_advisory f \<longleftrightarrow> fd_kind f = FindingEntryFieldUnknown"
    if "f \<in> set (findings E r)" "fd_source f = FindingSourceInventory" for f
    using that by (auto simp: set_findings engine_finding_of_def
        dest!: missing_run_finding_Some unknown_fields_finding_Some
        dest: presence_findings_inventory presence_findings_kind)
  have incl: "f \<in> set (findings E r)" if "f \<in> set (presence_findings r)" for f
    using that by (simp add: set_findings)
  from gone undeclared others adv incl presence_findings_inventory show ?thesis by blast
qed

end
