(* ===== verification/CIJobs.thy ===== *)
theory CIJobs
  imports RecordOps
begin

text \<open>
  internal/inventory/cijob.go: which pipelines run a job, by the job's branch and tag
  filters. A pattern between slashes is a regular expression of Go's \<open>regexp\<close>:
  the argument \<open>rx\<close> is \<open>regexp.Compile\<close>, \<open>None\<close> for a pattern that does not compile, else
  the compiled pattern's \<open>MatchString\<close>. The theorems hold for every \<open>rx\<close>; the one about
  catch-all patterns states what it uses of the two expressions it names.
\<close>

type_synonym regexp = "string \<Rightarrow> (string \<Rightarrow> bool) option"

definition CircleCIContext :: string where "CircleCIContext = ''ci/circleci:''"

definition JobOf :: "string \<Rightarrow> string" where
  "JobOf ctx = trim_space (trim_prefix ctx CircleCIContext)"

definition is_regexp :: "string \<Rightarrow> bool" where
  "is_regexp p \<longleftrightarrow> 2 \<le> length p \<and> has_prefix p ''/'' \<and> has_suffix p ''/''"

definition regexp_body :: "string \<Rightarrow> string" where
  "regexp_body p = take (length p - 2) (drop 1 p)"

fun matches_any :: "regexp \<Rightarrow> string list \<Rightarrow> string \<Rightarrow> bool" where
  "matches_any rx [] ref = False"
| "matches_any rx (q # qs) ref =
     (let p = trim_space q in
      if is_regexp p then
        (case rx (regexp_body p) of
           Some m \<Rightarrow> (if m ref then True else matches_any rx qs ref)
         | None \<Rightarrow> matches_any rx qs ref)
      else if p = ref then True
      else matches_any rx qs ref)"

definition runs_on_branch :: "regexp \<Rightarrow> ci_job \<Rightarrow> string \<Rightarrow> bool" where
  "runs_on_branch rx j branch =
     (if cj_branchesOnly j \<noteq> [] \<and> \<not> matches_any rx (cj_branchesOnly j) branch then False
      else \<not> matches_any rx (cj_branchesIgnore j) branch)"

definition runs_on_tag :: "regexp \<Rightarrow> ci_job \<Rightarrow> string \<Rightarrow> bool" where
  "runs_on_tag rx j tag =
     (if cj_tagsOnly j = [] \<or> \<not> matches_any rx (cj_tagsOnly j) tag then False
      else \<not> matches_any rx (cj_tagsIgnore j) tag)"

definition catch_all :: "string \<Rightarrow> bool" where
  "catch_all p \<longleftrightarrow> trim_space p \<in> {''/.*/'', ''/.+/'', ''/^.*$/'', ''/^.+$/''}"

definition runs_on_branches :: "ci_job \<Rightarrow> bool" where
  "runs_on_branches j =
     (if cj_branchesOnly j \<noteq> [] then True else \<not> list_ex catch_all (cj_branchesIgnore j))"

definition tag_only :: "regexp \<Rightarrow> ci option \<Rightarrow> string \<Rightarrow> string \<Rightarrow> string list" where
  "tag_only rx c tag branch = (case c of
      None \<Rightarrow> []
    | Some b \<Rightarrow> map cj_name
        (filter (\<lambda>j. runs_on_tag rx j tag \<and> \<not> runs_on_branch rx j branch) (ci_jobs b)))"

definition reported :: "string list \<Rightarrow> string list \<Rightarrow> bool" where
  "reported contexts jobs \<longleftrightarrow> list_ex (\<lambda>c. list_ex (\<lambda>j. JobOf c = j) jobs) contexts"

section \<open>Lemmas\<close>

text \<open>What one pattern matches, and the loop over the patterns as an existential.\<close>

definition pattern_matches :: "regexp \<Rightarrow> string \<Rightarrow> string \<Rightarrow> bool" where
  "pattern_matches rx q ref = (let p = trim_space q in
     if is_regexp p then (case rx (regexp_body p) of Some m \<Rightarrow> m ref | None \<Rightarrow> False) else p = ref)"

lemma matches_any_iff [go_simps]:
  "matches_any rx qs ref \<longleftrightarrow> (\<exists>q \<in> set qs. pattern_matches rx q ref)"
  by (induction qs) (auto simp: pattern_matches_def Let_def split: option.splits)

lemma reported_iff [go_simps]:
  "reported contexts jobs \<longleftrightarrow> (\<exists>c \<in> set contexts. JobOf c \<in> set jobs)"
  by (auto simp: reported_def list_ex_iff)

lemma set_tag_only [go_simps]:
  "n \<in> set (tag_only rx c tag branch) \<longleftrightarrow>
   (\<exists>b j. c = Some b \<and> j \<in> set (ci_jobs b) \<and> cj_name j = n \<and>
      runs_on_tag rx j tag \<and> \<not> runs_on_branch rx j branch)"
  by (auto simp: tag_only_def split: option.splits)

lemma JobOf_context:
  assumes "space_len name = 0" and "space_len_rev (rev name) = 0"
  shows "JobOf (CircleCIContext @ '' '' @ name) = name"
proof -
  have "trim_left ('' '' @ name) = name"
    using assms(1) by (subst trim_left.simps) (simp add: ascii_space_def trim_left_fix)
  then have "trim_space ('' '' @ name) = name"
    using assms(2) by (simp add: trim_space_def trim_left_rev_fix)
  then show ?thesis by (simp add: JobOf_def)
qed

text \<open>What Go's regular expressions say of the two catch-all bodies, with and without
  anchors: every ref without a line break, a non-empty one where a character is asked for.\<close>

definition line_ref :: "string \<Rightarrow> bool" where
  "line_ref ref \<longleftrightarrow> ref \<noteq> [] \<and> CHR 0x0A \<notin> set ref"

definition catch_all_ok :: "regexp \<Rightarrow> bool" where
  "catch_all_ok rx \<longleftrightarrow> (\<forall>b \<in> {''.*'', ''.+'', ''^.*$'', ''^.+$''}. \<exists>m. rx b = Some m \<and>
     (\<forall>ref. line_ref ref \<longrightarrow> m ref))"

lemma catch_all_matches:
  assumes "catch_all_ok rx" and "catch_all p" and "line_ref ref"
  shows "pattern_matches rx p ref"
proof -
  from assms(2) consider "trim_space p = ''/.*/''" | "trim_space p = ''/.+/''"
    | "trim_space p = ''/^.*$/''" | "trim_space p = ''/^.+$/''"
    by (auto simp: catch_all_def)
  then show ?thesis
    using assms(1,3)
    by cases (auto simp: pattern_matches_def is_regexp_def has_prefix_def has_suffix_def
        regexp_body_def catch_all_ok_def Let_def)
qed

section \<open>Properties\<close>

text \<open>
  C2. A status attributed to the tag pipeline is the tag pipeline's: when one of the
  \<open>ci/circleci:\<close> contexts on a commit names a job of \<open>TagOnly\<close>, that job's tag filters let
  the tag through (a \<open>tags.only\<close> pattern matches it, no \<open>tags.ignore\<close> pattern does) and its
  branch filters keep the branch out.
\<close>
theorem reported_tag_only:
  assumes "reported contexts (tag_only rx c tag branch)"
  shows "\<exists>b j ctx. c = Some b \<and> j \<in> set (ci_jobs b) \<and> ctx \<in> set contexts \<and> JobOf ctx = cj_name j \<and>
     (\<exists>p \<in> set (cj_tagsOnly j). pattern_matches rx p tag) \<and>
     \<not> (\<exists>p \<in> set (cj_tagsIgnore j). pattern_matches rx p tag) \<and>
     ((cj_branchesOnly j \<noteq> [] \<and> \<not> (\<exists>p \<in> set (cj_branchesOnly j). pattern_matches rx p branch)) \<or>
      (\<exists>p \<in> set (cj_branchesIgnore j). pattern_matches rx p branch))"
proof -
  from assms obtain ctx b j where j: "ctx \<in> set contexts" "c = Some b" "j \<in> set (ci_jobs b)"
      "JobOf ctx = cj_name j" and tag: "runs_on_tag rx j tag" and branch: "\<not> runs_on_branch rx j branch"
    unfolding reported_iff set_tag_only by metis
  from tag have "\<exists>p \<in> set (cj_tagsOnly j). pattern_matches rx p tag"
    and "\<not> (\<exists>p \<in> set (cj_tagsIgnore j). pattern_matches rx p tag)"
    unfolding runs_on_tag_def matches_any_iff by metis+
  moreover from branch have "(cj_branchesOnly j \<noteq> [] \<and>
        \<not> (\<exists>p \<in> set (cj_branchesOnly j). pattern_matches rx p branch)) \<or>
      (\<exists>p \<in> set (cj_branchesIgnore j). pattern_matches rx p branch)"
    unfolding runs_on_branch_def matches_any_iff by metis
  ultimately show ?thesis using j by metis
qed

definition sample_job :: ci_job where
  "sample_job = \<lparr>cj_name = ''push'', cj_branchesOnly = [], cj_branchesIgnore = [''/.*/''],
     cj_tagsOnly = [''v1.0.0''], cj_tagsIgnore = []\<rparr>"

definition sample_ci :: ci where
  "sample_ci = \<lparr>ci_files = [''config.yml''], ci_generated = True, ci_orb = ''8.0.0'',
     ci_imagePush = True, ci_chartPush = False, ci_platforms = [], ci_arm64 = None,
     ci_chinaPush = ''none'', ci_signing = ''unknown'', ci_signingReason = [],
     ci_jobs = [sample_job], ci_error = []\<rparr>"

definition sample_rx :: regexp where
  "sample_rx p = (if p \<in> {''.*'', ''.+'', ''^.*$'', ''^.+$''} then Some (\<lambda>ref. True) else None)"

lemma trim_push: "trim_space ''/.*/'' = ''/.*/''" "trim_space ''v1.0.0'' = ''v1.0.0''"
  by (simp_all add: trim_eval)

lemma sample_reported:
  "reported [''ci/circleci: push''] (tag_only sample_rx (Some sample_ci) ''v1.0.0'' ''main'')"
proof -
  have "JobOf ''ci/circleci: push'' = ''push''"
    using JobOf_context [of "''push''"] by (simp add: CircleCIContext_def ascii_space_def space_rune3_def)
  then show ?thesis
    by (simp add: go_simps sample_ci_def sample_job_def runs_on_tag_def runs_on_branch_def
        pattern_matches_def is_regexp_def has_prefix_def has_suffix_def regexp_body_def trim_push
        sample_rx_def)
qed

theorem reported_tag_only_witness:
  "\<exists>j \<in> set (ci_jobs sample_ci). \<exists>p \<in> set (cj_tagsOnly j). pattern_matches sample_rx p ''v1.0.0''"
  using reported_tag_only [OF sample_reported] by auto

text \<open>
  The shortcut \<open>RunsOnBranches\<close> is sound: a job it reports as running on no branch
  runs on none (whatever its other filters), for every branch name a Git ref can have.
\<close>
theorem runs_on_branches_sound:
  assumes "catch_all_ok rx" and "\<not> runs_on_branches j" and "line_ref branch"
  shows "\<not> runs_on_branch rx j branch"
proof -
  from assms(2) obtain p where "p \<in> set (cj_branchesIgnore j)" "catch_all p"
    by (auto simp: runs_on_branches_def list_ex_iff split: if_splits)
  then have "matches_any rx (cj_branchesIgnore j) branch"
    using catch_all_matches assms(1,3) by (auto simp: go_simps)
  then show ?thesis by (simp add: runs_on_branch_def)
qed

theorem runs_on_branches_sound_witness:
  "\<not> runs_on_branch sample_rx sample_job ''main''"
proof (rule runs_on_branches_sound)
  show "catch_all_ok sample_rx" by (auto simp: catch_all_ok_def sample_rx_def)
  show "\<not> runs_on_branches sample_job"
    by (simp add: runs_on_branches_def sample_job_def catch_all_def trim_push)
  show "line_ref ''main''" by (simp add: line_ref_def)
qed

end
