(* ===== verification/CIFacts.thy ===== *)
theory CIFacts
  imports CIJobs
begin

text \<open>
  internal/collect/ci.go: the facts of a repository's CircleCI configuration. yaml.v3 is the
  argument \<open>unmarshal\<close>: the error's text, or the document's mapping. A Go map read by a
  \<open>range\<close> loop is the list of its pairs in the order the loop takes, which Go leaves open: the
  theorems hold for every order.
\<close>

section \<open>Values of a document\<close>

datatype yval = YMap "(string \<times> yval) list" | YList "yval list" | YStr string | YBool bool | YOther

type_synonym ymap = "(string \<times> yval) list"

text \<open>Type assertions with the blank second result: the zero value where the type differs.\<close>

fun as_map :: "yval option \<Rightarrow> ymap" where
  "as_map (Some (YMap m)) = m"
| "as_map _ = []"

fun as_list :: "yval option \<Rightarrow> yval list" where
  "as_list (Some (YList l)) = l"
| "as_list _ = []"

fun as_str :: "yval option \<Rightarrow> string" where
  "as_str (Some (YStr s)) = s"
| "as_str _ = []"

fun as_bool :: "yval option \<Rightarrow> bool" where
  "as_bool (Some (YBool b)) = b"
| "as_bool _ = False"

section \<open>Versions\<close>

definition ascii_digit :: "char \<Rightarrow> bool" where
  "ascii_digit c \<longleftrightarrow> CHR ''0'' \<le> c \<and> c \<le> CHR ''9''"

text \<open>\<open>strconv.Atoi\<close> on a 64-bit int.\<close>

definition atoi :: "string \<Rightarrow> int option" where
  "atoi s =
     (case (case s of [] \<Rightarrow> (False, [])
              | c # cs \<Rightarrow> if c = CHR ''-'' then (True, cs) else if c = CHR ''+'' then (False, cs) else (False, s)) of
        (neg, ds) \<Rightarrow>
          if ds = [] \<or> \<not> list_all ascii_digit ds then None
          else
            (let v = (if neg then - read_pos ds else read_pos ds)
             in if - (2 ^ 63) \<le> v \<and> v < 2 ^ 63 then Some v else None))"

text \<open>The loop over the parts: the numbers read, and whether all were.\<close>

fun semver_parts :: "string list \<Rightarrow> int list \<times> bool" where
  "semver_parts [] = ([], True)"
| "semver_parts (p # ps) = (case atoi p of
      None \<Rightarrow> ([], False)
    | Some n \<Rightarrow> if n < 0 then ([], False)
        else (case semver_parts ps of (ns, ok) \<Rightarrow> (n # ns, ok)))"

definition semver :: "string \<Rightarrow> int list \<times> bool" where
  "semver v =
     (let parts = split_on CHR ''.'' v in
      if length parts \<noteq> 3 then ([0, 0, 0], False)
      else (case semver_parts parts of (ns, ok) \<Rightarrow> (ns @ replicate (3 - length ns) 0, ok)))"

fun not_before :: "int list \<Rightarrow> int list \<Rightarrow> bool" where
  "not_before (a # as) (b # bs) = (if a \<noteq> b then a > b else not_before as bs)"
| "not_before _ _ = True"

definition at_least :: "string \<Rightarrow> string \<Rightarrow> bool" where
  "at_least v lowest = (case semver v of (a, ok) \<Rightarrow>
     if \<not> ok then False else not_before a (fst (semver lowest)))"

definition orbSigning :: string where "orbSigning = ''8.2.0''"
definition orbBuildx :: string where "orbBuildx = ''9.0.0''"

section \<open>Jobs of the workflows\<close>

definition ciFiles :: "string list" where
  "ciFiles = [''config.yml'', ''workflows.yml'', ''custom.yml'']"

definition architectOrb :: string where "architectOrb = ''giantswarm/architect@''"
definition generatedMarker :: string where "generatedMarker = ''devctl gen circleci''"
definition defaultPlatforms :: string where "defaultPlatforms = ''linux/amd64,linux/arm64''"
definition platformARM64 :: string where "platformARM64 = ''linux/arm64''"
definition platformAMD64 :: string where "platformAMD64 = ''linux/amd64''"
definition jobPush :: string where "jobPush = ''architect/push-to-registries''"
definition jobPushMultiarch :: string where "jobPushMultiarch = ''architect/push-to-registries-multiarch''"
definition jobBuildImage :: string where "jobBuildImage = ''architect/build-image''"
definition jobGoBuild :: string where "jobGoBuild = ''architect/go-build''"
definition jobChart :: string where "jobChart = ''architect/push-to-app-catalog''"
definition jobSyncChina :: string where "jobSyncChina = ''architect/sync-china-registry''"

record job_use =
  ju_name :: string
  ju_params :: ymap

definition string_param :: "job_use \<Rightarrow> string \<Rightarrow> string" where
  "string_param j key = trim_space (as_str (map_of (ju_params j) key))"

definition bool_param :: "job_use \<Rightarrow> string \<Rightarrow> bool" where
  "bool_param j key = as_bool (map_of (ju_params j) key)"

definition job_name :: "job_use \<Rightarrow> string" where
  "job_name j = (if string_param j ''name'' \<noteq> [] then string_param j ''name'' else ju_name j)"

definition architect_version :: "ymap \<Rightarrow> string" where
  "architect_version doc =
     (case filter (\<lambda>v. case v of YStr s \<Rightarrow> has_prefix s architectOrb | _ \<Rightarrow> False)
             (map snd (as_map (map_of doc ''orbs''))) of
        [] \<Rightarrow> [] | v # _ \<Rightarrow> trim_prefix (as_str (Some v)) architectOrb)"

fun item_jobs :: "yval \<Rightarrow> job_use list" where
  "item_jobs (YStr s) = [\<lparr>ju_name = s, ju_params = []\<rparr>]"
| "item_jobs (YMap m) = map (\<lambda>(k, p). \<lparr>ju_name = k, ju_params = as_map (Some p)\<rparr>) m"
| "item_jobs _ = []"

definition workflow_jobs :: "ymap \<Rightarrow> job_use list" where
  "workflow_jobs doc = concat (map (\<lambda>(name, wf).
     if name = ''version'' then []
     else concat (map item_jobs (as_list (map_of (as_map (Some wf)) ''jobs''))))
     (as_map (map_of doc ''workflows'')))"

fun patterns :: "yval option \<Rightarrow> string list" where
  "patterns (Some (YStr s)) = [s]"
| "patterns (Some (YList l)) = concat (map (\<lambda>v. case v of YStr s \<Rightarrow> [s] | _ \<Rightarrow> []) l)"
| "patterns _ = []"

definition ci_job_of :: "job_use \<Rightarrow> ci_job" where
  "ci_job_of j =
     (let filters = as_map (map_of (ju_params j) ''filters'');
          b = as_map (map_of filters ''branches''); t = as_map (map_of filters ''tags'')
      in \<lparr>cj_name = job_name j, cj_branchesOnly = patterns (map_of b ''only''),
          cj_branchesIgnore = patterns (map_of b ''ignore''), cj_tagsOnly = patterns (map_of t ''only''),
          cj_tagsIgnore = patterns (map_of t ''ignore'')\<rparr>)"

section \<open>Platforms, China and signing\<close>

definition ChinaPushSplit :: string where "ChinaPushSplit = ''split''"
definition ChinaPushInline :: string where "ChinaPushInline = ''inline''"
definition ChinaPushCustom :: string where "ChinaPushCustom = ''custom''"
definition ChinaPushNone :: string where "ChinaPushNone = ''none''"
definition SigningSigned :: string where "SigningSigned = ''signed''"
definition SigningUnsigned :: string where "SigningUnsigned = ''unsigned''"
definition SigningUnknown :: string where "SigningUnknown = ''unknown''"
definition SigningNone :: string where "SigningNone = ''none''"

lemmas ci_words = ChinaPushSplit_def ChinaPushInline_def ChinaPushCustom_def ChinaPushNone_def
  SigningSigned_def SigningUnsigned_def SigningUnknown_def SigningNone_def

definition platforms_of :: "string \<Rightarrow> string list" where
  "platforms_of l = filter (\<lambda>p. p \<noteq> []) (map trim_space (split_on CHR '','' l))"

text \<open>The list a buildx push takes: the last go-build job's that names one.\<close>

definition buildx_list :: "job_use list \<Rightarrow> string" where
  "buildx_list goBuilds = fold (\<lambda>g l. if string_param g ''platforms'' \<noteq> [] then string_param g ''platforms'' else l)
     goBuilds defaultPlatforms"

definition push_platforms :: "string \<Rightarrow> job_use list \<Rightarrow> job_use list \<Rightarrow> job_use \<Rightarrow> string list" where
  "push_platforms orb builds goBuilds p =
     (if string_param p ''platforms'' \<noteq> [] then platforms_of (string_param p ''platforms'')
      else if bool_param p ''merge-digests'' then
        filter (\<lambda>pl. pl \<noteq> []) (map (\<lambda>b. string_param b ''platform'') builds)
      else if ju_name p = jobPushMultiarch \<or> bool_param p ''multiarch'' then platforms_of defaultPlatforms
      else if at_least orb orbBuildx then platforms_of (buildx_list goBuilds)
      else if orb \<noteq> [] then [platformAMD64]
      else [])"

definition image_platforms ::
  "string \<Rightarrow> job_use list \<Rightarrow> job_use list \<Rightarrow> job_use list \<Rightarrow> string list \<times> bool option" where
  "image_platforms orb pushes builds goBuilds =
     (let all = remdups (concat (map (push_platforms orb builds goBuilds) pushes)) in
      if all = [] then ([], None) else (sort all, Some (platformARM64 \<in> set all)))"

fun china_custom :: "job_use list \<Rightarrow> bool \<Rightarrow> string" where
  "china_custom [] custom = (if custom then ChinaPushCustom else ChinaPushInline)"
| "china_custom (p # ps) custom =
     (if bool_param p ''split-china-push'' then ChinaPushSplit
      else china_custom ps (custom \<or> string_param p ''registries-data'' \<noteq> []))"

definition china_push :: "job_use list \<Rightarrow> bool \<Rightarrow> string" where
  "china_push pushes sync =
     (if pushes = [] then ChinaPushNone else if sync then ChinaPushSplit else china_custom pushes False)"

definition sign_off :: "job_use \<Rightarrow> bool" where
  "sign_off j \<longleftrightarrow> map_of (ju_params j) ''sign'' = Some (YBool False)"

definition signing :: "string \<Rightarrow> job_use list \<Rightarrow> job_use list \<Rightarrow> bool \<Rightarrow> string \<times> string" where
  "signing orb pushes charts public =
     (if pushes = [] \<and> charts = [] then (SigningNone, [])
      else if orb = [] then
        (SigningUnknown, ''no architect orb: the pipeline pushes without the orb's signing steps'')
      else if \<not> snd (semver orb) then (SigningUnknown, ''orb version '' @ orb @ '' is not a release'')
      else if \<not> at_least orb orbSigning then
        (SigningUnsigned, ''orb '' @ orb @ '' predates signing ('' @ orbSigning @ '')'')
      else
        (let off = map job_name (filter sign_off (pushes @ charts)) in
         if off \<noteq> [] then (SigningUnsigned, ''sign: false on '' @ str_join (sort off) '', '')
         else if \<not> public then
           (SigningUnsigned, ''private repository: cosign signs public images and charts only'')
         else (SigningSigned, [])))"

section \<open>The facts\<close>

definition yaml_error :: "string \<Rightarrow> string" where
  "yaml_error s = trim_prefix (takeWhile (\<lambda>c. c \<noteq> CHR 0x0A) s) ''yaml: ''"

record ci_read =
  cr_files :: "string list"
  cr_generated :: bool
  cr_orb :: string
  cr_jobs :: "job_use list"
  cr_errors :: "string list"

definition read_file ::
  "(string \<Rightarrow> string + ymap) \<Rightarrow> (string \<rightharpoonup> string) \<Rightarrow> string \<Rightarrow> ci_read \<Rightarrow> ci_read" where
  "read_file unmarshal texts file a = (case texts file of
      None \<Rightarrow> a
    | Some text \<Rightarrow>
        (let b = a\<lparr>cr_files := cr_files a @ [file],
               cr_generated := cr_generated a \<or> file = hd ciFiles \<and> str_contains text generatedMarker\<rparr>
         in case unmarshal text of
              Inl e \<Rightarrow> b\<lparr>cr_errors := cr_errors b @ [file @ '': '' @ yaml_error e]\<rparr>
            | Inr doc \<Rightarrow> b\<lparr>cr_orb := (if cr_orb b = [] then architect_version doc else cr_orb b),
                cr_jobs := cr_jobs b @ workflow_jobs doc\<rparr>))"

definition named :: "string list \<Rightarrow> job_use list \<Rightarrow> job_use list" where
  "named names jobs = filter (\<lambda>j. ju_name j \<in> set names) jobs"

text \<open>The lines of \<open>parseCI\<close> after the loop over the files: the facts of the jobs read.\<close>

definition jobs_facts :: "ci_read \<Rightarrow> bool \<Rightarrow> ci" where
  "jobs_facts a public =
     (let jobs = cr_jobs a; orb = cr_orb a;
          pushes = named [jobPush, jobPushMultiarch] jobs; builds = named [jobBuildImage] jobs;
          goBuilds = named [jobGoBuild] jobs; charts = named [jobChart] jobs;
          sync = named [jobSyncChina] jobs \<noteq> [];
          platforms = image_platforms orb pushes builds goBuilds;
          sign = signing orb pushes charts public
      in \<lparr>ci_files = cr_files a, ci_generated = cr_generated a, ci_orb = orb,
          ci_imagePush = pushes \<noteq> [], ci_chartPush = charts \<noteq> [],
          ci_platforms = fst platforms, ci_arm64 = snd platforms,
          ci_chinaPush = china_push pushes sync, ci_signing = fst sign, ci_signingReason = snd sign,
          ci_jobs = map ci_job_of jobs, ci_error = str_join (cr_errors a) ''; ''\<rparr>)"

definition no_ci_read :: ci_read where
  "no_ci_read = \<lparr>cr_files = [], cr_generated = False, cr_orb = [], cr_jobs = [], cr_errors = []\<rparr>"

definition read_files :: "(string \<Rightarrow> string + ymap) \<Rightarrow> (string \<rightharpoonup> string) \<Rightarrow> ci_read" where
  "read_files unmarshal texts = fold (read_file unmarshal texts) ciFiles no_ci_read"

definition parse_ci :: "(string \<Rightarrow> string + ymap) \<Rightarrow> (string \<rightharpoonup> string) \<Rightarrow> bool \<Rightarrow> ci" where
  "parse_ci unmarshal texts public = jobs_facts (read_files unmarshal texts) public"

text \<open>\<open>ciFacts\<close>: the texts of the node's three files, \<open>None\<close> for a file it does not have.\<close>

definition ci_facts ::
  "(string \<Rightarrow> string + ymap) \<Rightarrow> string option \<times> string option \<times> string option \<Rightarrow> bool \<Rightarrow> ci option" where
  "ci_facts unmarshal blobs public = (case blobs of (config, workflows, custom) \<Rightarrow>
     let texts = map_of (concat (map (\<lambda>(f, b). case b of None \<Rightarrow> [] | Some t \<Rightarrow> [(f, t)])
           (zip ciFiles [config, workflows, custom])))
     in if config = None \<and> workflows = None \<and> custom = None then None
        else Some (parse_ci unmarshal texts public))"

end
