(* ===== verification/Steps.thy ===== *)
theory Steps
  imports CIJobs
begin

text \<open>
  internal/collect/statuses.go and steps.go: the engine's two steps that need a CircleCI
  client, written from what the record knows. A commit's statuses are divided by the
  repository's CI declaration (\<open>split_statuses\<close>), read as failed or pending (\<open>states_of\<close>) and
  told as the release step (\<open>statuses_release_step\<close>), the reconciler's run and the release
  watch standing beside them (\<open>release_step\<close>); the circleci step is \<open>circleci_step\<close>.
  \<open>fill_clientless_steps\<close> and \<open>rewrite_release_step\<close> write the steps into a result and set
  whether it converged.

  \<open>None\<close> as the result of \<open>release_step\<close> and of its callers is the nil dereference of a built
  or red watch without a pipeline. \<open>E\<close> is devctl's reconcile package, \<open>rx\<close> Go's regular
  expressions.
\<close>

section \<open>statuses.go\<close>

definition apostrophe :: string where "apostrophe = [CHR 0x27]"

definition statusFailure :: string where "statusFailure = ''failure''"
definition statusError :: string where "statusError = ''error''"
definition statusPending :: string where "statusPending = ''pending''"
definition statusExpected :: string where "statusExpected = ''expected''"

lemmas commit_states [go_defs] = statusFailure_def statusError_def statusPending_def statusExpected_def

definition plural :: "nat \<Rightarrow> string \<Rightarrow> string" where
  "plural n noun =
     (if n = 1 then ''1 '' @ noun
      else if noun = ''status'' then show_nat n @ '' statuses''
      else show_nat n @ '' '' @ noun @ ''s'')"

definition among :: "string list \<Rightarrow> string list \<Rightarrow> string list" where
  "among xs ys = filter (\<lambda>x. x \<in> set ys) xs"

definition job_names :: "string list \<Rightarrow> string" where
  "job_names contexts = str_join (map JobOf contexts) '', ''"

text \<open>\<open>jobIndex\<close>: the uses of a job's name, \<open>None\<close> for a name the declaration does not have.\<close>

definition job_index :: "ci option \<Rightarrow> string \<Rightarrow> ci_job list option" where
  "job_index c name = (case c of
      None \<Rightarrow> None
    | Some b \<Rightarrow> (case filter (\<lambda>j. cj_name j = name) (ci_jobs b) of [] \<Rightarrow> None | js \<Rightarrow> Some js))"

definition runs_any :: "ci_job list \<Rightarrow> (ci_job \<Rightarrow> bool) \<Rightarrow> bool" where
  "runs_any js runs = list_ex runs js"

definition foreign_status :: "ci option \<Rightarrow> (ci_job \<Rightarrow> bool) \<Rightarrow> string \<Rightarrow> bool" where
  "foreign_status c runs ctx = (case job_index c (JobOf ctx) of
      Some js \<Rightarrow> \<not> runs_any js runs
    | None \<Rightarrow> False)"

definition split_statuses ::
  "head_status \<Rightarrow> ci option \<Rightarrow> (ci_job \<Rightarrow> bool) \<Rightarrow> string list \<times> string list" where
  "split_statuses s c runs =
     (let own = filter (\<lambda>x. \<not> foreign_status c runs x) (hs_contexts s);
          foreign = filter (foreign_status c runs) (hs_contexts s)
      in if own = [] then (hs_contexts s, []) else (own, foreign))"

definition any_tag_only :: "regexp \<Rightarrow> string list \<Rightarrow> ci option \<Rightarrow> string \<Rightarrow> bool" where
  "any_tag_only rx contexts c tag = list_ex (\<lambda>x. case job_index c (JobOf x) of
      Some js \<Rightarrow> runs_any js (\<lambda>j. runs_on_tag rx j tag) \<and> \<not> runs_any js runs_on_branches
    | None \<Rightarrow> False) contexts"

definition states_of :: "head_status \<Rightarrow> string list \<Rightarrow> string list \<times> string list" where
  "states_of s own =
     (if hs_failed s = [] \<and> hs_pending s = [] then
        (if hs_state s = statusFailure \<or> hs_state s = statusError then (own, [])
         else if hs_state s = statusPending \<or> hs_state s = statusExpected then ([], own)
         else ([], []))
      else (among (hs_failed s) own, among (hs_pending s) own))"

definition published_job :: "engine \<Rightarrow> string \<Rightarrow> bool" where
  "published_job E ctx \<longleftrightarrow> eng_unpublished E [JobOf ctx] = []"

definition unpublished :: "engine \<Rightarrow> string list \<Rightarrow> string list \<times> string list" where
  "unpublished E contexts =
     (filter (\<lambda>x. \<not> published_job E x) contexts, filter (published_job E) contexts)"

section \<open>steps.go: results and findings\<close>

definition noCircleCIClient :: string where "noCircleCIClient = ''no CircleCI client''"

definition converge :: "engine \<Rightarrow> result \<Rightarrow> result" where
  "converge E res = res\<lparr>res_converged := list_all (eng_converges E) (res_steps res)\<rparr>"

definition latest_tag :: "release option \<Rightarrow> release_watch \<Rightarrow> string" where
  "latest_tag rel w = (case rel of
      Some r \<Rightarrow> if rl_tag r \<noteq> rw_tag w \<and> rl_publishedAt r > rw_createdAt w then rl_tag r else rw_tag w
    | None \<Rightarrow> rw_tag w)"

definition pending_read :: "string \<Rightarrow> release option \<Rightarrow> release_watch option \<Rightarrow> bool" where
  "pending_read tag rel wt = (case wt of
      None \<Rightarrow> False
    | Some w \<Rightarrow> rw_tag w = tag \<and> (case rel of
        None \<Rightarrow> True
      | Some r \<Rightarrow> rl_tag r \<noteq> tag \<and> rl_publishedAt r < rw_createdAt w))"

definition step_finding :: "engine \<Rightarrow> finding_kind \<Rightarrow> string \<Rightarrow> string \<Rightarrow> engine_finding" where
  "step_finding E kind message fix_text =
     \<lparr>ef_kind = kind, ef_message = message, ef_fix = fix_text, ef_advisory = eng_advisory E kind\<rparr>"

definition clientless :: "step_result \<Rightarrow> bool" where
  "clientless sr \<longleftrightarrow> sr_verdict sr = VerdictSkipped \<and> str_contains (sr_summary sr) noCircleCIClient"

definition release_tag :: "string \<Rightarrow> string" where
  "release_tag summary =
     (let tag = trim_prefix summary ''release '' in
      case str_index tag '': '' of Some i \<Rightarrow> take i tag | None \<Rightarrow> tag)"

definition run_step :: "engine \<Rightarrow> last_run option \<Rightarrow> step \<Rightarrow> step_result option" where
  "run_step E lr s = (case lr of
      None \<Rightarrow> None
    | Some l \<Rightarrow> (case the_step E (lr_result l) s of
        None \<Rightarrow> None
      | Some sr \<Rightarrow> if sr_verdict sr = VerdictSkipped then None else Some sr))"

definition alignFix :: string where
  "alignFix = ''run Align now: the reconciler's check reads CircleCI directly, and for a repository that has not opted in to alignment (`align: true` in its entry) it changes nothing''"

definition convergedCircleCI :: string where
  "convergedCircleCI = ''followed, setup workflows on, checkout key present''"

definition webhookPresent :: string where "webhookPresent = ''webhook present''"

definition webhook_clause :: "bool option \<Rightarrow> string" where
  "webhook_clause present = (case present of
      None \<Rightarrow> []
    | Some p \<Rightarrow> if p then '', '' @ webhookPresent else '', webhook missing'')"

definition converged_words :: "step_result \<Rightarrow> bool option \<Rightarrow> string" where
  "converged_words run webhook =
     (if sr_summary run \<noteq> [] then sr_summary run else convergedCircleCI @ webhook_clause webhook)"

definition join_clauses :: "string \<Rightarrow> string \<Rightarrow> string" where
  "join_clauses a b = (if a = [] then b else if b = [] then a else a @ ''; '' @ b)"

definition head_jobs :: "head_status \<Rightarrow> string" where
  "head_jobs s = (if length (hs_contexts s) \<noteq> 1 then show_nat (length (hs_contexts s)) @ '' jobs'' else ''1 job'')"

definition mentions :: "step_result \<Rightarrow> string \<Rightarrow> bool" where
  "mentions sr tag =
     (if tag = [] then False
      else str_contains (sr_summary sr) tag \<or> list_ex (\<lambda>c. str_contains c tag) (sr_changes sr) \<or>
        list_ex (\<lambda>f. str_contains (ef_message f) tag) (sr_findings sr))"

definition built :: "step_result \<Rightarrow> string \<Rightarrow> bool" where
  "built run tag \<longleftrightarrow> sr_verdict run = VerdictOK \<and> sr_findings run = [] \<and>
     has_prefix (sr_summary run) (''release '' @ tag @ '' built: pipeline '')"

definition unbuilt :: "step_result \<Rightarrow> bool" where
  "unbuilt run =
     (if sr_verdict run = VerdictFailed then True
      else list_ex (\<lambda>f. ef_kind f = FindingMissedTagBuild \<or> ef_kind f = FindingRedRelease) (sr_findings run))"

section \<open>The release step\<close>

definition step_result_of :: "step \<Rightarrow> verdict \<Rightarrow> string \<Rightarrow> string list \<Rightarrow> engine_finding list \<Rightarrow> step_result" where
  "step_result_of st v summary changes fs =
     \<lparr>sr_step = st, sr_verdict = v, sr_summary = summary, sr_changes = changes, sr_findings = fs\<rparr>"

lemma step_result_of_simps [simp]:
  "sr_step (step_result_of st v s c f) = st" "sr_verdict (step_result_of st v s c f) = v"
  "sr_summary (step_result_of st v s c f) = s" "sr_changes (step_result_of st v s c f) = c"
  "sr_findings (step_result_of st v s c f) = f"
  by (simp_all add: step_result_of_def)

definition token_fix :: "string \<Rightarrow> string \<Rightarrow> string" where
  "token_fix slug tag =
     ''configure a CircleCI token (`circleci.existingSecret`) so the release watch reads the tag's own pipeline; `devctl release wait ''
       @ slug @ '' '' @ tag @ ''` tells now''"

definition statuses_release_step ::
  "engine \<Rightarrow> regexp \<Rightarrow> string \<Rightarrow> string \<Rightarrow> head_status \<Rightarrow> ci option \<Rightarrow> string list \<Rightarrow> step_result" where
  "statuses_release_step E rx slug tag b c tagOnly =
     (case split_statuses b c (\<lambda>j. runs_on_tag rx j tag) of (own, foreign) \<Rightarrow>
      case states_of b own of (failed0, pending) \<Rightarrow>
      case unpublished E failed0 of (failed, published) \<Rightarrow>
      let count = plural (length own) ''job'' @ '', '' @ rfc3339 (hs_at b);
          notes = (if foreign \<noteq> [] then ''; '' @ plural (length foreign) ''status'' @
                     '' of a branch pipeline at the commit ignored'' else []) @
                  (if published \<noteq> [] then ''; '' @ job_names published @
                     '' failed, the GitHub release it publishes exists'' else [])
      in
        if failed \<noteq> [] \<and> foreign \<noteq> [] \<and> \<not> any_tag_only rx failed c tag then
          step_result_of StepRelease VerdictReported
            (''release '' @ tag @ '': two pipelines' statuses on its commit, '' @ job_names failed @
             '' failed ('' @ count @ '')'') []
            [step_finding E FindingUnchecked
              (''whether CircleCI built the tag '' @ tag @ '' of '' @ slug @ '' is out of the inventory's reach: '' @
               job_names failed @ '' failed on the release commit, but a branch pipeline built the commit too and a commit status does not say whose job it was'')
              (token_fix slug tag)]
        else if failed \<noteq> [] then
          step_result_of StepRelease VerdictReported
            (''release '' @ tag @ '': CircleCI failure in '' @ job_names failed @ '' ('' @ count @ '')'' @ notes) []
            [step_finding E FindingRedRelease
              (''the tag pipeline of '' @ slug @ '' '' @ tag @ '' failed in '' @ job_names failed)
              (''nothing was published for '' @ tag @ '': rerun the failed workflow from failed on CircleCI, then `devctl release wait '' @
               slug @ '' '' @ tag @ ''` confirms the images and chart; when the cause is in the code, the next tag is the release'')]
        else if pending \<noteq> [] then
          step_result_of StepRelease VerdictOK
            (''release '' @ tag @ '': CircleCI pipeline running ('' @ count @ '')'' @ notes) [] []
        else if tagOnly \<noteq> [] \<and> \<not> reported own tagOnly then
          step_result_of StepRelease VerdictReported
            (''release '' @ tag @ '': none of the tag pipeline's own jobs ('' @ str_join tagOnly '', '' @
             '') on its commit ('' @ count @ '')'' @ notes) []
            [step_finding E FindingUnchecked
              (''whether CircleCI built the tag '' @ tag @ '' of '' @ slug @ '' is out of the inventory's reach: '' @
               job_names own @ '' on its commit run on the default branch too, and none of the jobs only the tag pipeline runs ('' @
               str_join tagOnly '', '' @ '') has reported'')
              (token_fix slug tag)]
        else
          step_result_of StepRelease VerdictOK
            (''release '' @ tag @ '' built: CircleCI success ('' @ count @ '')'' @ notes) [] [])"

definition run_release_step :: "step_result \<Rightarrow> last_run \<Rightarrow> string \<Rightarrow> step_result" where
  "run_release_step run lr tag =
     (let at = '' (reconciler run of '' @ rfc3339 (lr_timestamp lr) @ '')'' in
      step_result_of StepRelease (sr_verdict run)
        (if sr_summary run \<noteq> [] then sr_summary run @ at else ''release '' @ tag @ at)
        (sr_changes run) (sr_findings run))"

text \<open>The outcome of \<open>watchedReleaseStep\<close>: the step, \<open>ok\<close> false, or the nil dereference of
  the pipeline of a built or red watch.\<close>

datatype watched_step = Decided step_result | LeftOver | NilPipeline

definition watched_release_step :: "engine \<Rightarrow> string \<Rightarrow> string \<Rightarrow> release_watch \<Rightarrow> watched_step" where
  "watched_release_step E slug tag w =
     (let at = rfc3339 (rw_checkedAt w);
          confirm = ''then `devctl release wait '' @ slug @ '' '' @ tag @ ''` confirms it''
      in
        if rw_state w = ReleaseBuilt then
          (case rw_pipeline w of None \<Rightarrow> NilPipeline
           | Some p \<Rightarrow> Decided (step_result_of StepRelease VerdictOK
               (''release '' @ tag @ '' built: the tag's pipeline '' @ show_int (rp_number p) @ '' succeeded ('' @ at @ '')'') [] []))
        else if rw_state w = ReleaseRed then
          (case rw_pipeline w of None \<Rightarrow> NilPipeline
           | Some p \<Rightarrow> Decided (step_result_of StepRelease VerdictReported
               (''release '' @ tag @ '': the tag's pipeline '' @ show_int (rp_number p) @ '' failed ('' @ at @ '')'') []
               [step_finding E FindingRedRelease
                 (''the tag pipeline '' @ show_int (rp_number p) @ '' of '' @ slug @ '' '' @ tag @ '' failed in '' @
                  str_join (rw_failedJobs w) '', '' @ '': nothing was published for the tag'')
                 (''rerun the workflow from failed on CircleCI, '' @ confirm)]))
        else if rw_state w = ReleaseUnbuilt then
          Decided (step_result_of StepRelease VerdictReported
            (''release '' @ tag @ '': no CircleCI pipeline for the tag ('' @ at @ '')'') []
            [step_finding E FindingMissedTagBuild
              (''release '' @ tag @ '' of '' @ slug @ '' has no CircleCI pipeline: nothing was built or published for the tag'')
              (''trigger the tag's pipeline by hand on CircleCI, '' @ confirm)])
        else if rw_state w = ReleaseWatching then
          (case rw_pipeline w of None \<Rightarrow> LeftOver
           | Some p \<Rightarrow> Decided (step_result_of StepRelease VerdictOK
               (''release '' @ tag @ '': the tag's pipeline '' @ show_int (rp_number p) @ '' is running ('' @ at @ '')'') [] []))
        else LeftOver)"

text \<open>The last part of \<open>releaseStep\<close>: neither the tag's statuses nor a run tell.\<close>

definition untold_release_step ::
  "engine \<Rightarrow> string \<Rightarrow> string \<Rightarrow> release option \<Rightarrow> release_watch option \<Rightarrow> step_result" where
  "untold_release_step E slug tag rel wt =
     (if pending_read tag rel wt then
        step_result_of StepRelease VerdictOK (''release '' @ tag @ '': waiting for the inventory's read'') [] []
      else (case rel of
        Some r \<Rightarrow>
          if rl_tag r \<noteq> tag then
            step_result_of StepRelease VerdictReported
              (''release '' @ tag @ '': not the latest release the inventory read ('' @ rl_tag r @ '')'') []
              [step_finding E FindingUnchecked
                (''whether CircleCI built the tag '' @ tag @ '' of '' @ slug @
                 '' is out of the inventory's reach until its next read of the repository'')
                (''refresh the repository, or '' @ alignFix)]
          else if rl_buildTruncated r then
            step_result_of StepRelease VerdictReported
              (''release '' @ tag @ '': the statuses on its commit were truncated before a CircleCI one'') []
              [step_finding E FindingUnchecked
                (''whether CircleCI built the tag '' @ tag @ '' of '' @ slug @
                 '' is out of the inventory's reach: the commit's status contexts were truncated before a CircleCI one'')
                alignFix]
          else if (case wt of Some w \<Rightarrow> rw_tag w = tag \<and> rw_state w = ReleaseWatching | None \<Rightarrow> False) then
            step_result_of StepRelease VerdictOK (''release '' @ tag @ '': waiting for the tag's pipeline'') [] []
          else
            step_result_of StepRelease VerdictReported
              (''no CircleCI status on '' @ tag @ apostrophe @ ''s commit: the tag was not built'') []
              [step_finding E FindingMissedTagBuild
                (''release '' @ tag @ '' of '' @ slug @
                 '' has no CircleCI status on its commit: nothing was built or published for the tag'')
                ''cut the next tag, or trigger the tag's pipeline by hand'']
      | None \<Rightarrow>
          step_result_of StepRelease VerdictReported
            (''release '' @ tag @ '': not the latest release the inventory read (none)'') []
            [step_finding E FindingUnchecked
              (''whether CircleCI built the tag '' @ tag @ '' of '' @ slug @
               '' is out of the inventory's reach until its next read of the repository'')
              (''refresh the repository, or '' @ alignFix)]))"

text \<open>The reconciler's run where it names the tag.\<close>

definition tag_run :: "engine \<Rightarrow> last_run option \<Rightarrow> string \<Rightarrow> (step_result \<times> last_run) option" where
  "tag_run E lr tag = (case (run_step E lr StepRelease, lr) of
      (Some run, Some l) \<Rightarrow> if mentions run tag then Some (run, l) else None
    | _ \<Rightarrow> None)"

definition release_step ::
  "engine \<Rightarrow> regexp \<Rightarrow> string \<Rightarrow> string \<Rightarrow> string \<Rightarrow> release option \<Rightarrow> ci option \<Rightarrow> last_run option \<Rightarrow>
   release_watch option \<Rightarrow> step_result option" where
  "release_step E rx slug tag branch rel c lr wt =
     (case (case wt of Some w \<Rightarrow> if rw_tag w = tag then watched_release_step E slug tag w else LeftOver
                     | None \<Rightarrow> LeftOver) of
        Decided done_step \<Rightarrow> Some done_step
      | NilPipeline \<Rightarrow> None
      | LeftOver \<Rightarrow> Some
          (let own_build = (case rel of Some r \<Rightarrow> if rl_tag r = tag then rl_build r else None | None \<Rightarrow> None) in
           case own_build of
             Some b \<Rightarrow>
               (let tagOnly = tag_only rx c tag branch in
                case tag_run E lr tag of
                  Some (run, l) \<Rightarrow>
                    if built run tag \<or> unbuilt run \<and> \<not> reported (hs_contexts b) tagOnly
                    then run_release_step run l tag
                    else statuses_release_step E rx slug tag b c tagOnly
                | None \<Rightarrow> statuses_release_step E rx slug tag b c tagOnly)
           | None \<Rightarrow> (case tag_run E lr tag of
                 Some (run, l) \<Rightarrow> run_release_step run l tag
               | None \<Rightarrow> untold_release_step E slug tag rel wt)))"

section \<open>The circleci step\<close>

definition builds_sentence ::
  "regexp \<Rightarrow> string \<Rightarrow> string \<Rightarrow> head_status option \<Rightarrow> ci option \<Rightarrow> bool \<Rightarrow> string" where
  "builds_sentence rx slug branch head c conclude = (case head of
      None \<Rightarrow>
        if conclude then ''no CircleCI status on '' @ branch @ apostrophe @ ''s head: CircleCI does not build '' @ slug
        else ''no CircleCI status on '' @ branch @ apostrophe @ ''s head yet''
    | Some h \<Rightarrow>
        (case split_statuses h c (\<lambda>j. runs_on_branch rx j branch) of (own, foreign) \<Rightarrow>
         if foreign = [] then
           ''CircleCI builds '' @ branch @ '': '' @ hs_state h @ '' ('' @ head_jobs h @ '', '' @ rfc3339 (hs_at h) @ '')''
         else (case states_of h own of (failed, pending) \<Rightarrow>
           ''CircleCI builds '' @ branch @ '': '' @
           (if failed \<noteq> [] then ''failure'' else if pending \<noteq> [] then ''pending'' else ''success'') @
           '' ('' @ plural (length own) ''job'' @ '', '' @ rfc3339 (hs_at h) @ ''; '' @
           plural (length foreign) ''status'' @ '' of other pipelines at the head ignored)'')))"

definition run_circleci_step ::
  "step_result \<Rightarrow> last_run \<Rightarrow> string \<Rightarrow> bool option \<Rightarrow> step_result" where
  "run_circleci_step run lr builds webhook =
     (let at = ''reconciler run of '' @ rfc3339 (lr_timestamp lr) in
      if sr_verdict run = VerdictFailed then
        step_result_of StepCircleCI VerdictFailed
          (join_clauses (''the reconciler's circleci step failed: '' @ sr_summary run @ '' ('' @ at @ '')'') builds) []
          (sr_findings run)
      else if sr_verdict run = VerdictDrift then
        step_result_of StepCircleCI VerdictDrift (join_clauses builds (''drift found by the '' @ at))
          (sr_changes run) (sr_findings run)
      else
        step_result_of StepCircleCI (if sr_findings run \<noteq> [] then VerdictReported else VerdictOK)
          (join_clauses builds (converged_words run webhook @ '' ('' @ at @ '')'')) []
          (sr_findings run))"

definition circleci_step ::
  "engine \<Rightarrow> regexp \<Rightarrow> string \<Rightarrow> string \<Rightarrow> circleci option \<Rightarrow> ci option \<Rightarrow> last_run option \<Rightarrow> step_result" where
  "circleci_step E rx slug branch cc c lr = (case cc of
      None \<Rightarrow> step_result_of StepCircleCI VerdictSkipped ''repository not on GitHub'' [] []
    | Some k \<Rightarrow> (case (run_step E lr StepCircleCI, lr) of
        (Some run, Some l) \<Rightarrow>
          run_circleci_step run l (builds_sentence rx slug branch (cc_head k) c False) (cc_webhook k)
      | _ \<Rightarrow>
        (let builds = builds_sentence rx slug branch (cc_head k) c True in
         if cc_head k \<noteq> None then step_result_of StepCircleCI VerdictOK builds [] []
         else if CircleCIFactFollowed \<in> set (cc_unknown k) then
           step_result_of StepCircleCI VerdictReported
             (''the statuses on '' @ branch @ apostrophe @ ''s head were truncated before a CircleCI one'') []
             [step_finding E FindingUnchecked
               (''whether CircleCI builds '' @ slug @
                '' is out of the inventory's reach: the head's status contexts were truncated before a CircleCI one'')
               alignFix]
         else
           step_result_of StepCircleCI VerdictDrift builds
             [''follow '' @ slug, ''enable setup workflows'', ''create a deploy key''] [])))"

section \<open>Writing the steps into a result\<close>

definition fill_circleci :: "engine \<Rightarrow> regexp \<Rightarrow> repo_record \<Rightarrow> reality \<Rightarrow> result \<Rightarrow> result" where
  "fill_circleci E rx r re res = (case eng_step E res StepCircleCI of
      Some i \<Rightarrow>
        if clientless (res_steps res ! i) then
          set_step res i (circleci_step E rx (rc_repository r) (re_defaultBranch re) (rc_circleci r) (rc_ci r)
            (su_lastRun (rc_setup r)))
        else res
    | None \<Rightarrow> res)"

definition fill_release :: "engine \<Rightarrow> regexp \<Rightarrow> repo_record \<Rightarrow> reality \<Rightarrow> result \<Rightarrow> result option" where
  "fill_release E rx r re res = (case eng_step E res StepRelease of
      Some i \<Rightarrow>
        if clientless (res_steps res ! i) then
          map_option (set_step res i)
            (release_step E rx (rc_repository r) (release_tag (sr_summary (res_steps res ! i)))
              (re_defaultBranch re) (re_latestRelease re) (rc_ci r) (su_lastRun (rc_setup r)) (su_release (rc_setup r)))
        else Some res
    | None \<Rightarrow> Some res)"

definition fill_clientless_steps ::
  "engine \<Rightarrow> regexp \<Rightarrow> result option \<Rightarrow> repo_record \<Rightarrow> result option option" where
  "fill_clientless_steps E rx res r = (case (res, rc_reality r) of
      (Some q, Some re) \<Rightarrow> map_option (\<lambda>q'. Some (converge E q')) (fill_release E rx r re (fill_circleci E rx r re q))
    | _ \<Rightarrow> Some res)"

definition rewrite_release_step :: "engine \<Rightarrow> regexp \<Rightarrow> repo_record \<Rightarrow> repo_record option" where
  "rewrite_release_step E rx r = (case (su_release (rc_setup r), su_checks (rc_setup r), rc_reality r) of
      (Some w, Some checks, Some re) \<Rightarrow>
        (case eng_step E checks StepRelease of
           None \<Rightarrow> Some r
         | Some i \<Rightarrow>
             if sr_verdict (res_steps checks ! i) = VerdictSkipped \<and> \<not> clientless (res_steps checks ! i) then Some r
             else
               map_option (\<lambda>sr. r\<lparr>rc_setup := (rc_setup r)\<lparr>su_checks := Some (converge E (set_step checks i sr))\<rparr>\<rparr>)
                 (release_step E rx (rc_repository r) (latest_tag (re_latestRelease re) w)
                   (re_defaultBranch re) (re_latestRelease re) (rc_ci r) (su_lastRun (rc_setup r)) (Some w)))
    | _ \<Rightarrow> Some r)"

end
