(* ===== verification/CircleCI.thy ===== *)
theory CircleCI
  imports Steps
begin

text \<open>
  internal/collect/circleci.go: a record's CircleCI state without a CircleCI token, from the
  \<open>ci/circleci:\<close> statuses of a commit's rollup and from the reconciler's circleci step. A
  rollup is the GraphQL node's \<open>statusCheckRollup\<close>; \<open>None\<close> is a nil pointer anywhere on the
  path to it.
\<close>

record status_context =
  sc_context :: string
  sc_state :: string
  sc_createdAt :: time

record status_rollup =
  su_nodes :: "status_context list"
  su_hasNextPage :: bool

text \<open>\<open>statusRank\<close>; a state the map does not have reads as 0, as Go's zero value does.\<close>

definition statusRank :: "string \<Rightarrow> int" where
  "statusRank s = (if s = ''FAILURE'' then 0 else if s = ''ERROR'' then 1 else if s = ''PENDING'' then 2
     else if s = ''EXPECTED'' then 3 else if s = ''SUCCESS'' then 4 else 0)"

text \<open>\<open>strings.ToLower\<close> of an ASCII string.\<close>

definition lower_char :: "char \<Rightarrow> char" where
  "lower_char c = (if CHR ''A'' \<le> c \<and> c \<le> CHR ''Z'' then char_of (of_char c + (32::nat)) else c)"

definition to_lower :: "string \<Rightarrow> string" where
  "to_lower s = map lower_char s"

text \<open>The loop over the contexts: the worst state, the newest time, the contexts and the
  failed and pending ones.\<close>

record rollup_acc =
  ra_worst :: string
  ra_at :: time
  ra_contexts :: "string list"
  ra_failed :: "string list"
  ra_pending :: "string list"

definition rollup_step :: "status_context \<Rightarrow> rollup_acc \<Rightarrow> rollup_acc" where
  "rollup_step c a =
     (if \<not> has_prefix (sc_context c) CircleCIContext then a
      else a\<lparr>
        ra_contexts := ra_contexts a @ [sc_context c],
        ra_failed := ra_failed a @
          (if sc_state c = ''FAILURE'' \<or> sc_state c = ''ERROR'' then [sc_context c] else []),
        ra_pending := ra_pending a @
          (if sc_state c = ''PENDING'' \<or> sc_state c = ''EXPECTED'' then [sc_context c] else []),
        ra_worst := (if ra_worst a = [] \<or> statusRank (sc_state c) < statusRank (ra_worst a)
          then sc_state c else ra_worst a),
        ra_at := (if sc_createdAt c > ra_at a then sc_createdAt c else ra_at a)\<rparr>)"

definition rollup_status :: "status_rollup option \<Rightarrow> head_status option \<times> bool" where
  "rollup_status rollup = (case rollup of
      None \<Rightarrow> (None, False)
    | Some r \<Rightarrow>
        (let a = fold rollup_step (su_nodes r)
               \<lparr>ra_worst = [], ra_at = zero_time, ra_contexts = [], ra_failed = [], ra_pending = []\<rparr>
         in if ra_contexts a = [] then (None, su_hasNextPage r)
            else (Some \<lparr>hs_state = to_lower (ra_worst a), hs_contexts = sort (ra_contexts a),
                hs_failed = sort (ra_failed a), hs_pending = sort (ra_pending a), hs_at = ra_at a\<rparr>,
              su_hasNextPage r)))"

definition head_status_of :: "status_rollup option \<Rightarrow> head_status option \<times> bool" where
  "head_status_of rollup = rollup_status rollup"

definition release_build :: "status_rollup option option \<Rightarrow> head_status option \<times> bool" where
  "release_build tagCommit = (case tagCommit of None \<Rightarrow> (None, False) | Some r \<Rightarrow> rollup_status r)"

definition has_change :: "step_result \<Rightarrow> string \<Rightarrow> bool" where
  "has_change sr prefix \<longleftrightarrow> list_ex (\<lambda>c. has_prefix c prefix) (sr_changes sr)"

fun webhook_of_findings :: "engine_finding list \<Rightarrow> bool option" where
  "webhook_of_findings [] = None"
| "webhook_of_findings (f # fs) =
     (if ef_kind f = FindingCircleCIWebhookMissing then Some False
      else if ef_kind f = FindingUnchecked then None
      else webhook_of_findings fs)"

definition step_webhook :: "step_result \<Rightarrow> bool option" where
  "step_webhook sr =
     (if sr_verdict sr = VerdictFailed then None
      else if has_suffix (sr_summary sr) webhookPresent then Some True
      else webhook_of_findings (sr_findings sr))"

definition apply_step :: "mode \<Rightarrow> step_result \<Rightarrow> circleci \<Rightarrow> circleci \<times> bool" where
  "apply_step m sr out =
     (if sr_verdict sr = VerdictFailed then
        (out\<lparr>cc_error := ''the reconciler's circleci step failed: '' @ sr_summary sr\<rparr>, False)
      else if sr_verdict sr = VerdictOK \<or> sr_verdict sr = VerdictReported then
        (out\<lparr>cc_followed := True, cc_setupWorkflows := Some True\<rparr>, True)
      else if m = ModeRepair then (out\<lparr>cc_followed := True, cc_setupWorkflows := Some True\<rparr>, True)
      else if has_change sr ''follow '' then (out\<lparr>cc_followed := cc_head out \<noteq> None\<rparr>, False)
      else (out\<lparr>cc_followed := True,
          cc_setupWorkflows := Some (\<not> has_change sr ''enable setup workflows'')\<rparr>, True))"

text \<open>The part the reconciler's run adds.\<close>

definition with_run :: "engine \<Rightarrow> last_run option \<Rightarrow> circleci \<Rightarrow> circleci \<times> bool" where
  "with_run E run out = (case run of
      None \<Rightarrow> (out, False)
    | Some l \<Rightarrow> (case the_step E (lr_result l) StepCircleCI of
        None \<Rightarrow> (out, False)
      | Some sr \<Rightarrow>
          if sr_verdict sr = VerdictSkipped then (out, False)
          else (case apply_step (res_mode (lr_result l)) sr (out\<lparr>cc_source := CircleCISourceBoth\<rparr>) of
            (out', setup) \<Rightarrow> (out'\<lparr>cc_webhook := step_webhook sr\<rparr>, setup))))"

definition circleci_of :: "engine \<Rightarrow> status_rollup option \<Rightarrow> last_run option \<Rightarrow> circleci" where
  "circleci_of E rollup run =
     (case head_status_of rollup of (head, truncated) \<Rightarrow>
      case with_run E run \<lparr>cc_followed = head \<noteq> None, cc_setupWorkflows = None, cc_webhook = None,
          cc_head = head, cc_source = CircleCISourceStatuses, cc_unknown = [], cc_error = []\<rparr> of
        (out, setup) \<Rightarrow>
          out\<lparr>cc_unknown :=
            (if setup then [] else [CircleCIFactSetupWorkflows]) @
            (if cc_webhook out = None then [CircleCIFactWebhook] else []) @
            (if head = None \<and> truncated \<and> cc_source out = CircleCISourceStatuses
             then [CircleCIFactFollowed] else [])\<rparr>)"

section \<open>Lemmas\<close>

text \<open>The statuses a rollup leaves: CircleCI's contexts, the failed and the pending among
  them.\<close>

lemma rollup_fold:
  "ra_contexts (fold rollup_step ns a) = ra_contexts a @
     map sc_context (filter (\<lambda>c. has_prefix (sc_context c) CircleCIContext) ns) \<and>
   ra_failed (fold rollup_step ns a) = ra_failed a @ map sc_context
     (filter (\<lambda>c. has_prefix (sc_context c) CircleCIContext \<and> (sc_state c = ''FAILURE'' \<or> sc_state c = ''ERROR'')) ns) \<and>
   ra_pending (fold rollup_step ns a) = ra_pending a @ map sc_context
     (filter (\<lambda>c. has_prefix (sc_context c) CircleCIContext \<and> (sc_state c = ''PENDING'' \<or> sc_state c = ''EXPECTED'')) ns)"
  by (induction ns arbitrary: a) (auto simp: rollup_step_def)

definition ranked_states :: "string set" where
  "ranked_states = {''FAILURE'', ''ERROR'', ''PENDING'', ''EXPECTED'', ''SUCCESS''}"

definition context_states :: "status_context list \<Rightarrow> string set" where
  "context_states ns = sc_state ` {c \<in> set ns. has_prefix (sc_context c) CircleCIContext}"

lemma rollup_worst:
  assumes "context_states ns \<subseteq> ranked_states" and "ra_worst a \<in> ranked_states \<union> {[]}"
  shows "(ra_worst (fold rollup_step ns a) = [] \<longleftrightarrow> ra_worst a = [] \<and> context_states ns = {}) \<and>
    (ra_worst (fold rollup_step ns a) \<noteq> [] \<longrightarrow>
       ra_worst (fold rollup_step ns a) \<in> context_states ns \<union> {ra_worst a} \<and>
       (\<forall>s \<in> context_states ns \<union> ({ra_worst a} - {[]}).
          statusRank (ra_worst (fold rollup_step ns a)) \<le> statusRank s))"
  using assms
proof (induction ns arbitrary: a)
  case Nil
  then show ?case by (auto simp: context_states_def)
next
  case (Cons c ns)
  show ?case
  proof (cases "has_prefix (sc_context c) CircleCIContext")
    case False
    then have "rollup_step c a = a" and "context_states (c # ns) = context_states ns"
      by (auto simp: rollup_step_def context_states_def)
    then show ?thesis using Cons by simp
  next
    case True
    then have st: "context_states (c # ns) = insert (sc_state c) (context_states ns)"
      by (auto simp: context_states_def)
    have ne: "sc_state c \<noteq> []" "sc_state c \<in> ranked_states"
      using Cons.prems(1) st by (auto simp: ranked_states_def)
    let ?w = "ra_worst (rollup_step c a)"
    have w: "?w = (if ra_worst a = [] \<or> statusRank (sc_state c) < statusRank (ra_worst a)
        then sc_state c else ra_worst a)" using True by (simp add: rollup_step_def)
    then have "?w \<in> ranked_states \<union> {[]}" "?w \<noteq> []" using ne Cons.prems(2) by auto
    with Cons.IH [of "rollup_step c a"] Cons.prems(1) st show ?thesis
      using w ne by (auto split: if_splits)
  qed
qed

lemma lower_states [simp]:
  "to_lower ''FAILURE'' = statusFailure" "to_lower ''ERROR'' = statusError"
  "to_lower ''PENDING'' = statusPending" "to_lower ''EXPECTED'' = statusExpected"
  "to_lower ''SUCCESS'' = ''success''"
  by code_simp+

lemma sort_Nil: "sort xs = [] \<longleftrightarrow> xs = []"
  by (metis set_empty set_sort)

lemma context_states_filter:
  "filter (\<lambda>c. has_prefix (sc_context c) CircleCIContext \<and> (sc_state c = x \<or> sc_state c = y)) ns = [] \<longleftrightarrow>
   x \<notin> context_states ns \<and> y \<notin> context_states ns"
  by (auto simp: filter_empty_conv context_states_def)

text \<open>
  The summary of a commit's statuses agrees with its lists. For GitHub's five states, a commit
  with a CircleCI context gets a head status whose contexts are CircleCI's in order, whose state
  is failure or error exactly when it lists a failed context, pending or expected exactly when it
  lists none failed but a pending one, and success otherwise: the worst state of all. A commit
  without one gets none.
\<close>
theorem rollup_state_agrees:
  assumes "context_states (su_nodes r) \<subseteq> ranked_states"
  shows "case fst (rollup_status (Some r)) of
      None \<Rightarrow> context_states (su_nodes r) = {}
    | Some h \<Rightarrow>
        hs_contexts h = sort (map sc_context (filter (\<lambda>c. has_prefix (sc_context c) CircleCIContext) (su_nodes r))) \<and>
        hs_contexts h \<noteq> [] \<and> set (hs_failed h) \<union> set (hs_pending h) \<subseteq> set (hs_contexts h) \<and>
        hs_state h = (if hs_failed h \<noteq> [] then
            (if ''FAILURE'' \<in> context_states (su_nodes r) then statusFailure else statusError)
          else if hs_pending h \<noteq> [] then
            (if ''PENDING'' \<in> context_states (su_nodes r) then statusPending else statusExpected)
          else ''success'')"
proof -
  let ?ns = "su_nodes r"
  let ?start = "\<lparr>ra_worst = [], ra_at = zero_time, ra_contexts = [], ra_failed = [], ra_pending = []\<rparr>"
  let ?a = "fold rollup_step ?ns ?start"
  note F = rollup_fold [of ?ns ?start, simplified]
  note W = rollup_worst [OF assms, of ?start, simplified]
  have none: "ra_contexts ?a = [] \<longleftrightarrow> context_states ?ns = {}"
    using F by (auto simp: filter_empty_conv context_states_def)
  have f: "ra_failed ?a = [] \<longleftrightarrow> ''FAILURE'' \<notin> context_states ?ns \<and> ''ERROR'' \<notin> context_states ?ns"
    and p: "ra_pending ?a = [] \<longleftrightarrow> ''PENDING'' \<notin> context_states ?ns \<and> ''EXPECTED'' \<notin> context_states ?ns"
    using F by (simp_all add: context_states_filter [symmetric])
  have sub: "set (ra_failed ?a) \<union> set (ra_pending ?a) \<subseteq> set (ra_contexts ?a)" using F by auto
  show ?thesis
  proof (cases "ra_contexts ?a = []")
    case True
    then show ?thesis using none by (simp add: rollup_status_def Let_def)
  next
    case False
    then have ne: "context_states ?ns \<noteq> {}" using none by simp
    then have w: "ra_worst ?a \<in> context_states ?ns"
      and least: "\<And>s. s \<in> context_states ?ns \<Longrightarrow> statusRank (ra_worst ?a) \<le> statusRank s" using W by auto
    have ranked: "ra_worst ?a \<in> ranked_states" using w assms by blast
    have low: "to_lower (ra_worst ?a) = (if ra_failed ?a \<noteq> [] then
            (if ''FAILURE'' \<in> context_states ?ns then statusFailure else statusError)
          else if ra_pending ?a \<noteq> [] then
            (if ''PENDING'' \<in> context_states ?ns then statusPending else statusExpected)
          else ''success'')"
      using ranked w least [of "''FAILURE''"] least [of "''ERROR''"] least [of "''PENDING''"] least [of "''EXPECTED''"]
      unfolding f p by (auto simp: ranked_states_def statusRank_def)
    have eq: "fst (rollup_status (Some r)) = Some \<lparr>hs_state = to_lower (ra_worst ?a),
        hs_contexts = sort (ra_contexts ?a), hs_failed = sort (ra_failed ?a), hs_pending = sort (ra_pending ?a),
        hs_at = ra_at ?a\<rparr>"
      using False by (simp add: rollup_status_def Let_def)
    show ?thesis
      unfolding eq using F [THEN conjunct1, symmetric] sub low False by (simp add: sort_Nil)
  qed
qed

theorem rollup_state_agrees_witness:
  "fst (rollup_status (Some \<lparr>su_nodes = [], su_hasNextPage = False\<rparr>)) = None"
proof -
  have "context_states (su_nodes \<lparr>su_nodes = [], su_hasNextPage = False\<rparr>) \<subseteq> ranked_states"
    by (simp add: context_states_def)
  from rollup_state_agrees [OF this] show ?thesis
    by (auto simp: rollup_status_def)
qed

text \<open>
  What the record does not know of CircleCI it says: the setup-workflows setting and the
  webhook are named unknown exactly when they have no value, and a repository is called
  not followed without a source only where the head's statuses were truncated, which it names
  unknown too.
\<close>
theorem circleci_unknown_exact:
  "(CircleCIFactSetupWorkflows \<in> set (cc_unknown (circleci_of E rollup run)) \<longleftrightarrow>
      cc_setupWorkflows (circleci_of E rollup run) = None) \<and>
   (CircleCIFactWebhook \<in> set (cc_unknown (circleci_of E rollup run)) \<longleftrightarrow>
      cc_webhook (circleci_of E rollup run) = None) \<and>
   (CircleCIFactFollowed \<in> set (cc_unknown (circleci_of E rollup run)) \<longleftrightarrow>
      fst (head_status_of rollup) = None \<and> snd (head_status_of rollup) \<and>
      cc_source (circleci_of E rollup run) = CircleCISourceStatuses) \<and>
   (fst (head_status_of rollup) \<noteq> None \<longrightarrow> cc_followed (circleci_of E rollup run))"
proof -
  have distinct: "distinct [CircleCIFactSetupWorkflows, CircleCIFactWebhook, CircleCIFactFollowed]"
    by (simp add: CircleCIFactSetupWorkflows_def CircleCIFactWebhook_def CircleCIFactFollowed_def)
  obtain head truncated where h: "head_status_of rollup = (head, truncated)" by fastforce
  let ?fresh = "\<lparr>cc_followed = head \<noteq> None, cc_setupWorkflows = None, cc_webhook = None,
          cc_head = head, cc_source = CircleCISourceStatuses, cc_unknown = [], cc_error = []\<rparr>"
  obtain out known where w: "with_run E run ?fresh = (out, known)" by fastforce
  have "known \<longleftrightarrow> cc_setupWorkflows out \<noteq> None" "head \<noteq> None \<Longrightarrow> cc_followed out"
    using w by (auto simp: with_run_def apply_step_def split: option.splits if_splits prod.splits)
  then show ?thesis
    using h w distinct by (auto simp: circleci_of_def)
qed

theorem circleci_unknown_exact_witness:
  "cc_webhook (circleci_of sample_engine None None) = None"
  using circleci_unknown_exact [of sample_engine None None]
  by (simp add: circleci_of_def head_status_of_def rollup_status_def with_run_def)

end
