(* ===== verification/GraphQL.thy ===== *)
theory GraphQL
  imports Records
begin

text \<open>
  internal/collect/graphql.go: one query against GitHub's GraphQL endpoint, with its retries,
  its tolerated partial errors and the budget it keeps. The state is a pair of the world
  \<open>'s\<close> and the budget the client has drawn. net/http's round trip, encoding/json and the
  wait between two attempts are the fields of \<open>wire\<close>; a query's body is a string of type
  \<open>string\<close>, its data a value of the type \<open>'d\<close> the caller decodes into.
\<close>

section \<open>The wire\<close>

record rate_limit =
  rt_cost :: int
  rt_remaining :: int
  rt_limit :: int
  rt_resetAt :: time

definition zero_rate_limit :: rate_limit where
  "zero_rate_limit = \<lparr>rt_cost = 0, rt_remaining = 0, rt_limit = 0, rt_resetAt = zero_time\<rparr>"

text \<open>A decoded answer: its data where it has some (what is left of it without the rate
  limit, still to be decoded into the caller's type), the rate limit that came with it and the
  messages of its errors.\<close>

record 'd answer =
  an_data :: "(string + 'd) option"
  an_rate :: rate_limit
  an_errors :: "string list"

record ('s, 'd) wire =
  wi_post :: "string \<Rightarrow> 's \<Rightarrow> 's \<times> (int \<times> string \<times> string option)"
  wi_ctx :: "'s \<Rightarrow> string option"
  wi_wait :: "duration \<Rightarrow> 's \<Rightarrow> 's \<times> string option"
  wi_decode :: "string \<Rightarrow> string + 'd answer"

record graphql =
  gq_url :: string
  gq_floor :: int
  gq_usage :: budget

definition zero_budget :: budget where
  "zero_budget = \<lparr>bu_calls = 0, bu_cost = 0, bu_remaining = 0, bu_limit = 0, bu_resetAt = None\<rparr>"

definition new_graphql :: "string \<Rightarrow> int \<Rightarrow> graphql" where
  "new_graphql url floor = \<lparr>gq_url = url, gq_floor = floor, gq_usage = zero_budget\<rparr>"

datatype gql_error =
    GqlEnded string
  | GqlTransient int int "string option"
  | GqlStatus int string
  | GqlDecode string
  | GqlNoData string
  | GqlDecodeData string

section \<open>One query\<close>

text \<open>The text ends in an ellipsis of three bytes.\<close>

definition ellipsis :: string where "ellipsis = [CHR 0xE2, CHR 0x80, CHR 0xA6]"

definition truncate_bytes :: "string \<Rightarrow> nat \<Rightarrow> string" where
  "truncate_bytes b n = (if length b \<le> n then b else take n b @ ellipsis)"

definition record_usage :: "rate_limit \<Rightarrow> graphql \<Rightarrow> graphql" where
  "record_usage rl g =
     (let u = (gq_usage g)\<lparr>bu_calls := bu_calls (gq_usage g) + 1, bu_cost := bu_cost (gq_usage g) + rt_cost rl\<rparr>
      in g\<lparr>gq_usage := (if rt_limit rl > 0
            then u\<lparr>bu_remaining := rt_remaining rl, bu_limit := rt_limit rl, bu_resetAt := Some (rt_resetAt rl)\<rparr>
            else u)\<rparr>)"

definition snapshot :: "graphql \<Rightarrow> budget" where
  "snapshot g = gq_usage g"

definition transient_status :: "int \<Rightarrow> bool" where
  "transient_status status \<longleftrightarrow> status = 502 \<or> status = 503 \<or> status = 504"

definition max_attempts :: nat where "max_attempts = 4"

text \<open>The loop of attempts. It ends because an attempt is at most the fourth.\<close>

function post_loop ::
  "('s, 'd) wire \<Rightarrow> string \<Rightarrow> nat \<Rightarrow> duration \<Rightarrow> 's \<Rightarrow> 's \<times> (gql_error + 'd answer)" where
  "post_loop W body attempt backoff s =
     (case wi_post W body s of (s1, status, raw, rerr) \<Rightarrow>
        if rerr \<noteq> None \<and> wi_ctx W s1 \<noteq> None then (s1, Inl (GqlEnded (the (wi_ctx W s1))))
        else if rerr \<noteq> None \<or> transient_status status then
          (if max_attempts \<le> attempt then (s1, Inl (GqlTransient status (int attempt) rerr))
           else (case wi_wait W backoff s1 of
               (s2, Some e) \<Rightarrow> (s2, Inl (GqlEnded e))
             | (s2, None) \<Rightarrow> post_loop W body (Suc attempt) (backoff * 2) s2))
        else if status \<noteq> 200 then (s1, Inl (GqlStatus status (truncate_bytes raw 300)))
        else (case wi_decode W raw of
            Inl e \<Rightarrow> (s1, Inl (GqlDecode e))
          | Inr a \<Rightarrow> (s1, Inr a)))"
  by pat_completeness auto
termination
  by (relation "measure (\<lambda>(W, body, attempt, backoff, s). max_attempts - attempt)") auto

declare post_loop.simps [simp del]

text \<open>A query's outcome: the partial errors and the data, and, where the budget fell below the
  floor, what is left of it; the data comes along with that error.\<close>

record 'd reply =
  rp_partial :: "string list"
  rp_data :: 'd
  rp_budget :: "rate_limit option"

definition below_floor :: "int \<Rightarrow> rate_limit \<Rightarrow> bool" where
  "below_floor floor rl \<longleftrightarrow> floor > 0 \<and> rt_limit rl > 0 \<and> rt_remaining rl < floor"

definition do_query ::
  "('s, 'd) wire \<Rightarrow> string \<Rightarrow> 's \<times> graphql \<Rightarrow> ('s \<times> graphql) \<times> (gql_error + 'd reply)" where
  "do_query W body st = (case st of (s, g) \<Rightarrow>
     (case post_loop W body 1 (2 * second) s of
        (s', Inl e) \<Rightarrow> ((s', g), Inl e)
      | (s', Inr a) \<Rightarrow>
          (case an_data a of
             None \<Rightarrow> ((s', g), Inl (GqlNoData (case an_errors a of [] \<Rightarrow> ''no data'' | m # _ \<Rightarrow> m)))
           | Some (Inl e) \<Rightarrow> ((s', record_usage (an_rate a) g), Inl (GqlDecodeData e))
           | Some (Inr d) \<Rightarrow> ((s', record_usage (an_rate a) g),
               Inr \<lparr>rp_partial = an_errors a, rp_data = d,
                 rp_budget = (if below_floor (gq_floor g) (an_rate a) then Some (an_rate a) else None)\<rparr>))))"

text \<open>The errors' texts.\<close>

fun gql_text :: "gql_error \<Rightarrow> string" where
  "gql_text (GqlEnded e) = e"
| "gql_text (GqlTransient status attempt e) = ''graphql: '' @ show_int status @ '' after '' @ show_int attempt @
     '' attempts: '' @ (case e of None \<Rightarrow> ''<nil>'' | Some t \<Rightarrow> t)"
| "gql_text (GqlStatus status raw) = ''graphql: HTTP '' @ show_int status @ '': '' @ raw"
| "gql_text (GqlDecode e) = ''graphql: decode: '' @ e"
| "gql_text (GqlNoData m) = ''graphql: '' @ m"
| "gql_text (GqlDecodeData e) = ''graphql: decode data: '' @ e"

definition budget_text :: "int \<Rightarrow> rate_limit \<Rightarrow> string" where
  "budget_text floor rl = ''graphql: rate budget below the floor: '' @ show_int (rt_remaining rl) @
     '' remaining (< '' @ show_int floor @ ''), resets '' @ rfc3339 (rt_resetAt rl)"

section \<open>What a query promises\<close>

text \<open>A counter of the world that every post raises by one and nothing else changes.\<close>

definition counts_posts :: "('s, 'd) wire \<Rightarrow> ('s \<Rightarrow> nat) \<Rightarrow> bool" where
  "counts_posts W n \<longleftrightarrow>
     (\<forall>body s. n (fst (wi_post W body s)) = Suc (n s)) \<and> (\<forall>d s. n (fst (wi_wait W d s)) = n s)"

lemma post_loop_posts:
  assumes "counts_posts W n" and "1 \<le> attempt" "attempt \<le> max_attempts"
  shows "n s < n (fst (post_loop W body attempt backoff s)) \<and>
         n (fst (post_loop W body attempt backoff s)) \<le> n s + (Suc max_attempts - attempt) \<and>
         (\<forall>st a e. snd (post_loop W body attempt backoff s) = Inl (GqlTransient st a e) \<longrightarrow>
            a = int max_attempts \<and>
            n (fst (post_loop W body attempt backoff s)) = n s + (Suc max_attempts - attempt))"
  using assms
proof (induction W body attempt backoff s rule: post_loop.induct)
  case (1 W body attempt backoff s)
  obtain s1 status raw rerr where p: "wi_post W body s = (s1, status, raw, rerr)" by (metis prod_cases4)
  have one: "n s1 = Suc (n s)" using 1(2) p unfolding counts_posts_def by (metis fst_conv)
  show ?case
  proof (cases "\<not> (rerr \<noteq> None \<and> wi_ctx W s1 \<noteq> None) \<and> (rerr \<noteq> None \<or> transient_status status) \<and>
      \<not> max_attempts \<le> attempt")
    case True
    obtain s2 w where w: "wi_wait W backoff s1 = (s2, w)" by fastforce
    have two: "n s2 = n s1" using 1(2) w unfolding counts_posts_def by (metis fst_conv)
    show ?thesis
    proof (cases w)
      case None
      have "post_loop W body attempt backoff s = post_loop W body (Suc attempt) (backoff * 2) s2"
        using p w None True by (subst post_loop.simps) auto
      moreover note 1(1) [OF p [symmetric] refl refl _ _ _ w [symmetric] None 1(2)]
      ultimately show ?thesis using True 1(3) one two by auto
    next
      case (Some e)
      have "post_loop W body attempt backoff s = (s2, Inl (GqlEnded e))"
        using p w Some True by (subst post_loop.simps) auto
      then show ?thesis using one two 1(3,4) by simp
    qed
  next
    case False
    have "fst (post_loop W body attempt backoff s) = s1 \<and>
        (\<forall>st a e. snd (post_loop W body attempt backoff s) = Inl (GqlTransient st a e) \<longrightarrow>
           a = int attempt \<and> max_attempts \<le> attempt)"
      using p False by (subst post_loop.simps) (auto split: sum.split if_splits simp: post_loop.simps)
    then show ?thesis using one 1(3,4) by auto
  qed
qed

lemma do_query_posts: "fst (fst (do_query W body (s, g))) = fst (post_loop W body 1 (2 * second) s)"
  by (auto simp: do_query_def split: prod.splits sum.splits option.splits)

lemma post_loop_no_data_error: "snd (post_loop W body attempt backoff s) \<noteq> Inl (GqlDecodeData x)"
proof (induction W body attempt backoff s rule: post_loop.induct)
  case (1 W body attempt backoff s)
  show ?case
    using 1 by (subst post_loop.simps) (auto split: prod.splits sum.splits option.splits)
qed

text \<open>C21.
  A query posts at least once and at most four times; a transient failure is answered only after
  the fourth. It counts as one call of the budget exactly where data came back, whether or not it
  decodes, and otherwise leaves the budget as it was; a reply that says the budget fell below the
  floor carries its data, and the budget the client keeps then is below the floor too.\<close>

theorem query_bounded:
  assumes "counts_posts W n" and "do_query W body (s, g) = ((s', g'), r)"
  shows "n s < n s' \<and> n s' \<le> n s + 4 \<and>
    (case r of
       Inl (GqlTransient st a e) \<Rightarrow> a = 4 \<and> n s' = n s + 4 \<and> g' = g
     | Inl (GqlDecodeData e) \<Rightarrow> bu_calls (gq_usage g') = bu_calls (gq_usage g) + 1
     | Inl _ \<Rightarrow> g' = g
     | Inr reply \<Rightarrow> bu_calls (gq_usage g') = bu_calls (gq_usage g) + 1 \<and>
         (case rp_budget reply of None \<Rightarrow> True
          | Some rl \<Rightarrow> bu_remaining (gq_usage g') = rt_remaining rl \<and>
              bu_remaining (gq_usage g') < gq_floor g' \<and> 0 < bu_limit (gq_usage g')))"
proof -
  obtain s1 p where p: "post_loop W body 1 (2 * second) s = (s1, p)" by fastforce
  have "s' = s1" using do_query_posts [of W body s g] assms(2) p by simp
  moreover have "n s < n s1 \<and> n s1 \<le> n s + 4 \<and>
      (\<forall>st a e. p = Inl (GqlTransient st a e) \<longrightarrow> a = 4 \<and> n s1 = n s + 4)"
    using post_loop_posts [OF assms(1), of 1 s body "2 * second"] p by (simp add: max_attempts_def)
  moreover have "p \<noteq> Inl (GqlDecodeData x)" for x
    using post_loop_no_data_error [of W body 1 "2 * second" s x] p by simp
  ultimately show ?thesis
    using assms(2) p
    by (auto simp: do_query_def record_usage_def below_floor_def Let_def
      split: sum.splits option.splits gql_error.splits if_splits)
qed

definition failing_wire :: "(nat, unit) wire" where
  "failing_wire = \<lparr>wi_post = (\<lambda>body n. (Suc n, 502, [], None)), wi_ctx = (\<lambda>n. None),
     wi_wait = (\<lambda>d n. (n, None)), wi_decode = (\<lambda>raw. Inl [])\<rparr>"

theorem query_bounded_witness:
  "fst (fst (do_query failing_wire [] (0, new_graphql [] 0))) \<le> 4"
proof -
  have "counts_posts failing_wire id" by (simp add: counts_posts_def failing_wire_def)
  from query_bounded [OF this, of "[]" 0 "new_graphql [] 0"] show ?thesis
    by (metis add_0 id_apply prod.collapse)
qed

end
