(* ===== verification/Sources.thy ===== *)
theory Sources
  imports CIFacts CircleCI GraphQL "HOL-Library.AList"
begin

text \<open>
  internal/collect/sources.go: the desired state a sweep compares with, read from the team files,
  the catalog, the apps-to-teams mapping and the org's teams. devctl's reposetup (parsing,
  validating, the schema) is the record \<open>setup_lib\<close> over its declarations \<open>'d\<close> and schemas
  \<open>'h\<close>; yaml.v3 and encoding/json are arguments; the query is a call that answers a page.
  \<open>strings.ToLower\<close> and \<open>strings.EqualFold\<close> fold ASCII letters (logins, e-mail prefixes, team
  slugs).
\<close>

section \<open>The org's automation\<close>

definition renovateBot :: string where "renovateBot = ''renovate''"
definition dependabotBot :: string where "dependabotBot = ''dependabot''"

definition botLogins :: "string list" where
  "botLogins = [renovateBot, ''renovate-bot'', dependabotBot, ''dependabot-preview'',
     ''github-actions'', ''architectbot'', ''taylorbot'', ''heraldbot'', ''catalogbot'',
     ''giantswarm-bot'', ''giantswarm-align-files'', ''pre-commit-ci'',
     ''mend-bolt-for-github'', ''mend-for-github-com'', ''renovate-approve'']"

definition botNames :: "string list" where
  "botNames = [renovateBot, ''renovate bot'', dependabotBot, ''taylorbot'', ''taylor bot'',
     ''architectbot'', ''architect'', ''heraldbot'', ''herald'', ''catalogbot'',
     ''giantswarm-bot'', ''flux'', ''github'', ''github actions'', ''pre-commit-ci'']"

definition botEmailPrefixes :: "string list" where
  "botEmailPrefixes = [renovateBot, dependabotBot, ''architect@'', ''taylorbot@'', ''heraldbot@'',
     ''bot@giantswarm.io'', ''github-actions'', ''noreply@github.com'', ''action@github.com'']"

definition is_bot :: "string \<Rightarrow> string \<Rightarrow> string \<Rightarrow> bool" where
  "is_bot login name email =
     (let l = to_lower login; n = to_lower name; e = to_lower email in
      if l \<noteq> [] then l \<in> set botLogins \<or> has_suffix l ''[bot]''
      else if str_contains n ''[bot]'' \<or> n \<in> set botNames then True
      else list_ex (has_prefix e) botEmailPrefixes)"

definition is_renovate :: "string \<Rightarrow> string \<Rightarrow> string \<Rightarrow> bool" where
  "is_renovate login name email =
     str_contains (to_lower (login @ '' '' @ name @ '' '' @ email)) ''renovate''"

section \<open>CODEOWNERS\<close>

definition org_char :: "char \<Rightarrow> bool" where
  "org_char c \<longleftrightarrow> CHR ''A'' \<le> c \<and> c \<le> CHR ''Z'' \<or> CHR ''a'' \<le> c \<and> c \<le> CHR ''z'' \<or>
     CHR ''0'' \<le> c \<and> c \<le> CHR ''9'' \<or> c = CHR ''-''"

definition team_char :: "char \<Rightarrow> bool" where
  "team_char c \<longleftrightarrow> org_char c \<or> c = CHR ''_'' \<or> c = CHR ''.''"

text \<open>The expression's match right after an at sign: the org, the team and what follows.\<close>

definition team_after :: "string \<Rightarrow> (string \<times> string \<times> string) option" where
  "team_after s =
     (let org = takeWhile org_char s; r = dropWhile org_char s in
      case r of
        [] \<Rightarrow> None
      | c # t \<Rightarrow>
          if org = [] \<or> c \<noteq> CHR ''/'' \<or> takeWhile team_char t = [] then None
          else Some (org, takeWhile team_char t, dropWhile team_char t))"

lemma team_after_shorter: "team_after s = Some (org, team, r) \<Longrightarrow> length r < Suc (length s)"
proof -
  assume "team_after s = Some (org, team, r)"
  then obtain c t where "dropWhile org_char s = c # t" "r = dropWhile team_char t"
    by (auto simp: team_after_def Let_def split: list.splits if_splits)
  then show ?thesis
    using length_dropWhile_le [of org_char s] length_dropWhile_le [of team_char t] by simp
qed

text \<open>\<open>FindAllStringSubmatch\<close>: the matches from left to right, none overlapping another.\<close>

function find_teams :: "string \<Rightarrow> (string \<times> string) list" where
  "find_teams [] = []"
| "find_teams (c # s) =
     (if c = CHR ''@'' then
        (case team_after s of
           Some (org, team, r) \<Rightarrow> (org, team) # find_teams r
         | None \<Rightarrow> find_teams s)
      else find_teams s)"
  by pat_completeness auto
termination
  by (relation "measure length") (auto dest: team_after_shorter)

definition codeowners_teams :: "string \<Rightarrow> string list \<Rightarrow> string list" where
  "codeowners_teams org texts =
     sort (remdups (map (\<lambda>(o', t). to_lower t)
       (filter (\<lambda>(o', t). to_lower o' = to_lower org) (concat (map find_teams texts)))))"

section \<open>Renovate's configuration\<close>

definition renovatePaths :: "string list" where
  "renovatePaths = [''renovate.json5'', ''renovate.json'', ''.github/renovate.json5'',
     ''.github/renovate.json'', ''.renovaterc'', ''.renovaterc.json'']"

text \<open>The four replacements, each a scan from the left: block comments (up to the first end; one
  without an end stays), line comments, a comma before a closing bracket, a bare key.\<close>

definition re_space :: "char \<Rightarrow> bool" where
  "re_space c \<longleftrightarrow> of_char c \<in> {9::nat, 10, 12, 13, 32}"

function strip_blocks :: "string \<Rightarrow> string" where
  "strip_blocks s =
     (case s of [] \<Rightarrow> [] | c # cs \<Rightarrow>
        if has_prefix s ''/*'' then
          (case str_index (drop 2 s) ''*/'' of
             None \<Rightarrow> c # strip_blocks cs
           | Some i \<Rightarrow> strip_blocks (drop (i + 4) s))
        else c # strip_blocks cs)"
  by pat_completeness auto
termination
  by (relation "measure length") auto

fun strip_line_comment :: "string \<Rightarrow> string" where
  "strip_line_comment s = (case str_index s ''//'' of None \<Rightarrow> s | Some i \<Rightarrow> take i s)"

definition newline :: char where "newline = CHR 0x0A"

definition strip_lines :: "string \<Rightarrow> string" where
  "strip_lines s = str_join (map strip_line_comment (split_on newline s)) [newline]"

fun strip_commas :: "string \<Rightarrow> string" where
  "strip_commas [] = []"
| "strip_commas (c # cs) =
     (if c = CHR '','' \<and> (case dropWhile re_space cs of [] \<Rightarrow> False | d # _ \<Rightarrow> d = CHR ''}'' \<or> d = CHR '']'')
      then strip_commas cs else c # strip_commas cs)"

definition key_start :: "char \<Rightarrow> bool" where
  "key_start c \<longleftrightarrow> CHR ''A'' \<le> c \<and> c \<le> CHR ''Z'' \<or> CHR ''a'' \<le> c \<and> c \<le> CHR ''z'' \<or>
     c = CHR ''_'' \<or> c = CHR ''$''"

definition key_char :: "char \<Rightarrow> bool" where
  "key_char c \<longleftrightarrow> key_start c \<or> CHR ''0'' \<le> c \<and> c \<le> CHR ''9''"

definition quote_char :: char where "quote_char = CHR 0x22"

text \<open>The match after an opening brace or a comma: white space, key, and what follows the colon.\<close>

definition bare_key :: "string \<Rightarrow> (string \<times> string \<times> string) option" where
  "bare_key s =
     (let sp = takeWhile re_space s; k = dropWhile re_space s; key = takeWhile key_char k;
          r = dropWhile re_space (dropWhile key_char k)
      in if key = [] \<or> \<not> key_start (hd key) then None
         else (case r of [] \<Rightarrow> None | c # t \<Rightarrow> if c = CHR '':'' then Some (sp, key, t) else None))"

lemma bare_key_shorter: "bare_key s = Some (sp, key, t) \<Longrightarrow> length t < Suc (length s)"
proof -
  assume "bare_key s = Some (sp, key, t)"
  then obtain c where "dropWhile re_space (dropWhile key_char (dropWhile re_space s)) = c # t"
    by (auto simp: bare_key_def Let_def split: list.splits if_splits)
  then have "Suc (length t) \<le> length s"
    by (metis length_Cons length_dropWhile_le order_trans)
  then show ?thesis by simp
qed

function quote_keys :: "string \<Rightarrow> string" where
  "quote_keys [] = []"
| "quote_keys (c # cs) =
     (if c = CHR ''{'' \<or> c = CHR '','' then
        (case bare_key cs of
           None \<Rightarrow> c # quote_keys cs
         | Some (sp, key, t) \<Rightarrow> c # sp @ [quote_char] @ key @ [quote_char, CHR '':''] @ quote_keys t)
      else c # quote_keys cs)"
  by pat_completeness auto
termination
  by (relation "measure length") (auto dest: bare_key_shorter)

text \<open>\<open>(?m)^\s{0,2}["']?enabled["']?\s*:\s*false\<close> at one line's start; white space may run over
  the line's end.\<close>

definition opt_quote :: "string \<Rightarrow> string" where
  "opt_quote s = (case s of [] \<Rightarrow> [] | c # t \<Rightarrow> if c = quote_char \<or> c = CHR 0x27 then t else s)"

definition disabled_here :: "string \<Rightarrow> bool" where
  "disabled_here s =
     (let a = dropWhile re_space s; b = opt_quote a in
      length (takeWhile re_space s) \<le> 2 \<and> has_prefix b ''enabled'' \<and>
      (let c = dropWhile re_space (opt_quote (drop 7 b)) in
       has_prefix c '':'' \<and> has_prefix (dropWhile re_space (drop 1 c)) ''false''))"

fun disabled_lines :: "string \<Rightarrow> bool" where
  "disabled_lines [] = False"
| "disabled_lines (c # cs) = (c = newline \<and> disabled_here cs \<or> disabled_lines cs)"

definition renovate_disabled :: "string \<Rightarrow> bool" where
  "renovate_disabled s \<longleftrightarrow> disabled_here s \<or> disabled_lines s"

definition clean_json5 :: "string \<Rightarrow> string" where
  "clean_json5 text = quote_keys (strip_commas (strip_lines (strip_blocks text)))"

definition renovate_state :: "(string \<Rightarrow> ymap option) \<Rightarrow> string \<Rightarrow> string \<Rightarrow> renovate" where
  "renovate_state json path text =
     zero_renovate\<lparr>rn_configured := True, rn_path := path,
       rn_preset := str_contains text ''giantswarm/renovate-presets'',
       rn_enabled := (case json (clean_json5 text) of
           Some cfg \<Rightarrow> (case map_of cfg ''enabled'' of Some (YBool b) \<Rightarrow> b | _ \<Rightarrow> True)
         | None \<Rightarrow> \<not> renovate_disabled text)\<rparr>"

section \<open>The sources\<close>

definition TeamFilesRepository :: string where "TeamFilesRepository = ''github''"
definition TeamFilesDir :: string where "TeamFilesDir = ''repositories''"

text \<open>devctl's verdict on an entry; \<open>ev_body\<close> is the rest of its \<open>Entry\<close>, which only the engine
  reads. \<open>no_verdict\<close> is the zero value.\<close>

record 'd entry_verdict =
  ev_name :: string
  ev_accepted :: bool
  ev_problems :: "(string \<times> string) list"
  ev_body :: "'d option"

definition no_verdict :: "'d entry_verdict" where
  "no_verdict = \<lparr>ev_name = [], ev_accepted = False, ev_problems = [], ev_body = None\<rparr>"

record ('d, 'h) setup_lib =
  sl_team_of :: "string \<Rightarrow> string"
  sl_parse :: "string \<Rightarrow> string \<Rightarrow> string + string \<times> 'd list"
  sl_name :: "'d \<Rightarrow> string"
  sl_yaml :: "'d \<Rightarrow> string"
  sl_instance :: "'d \<Rightarrow> yval option"
  sl_compile :: "string \<Rightarrow> string + 'h"
  sl_validate :: "'h \<Rightarrow> string \<Rightarrow> string \<Rightarrow> 'd list \<Rightarrow> string + 'd entry_verdict list"
  sl_problems :: "'h \<Rightarrow> yval \<Rightarrow> (string \<times> string) list"

record 'd declared =
  dc_declaration :: team_declaration
  dc_entry :: "'d entry_verdict"

record ('d, 'o) sources =
  so_teams :: "string list"
  so_declarations :: "(string \<times> 'd declared) list"
  so_catalog :: "string list"
  so_mapping :: "(string \<times> string) list"
  so_ref :: string
  so_overrides :: "'o option"
  so_problems :: "string list"

definition no_sources :: "('d, 'o) sources" where
  "no_sources = \<lparr>so_teams = [], so_declarations = [], so_catalog = [], so_mapping = [], so_ref = [],
     so_overrides = None, so_problems = []\<rparr>"

record tree_entry =
  te_name :: string
  te_type :: string
  te_object :: "string option"

record github_data =
  gd_head :: "string option"
  gd_teamFiles :: "tree_entry list option"
  gd_schema :: "string option"
  gd_catalog :: "string option"

record page_info =
  pg_hasNextPage :: bool
  pg_endCursor :: string

record sources_data =
  sd_teams :: "string list"
  sd_page :: page_info
  sd_github :: "github_data option"
  sd_mapping :: "string option"

datatype sources_error =
    SourcesQuery gql_error
  | NoTeamFiles
  | NoHead
  | NoEngineSchema
  | NoSchemaAtHead
  | SchemaNotCompiled string string
  | OverridesNotListed string

section \<open>One declaration\<close>

definition unknown_fields :: "('d, 'h) setup_lib \<Rightarrow> 'h \<Rightarrow> 'd \<Rightarrow> string list" where
  "unknown_fields L engine d = (case sl_instance L d of
      None \<Rightarrow> []
    | Some inst \<Rightarrow> sort (remdups (map fst (sl_problems L engine inst))))"

definition fill_declaration :: "('d, 'h) setup_lib \<Rightarrow> 'd \<Rightarrow> team_declaration \<Rightarrow> team_declaration" where
  "fill_declaration L decl d = (case sl_instance L decl of
      None \<Rightarrow> d
    | Some inst \<Rightarrow>
        (let m = as_map (Some inst);
             d1 = d\<lparr>d_componentType := as_str (map_of m ''componentType''),
                    d_lifecycle := as_str (map_of m ''lifecycle'')\<rparr>
         in case map_of m ''gen'' of
              Some (YMap gen) \<Rightarrow>
                (let d2 = d1\<lparr>d_language := as_str (map_of gen ''language''),
                       d_flavours := d_flavours d1 @
                         concat (map (\<lambda>f. case f of YStr s \<Rightarrow> [s] | _ \<Rightarrow> []) (as_list (map_of gen ''flavours'')))\<rparr>
                 in case map_of gen ''ci'' of
                      Some (YMap ci) \<Rightarrow> d2\<lparr>
                        d_ciGenerate := (case map_of ci ''generate'' of Some (YBool g) \<Rightarrow> Some g | _ \<Rightarrow> d_ciGenerate d2),
                        d_releaseWorkflow := as_str (map_of ci ''releaseWorkflow'')\<rparr>
                    | _ \<Rightarrow> d2)
            | _ \<Rightarrow> d1))"

definition verdict_of :: "'d entry_verdict list \<Rightarrow> string \<Rightarrow> 'd entry_verdict" where
  "verdict_of vs name = (case find (\<lambda>v. ev_name v = name) (rev vs) of None \<Rightarrow> no_verdict | Some v \<Rightarrow> v)"

definition declared_of ::
  "('d, 'h) setup_lib \<Rightarrow> 'h \<Rightarrow> string \<Rightarrow> string \<Rightarrow> 'd entry_verdict list \<Rightarrow> 'd \<Rightarrow> 'd declared" where
  "declared_of L engine team file vs d =
     (let v = verdict_of vs (sl_name L d);
          decl = zero_declaration\<lparr>d_team := team, d_file := file, d_entry := sl_yaml L d,
            d_accepted := ev_accepted v, d_problems := map (\<lambda>(f, m). f @ '': '' @ m) (ev_problems v),
            d_unknownFields := (if ev_accepted v then unknown_fields L engine d else [])\<rparr>
      in \<lparr>dc_declaration = fill_declaration L d decl, dc_entry = v\<rparr>)"

section \<open>The team files\<close>

definition add_declaration ::
  "('d, 'h) setup_lib \<Rightarrow> 'h \<Rightarrow> string \<Rightarrow> string \<Rightarrow> 'd entry_verdict list \<Rightarrow> 'd \<Rightarrow> ('d, 'o) sources \<Rightarrow> ('d, 'o) sources" where
  "add_declaration L engine team file vs d src =
     src\<lparr>so_problems := so_problems src @ (case map_of (so_declarations src) (sl_name L d) of
            None \<Rightarrow> []
          | Some prev \<Rightarrow> [sl_name L d @ '' is declared twice: '' @ d_file (dc_declaration prev) @ '' and '' @ file]),
        so_declarations := AList.update (sl_name L d) (declared_of L engine team file vs d) (so_declarations src)\<rparr>"

definition read_team_file ::
  "('d, 'h) setup_lib \<Rightarrow> string \<Rightarrow> 'h \<Rightarrow> 'h \<Rightarrow> tree_entry \<Rightarrow> ('d, 'o) sources \<Rightarrow> ('d, 'o) sources" where
  "read_team_file L org engine schema e src =
     (if te_type e \<noteq> ''blob'' \<or> \<not> has_suffix (te_name e) ''.yaml'' then src
      else (case te_object e of None \<Rightarrow> src | Some text \<Rightarrow>
        (let file = TeamFilesDir @ ''/'' @ te_name e in
         case sl_parse L (sl_team_of L file) text of
           Inl err \<Rightarrow> src\<lparr>so_problems := so_problems src @ [file @ '': '' @ err]\<rparr>
         | Inr (team, ds) \<Rightarrow>
             (case sl_validate L schema org team ds of
                Inl err \<Rightarrow> src\<lparr>so_problems := so_problems src @ [file @ '': validate: '' @ err]\<rparr>
              | Inr vs \<Rightarrow> fold (add_declaration L engine team file vs) ds src))))"

text \<open>The catalog's documents up to its end or the first that does not decode: kind and name.\<close>

definition catalog_names :: "(string \<Rightarrow> (string \<times> string) list) \<Rightarrow> string \<Rightarrow> string list" where
  "catalog_names docs text =
     remdups (map snd (filter (\<lambda>(kind, name). kind = ''Component'' \<and> name \<noteq> []) (docs text)))"

text \<open>The ConfigMap's data, \<open>None\<close> where it does not decode or has none.\<close>

definition mapping_teams :: "(string \<Rightarrow> (string \<times> string) list option) \<Rightarrow> string \<Rightarrow> (string \<times> string) list" where
  "mapping_teams cm text = (case cm text of None \<Rightarrow> [] | Some data \<Rightarrow> data)"

text \<open>The schema compiled last, with the document it was compiled from.\<close>

type_synonym 'h schema_cache = "(string \<times> 'h) option"

definition declared_schema ::
  "('d, 'h) setup_lib \<Rightarrow> string \<Rightarrow> 'h schema_cache \<Rightarrow> 'h schema_cache \<times> (string + 'h)" where
  "declared_schema L doc cache = (case cache of
      Some (doc', schema) \<Rightarrow>
        if doc' = doc then (cache, Inr schema)
        else (case sl_compile L doc of Inl e \<Rightarrow> (cache, Inl e) | Inr s \<Rightarrow> (Some (doc, s), Inr s))
    | None \<Rightarrow> (case sl_compile L doc of Inl e \<Rightarrow> (cache, Inl e) | Inr s \<Rightarrow> (Some (doc, s), Inr s)))"

record yaml_lib =
  yl_catalog :: "string \<Rightarrow> (string \<times> string) list"
  yl_mapping :: "string \<Rightarrow> (string \<times> string) list option"

definition fill_sources ::
  "('d, 'h) setup_lib \<Rightarrow> yaml_lib \<Rightarrow> string \<Rightarrow> 'h \<Rightarrow> 'h \<Rightarrow> tree_entry list \<Rightarrow> string option \<Rightarrow> string option \<Rightarrow>
   ('d, 'o) sources \<Rightarrow> ('d, 'o) sources" where
  "fill_sources L Y org engine schema files catalog mapping src =
     (let src1 = fold (read_team_file L org engine schema) files src;
          src2 = (case catalog of
              Some text \<Rightarrow> src1\<lparr>so_catalog := catalog_names (yl_catalog Y) text\<rparr>
            | None \<Rightarrow> src1\<lparr>so_problems := so_problems src1 @ [''catalog file missing'']\<rparr>)
      in case mapping of
           Some text \<Rightarrow> src2\<lparr>so_mapping := mapping_teams (yl_mapping Y) text\<rparr>
         | None \<Rightarrow> src2\<lparr>so_problems := so_problems src2 @ [''apps-to-teams mapping missing'']\<rparr>)"

definition parse_sources ::
  "('d, 'h) setup_lib \<Rightarrow> yaml_lib \<Rightarrow> string \<Rightarrow> 'h option \<Rightarrow> sources_data \<Rightarrow> ('d, 'o) sources \<Rightarrow> 'h schema_cache \<Rightarrow>
   'h schema_cache \<times> (sources_error + ('d, 'o) sources)" where
  "parse_sources L Y org engine data src cache = (case sd_github data of
      None \<Rightarrow> (cache, Inl NoTeamFiles)
    | Some gh \<Rightarrow> (case gd_teamFiles gh of
        None \<Rightarrow> (cache, Inl NoTeamFiles)
      | Some files \<Rightarrow>
          (let ref = (case gd_head gh of None \<Rightarrow> [] | Some oid \<Rightarrow> oid) in
           if ref = [] then (cache, Inl NoHead)
           else (case (engine, gd_schema gh) of
               (None, _) \<Rightarrow> (cache, Inl NoEngineSchema)
             | (Some _, None) \<Rightarrow> (cache, Inl NoSchemaAtHead)
             | (Some eng, Some doc) \<Rightarrow> (case declared_schema L doc cache of
                 (cache', Inl e) \<Rightarrow> (cache', Inl (SchemaNotCompiled ref e))
               | (cache', Inr schema) \<Rightarrow>
                   (cache', Inr (fill_sources L Y org eng schema files (gd_catalog gh) (sd_mapping data)
                     (src\<lparr>so_ref := ref\<rparr>))))))))"

section \<open>The query's pages\<close>

text \<open>
  The teams come in pages; the team files are read with the first. The query takes the cursor of
  the page before. The result is the sources, with what is left of the budget where it fell below
  the floor; \<open>None\<close> is a listing whose pages never end.
\<close>

definition list_overrides ::
  "(string \<Rightarrow> ('s, string, 'o) io) \<Rightarrow> string \<Rightarrow> ('s, sources_error, 'o) io" where
  "list_overrides remote ref = io_wrap OverridesNotListed (remote ref)"

definition first_page ::
  "('d, 'h) setup_lib \<Rightarrow> yaml_lib \<Rightarrow> string \<Rightarrow> 'h option \<Rightarrow> (string \<Rightarrow> ('s, string, 'o) io) \<Rightarrow> sources_data \<Rightarrow>
   ('d, 'o) sources \<Rightarrow> ('s \<times> 'h schema_cache, sources_error, ('d, 'o) sources) io" where
  "first_page L Y org engine remote data src st = (case st of (s, cache) \<Rightarrow>
     (case parse_sources L Y org engine data src cache of
        (cache', Inl e) \<Rightarrow> ((s, cache'), Inl e)
      | (cache', Inr src') \<Rightarrow> (case list_overrides remote (so_ref src') s of
          (s', Inl e) \<Rightarrow> ((s', cache'), Inl e)
        | (s', Inr ov) \<Rightarrow> ((s', cache'), Inr (src'\<lparr>so_overrides := Some ov\<rparr>)))))"

partial_function (option) fetch_pages ::
  "('d, 'h) setup_lib \<Rightarrow> yaml_lib \<Rightarrow> string \<Rightarrow> 'h option \<Rightarrow> (string \<Rightarrow> ('s, string, 'o) io) \<Rightarrow>
   (string option \<Rightarrow> ('s, gql_error, sources_data reply) io) \<Rightarrow> string option \<Rightarrow> ('d, 'o) sources \<Rightarrow>
   's \<times> 'h schema_cache \<Rightarrow>
   (('s \<times> 'h schema_cache) \<times> (sources_error + ('d, 'o) sources \<times> rate_limit option)) option" where
  "fetch_pages L Y org engine remote query after src st =
     (case query after (fst st) of
        (s1, Inl e) \<Rightarrow> Some ((s1, snd st), Inl (SourcesQuery e))
      | (s1, Inr rep) \<Rightarrow>
          (let data = rp_data rep;
               src1 = src\<lparr>so_problems := so_problems src @ rp_partial rep,
                 so_teams := remdups (so_teams src @ sd_teams data)\<rparr>
           in case (if after = None then first_page L Y org engine remote data src1 (s1, snd st)
                    else ((s1, snd st), Inr src1)) of
                (st', Inl e) \<Rightarrow> Some (st', Inl e)
              | (st', Inr src2) \<Rightarrow>
                  if rp_budget rep \<noteq> None then Some (st', Inr (src2, rp_budget rep))
                  else if \<not> pg_hasNextPage (sd_page data) then Some (st', Inr (src2, None))
                  else fetch_pages L Y org engine remote query (Some (pg_endCursor (sd_page data))) src2 st'))"

definition fetch_sources where
  "fetch_sources L Y org engine remote query st =
     fetch_pages L Y org engine remote query None no_sources st"

end
