(* ===== verification/Reality.thy ===== *)
theory Reality
  imports Sources
begin

text \<open>
  internal/collect/collect.go, what a sweep makes of a repository: the GraphQL node of a repository
  (\<open>repo_node\<close>, its nested one-field structs flattened), its reality and Renovate state, and the
  record \<open>build\<close> assembles from it. A blob is its text, an id node whether it is there.
\<close>

section \<open>The node\<close>

record align_files_node =
  an_number :: int
  an_url :: string
  an_state :: string
  an_createdAt :: time
  an_closedAt :: "time option"
  an_mergedAt :: "time option"
  an_author :: "string option"
  an_commits :: "time list"

record pr_node =
  pn_number :: int
  pn_title :: string
  pn_createdAt :: time
  pn_headRefName :: string
  pn_author :: "string option"

record commit_node =
  cn_committedDate :: time
  cn_message :: string
  cn_name :: string
  cn_email :: string
  cn_user :: "string option"

record branch_target =
  bt_history :: "commit_node list option"
  bt_rollup :: "status_rollup option"

record branch_ref =
  br_name :: string
  br_target :: "branch_target option"

record node_release =
  nl_tagName :: string
  nl_publishedAt :: time
  nl_tagCommit :: "status_rollup option option"

record repo_node =
  nd_name :: string
  nd_url :: string
  nd_description :: string
  nd_visibility :: string
  nd_isArchived :: bool
  nd_isFork :: bool
  nd_isTemplate :: bool
  nd_isEmpty :: bool
  nd_createdAt :: time
  nd_pushedAt :: time
  nd_language :: "string option"
  nd_topics :: "string list"
  nd_latestRelease :: "node_release option"
  nd_openIssues :: int
  nd_oldestIssues :: "issue list"
  nd_openPRs :: int
  nd_prs :: "pr_node list"
  nd_alignFilesPRs :: "align_files_node list"
  nd_defaultBranchRef :: "branch_ref option"
  nd_codeowners :: "string option"
  nd_codeownersGh :: "string option"
  nd_codeownersDocs :: "string option"
  nd_renovate :: "string option list"
  nd_dependabot :: bool
  nd_ciConfig :: "string option"
  nd_ciWorkflows :: "string option"
  nd_ciCustom :: "string option"
  nd_workflows :: "string list option"
  nd_readme :: bool
  nd_dockerfile :: bool
  nd_helm :: bool

section \<open>The set-up automation's pull requests\<close>

definition alignFilesBranch :: string where "alignFilesBranch = ''teams-alignment-branch''"
definition alignFilesLogin :: string where "alignFilesLogin = ''giantswarm-align-files''"

definition is_onboarding :: "string \<Rightarrow> string \<Rightarrow> string \<Rightarrow> bool" where
  "is_onboarding head title login =
     (let t = to_lower title in
      has_prefix head ''reposetup/'' \<or> has_prefix head ''renovate/configure'' \<or>
      (login = alignFilesLogin \<and> (head = alignFilesBranch \<or> str_contains t ''align'')) \<or>
      str_contains t ''configure renovate'')"

definition align_files_pr :: "align_files_node \<Rightarrow> align_files_pull_request option" where
  "align_files_pr p =
     (if an_author p \<noteq> Some alignFilesLogin then None
      else
        (let pr = \<lambda>state. Some \<lparr>af_number = an_number p, af_url = an_url p, af_state = state,
               af_createdAt = an_createdAt p, af_closedAt = an_closedAt p, af_mergedAt = an_mergedAt p,
               af_lastCommitAt = (case an_commits p of [] \<Rightarrow> None | t # _ \<Rightarrow> Some t)\<rparr>
         in if an_state p = ''OPEN'' then pr PullRequestOpen
            else if an_state p = ''MERGED'' then pr PullRequestMerged
            else if an_state p = ''CLOSED'' then pr PullRequestClosed
            else None))"

definition blob_text :: "string option \<Rightarrow> string" where
  "blob_text b = (case b of None \<Rightarrow> [] | Some t \<Rightarrow> t)"

fun first_non_empty :: "string list \<Rightarrow> string" where
  "first_non_empty [] = []"
| "first_non_empty (s # ss) = (if s \<noteq> [] then s else first_non_empty ss)"

section \<open>Reality\<close>

definition node_presence :: "repo_node \<Rightarrow> presence" where
  "node_presence n = zero_presence\<lparr>
     has_dependabot := nd_dependabot n,
     has_circleci := nd_ciConfig n \<noteq> None \<or> nd_ciWorkflows n \<noteq> None,
     has_dockerfile := nd_dockerfile n, has_helm := nd_helm n, has_readme := nd_readme n,
     has_workflows := (case nd_workflows n of None \<Rightarrow> False | Some es \<Rightarrow> length es > 0),
     has_codeowners := nd_codeowners n \<noteq> None \<or> nd_codeownersGh n \<noteq> None \<or> nd_codeownersDocs n \<noteq> None\<rparr>"

definition node_renovate :: "(string \<Rightarrow> ymap option) \<Rightarrow> repo_node \<Rightarrow> renovate option" where
  "node_renovate json n = (case filter (\<lambda>(path, b). b \<noteq> None) (zip renovatePaths (nd_renovate n)) of
      [] \<Rightarrow> None | (path, b) # _ \<Rightarrow> Some (renovate_state json path (blob_text b)))"

definition dashboard :: "issue list \<Rightarrow> issue option" where
  "dashboard is = find (\<lambda>i. to_lower (iss_title i) = ''dependency dashboard'') is"

definition count_pr :: "pr_node \<Rightarrow> pull_requests \<times> renovate \<Rightarrow> pull_requests \<times> renovate" where
  "count_pr p acc = (case acc of (prs, ren) \<Rightarrow>
     (let login = (case pn_author p of None \<Rightarrow> [] | Some l \<Rightarrow> l);
          pr = \<lparr>pr_number = pn_number p, pr_title = pn_title p, pr_author = login, pr_createdAt = pn_createdAt p\<rparr>;
          onboarding = (if is_onboarding (pn_headRefName p) (pn_title p) login then [pr] else []);
          renovates = is_renovate login [] [];
          prs' = (if is_bot login [] []
            then prs\<lparr>prs_bots := prs_bots prs + 1,
                   prs_oldestBotAt := (case prs_oldestBotAt prs of None \<Rightarrow> Some (pn_createdAt p)
                     | Some t \<Rightarrow> if pn_createdAt p < t then Some (pn_createdAt p) else Some t),
                   prs_renovate := prs_renovate prs + (if renovates then 1 else 0)\<rparr>
            else prs);
          ren' = (if is_bot login [] [] \<and> renovates \<and>
                (case rn_lastPullRequest ren of None \<Rightarrow> True | Some q \<Rightarrow> pn_createdAt p > pr_createdAt q)
            then ren\<lparr>rn_lastPullRequest := Some pr\<rparr> else ren)
      in (prs'\<lparr>prs_onboarding := prs_onboarding prs' @ onboarding\<rparr>, ren')))"

definition node_pull_requests :: "repo_node \<Rightarrow> renovate \<Rightarrow> pull_requests \<times> renovate" where
  "node_pull_requests n ren =
     (case fold count_pr (nd_prs n) (zero_pull_requests\<lparr>prs_total := nd_openPRs n\<rparr>, ren) of
        (prs, ren') \<Rightarrow> (prs\<lparr>prs_people := max 0 (prs_total prs - prs_bots prs)\<rparr>, ren'))"

definition count_commit :: "commit_node \<Rightarrow> reality \<times> renovate \<Rightarrow> reality \<times> renovate" where
  "count_commit c acc = (case acc of (r, ren) \<Rightarrow>
     (let login = (case cn_user c of None \<Rightarrow> [] | Some l \<Rightarrow> l);
          cm = \<lparr>cm_date = cn_committedDate c, cm_author = first_non_empty [login, cn_name c, cn_email c],
            cm_message = cn_message c\<rparr>;
          r1 = (if re_lastCommit r = None then r\<lparr>re_lastCommit := Some cm\<rparr> else r)
      in if is_bot login (cn_name c) (cn_email c) then
           (r1\<lparr>re_botCommits := re_botCommits r1 + 1\<rparr>,
            if rn_lastCommit ren = None \<and> is_renovate login (cn_name c) (cn_email c)
            then ren\<lparr>rn_lastCommit := Some (cn_committedDate c)\<rparr> else ren)
         else (if re_lastPersonCommit r1 = None then r1\<lparr>re_lastPersonCommit := Some cm\<rparr> else r1, ren)))"

definition node_history :: "repo_node \<Rightarrow> commit_node list option" where
  "node_history n = Option.bind (nd_defaultBranchRef n) (\<lambda>b. Option.bind (br_target b) bt_history)"

definition node_latest_release :: "repo_node \<Rightarrow> release option" where
  "node_latest_release n = map_option (\<lambda>l.
     (case release_build (nl_tagCommit l) of (b, truncated) \<Rightarrow>
        \<lparr>rl_tag = nl_tagName l, rl_publishedAt = nl_publishedAt l, rl_build = b, rl_buildTruncated = truncated\<rparr>))
     (nd_latestRelease n)"

definition node_codeowners :: "string \<Rightarrow> repo_node \<Rightarrow> string list" where
  "node_codeowners org n = codeowners_teams org
     [blob_text (nd_codeowners n), blob_text (nd_codeownersGh n), blob_text (nd_codeownersDocs n)]"

definition unknown_teams :: "string list \<Rightarrow> string list \<Rightarrow> string list" where
  "unknown_teams teams slugs = (if length teams > 0 then filter (\<lambda>t. t \<notin> set teams) slugs else [])"

definition node_reality ::
  "(string \<Rightarrow> ymap option) \<Rightarrow> string \<Rightarrow> string list \<Rightarrow> repo_node \<Rightarrow> reality \<times> renovate" where
  "node_reality json org teams n =
     (let ren0 = (case node_renovate json n of None \<Rightarrow> zero_renovate | Some r \<Rightarrow> r)
            \<lparr>rn_dashboardIssue := dashboard (nd_oldestIssues n)\<rparr>
      in case node_pull_requests n ren0 of (prs, ren1) \<Rightarrow>
        (let r = zero_reality\<lparr>re_url := nd_url n, re_description := nd_description n,
               re_visibility := to_lower (nd_visibility n), re_isArchived := nd_isArchived n,
               re_isFork := nd_isFork n, re_isTemplate := nd_isTemplate n, re_isEmpty := nd_isEmpty n,
               re_createdAt := nd_createdAt n, re_pushedAt := nd_pushedAt n, re_openIssues := nd_openIssues n,
               re_language := blob_text (nd_language n), re_topics := nd_topics n,
               re_latestRelease := node_latest_release n,
               re_defaultBranch := (case nd_defaultBranchRef n of None \<Rightarrow> [] | Some b \<Rightarrow> br_name b),
               re_alignFiles := (case nd_alignFilesPRs n of [] \<Rightarrow> None | p # _ \<Rightarrow> align_files_pr p),
               re_has := (node_presence n)\<lparr>has_renovate := node_renovate json n \<noteq> None\<rparr>,
               re_codeownersTeams := node_codeowners org n,
               re_unknownCodeownersTeams := unknown_teams teams (node_codeowners org n),
               re_openPullRequests := prs\<rparr>
         in case node_history n of
              None \<Rightarrow> (r, ren1)
            | Some h \<Rightarrow> fold count_commit h (r\<lparr>re_historySampled := int (length h)\<rparr>, ren1)))"

section \<open>The record\<close>

text \<open>\<open>ciFacts\<close> and \<open>circleCI\<close> on the node: the setting's visibility, the rollup of the head.\<close>

definition node_ci :: "(string \<Rightarrow> string + ymap) \<Rightarrow> repo_node \<Rightarrow> reality \<Rightarrow> ci option" where
  "node_ci unmarshal n re = ci_facts unmarshal (nd_ciConfig n, nd_ciWorkflows n, nd_ciCustom n)
     (to_lower (re_visibility re) = ''public'')"

definition node_rollup :: "repo_node \<Rightarrow> status_rollup option" where
  "node_rollup n = Option.bind (nd_defaultBranchRef n) (\<lambda>b. Option.bind (br_target b) bt_rollup)"

record node_lib =
  lb_json :: "string \<Rightarrow> ymap option"
  lb_yaml :: "string \<Rightarrow> string + ymap"

definition with_node ::
  "engine \<Rightarrow> node_lib \<Rightarrow> string \<Rightarrow> string list \<Rightarrow> repo_node option \<Rightarrow> repo_record \<Rightarrow> repo_record" where
  "with_node E B org teams node rec = (case node of
      None \<Rightarrow> rec
    | Some n \<Rightarrow> (case node_reality (lb_json B) org teams n of (re, ren) \<Rightarrow>
        rec\<lparr>rc_reality := Some re, rc_renovate := ren, rc_ci := node_ci (lb_yaml B) n re\<rparr>))"

definition build ::
  "engine \<Rightarrow> node_lib \<Rightarrow> string \<Rightarrow> string \<Rightarrow> repo_node option \<Rightarrow> ('d, 'o) sources \<Rightarrow> repo_record option \<Rightarrow>
   last_run option \<Rightarrow> repo_record" where
  "build E B org name node src old run =
     (let r0 = zero_record\<lparr>rc_repository := org @ ''/'' @ name, rc_name := name,
            rc_declaration := map_option dc_declaration (map_of (so_declarations src) name)\<rparr>;
          r1 = with_node E B org (so_teams src) node r0;
          r2 = r1\<lparr>rc_catalog := \<lparr>ca_present = name \<in> set (so_catalog src)\<rparr>,
                rc_mapping := (case map_of (so_mapping src) name of
                    None \<Rightarrow> \<lparr>mp_present = False, mp_team = []\<rparr>
                  | Some team \<Rightarrow> \<lparr>mp_present = True, mp_team = team\<rparr>),
                rc_setup := (case old of None \<Rightarrow> zero_setup | Some o' \<Rightarrow> rc_setup o')\<rparr>;
          r3 = (case run of None \<Rightarrow> r2
            | Some lr \<Rightarrow> r2\<lparr>rc_setup := (rc_setup r2)\<lparr>su_lastRun := Some lr, su_pendingRun := None,
                su_missingRun := None\<rparr>\<rparr>)
      in case node of None \<Rightarrow> r3
         | Some n \<Rightarrow> r3\<lparr>rc_circleci := Some (circleci_of E (node_rollup n) (su_lastRun (rc_setup r3)))\<rparr>)"

end
