(* ===== verification/Store.thy ===== *)
theory Store
  imports RecordOps
begin

text \<open>
  internal/inventory/store.go: the Valkey-backed store of the records. Valkey and its client
  are not part of the repository: a record \<open>valkey\<close> of functions over an abstract server state
  \<open>'s\<close>, one field per command the store sends, is an argument of every operation; so is the
  JSON encoding of a value (\<open>codec\<close>). \<open>valkey_ok\<close> and \<open>codec_ok\<close> state the documented
  behaviour the theorems use. The two Lua scripts are text of the repository: they are
  translated over the \<open>redis.call\<close> commands they make.
\<close>

section \<open>The client, the server and the encoding\<close>

text \<open>What a command can answer beside its value: a reply that is an error, a nil, the
  caller's context ending, or a transport error.\<close>

datatype vk_error = VkReply string | VkNil | CtxCanceled | CtxDeadline | Transport string

record 's valkey =
  vk_ping :: "'s \<Rightarrow> 's \<times> vk_error option"
  vk_get :: "'s \<Rightarrow> string \<Rightarrow> 's \<times> (vk_error + string)"
  vk_set :: "'s \<Rightarrow> string \<Rightarrow> string \<Rightarrow> 's \<times> vk_error option"
  vk_del :: "'s \<Rightarrow> string list \<Rightarrow> 's \<times> vk_error option"
  vk_scan :: "'s \<Rightarrow> nat \<Rightarrow> 's \<times> (vk_error + string list \<times> nat)"
  vk_multi_get :: "'s \<Rightarrow> string list \<Rightarrow> 's \<times> (vk_error + string) list"
  vk_exec :: "'s \<Rightarrow> ('s \<Rightarrow> 's \<times> int) \<Rightarrow> 's \<times> (vk_error + int)"
  rc_get :: "'s \<Rightarrow> string \<Rightarrow> string option"
  rc_set_nx_px :: "'s \<Rightarrow> string \<Rightarrow> string \<Rightarrow> int \<Rightarrow> 's \<times> bool"
  rc_pexpire :: "'s \<Rightarrow> string \<Rightarrow> int \<Rightarrow> 's \<times> int"
  rc_del :: "'s \<Rightarrow> string \<Rightarrow> 's \<times> int"

record 'a codec =
  enc :: "'a \<Rightarrow> string option"
  dec :: "string \<Rightarrow> 'a option"

definition KeyPrefix :: string where "KeyPrefix = ''repo:''"
definition SweepKey :: string where "SweepKey = ''inventory:sweep''"
definition SweepCursorKey :: string where "SweepCursorKey = ''inventory:sweep-cursor''"
definition ReconcilerKey :: string where "ReconcilerKey = ''inventory:reconciler''"
definition ReconcilerLeaseKey :: string where "ReconcilerLeaseKey = ''inventory:reconciler-lease''"

lemmas store_keys [go_defs] =
  KeyPrefix_def SweepKey_def SweepCursorKey_def ReconcilerKey_def ReconcilerLeaseKey_def

definition dialTimeout :: duration where "dialTimeout = 5 * second"
definition connectInitialBackoff :: duration where "connectInitialBackoff = second"
definition connectMaxBackoff :: duration where "connectMaxBackoff = 10 * second"

datatype store_error =
    ErrAddressRequired
  | ErrNotFound string
  | ErrNotConnected string "string option" \<comment> \<open>wraps ErrUnavailable\<close>
  | ErrUnavailable string vk_error
  | ErrOperation string vk_error
  | ErrConnect string string
  | ErrContext string
  | ErrEncode string
  | ErrDecode string

text \<open>\<open>errors.Is(err, ErrUnavailable)\<close>.\<close>

fun is_unavailable :: "store_error \<Rightarrow> bool" where
  "is_unavailable (ErrNotConnected _ _) = True"
| "is_unavailable (ErrUnavailable _ _) = True"
| "is_unavailable _ = False"

section \<open>Connecting\<close>

record store =
  st_addr :: string
  st_client :: bool \<comment> \<open>a client is set: Connect succeeded and Close did not follow\<close>
  st_lastErr :: "string option"

definition new_store :: "string \<Rightarrow> store_error + store" where
  "new_store addr = (if addr = [] then Inl ErrAddressRequired
     else Inr \<lparr>st_addr = addr, st_client = False, st_lastErr = None\<rparr>)"

text \<open>\<open>Connect\<close>: the argument \<open>ctx\<close> is the context's error before dialing, \<open>dial\<close> the outcome
  of \<open>valkey.NewClient\<close>.\<close>

definition connect :: "string option \<Rightarrow> string option \<Rightarrow> store \<Rightarrow> store \<times> store_error option" where
  "connect ctx dial s = (case ctx of
      Some e \<Rightarrow> (s, Some (ErrContext e))
    | None \<Rightarrow> (case dial of
        Some e \<Rightarrow> (s\<lparr>st_lastErr := Some e\<rparr>, Some (ErrConnect (st_addr s) e))
      | None \<Rightarrow> (s\<lparr>st_client := True, st_lastErr := None\<rparr>, None)))"

text \<open>\<open>Open\<close>: a new store, connected in one attempt.\<close>

definition open_store :: "string \<Rightarrow> string option \<Rightarrow> string option \<Rightarrow> store_error + store" where
  "open_store addr ctx dial = (case new_store addr of
      Inl e \<Rightarrow> Inl e
    | Inr s \<Rightarrow> (case connect ctx dial s of (s', Some e) \<Rightarrow> Inl e | (s', None) \<Rightarrow> Inr s'))"

text \<open>
  \<open>WaitConnected\<close>: one element of the list per turn of its loop, telling what the turn saw of
  the outside: the context and the dial as for \<open>connect\<close>, the time left until the context's
  deadline (\<open>None\<close> without one) and how the pause ended (\<open>None\<close>: the timer fired; else the
  context's error, and whether it is the deadline's). The result is the store, the pauses made
  and the outcome; \<open>Waiting\<close> when the list ends first.
\<close>

record turn =
  tn_ctx :: "string option"
  tn_dial :: "string option"
  tn_remaining :: "duration option"
  tn_done :: "(string \<times> bool) option"

datatype wait_outcome = Connected nat | GaveUp nat store_error | Ended string | Waiting

fun wait_connected ::
  "bool \<Rightarrow> duration \<Rightarrow> nat \<Rightarrow> store \<Rightarrow> turn list \<Rightarrow> store \<times> duration list \<times> wait_outcome" where
  "wait_connected windowed backoff attempt s [] = (s, [], Waiting)"
| "wait_connected windowed backoff attempt s (t # ts) =
     (case connect (tn_ctx t) (tn_dial t) s of
        (s', None) \<Rightarrow> (s', [], Connected attempt)
      | (s', Some err) \<Rightarrow>
          if (case tn_remaining t of Some remaining \<Rightarrow> remaining \<le> 0 | None \<Rightarrow> False)
          then (s', [], GaveUp attempt err)
          else
            (let pause = (case tn_remaining t of Some remaining \<Rightarrow> min backoff remaining
                                               | None \<Rightarrow> backoff)
             in case tn_done t of
                  Some (e, deadline) \<Rightarrow>
                    (s', [pause], if windowed \<and> deadline then GaveUp attempt err else Ended e)
                | None \<Rightarrow>
                    (case wait_connected windowed (min (backoff * 2) connectMaxBackoff)
                            (Suc attempt) s' ts of
                       (s'', pauses, out) \<Rightarrow> (s'', pause # pauses, out))))"

definition WaitConnected :: "duration \<Rightarrow> store \<Rightarrow> turn list \<Rightarrow> store \<times> duration list \<times> wait_outcome" where
  "WaitConnected window s ts = wait_connected (0 < window) connectInitialBackoff 1 s ts"

definition close :: "store \<Rightarrow> store" where
  "close s = s\<lparr>st_client := False\<rparr>"

section \<open>Commands\<close>

text \<open>\<open>conn\<close>: the client, or why there is none.\<close>

definition conn :: "store \<Rightarrow> store_error option" where
  "conn s = (if st_client s then None else Some (ErrNotConnected (st_addr s) (st_lastErr s)))"

fun fail :: "string \<Rightarrow> vk_error \<Rightarrow> store_error" where
  "fail op (VkReply e) = ErrOperation op (VkReply e)"
| "fail op VkNil = ErrOperation op VkNil"
| "fail op CtxCanceled = ErrOperation op CtxCanceled"
| "fail op CtxDeadline = ErrOperation op CtxDeadline"
| "fail op (Transport e) = ErrUnavailable op (Transport e)"

definition ping :: "'s valkey \<Rightarrow> store \<Rightarrow> 's \<Rightarrow> 's \<times> store_error option" where
  "ping V s w = (case conn s of
      Some e \<Rightarrow> (w, Some e)
    | None \<Rightarrow> (case vk_ping V w of
        (w', None) \<Rightarrow> (w', None)
      | (w', Some e) \<Rightarrow> (w', Some (fail (''ping '' @ st_addr s) e))))"

text \<open>The scan of \<open>Keys\<close> goes on until the server answers the cursor 0: \<open>None\<close> is the scan
  that never ends.\<close>

partial_function (option) scan_keys ::
  "'s valkey \<Rightarrow> nat \<Rightarrow> string list \<Rightarrow> 's \<Rightarrow> ('s \<times> (store_error + string list)) option" where
  "scan_keys V cursor out w =
     (case vk_scan V w cursor of
        (w', Inl e) \<Rightarrow> Some (w', Inl (fail ''scan'' e))
      | (w', Inr (elements, next_cursor)) \<Rightarrow>
          (let out' = out @ map (\<lambda>k. trim_prefix k KeyPrefix) elements
           in if next_cursor = 0 then Some (w', Inr (sort out'))
              else scan_keys V next_cursor out' w'))"

definition Keys ::
  "'s valkey \<Rightarrow> store \<Rightarrow> 's \<Rightarrow> ('s \<times> (store_error + string list)) option" where
  "Keys V s w = (case conn s of Some e \<Rightarrow> Some (w, Inl e) | None \<Rightarrow> scan_keys V 0 [] w)"

definition Count :: "'s valkey \<Rightarrow> store \<Rightarrow> 's \<Rightarrow> ('s \<times> nat \<times> store_error option) option" where
  "Count V s w = map_option (\<lambda>(w', r). case r of
      Inl e \<Rightarrow> (w', 0, Some e) | Inr ks \<Rightarrow> (w', length ks, None)) (Keys V s w)"

definition put_bytes ::
  "'s valkey \<Rightarrow> string \<Rightarrow> string \<Rightarrow> string \<Rightarrow> 's \<Rightarrow> 's \<times> store_error option" where
  "put_bytes V op key b w = (case vk_set V w key b of
      (w', None) \<Rightarrow> (w', None)
    | (w', Some e) \<Rightarrow> (w', Some (fail op e)))"

definition put_record ::
  "'s valkey \<Rightarrow> repo_record codec \<Rightarrow> store \<Rightarrow> repo_record \<Rightarrow> 's \<Rightarrow> 's \<times> store_error option" where
  "put_record V C s r w = (case conn s of
      Some e \<Rightarrow> (w, Some e)
    | None \<Rightarrow> (case enc C r of
        None \<Rightarrow> (w, Some (ErrEncode (rc_repository r)))
      | Some b \<Rightarrow> put_bytes V (''put '' @ rc_repository r) (KeyPrefix @ rc_repository r) b w))"

definition get_record ::
  "'s valkey \<Rightarrow> repo_record codec \<Rightarrow> store \<Rightarrow> string \<Rightarrow> 's \<Rightarrow> 's \<times> (store_error + repo_record)" where
  "get_record V C s repository w = (case conn s of
      Some e \<Rightarrow> (w, Inl e)
    | None \<Rightarrow> (case vk_get V w (KeyPrefix @ repository) of
        (w', Inl VkNil) \<Rightarrow> (w', Inl (ErrNotFound repository))
      | (w', Inl e) \<Rightarrow> (w', Inl (fail (''get '' @ repository) e))
      | (w', Inr b) \<Rightarrow> (case dec C b of
          None \<Rightarrow> (w', Inl (ErrDecode repository))
        | Some r \<Rightarrow> (w', Inr r))))"

text \<open>\<open>List\<close>: the answers of one pipelined batch, then the batches of 200.\<close>

fun read_batch ::
  "repo_record codec \<Rightarrow> string list \<Rightarrow> (vk_error + string) list \<Rightarrow> repo_record list \<Rightarrow>
   store_error + repo_record list" where
  "read_batch C (k # ks) (Inl VkNil # as) out = read_batch C ks as out"
| "read_batch C (k # ks) (Inl e # as) out = Inl (fail (''get '' @ k) e)"
| "read_batch C (k # ks) (Inr b # as) out =
     (case dec C b of None \<Rightarrow> Inl (ErrDecode k) | Some r \<Rightarrow> read_batch C ks as (out @ [r]))"
| "read_batch C _ _ out = Inr out"

function list_from ::
  "'s valkey \<Rightarrow> repo_record codec \<Rightarrow> string list \<Rightarrow> repo_record list \<Rightarrow> 's \<Rightarrow>
   's \<times> (store_error + repo_record list)" where
  "list_from V C keys out w =
     (if keys = [] then (w, Inr out)
      else (case vk_multi_get V w (map (\<lambda>k. KeyPrefix @ k) (take 200 keys)) of
          (w', answers) \<Rightarrow> (case read_batch C (take 200 keys) answers out of
              Inl e \<Rightarrow> (w', Inl e)
            | Inr out' \<Rightarrow> list_from V C (drop 200 keys) out' w')))"
  by pat_completeness auto
termination by (relation "measure (\<lambda>(V, C, keys, out, w). length keys)") auto

declare list_from.simps [simp del]

definition List ::
  "'s valkey \<Rightarrow> repo_record codec \<Rightarrow> store \<Rightarrow> 's \<Rightarrow> ('s \<times> (store_error + repo_record list)) option" where
  "List V C s w = map_option (\<lambda>(w', r). case r of
      Inl e \<Rightarrow> (w', Inl e)
    | Inr keys \<Rightarrow> (case conn s of Some e \<Rightarrow> (w', Inl e) | None \<Rightarrow> list_from V C keys [] w'))
     (Keys V s w)"

definition delete_records ::
  "'s valkey \<Rightarrow> store \<Rightarrow> string list \<Rightarrow> 's \<Rightarrow> 's \<times> store_error option" where
  "delete_records V s repositories w =
     (if repositories = [] then (w, None)
      else (case conn s of
          Some e \<Rightarrow> (w, Some e)
        | None \<Rightarrow> (case vk_del V w (map (\<lambda>r. KeyPrefix @ r) repositories) of
            (w', None) \<Rightarrow> (w', None)
          | (w', Some e) \<Rightarrow> (w', Some (fail ''delete'' e)))))"

section \<open>The other values\<close>

definition putJSON ::
  "'s valkey \<Rightarrow> 'a codec \<Rightarrow> store \<Rightarrow> string \<Rightarrow> string \<Rightarrow> 'a \<Rightarrow> 's \<Rightarrow> 's \<times> store_error option" where
  "putJSON V C s key what v w = (case conn s of
      Some e \<Rightarrow> (w, Some e)
    | None \<Rightarrow> (case enc C v of
        None \<Rightarrow> (w, Some (ErrEncode what))
      | Some b \<Rightarrow> put_bytes V (''put '' @ what) key b w))"

definition getJSON ::
  "'s valkey \<Rightarrow> 'a codec \<Rightarrow> store \<Rightarrow> string \<Rightarrow> string \<Rightarrow> 's \<Rightarrow> 's \<times> (store_error + 'a option)" where
  "getJSON V C s key what w = (case conn s of
      Some e \<Rightarrow> (w, Inl e)
    | None \<Rightarrow> (case vk_get V w key of
        (w', Inl VkNil) \<Rightarrow> (w', Inr None)
      | (w', Inl e) \<Rightarrow> (w', Inl (fail (''get '' @ what) e))
      | (w', Inr b) \<Rightarrow> (case dec C b of
          None \<Rightarrow> (w', Inl (ErrDecode what))
        | Some v \<Rightarrow> (w', Inr (Some v)))))"

definition del_key :: "'s valkey \<Rightarrow> store \<Rightarrow> string \<Rightarrow> 's \<Rightarrow> 's \<times> store_error option" where
  "del_key V s key w = (case conn s of
      Some e \<Rightarrow> (w, Some e)
    | None \<Rightarrow> (case vk_del V w [key] of
        (w', None) \<Rightarrow> (w', None)
      | (w', Some e) \<Rightarrow> (w', Some (fail (''delete '' @ key) e))))"

record sweep_cursor =
  sc_startedAt :: time
  sc_resumes :: int

text \<open>The map \<open>Consumed\<close> from \<open>"<run id>/<attempt>"\<close> to the run's creation time.\<close>

record reconciler_cursor =
  rcu_watermark :: time
  rcu_consumed :: "string \<rightharpoonup> time"
  rcu_polledAt :: time

definition PutSweep where "PutSweep V C s summary = putJSON V C s SweepKey ''sweep'' summary"
definition Sweep where "Sweep V C s = getJSON V C s SweepKey ''sweep''"
definition PutSweepCursor where
  "PutSweepCursor V C s cur = putJSON V C s SweepCursorKey ''sweep cursor'' cur"
definition SweepCursor where "SweepCursor V C s = getJSON V C s SweepCursorKey ''sweep cursor''"
definition DeleteSweepCursor where "DeleteSweepCursor V s = del_key V s SweepCursorKey"
definition PutReconcilerCursor where
  "PutReconcilerCursor V C s cur = putJSON V C s ReconcilerKey ''reconciler cursor'' cur"
definition ReconcilerCursor where
  "ReconcilerCursor V C s = getJSON V C s ReconcilerKey ''reconciler cursor''"

section \<open>The poller's lease\<close>

definition lease_script :: "'s valkey \<Rightarrow> string \<Rightarrow> string \<Rightarrow> int \<Rightarrow> 's \<Rightarrow> 's \<times> int" where
  "lease_script V key holder ms w =
     (if rc_get V w key = Some holder then rc_pexpire V w key ms
      else (case rc_set_nx_px V w key holder ms of (w', ok) \<Rightarrow> (w', if ok then 1 else 0)))"

definition release_script :: "'s valkey \<Rightarrow> string \<Rightarrow> string \<Rightarrow> 's \<Rightarrow> 's \<times> int" where
  "release_script V key holder w =
     (if rc_get V w key = Some holder then rc_del V w key else (w, 0))"

text \<open>\<open>Duration.Milliseconds\<close> truncates towards zero.\<close>

definition milliseconds :: "duration \<Rightarrow> int" where
  "milliseconds d = (if d < 0 then - ((- d) div millisecond) else d div millisecond)"

definition LeaseReconciler ::
  "'s valkey \<Rightarrow> store \<Rightarrow> string \<Rightarrow> duration \<Rightarrow> 's \<Rightarrow> 's \<times> (store_error + bool)" where
  "LeaseReconciler V s holder ttl w = (case conn s of
      Some e \<Rightarrow> (w, Inl e)
    | None \<Rightarrow>
        (case vk_exec V w (lease_script V ReconcilerLeaseKey holder (milliseconds ttl)) of
           (w', Inl e) \<Rightarrow> (w', Inl (fail ''lease reconciler'' e))
         | (w', Inr n) \<Rightarrow> (w', Inr (n = 1))))"

definition ReleaseReconciler ::
  "'s valkey \<Rightarrow> store \<Rightarrow> string \<Rightarrow> 's \<Rightarrow> 's \<times> store_error option" where
  "ReleaseReconciler V s holder w = (case conn s of
      Some e \<Rightarrow> (w, Some e)
    | None \<Rightarrow> (case vk_exec V w (release_script V ReconcilerLeaseKey holder) of
           (w', Inl e) \<Rightarrow> (w', Some (fail ''release reconciler lease'' e))
         | (w', Inr n) \<Rightarrow> (w', None)))"

fun del_each :: "'s valkey \<Rightarrow> store \<Rightarrow> string list \<Rightarrow> 's \<Rightarrow> 's \<times> store_error option" where
  "del_each V s [] w = (w, None)"
| "del_each V s (k # ks) w = (case del_key V s k w of
      (w', Some e) \<Rightarrow> (w', Some e)
    | (w', None) \<Rightarrow> del_each V s ks w')"

definition Clear :: "'s valkey \<Rightarrow> store \<Rightarrow> 's \<Rightarrow> ('s \<times> store_error option) option" where
  "Clear V s w = map_option (\<lambda>(w', r). case r of
      Inl e \<Rightarrow> (w', Some e)
    | Inr keys \<Rightarrow> (case delete_records V s keys w' of
        (w'', Some e) \<Rightarrow> (w'', Some e)
      | (w'', None) \<Rightarrow>
          del_each V s [SweepKey, SweepCursorKey, ReconcilerKey, ReconcilerLeaseKey] w''))
     (Keys V s w)"

end
