(* ===== verification/ReleaseWatch.thy ===== *)
theory ReleaseWatch
  imports CircleCI Store
begin

text \<open>
  internal/collect/tagpipeline.go and releases.go: the release watch. CircleCI's client is the
  record \<open>cc_client\<close> over the state \<open>'s\<close> of everything outside; the record store is \<open>access\<close>,
  which \<open>store_access\<close> builds from the operations of \<open>Store\<close>; the completion hook is an
  optional call. \<open>watch_record\<close> is one repository's pass between reading its record and storing
  it, \<open>watch_release\<close> the whole of it, \<open>watch_releases\<close> one pass of the watch. The pass reads
  its candidates in parallel; each touches its own record and its own name in the watched set,
  so the model takes them in the order of their names.

  \<open>None\<close> as the result of a definition here is a nil dereference (or, for a pass, a listing of
  the store that never ends).
\<close>

section \<open>The CircleCI client\<close>

record cc_error =
  ce_notFound :: bool
  ce_text :: string

record cc_pipeline =
  pl_id :: string
  pl_number :: int

record cc_workflow =
  wf_id :: string
  wf_name :: string
  wf_status :: string

record cc_job =
  jb_name :: string
  jb_status :: string

record 's cc_client =
  ck_find :: "string \<Rightarrow> string \<Rightarrow> string \<Rightarrow> ('s, cc_error, cc_pipeline option) io"
  ck_workflows :: "string \<Rightarrow> ('s, cc_error, cc_workflow list) io"
  ck_jobs :: "string \<Rightarrow> ('s, cc_error, cc_job list) io"
  ck_newest :: "cc_workflow list \<Rightarrow> cc_workflow list"
  ck_failed :: "string \<Rightarrow> bool"
  ck_succeeded :: "string \<Rightarrow> bool"
  ck_pipeline_url :: "string \<Rightarrow> string \<Rightarrow> int \<Rightarrow> string"
  ck_workflow_url :: "string \<Rightarrow> string \<Rightarrow> int \<Rightarrow> string \<Rightarrow> string"

section \<open>The tag's pipeline\<close>

record tag_pipeline =
  tp_pipeline :: release_pipeline
  tp_workflows :: "string list"
  tp_failed :: "string list"
  tp_running :: bool
  tp_succeeded :: int

definition Red :: "tag_pipeline \<Rightarrow> bool" where
  "Red p \<longleftrightarrow> length (tp_failed p) > 0"

definition Built :: "tag_pipeline \<Rightarrow> bool" where
  "Built p \<longleftrightarrow> \<not> Red p \<and> \<not> tp_running p \<and> tp_succeeded p > 0"

definition workflowNotRun :: string where "workflowNotRun = ''not_run''"

definition failed_job_status :: "string \<Rightarrow> string option" where
  "failed_job_status s =
     (if s = ''failed'' then Some ''failed''
      else if s = statusError then Some statusError
      else if s = ''canceled'' then Some ''canceled''
      else if s = ''timedout'' then Some ''timed out''
      else if s = ''infrastructure_fail'' then Some ''infrastructure failure''
      else if s = ''unauthorized'' then Some ''unauthorized''
      else None)"

definition failed_jobs :: "cc_job list \<Rightarrow> string list" where
  "failed_jobs jobs = concat (map (\<lambda>j. case failed_job_status (jb_status j) of
      Some how \<Rightarrow> [jb_name j @ '' ('' @ how @ '')''] | None \<Rightarrow> []) jobs)"

definition failure_word :: "string \<Rightarrow> string" where
  "failure_word status = (case failed_job_status status of Some how \<Rightarrow> how | None \<Rightarrow> status)"

definition release_only :: "engine \<Rightarrow> cc_job list \<Rightarrow> bool" where
  "release_only E jobs =
     (let red = map jb_name (filter (\<lambda>j. failed_job_status (jb_status j) \<noteq> None) jobs)
      in red \<noteq> [] \<and> eng_unpublished E red = [])"

definition read_workflow ::
  "engine \<Rightarrow> 's cc_client \<Rightarrow> string \<Rightarrow> string \<Rightarrow> cc_workflow \<Rightarrow> tag_pipeline \<Rightarrow>
   's \<Rightarrow> 's \<times> tag_pipeline \<times> string option" where
  "read_workflow E CL org name run tp0 s =
     (let tp = tp0\<lparr>tp_workflows := tp_workflows tp0 @ [wf_name run @ '' ('' @ wf_status run @ '')'']\<rparr> in
      if ck_failed CL (wf_status run) then
        (case ck_jobs CL (wf_id run) s of
           (s', Inl e) \<Rightarrow> (s', tp, Some (''the jobs of workflow '' @ wf_name run @ '' of pipeline '' @
              show_int (rp_number (tp_pipeline tp)) @ '': '' @ ce_text e))
         | (s', Inr jobs) \<Rightarrow>
             if release_only E jobs then (s', tp\<lparr>tp_succeeded := tp_succeeded tp + 1\<rparr>, None)
             else
               (let names = (if failed_jobs jobs = []
                    then [wf_name run @ '' ('' @ failure_word (wf_status run) @ '')''] else failed_jobs jobs);
                    p = tp_pipeline tp
                in (s', tp\<lparr>tp_failed := tp_failed tp @ names,
                     tp_pipeline := (if rp_workflow p = []
                       then p\<lparr>rp_workflow := ck_workflow_url CL org name (rp_number p) (wf_id run)\<rparr> else p)\<rparr>,
                    None)))
      else if ck_succeeded CL (wf_status run) then (s, tp\<lparr>tp_succeeded := tp_succeeded tp + 1\<rparr>, None)
      else if wf_status run = workflowNotRun then (s, tp, None)
      else (s, tp\<lparr>tp_running := True\<rparr>, None))"

fun read_workflows ::
  "engine \<Rightarrow> 's cc_client \<Rightarrow> string \<Rightarrow> string \<Rightarrow> cc_workflow list \<Rightarrow> tag_pipeline \<Rightarrow>
   's \<Rightarrow> 's \<times> tag_pipeline \<times> string option" where
  "read_workflows E CL org name [] tp s = (s, tp, None)"
| "read_workflows E CL org name (run # runs) tp s = (case read_workflow E CL org name run tp s of
      (s', tp', Some e) \<Rightarrow> (s', tp', Some e)
    | (s', tp', None) \<Rightarrow> read_workflows E CL org name runs tp' s')"

definition read_tag_pipeline ::
  "engine \<Rightarrow> 's cc_client \<Rightarrow> string \<Rightarrow> string \<Rightarrow> cc_pipeline \<Rightarrow> 's \<Rightarrow> 's \<times> tag_pipeline \<times> string option" where
  "read_tag_pipeline E CL org name p s =
     (let tp = \<lparr>tp_pipeline = \<lparr>rp_number = pl_number p, rp_url = ck_pipeline_url CL org name (pl_number p),
                  rp_workflow = []\<rparr>,
                tp_workflows = [], tp_failed = [], tp_running = False, tp_succeeded = 0\<rparr>
      in case ck_workflows CL (pl_id p) s of
           (s', Inl e) \<Rightarrow> (s', tp, Some (''the workflows of pipeline '' @ show_int (pl_number p) @ '': '' @ ce_text e))
         | (s', Inr runs) \<Rightarrow> read_workflows E CL org name (ck_newest CL runs) tp s')"

section \<open>The watch's options and its page\<close>

record release_options =
  ro_interval :: duration
  ro_grace :: duration
  ro_anonymous :: bool

definition DefaultReleaseInterval :: duration where "DefaultReleaseInterval = 5 * minute"
definition DefaultReleaseGrace :: duration where "DefaultReleaseGrace = 10 * minute"
definition releaseLookback :: duration where "releaseLookback = 6 * hour"
definition releasePage :: int where "releasePage = 100"

definition release_defaults :: "release_options \<Rightarrow> release_options" where
  "release_defaults opts = (if ro_grace opts \<le> 0 then opts\<lparr>ro_grace := DefaultReleaseGrace\<rparr> else opts)"

record tag_commit =
  tk_rollup :: "status_rollup option"
  tk_oid :: string
  tk_pulls :: "change_pull_request list"

record latest_release =
  lt_tagName :: string
  lt_createdAt :: time
  lt_publishedAt :: time
  lt_tagCommit :: "tag_commit option"

record release_node =
  ln_name :: string
  ln_visibility :: string
  ln_pushedAt :: time
  ln_release :: "latest_release option"

definition published_at :: "latest_release \<Rightarrow> time" where
  "published_at l = (if lt_publishedAt l = zero_time then lt_createdAt l else lt_publishedAt l)"

definition release_of :: "release_node option \<Rightarrow> release option" where
  "release_of node = (case node of None \<Rightarrow> None
     | Some n \<Rightarrow> (case ln_release n of None \<Rightarrow> None
       | Some l \<Rightarrow>
           (case release_build (map_option tk_rollup (lt_tagCommit l)) of (b, truncated) \<Rightarrow>
             Some \<lparr>rl_tag = lt_tagName l, rl_publishedAt = lt_publishedAt l, rl_build = b,
               rl_buildTruncated = truncated\<rparr>)))"

text \<open>\<open>sameRelease\<close> compares the two releases' JSON, which carries every field.\<close>

definition same_release :: "release option \<Rightarrow> release option \<Rightarrow> bool" where
  "same_release a b \<longleftrightarrow> a = b"

definition read_latest_release ::
  "repo_record \<Rightarrow> reality \<Rightarrow> release_node option \<Rightarrow> repo_record \<times> bool" where
  "read_latest_release r re node = (case release_of node of
      None \<Rightarrow> (r, False)
    | Some rel \<Rightarrow>
        if same_release (Some rel) (re_latestRelease re) then (r, False)
        else (r\<lparr>rc_reality := Some (re\<lparr>re_latestRelease := Some rel\<rparr>)\<rparr>, True))"

definition node_pull_request :: "latest_release \<Rightarrow> change_pull_request option" where
  "node_pull_request l = (case lt_tagCommit l of None \<Rightarrow> None
     | Some t \<Rightarrow> (case tk_pulls t of [] \<Rightarrow> None | pr # _ \<Rightarrow> Some pr))"

section \<open>Which releases the watch reads\<close>

definition digit_char :: "char \<Rightarrow> bool" where
  "digit_char c \<longleftrightarrow> CHR ''0'' \<le> c \<and> c \<le> CHR ''9''"

definition suffix_char :: "char \<Rightarrow> bool" where
  "suffix_char c \<longleftrightarrow> digit_char c \<or> CHR ''A'' \<le> c \<and> c \<le> CHR ''Z'' \<or> CHR ''a'' \<le> c \<and> c \<le> CHR ''z'' \<or>
     c = CHR ''.'' \<or> c = CHR ''-''"

text \<open>\<open>0|[1-9]\d*\<close> up to the next character that is no digit: what is left after it.\<close>

definition version_number :: "string \<Rightarrow> string option" where
  "version_number s = (let n = takeWhile digit_char s in
     if n = ''0'' \<or> n \<noteq> [] \<and> hd n \<noteq> CHR ''0'' then Some (dropWhile digit_char s) else None)"

definition expect_char :: "char \<Rightarrow> string \<Rightarrow> string option" where
  "expect_char c s = (case s of [] \<Rightarrow> None | d # ds \<Rightarrow> if d = c then Some ds else None)"

text \<open>An optional suffix that starts with \<open>c\<close>.\<close>

definition version_suffix :: "char \<Rightarrow> string \<Rightarrow> string option" where
  "version_suffix c s = (case expect_char c s of
      None \<Rightarrow> Some s
    | Some t \<Rightarrow> if takeWhile suffix_char t = [] then None else Some (dropWhile suffix_char t))"

definition is_release_tag :: "string \<Rightarrow> bool" where
  "is_release_tag tag =
     (Option.bind (expect_char CHR ''v'' tag) (\<lambda>a. Option.bind (version_number a) (\<lambda>b.
      Option.bind (expect_char CHR ''.'' b) (\<lambda>c. Option.bind (version_number c) (\<lambda>d.
      Option.bind (expect_char CHR ''.'' d) (\<lambda>e. Option.bind (version_number e) (\<lambda>f.
      Option.bind (version_suffix CHR ''-'' f) (version_suffix CHR ''+''))))))) = Some [])"

definition outside_reason :: "string \<Rightarrow> reality \<Rightarrow> string" where
  "outside_reason tag re =
     (if \<not> is_release_tag tag then ''not a vX.Y.Z tag: outside the flow the tag pipeline builds''
      else if \<not> has_circleci (re_has re) then
        ''no CircleCI pipeline on the default branch: nothing builds the tag''
      else [])"

definition told_by_the_run :: "repo_record \<Rightarrow> string \<Rightarrow> string" where
  "told_by_the_run r tag =
     (let prefix = rc_name r @ '': release '' @ tag @ '' of '' @ rc_repository r in
      case find (\<lambda>s. has_prefix s prefix) (su_told (rc_setup r)) of Some s \<Rightarrow> s | None \<Rightarrow> [])"

section \<open>Reading a release on CircleCI\<close>

definition anonymous_reason :: string where
  "anonymous_reason = ''the repository is private and no CircleCI token is configured (circleci.existingSecret): the tag pipeline is out of the inventory's reach''"

definition read_release ::
  "engine \<Rightarrow> 's cc_client \<Rightarrow> release_options \<Rightarrow> string \<Rightarrow> string \<Rightarrow> time \<Rightarrow> release_watch \<Rightarrow> 's \<Rightarrow> 's \<times> release_watch" where
  "read_release E CL opts org name now w0 s =
     (let w = w0\<lparr>rw_checkedAt := now\<rparr> in
      case ck_find CL org name (rw_tag w) s of
        (s', Inl e) \<Rightarrow>
          if ce_notFound e then
            (s', (settle now ReleaseUnchecked w)\<lparr>rw_reason :=
               (if ro_anonymous opts then anonymous_reason else ''CircleCI does not know the project'')\<rparr>)
          else (s', w)
      | (s', Inr None) \<Rightarrow>
          if time_sub now (rw_createdAt w) \<ge> ro_grace opts then (s', settle now ReleaseUnbuilt w)
          else (s', w)
      | (s', Inr (Some p)) \<Rightarrow>
          (case read_tag_pipeline E CL org name p s' of (s'', tp, err) \<Rightarrow>
            let w' = w\<lparr>rw_pipeline := Some (tp_pipeline tp)\<rparr> in
            if err \<noteq> None then (s'', w')
            else if Red tp then (s'', settle now ReleaseRed (w'\<lparr>rw_failedJobs := tp_failed tp\<rparr>))
            else if Built tp then (s'', settle now ReleaseBuilt (w'\<lparr>rw_failedJobs := []\<rparr>))
            else (s'', w')))"

section \<open>One repository's pass\<close>

record watched =
  wd_started :: bool
  wd_watching :: bool
  wd_settled :: bool
  wd_told :: bool

definition nothing_watched :: watched where
  "nothing_watched = \<lparr>wd_started = False, wd_watching = False, wd_settled = False, wd_told = False\<rparr>"

type_synonym 's released_hook = "repo_record \<Rightarrow> 's \<Rightarrow> 's \<times> string \<times> bool"

definition new_watch :: "latest_release \<Rightarrow> reality \<Rightarrow> time \<Rightarrow> release_watch" where
  "new_watch l re now =
     (let w = zero_release_watch\<lparr>rw_tag := lt_tagName l, rw_createdAt := published_at l,
          rw_pullRequest := node_pull_request l, rw_state := ReleaseWatching, rw_checkedAt := now\<rparr>;
          reason = outside_reason (rw_tag w) re
      in if reason \<noteq> [] then (settle now ReleaseUnchecked w)\<lparr>rw_reason := reason\<rparr> else w)"

definition page_release :: "release_node option \<Rightarrow> latest_release option" where
  "page_release node = (case node of None \<Rightarrow> None | Some n \<Rightarrow> ln_release n)"

definition starts :: "release_watch option \<Rightarrow> release_node option \<Rightarrow> latest_release option" where
  "starts wt node = (case page_release node of None \<Rightarrow> None
     | Some l \<Rightarrow> if wt = None \<or> map_option rw_tag wt \<noteq> Some (lt_tagName l) then Some l else None)"

text \<open>The notice: the sentence a run's finding told already, else the hook's; the flag says
  whether the hook posted.\<close>

definition tell_release ::
  "'s released_hook option \<Rightarrow> time \<Rightarrow> repo_record \<Rightarrow> release_watch \<Rightarrow> 's \<Rightarrow> 's \<times> release_watch \<times> bool" where
  "tell_release hook now r w s =
     (if \<not> untold (Some w) then (s, w, False)
      else
        (let said = told_by_the_run r (rw_tag w) in
         if said \<noteq> [] then (s, w\<lparr>rw_told := said, rw_toldAt := Some now\<rparr>, False)
         else (case hook of
             None \<Rightarrow> (s, w, False)
           | Some h \<Rightarrow> (case h r s of (s', told, posted) \<Rightarrow>
               if told \<noteq> [] then (s', w\<lparr>rw_told := told, rw_toldAt := Some now\<rparr>, posted)
               else (s', w, False)))))"

definition with_release :: "repo_record \<Rightarrow> release_watch \<Rightarrow> repo_record" where
  "with_release r w = r\<lparr>rc_setup := (rc_setup r)\<lparr>su_release := Some w\<rparr>\<rparr>"

text \<open>From the watch the pass starts from to the record it stores.\<close>

definition proceed ::
  "engine \<Rightarrow> regexp \<Rightarrow> 's cc_client \<Rightarrow> 's released_hook option \<Rightarrow> release_options \<Rightarrow> string \<Rightarrow> string \<Rightarrow> time \<Rightarrow>
   bool \<Rightarrow> repo_record \<Rightarrow> release_watch \<Rightarrow> 's \<Rightarrow> ('s \<times> repo_record \<times> watched) option" where
  "proceed E rx CL hook opts org name now started r w0 s =
     (case (if following (Some w0) then read_release E CL opts org name now w0 s else (s, w0)) of (s1, w1) \<Rightarrow>
        map_option (\<lambda>r1.
            let r2 = finalize E r1 in
            case tell_release hook now r2 w1 s1 of (s2, w2, posted) \<Rightarrow>
              (s2, with_release r2 w2,
               \<lparr>wd_started = started, wd_watching = following (Some w2),
                wd_settled = settled (Some w2) \<and> rw_state w2 \<noteq> rw_state w0, wd_told = posted\<rparr>))
          (rewrite_release_step E rx (with_release r w1)))"

text \<open>The record to store is \<open>None\<close> where the pass leaves the repository alone.\<close>

definition watch_record ::
  "engine \<Rightarrow> regexp \<Rightarrow> 's cc_client \<Rightarrow> 's released_hook option \<Rightarrow> release_options \<Rightarrow> string \<Rightarrow> string \<Rightarrow>
   release_node option \<Rightarrow> time \<Rightarrow> repo_record \<Rightarrow> 's \<Rightarrow> ('s \<times> repo_record option \<times> watched) option" where
  "watch_record E rx CL hook opts org name node now r s = (case (rc_declaration r, rc_reality r) of
      (Some d, Some re) \<Rightarrow>
        if re_isArchived re then Some (s, None, nothing_watched)
        else
          (case read_latest_release r re node of (r', fresh) \<Rightarrow>
           let wt = su_release (rc_setup r) in
           case starts wt node of
             Some l \<Rightarrow> map_option (\<lambda>(s', r'', out). (s', Some r'', out))
               (proceed E rx CL hook opts org name now True r' (new_watch l re now) s)
           | None \<Rightarrow>
               if \<not> following wt \<and> \<not> fresh then Some (s, None, nothing_watched)
               else (case wt of
                   None \<Rightarrow> None
                 | Some w \<Rightarrow> map_option (\<lambda>(s', r'', out). (s', Some r'', out))
                     (proceed E rx CL hook opts org name now False r' w s)))
    | _ \<Rightarrow> Some (s, None, nothing_watched))"

section \<open>The store and the pass\<close>

record 's access =
  ac_get :: "string \<Rightarrow> ('s, store_error, repo_record) io"
  ac_put :: "repo_record \<Rightarrow> 's \<Rightarrow> 's \<times> store_error option"
  ac_list :: "'s \<Rightarrow> ('s \<times> (store_error + repo_record list)) option"

definition store_access :: "'s valkey \<Rightarrow> repo_record codec \<Rightarrow> store \<Rightarrow> 's access" where
  "store_access V C st = \<lparr>ac_get = get_record V C st, ac_put = put_record V C st, ac_list = List V C st\<rparr>"

text \<open>The names the watch follows; \<open>None\<close> before the first pass.\<close>

type_synonym watching = "string list option"

definition follow :: "string \<Rightarrow> bool \<Rightarrow> watching \<Rightarrow> watching" where
  "follow name on ws =
     (let names = (case ws of None \<Rightarrow> [] | Some l \<Rightarrow> l)
      in Some (if on then List.insert name names else removeAll name names))"

definition watch_release ::
  "engine \<Rightarrow> regexp \<Rightarrow> 's access \<Rightarrow> 's cc_client \<Rightarrow> 's released_hook option \<Rightarrow> release_options \<Rightarrow> string \<Rightarrow> string \<Rightarrow>
   release_node option \<Rightarrow> time \<Rightarrow> 's \<times> watching \<Rightarrow> (('s \<times> watching) \<times> watched) option" where
  "watch_release E rx A CL hook opts org name node now st =
     (case st of (s, ws) \<Rightarrow>
      case ac_get A (org @ ''/'' @ name) s of
        (s1, Inl e) \<Rightarrow> Some ((s1, follow name False ws), nothing_watched)
      | (s1, Inr r) \<Rightarrow>
          map_option (\<lambda>(s2, stored, out).
              ((case stored of None \<Rightarrow> s2 | Some r' \<Rightarrow> fst (ac_put A r' s2), follow name (wd_watching out) ws), out))
            (watch_record E rx CL hook opts org name node now r s1))"

record release_poll =
  rp_seen :: nat
  rp_started :: nat
  rp_watching :: nat
  rp_settled :: nat
  rp_told :: nat

definition count_watched :: "watched \<Rightarrow> release_poll \<Rightarrow> release_poll" where
  "count_watched out p = p\<lparr>
     rp_started := rp_started p + (if wd_started out then 1 else 0),
     rp_told := rp_told p + (if wd_told out then 1 else 0),
     rp_settled := rp_settled p + (if wd_settled out then 1 else 0),
     rp_watching := rp_watching p + (if wd_watching out then 1 else 0)\<rparr>"

definition fresh_nodes :: "time \<Rightarrow> release_node list \<Rightarrow> release_node list" where
  "fresh_nodes now nodes = filter (\<lambda>n. case ln_release n of None \<Rightarrow> False
     | Some l \<Rightarrow> \<not> time_sub now (published_at l) > releaseLookback) nodes"

definition candidate :: "release_node list \<Rightarrow> string \<Rightarrow> release_node option" where
  "candidate fresh name = find (\<lambda>n. ln_name n = name) (rev fresh)"

definition candidates :: "release_node list \<Rightarrow> string list \<Rightarrow> string list" where
  "candidates fresh watching = sort (remdups (map ln_name fresh @ watching))"

fun watch_names ::
  "engine \<Rightarrow> regexp \<Rightarrow> 's access \<Rightarrow> 's cc_client \<Rightarrow> 's released_hook option \<Rightarrow> release_options \<Rightarrow> string \<Rightarrow>
   release_node list \<Rightarrow> time \<Rightarrow> string list \<Rightarrow> release_poll \<Rightarrow> 's \<times> watching \<Rightarrow> (('s \<times> watching) \<times> release_poll) option" where
  "watch_names E rx A CL hook opts org fresh now [] poll st = Some (st, poll)"
| "watch_names E rx A CL hook opts org fresh now (name # names) poll st =
     (case watch_release E rx A CL hook opts org name (candidate fresh name) now st of
        None \<Rightarrow> None
      | Some (st', out) \<Rightarrow>
          watch_names E rx A CL hook opts org fresh now names (count_watched out poll) st')"

datatype watch_error = NoClient | SeedFailed store_error | QueryFailed string | OrgNotResolved string

definition seed_watching :: "'s access \<Rightarrow> 's \<times> watching \<Rightarrow> (('s \<times> watching) \<times> store_error option) option" where
  "seed_watching A st = (case st of
      (s, Some l) \<Rightarrow> Some (st, None)
    | (s, None) \<Rightarrow> map_option (\<lambda>(s', res). case res of
          Inl e \<Rightarrow> ((s', None), Some e)
        | Inr recs \<Rightarrow> ((s', Some (remdups (map rc_name
            (filter (\<lambda>r. following (su_release (rc_setup r))) recs)))), None))
        (ac_list A s))"

text \<open>The page's query: its error, or the organization's nodes where it resolves.\<close>

definition fetch_releases ::
  "('s, string, release_node list option) io \<Rightarrow> string \<Rightarrow> ('s, watch_error, release_node list) io" where
  "fetch_releases query org = io_bind (io_wrap QueryFailed query) (\<lambda>data. case data of
      None \<Rightarrow> io_fail (OrgNotResolved org)
    | Some nodes \<Rightarrow> io_ret nodes)"

definition watch_releases ::
  "engine \<Rightarrow> regexp \<Rightarrow> 's access \<Rightarrow> 's cc_client option \<Rightarrow> 's released_hook option \<Rightarrow> release_options \<Rightarrow> string \<Rightarrow>
   ('s, string, release_node list option) io \<Rightarrow> time \<Rightarrow> 's \<times> watching \<Rightarrow>
   (('s \<times> watching) \<times> (watch_error + release_poll)) option" where
  "watch_releases E rx A client hook opts org query now st = (case client of
      None \<Rightarrow> Some (st, Inl NoClient)
    | Some CL \<Rightarrow> (case seed_watching A st of
        None \<Rightarrow> None
      | Some (st1, Some e) \<Rightarrow> Some (st1, Inl (SeedFailed e))
      | Some ((s1, ws), None) \<Rightarrow> (case fetch_releases query org s1 of
          (s2, Inl e) \<Rightarrow> Some ((s2, ws), Inl e)
        | (s2, Inr nodes) \<Rightarrow>
            (let fresh = fresh_nodes now nodes;
                 poll = \<lparr>rp_seen = length nodes, rp_started = 0, rp_watching = 0, rp_settled = 0, rp_told = 0\<rparr>
             in map_option (\<lambda>(st', p). (st', Inr p))
                  (watch_names E rx A CL hook opts org fresh now
                    (candidates fresh (case ws of None \<Rightarrow> [] | Some l \<Rightarrow> l)) poll (s2, ws))))))"

definition keep_release :: "engine \<Rightarrow> regexp \<Rightarrow> 's access \<Rightarrow> repo_record \<Rightarrow> 's \<Rightarrow> ('s \<times> repo_record) option" where
  "keep_release E rx A r s = (case ac_get A (rc_repository r) s of
      (s', Inl e) \<Rightarrow> Some (s', r)
    | (s', Inr cur) \<Rightarrow> (case su_release (rc_setup cur) of
        None \<Rightarrow> Some (s', r)
      | Some w \<Rightarrow>
          if (case su_release (rc_setup r) of None \<Rightarrow> True | Some v \<Rightarrow> rw_checkedAt w > rw_checkedAt v) then
            map_option (\<lambda>r'. (s', finalize E r')) (rewrite_release_step E rx (with_release r w))
          else Some (s', r)))"

end
