(* ===== verification/Collect.thy ===== *)
theory Collect
  imports Reality ReleaseWatch
begin

text \<open>
  internal/collect/collect.go, the collector: a sweep over the org, a refresh of one repository,
  the schedule. Everything outside is the record \<open>env\<close> over the world \<open>'s\<close> (clock, context, the
  GraphQL queries, the engine, the REST budget) and the record \<open>sweep_access\<close> of the store's
  operations; \<open>memory\<close> is the collector's own state (the running flag, the cached sources and
  schema). The records of a sweep are checked and written concurrently, each its own: the model
  takes them in the order of the list. The result \<open>None\<close> is a nil dereference or a listing whose
  pages never end.
\<close>

section \<open>Options\<close>

record options =
  op_org :: string
  op_engineChecks :: bool
  op_concurrency :: int
  op_pageSize :: int
  op_historyBatch :: nat
  op_historyDepth :: int
  op_budgetFloor :: int
  op_restFloor :: int
  op_interval :: duration
  op_releases :: release_options

definition DefaultPageSize :: int where "DefaultPageSize = 20"
definition minPageSize :: int where "minPageSize = 5"
definition progressEvery :: nat where "progressEvery = 50"

text \<open>\<open>HistoryBatch\<close> is a natural number: a negative one counts as 0, which \<open>defaults\<close> replaces.
  devctl's default owner is the argument.\<close>

definition defaults :: "string \<Rightarrow> options \<Rightarrow> options" where
  "defaults owner o' = o'\<lparr>
     op_org := (if op_org o' = [] then owner else op_org o'),
     op_concurrency := (if op_concurrency o' \<le> 0 then 4 else op_concurrency o'),
     op_pageSize := (if op_pageSize o' \<le> 0 then DefaultPageSize else op_pageSize o'),
     op_historyBatch := (if op_historyBatch o' = 0 then 20 else op_historyBatch o'),
     op_historyDepth := (if op_historyDepth o' \<le> 0 then 30 else op_historyDepth o'),
     op_releases := release_defaults (op_releases o')\<rparr>"

section \<open>The environment\<close>

record 'd request =
  rq_owner :: string
  rq_team :: string
  rq_entry :: "'d entry_verdict"
  rq_mode :: mode
  rq_override :: "string option"

record usage =
  us_calls :: int
  us_remaining :: int
  us_limit :: int
  us_resetAt :: time

record repo_page =
  rpg_total :: int
  rpg_page :: page_info
  rpg_nodes :: "repo_node option list"

text \<open>A repository of a history batch: \<open>None\<close> where its branch or the branch's target is nil.\<close>

record history_answer =
  ha_name :: string
  ha_target :: "commit_node list option option"

record ('s, 'd, 'o) env =
  ev_clock :: "'s \<Rightarrow> time"
  ev_ctx :: "'s \<Rightarrow> string option"
  ev_sleep :: "duration \<Rightarrow> 's \<Rightarrow> 's \<times> string option"
  ev_rest :: "'s \<Rightarrow> usage"
  ev_gql :: "'s \<Rightarrow> budget"
  ev_sources :: "string option \<Rightarrow> ('s, gql_error, sources_data reply) io"
  ev_overrides :: "string \<Rightarrow> ('s, string, 'o) io"
  ev_page :: "int \<Rightarrow> string option \<Rightarrow> ('s, gql_error, repo_page reply) io"
  ev_histories :: "string list \<Rightarrow> ('s, gql_error, history_answer list reply) io"
  ev_one :: "string \<Rightarrow> ('s, gql_error, repo_node option reply) io"
  ev_checker :: "('d request \<Rightarrow> ('s, string, result) io) option"
  ev_refused :: "'d request \<Rightarrow> time \<Rightarrow> result"
  ev_codeowners :: "'o option \<Rightarrow> string \<Rightarrow> ('s, string, string option) io"

record 's sweep_access =
  sa_records :: "'s access"
  sa_delete :: "string list \<Rightarrow> 's \<Rightarrow> 's \<times> store_error option"
  sa_sweep :: "('s, store_error, sweep_summary option) io"
  sa_put_sweep :: "sweep_summary \<Rightarrow> 's \<Rightarrow> 's \<times> store_error option"
  sa_cursor :: "('s, store_error, sweep_cursor option) io"
  sa_put_cursor :: "sweep_cursor \<Rightarrow> 's \<Rightarrow> 's \<times> store_error option"
  sa_delete_cursor :: "'s \<Rightarrow> 's \<times> store_error option"

definition store_sweep_access ::
  "'s valkey \<Rightarrow> repo_record codec \<Rightarrow> sweep_summary codec \<Rightarrow> sweep_cursor codec \<Rightarrow> store \<Rightarrow> 's sweep_access" where
  "store_sweep_access V C CS CC st = \<lparr>sa_records = store_access V C st, sa_delete = delete_records V st,
     sa_sweep = Sweep V CS st, sa_put_sweep = PutSweep V CS st, sa_cursor = SweepCursor V CC st,
     sa_put_cursor = PutSweepCursor V CC st, sa_delete_cursor = DeleteSweepCursor V st\<rparr>"

text \<open>An operation that answers an error or nothing, as a call.\<close>

definition io_err :: "('s \<Rightarrow> 's \<times> 'e option) \<Rightarrow> ('s, 'e, unit) io" where
  "io_err m s = (case m s of (s', None) \<Rightarrow> (s', Inr ()) | (s', Some e) \<Rightarrow> (s', Inl e))"

section \<open>The org's repositories\<close>

definition add_nodes :: "repo_node option list \<Rightarrow> (string \<times> repo_node) list \<Rightarrow> (string \<times> repo_node) list" where
  "add_nodes ns nodes = fold (\<lambda>n acc. case n of None \<Rightarrow> acc | Some x \<Rightarrow> AList.update (nd_name x) x acc) ns nodes"

text \<open>The result: the nodes, what is left of the budget where it fell below the floor, and the
  errors noted on the way. A page that fails is asked again at half its size.\<close>

definition halved_text :: "int \<Rightarrow> int \<Rightarrow> gql_error \<Rightarrow> int \<Rightarrow> string" where
  "halved_text page first e half = ''repositories page '' @ show_int page @ '' at '' @ show_int first @
     '' a page: '' @ gql_text e @ ''; continuing at '' @ show_int half"

partial_function (option) fetch_repositories ::
  "('s, 'd, 'o) env \<Rightarrow> int \<Rightarrow> int \<Rightarrow> string option \<Rightarrow> (string \<times> repo_node) list \<Rightarrow> string list \<Rightarrow>
   's \<Rightarrow> ('s \<times> (int \<times> gql_error + (string \<times> repo_node) list \<times> rate_limit option \<times> string list)) option" where
  "fetch_repositories V page first after nodes errs s = (case ev_page V first after s of
      (s', Inl e) \<Rightarrow>
        if first > minPageSize \<and> ev_ctx V s' = None then
          fetch_repositories V (page + 1) (max minPageSize (first div 2)) after nodes
            (errs @ [halved_text page first e (max minPageSize (first div 2))]) s'
        else Some (s', Inl (page, e))
    | (s', Inr rep) \<Rightarrow>
        (let nodes' = add_nodes (rpg_nodes (rp_data rep)) nodes; errs' = errs @ rp_partial rep in
         if rp_budget rep \<noteq> None then Some (s', Inr (nodes', rp_budget rep, errs'))
         else if \<not> pg_hasNextPage (rpg_page (rp_data rep)) then Some (s', Inr (nodes', None, errs'))
         else fetch_repositories V (page + 1) first (Some (pg_endCursor (rpg_page (rp_data rep)))) nodes' errs' s'))"

section \<open>Their histories\<close>

definition attach_history :: "history_answer \<Rightarrow> (string \<times> repo_node) list \<Rightarrow> (string \<times> repo_node) list" where
  "attach_history h nodes = (case ha_target h of
      None \<Rightarrow> nodes
    | Some hist \<Rightarrow> (case map_of nodes (ha_name h) of
        None \<Rightarrow> nodes
      | Some n \<Rightarrow> (case nd_defaultBranchRef n of
          None \<Rightarrow> nodes
        | Some b \<Rightarrow>
            (let t = (case br_target b of None \<Rightarrow> \<lparr>bt_history = None, bt_rollup = None\<rparr> | Some t \<Rightarrow> t)
             in AList.update (ha_name h)
                  (n\<lparr>nd_defaultBranchRef := Some (b\<lparr>br_target := Some (t\<lparr>bt_history := hist\<rparr>)\<rparr>)\<rparr>) nodes))))"

text \<open>\<open>batch\<close> is at least 1 after \<open>defaults\<close>; the answer is the nodes with their histories.\<close>

partial_function (option) fetch_histories ::
  "('s, 'd, 'o) env \<Rightarrow> nat \<Rightarrow> string list \<Rightarrow> (string \<times> repo_node) list \<Rightarrow>
   's \<Rightarrow> ('s \<times> (gql_error + (string \<times> repo_node) list \<times> rate_limit option)) option" where
  "fetch_histories V batch names nodes s =
     (if names = [] then Some (s, Inr (nodes, None))
      else (case ev_histories V (take (min batch (length names)) names) s of
          (s', Inl e) \<Rightarrow>
            if batch > 3 \<and> ev_ctx V s' = None then fetch_histories V (max 3 (batch div 2)) names nodes s'
            else Some (s', Inl e)
        | (s', Inr rep) \<Rightarrow>
            (let nodes' = fold attach_history (rp_data rep) nodes in
             if rp_budget rep \<noteq> None then Some (s', Inr (nodes', rp_budget rep))
             else fetch_histories V batch (drop (min batch (length names)) names) nodes' s')))"

section \<open>One repository\<close>

definition not_resolved :: string where "not_resolved = ''Could not resolve to a Repository''"

datatype collect_error =
    SweepRunning
  | NotARepository string
  | StoreFailed store_error
  | SourcesFailed sources_error
  | BudgetLow string
  | PageFailed int gql_error
  | HistoriesFailed gql_error
  | RepositoryQuery string gql_error
  | RepositoryError string string
  | NeitherDeclaredNorThere string
  | NotTold string string
  | ContextEnded string

definition fetch_one :: "('s, 'd, 'o) env \<Rightarrow> string \<Rightarrow> ('s, collect_error, repo_node option) io" where
  "fetch_one V name = io_bind (io_wrap (RepositoryQuery name) (ev_one V name)) (\<lambda>rep.
     case rp_data rep of
       Some n \<Rightarrow> io_ret (Some n)
     | None \<Rightarrow> (case find (\<lambda>p. \<not> str_contains p not_resolved) (rp_partial rep) of
         Some p \<Rightarrow> io_fail (RepositoryError name p)
       | None \<Rightarrow> io_ret None))"

section \<open>The engine's checks\<close>

definition request_of :: "string \<Rightarrow> 'd declared \<Rightarrow> 'd request" where
  "request_of org d = \<lparr>rq_owner = org, rq_team = d_team (dc_declaration d), rq_entry = dc_entry d,
     rq_mode = ModeCheck, rq_override = None\<rparr>"

definition set_checks :: "result option \<Rightarrow> time option \<Rightarrow> string \<Rightarrow> repo_record \<Rightarrow> repo_record" where
  "set_checks checks at err r = r\<lparr>rc_setup := (rc_setup r)\<lparr>su_checks := checks, su_checkedAt := at,
     su_checkError := err\<rparr>\<rparr>"

definition check_failed :: "bool \<Rightarrow> string \<Rightarrow> repo_record \<Rightarrow> repo_record" where
  "check_failed keepOld err r =
     (let su = rc_setup r;
          su' = (if keepOld then su else su\<lparr>su_checks := None, su_checkedAt := None\<rparr>)
      in r\<lparr>rc_setup := su'\<lparr>su_checkError := err\<rparr>\<rparr>)"

definition no_checker_text :: string where
  "no_checker_text = ''engine checks need a GitHub read identity''"

text \<open>The engine's run: the override, the check, and what the record's own sources say of the
  steps it skips. The flag says whether the engine ran.\<close>

definition run_checks ::
  "engine \<Rightarrow> regexp \<Rightarrow> ('s, 'd, 'o) env \<Rightarrow> ('d request \<Rightarrow> ('s, string, result) io) \<Rightarrow> string \<Rightarrow> 'o option \<Rightarrow>
   bool \<Rightarrow> 'd declared \<Rightarrow> repo_record \<Rightarrow> 's \<Rightarrow> ('s \<times> repo_record \<times> bool) option" where
  "run_checks E rx V checker org overrides keepOld d r s =
     (case ev_codeowners V overrides (rc_name r) s of
        (s1, Inl e) \<Rightarrow> Some (s1, check_failed keepOld (''read the CODEOWNERS override: '' @ e) r, False)
      | (s1, Inr override) \<Rightarrow> (case checker ((request_of org d)\<lparr>rq_override := override\<rparr>) s1 of
          (s2, Inl e) \<Rightarrow> Some (s2, check_failed keepOld e r, True)
        | (s2, Inr res) \<Rightarrow> map_option (\<lambda>res'. (s2, set_checks res' (Some (ev_clock V s2)) [] r, True))
            (fill_clientless_steps E rx (Some res) r)))"

definition check ::
  "engine \<Rightarrow> regexp \<Rightarrow> ('s, 'd, 'o) env \<Rightarrow> string \<Rightarrow> ('d, 'o) sources \<Rightarrow> bool \<Rightarrow>
   ('s \<Rightarrow> 's \<times> string option) \<Rightarrow> repo_record \<Rightarrow> 's \<Rightarrow> ('s \<times> repo_record \<times> bool) option" where
  "check E rx V org src keepOld pace r s = (case ev_checker V of
      None \<Rightarrow> Some (s,
        (if rc_declaration r \<noteq> None \<and> su_checks (rc_setup r) = None
         then r\<lparr>rc_setup := (rc_setup r)\<lparr>su_checkError := no_checker_text\<rparr>\<rparr> else r), False)
    | Some checker \<Rightarrow> (case map_of (so_declarations src) (rc_name r) of
        None \<Rightarrow> Some (s, set_checks None None [] r, False)
      | Some d \<Rightarrow>
          if rc_declaration r = None then Some (s, set_checks None None [] r, False)
          else if \<not> ev_accepted (dc_entry d) then
            Some (s, set_checks (Some (ev_refused V (request_of org d) (ev_clock V s))) (Some (ev_clock V s)) [] r, False)
          else if rc_reality r = None then Some (s, set_checks None None [] r, False)
          else (case pace s of
              (s1, Some e) \<Rightarrow> Some (s1, r, False)
            | (s1, None) \<Rightarrow> run_checks E rx V checker org (so_overrides src) keepOld d r s1)))"

text \<open>\<open>pace\<close> is nil for a refresh: no wait.\<close>

definition no_pace :: "'s \<Rightarrow> 's \<times> string option" where
  "no_pace s = (s, None)"

definition rest_pause :: "('s, 'd, 'o) env \<Rightarrow> int \<Rightarrow> 's \<Rightarrow> 's \<times> string option" where
  "rest_pause V floor s =
     (let u = ev_rest V s; now = ev_clock V s in
      if floor \<le> 0 then (s, None)
      else if us_limit u = 0 \<or> us_remaining u \<ge> floor \<or> \<not> us_resetAt u > now then (s, None)
      else ev_sleep V (time_sub (us_resetAt u) now + second) s)"

end
