(* ===== verification/Sweeps.thy ===== *)
theory Sweeps
  imports Collect
begin

text \<open>
  internal/collect/collect.go: the sweep, the refresh of one repository and the schedule, composed
  of the parts of \<open>Collect\<close>.
\<close>

section \<open>The collector's memory\<close>

record ('d, 'o, 'h) memory =
  me_running :: bool
  me_src :: "('d, 'o) sources option"
  me_srcAt :: time
  me_schema :: "'h schema_cache"

text \<open>The libraries and functions the collector is built over.\<close>

record ('s, 'd, 'o, 'h) collector =
  co_engine :: engine
  co_rx :: regexp
  co_lib :: "('d, 'h) setup_lib"
  co_yaml :: yaml_lib
  co_node :: node_lib
  co_env :: "('s, 'd, 'o) env"
  co_store :: "'s sweep_access"
  co_opts :: options
  co_schema :: "'h option"

type_synonym ('s, 'd, 'o, 'h) world = "'s \<times> ('d, 'o, 'h) memory"

definition on_world :: "('s, 'e, 'a) pio \<Rightarrow> ('s \<times> 'm, 'e, 'a) pio" where
  "on_world m st = (case m (fst st) of None \<Rightarrow> None | Some (s', r) \<Rightarrow> Some ((s', snd st), r))"

definition set_sources :: "('s, 'd, 'o, 'h) collector \<Rightarrow> ('d, 'o) sources option \<Rightarrow> ('s, 'd, 'o, 'h) world \<Rightarrow> ('s, 'd, 'o, 'h) world" where
  "set_sources C src st = (fst st, (snd st)\<lparr>me_src := src, me_srcAt := ev_clock (co_env C) (fst st)\<rparr>)"

text \<open>\<open>fetchSources\<close> on the collector's world.\<close>

definition read_sources ::
  "('s, 'd, 'o, 'h) collector \<Rightarrow> (('s, 'd, 'o, 'h) world, collect_error, ('d, 'o) sources \<times> rate_limit option) pio" where
  "read_sources C st =
     (case fetch_sources (co_lib C) (co_yaml C) (op_org (co_opts C)) (co_schema C) (ev_overrides (co_env C))
             (ev_sources (co_env C)) (fst st, me_schema (snd st)) of
        None \<Rightarrow> None
      | Some ((s', cache), r) \<Rightarrow> Some ((s', (snd st)\<lparr>me_schema := cache\<rparr>),
          (case r of Inl e \<Rightarrow> Inl (SourcesFailed e) | Inr x \<Rightarrow> Inr x)))"

section \<open>The cursor\<close>

definition sweep_cursor_of :: "('s, 'd, 'o, 'h) collector \<Rightarrow> ('s, collect_error, sweep_cursor) io" where
  "sweep_cursor_of C = (\<lambda>s. let now = ev_clock (co_env C) s; interval = op_interval (co_opts C) in
     io_bind (io_wrap StoreFailed (sa_cursor (co_store C))) (\<lambda>cur.
       let next = (case cur of
           None \<Rightarrow> \<lparr>sc_startedAt = now, sc_resumes = 0\<rparr>
         | Some c \<Rightarrow> if interval > 0 \<and> time_sub now (sc_startedAt c) < interval
             then c\<lparr>sc_resumes := sc_resumes c + 1\<rparr> else \<lparr>sc_startedAt = now, sc_resumes = 0\<rparr>)
       in io_bind (io_wrap StoreFailed (io_err (sa_put_cursor (co_store C) next))) (\<lambda>_. io_ret next)) s)"

section \<open>Checking and writing the records\<close>

record writing =
  wr_checks :: nat
  wr_written :: nat
  wr_stopped :: "store_error option"

definition stopped :: "('s, 'd, 'o) env \<Rightarrow> writing \<Rightarrow> 's \<Rightarrow> bool" where
  "stopped V w s \<longleftrightarrow> wr_stopped w \<noteq> None \<or> ev_ctx V s \<noteq> None"

definition store_record ::
  "('s, 'd, 'o, 'h) collector \<Rightarrow> repo_record \<Rightarrow> writing \<Rightarrow> 's \<Rightarrow> ('s \<times> writing) option" where
  "store_record C r w s =
     map_option (\<lambda>(s1, r1).
       let r2 = r1\<lparr>rc_refreshedAt := ev_clock (co_env C) s1, rc_source := SourceSweep\<rparr> in
       case ac_put (sa_records (co_store C)) r2 s1 of
         (s2, Some e) \<Rightarrow> (s2, w\<lparr>wr_stopped := Some e\<rparr>)
       | (s2, None) \<Rightarrow> (s2, w\<lparr>wr_written := wr_written w + 1\<rparr>))
       (keep_release (co_engine C) (co_rx C) (sa_records (co_store C)) (finalize (co_engine C) r) s)"

definition write_record ::
  "('s, 'd, 'o, 'h) collector \<Rightarrow> ('d, 'o) sources \<Rightarrow> repo_record \<Rightarrow> writing \<Rightarrow> 's \<Rightarrow> ('s \<times> writing) option" where
  "write_record C src r w s =
     (if stopped (co_env C) w s then Some (s, w)
      else
        (case (if op_engineChecks (co_opts C)
               then check (co_engine C) (co_rx C) (co_env C) (op_org (co_opts C)) src True
                      (rest_pause (co_env C) (op_restFloor (co_opts C))) r s
               else Some (s, r, False)) of
           None \<Rightarrow> None
         | Some (s1, r1, engine_ran) \<Rightarrow>
             (let w1 = w\<lparr>wr_checks := wr_checks w + (if engine_ran then 1 else 0)\<rparr> in
              if stopped (co_env C) w1 s1 then Some (s1, w1) else store_record C r1 w1 s1)))"

fun write_all ::
  "('s, 'd, 'o, 'h) collector \<Rightarrow> ('d, 'o) sources \<Rightarrow> repo_record list \<Rightarrow> writing \<Rightarrow> 's \<Rightarrow> ('s \<times> writing) option" where
  "write_all C src [] w s = Some (s, w)"
| "write_all C src (r # rs) w s = (case write_record C src r w s of
      None \<Rightarrow> None | Some (s', w') \<Rightarrow> write_all C src rs w' s')"

definition write_records ::
  "('s, 'd, 'o, 'h) collector \<Rightarrow> ('d, 'o) sources \<Rightarrow> repo_record list \<Rightarrow> ('s, collect_error, nat) pio" where
  "write_records C src rs s =
     map_option (\<lambda>(s', w).
       (s', case ev_ctx (co_env C) s' of
              Some e \<Rightarrow> Inl (ContextEnded e)
            | None \<Rightarrow> (case wr_stopped w of Some e \<Rightarrow> Inl (StoreFailed e) | None \<Rightarrow> Inr (wr_checks w))))
       (write_all C src rs \<lparr>wr_checks = 0, wr_written = 0, wr_stopped = None\<rparr> s)"

section \<open>The sweep\<close>

definition count_record :: "repo_record \<Rightarrow> sweep_summary \<Rightarrow> sweep_summary" where
  "count_record r sm =
     (let s1 = sm\<lparr>ss_repositories := ss_repositories sm + 1\<rparr>;
          s2 = (if rc_reality r = None then s1\<lparr>ss_gone := ss_gone s1 + 1\<rparr>
                else if rc_declaration r = None then s1\<lparr>ss_undeclared := ss_undeclared s1 + 1\<rparr>
                else s1\<lparr>ss_declared := ss_declared s1 + 1\<rparr>)
      in case rc_reality r of
           None \<Rightarrow> s2
         | Some re \<Rightarrow> if re_isArchived re then s2\<lparr>ss_archived := ss_archived s2 + 1\<rparr> else s2)"

text \<open>The stored records by repository, the last of a key counting.\<close>

definition existing :: "repo_record list \<Rightarrow> (string \<times> repo_record) list" where
  "existing recs = fold (\<lambda>r. AList.update (rc_repository r) r) recs []"

definition done_names :: "time \<Rightarrow> (string \<times> repo_record) list \<Rightarrow> string list" where
  "done_names started old = map (rc_name \<circ> snd) (filter (\<lambda>(k, r). \<not> rc_refreshedAt r < started) old)"

definition history_names :: "string list \<Rightarrow> (string \<times> repo_node) list \<Rightarrow> string list" where
  "history_names finished nodes =
     sort (map fst (filter (\<lambda>(n, node). \<not> nd_isEmpty node \<and> n \<notin> set finished) nodes))"

definition sweep_names :: "bool \<Rightarrow> (string \<times> repo_node) list \<Rightarrow> ('d, 'o) sources \<Rightarrow> string list" where
  "sweep_names complete nodes src =
     sort (map fst nodes @ (if complete then filter (\<lambda>n. map_of nodes n = None) (map fst (so_declarations src)) else []))"

definition stale_keys :: "string \<Rightarrow> string list \<Rightarrow> (string \<times> repo_record) list \<Rightarrow> string list" where
  "stale_keys org names old =
     map fst (filter (\<lambda>(k, r). k \<notin> set (map (\<lambda>n. org @ ''/'' @ n) names) \<and> \<not> awaits_creation r) old)"

text \<open>The records to write, and the summary with those carried over; \<open>None\<close> is the nil dereference
  of a record stored under another key than its name's.\<close>

fun assemble ::
  "('s, 'd, 'o, 'h) collector \<Rightarrow> ('d, 'o) sources \<Rightarrow> (string \<times> repo_node) list \<Rightarrow> (string \<times> repo_record) list \<Rightarrow>
   string list \<Rightarrow> string list \<Rightarrow> sweep_summary \<Rightarrow> (repo_record list \<times> sweep_summary) option" where
  "assemble C src nodes old finished [] sm = Some ([], sm)"
| "assemble C src nodes old finished (n # ns) sm =
     (let key = op_org (co_opts C) @ ''/'' @ n in
      if n \<in> set finished then
        (case map_of old key of
           None \<Rightarrow> None
         | Some r \<Rightarrow> (let sm' = count_record r sm in
             assemble C src nodes old finished ns (sm'\<lparr>ss_carried := ss_carried sm' + 1\<rparr>)))
      else map_option (\<lambda>(rs, sm').
          (build (co_engine C) (co_node C) (op_org (co_opts C)) n (map_of nodes n) src (map_of old key) None # rs, sm'))
        (assemble C src nodes old finished ns sm))"

definition empty_summary :: "sweep_cursor \<Rightarrow> sweep_summary" where
  "empty_summary cur = \<lparr>ss_startedAt = sc_startedAt cur, ss_finishedAt = zero_time, ss_duration = [],
     ss_repositories = 0, ss_declared = 0, ss_undeclared = 0, ss_gone = 0, ss_archived = 0,
     ss_engineChecks = 0, ss_removed = 0, ss_resumes = sc_resumes cur, ss_carried = 0,
     ss_graphql = zero_budget, ss_rest = zero_budget, ss_errors = []\<rparr>"

definition drawn_gql :: "budget \<Rightarrow> budget \<Rightarrow> budget" where
  "drawn_gql before after = after\<lparr>bu_calls := bu_calls after - bu_calls before, bu_cost := bu_cost after - bu_cost before\<rparr>"

definition drawn_rest :: "usage \<Rightarrow> usage \<Rightarrow> budget" where
  "drawn_rest before after = \<lparr>bu_calls = us_calls after - us_calls before, bu_cost = us_calls after - us_calls before,
     bu_remaining = us_remaining after, bu_limit = us_limit after,
     bu_resetAt = (if us_resetAt after = zero_time then None else Some (us_resetAt after))\<rparr>"

definition finish_summary ::
  "('s, 'd, 'o) env \<Rightarrow> usage \<Rightarrow> budget \<Rightarrow> 's \<Rightarrow> sweep_summary \<Rightarrow> sweep_summary" where
  "finish_summary V rest0 gql0 s sm = sm\<lparr>ss_finishedAt := ev_clock V s,
     ss_duration := duration_text (round_second (time_sub (ev_clock V s) (ss_startedAt sm))),
     ss_graphql := drawn_gql gql0 (ev_gql V s), ss_rest := drawn_rest rest0 (ev_rest V s)\<rparr>"

text \<open>The tail of a sweep, from the names to the stored summary: \<open>stop\<close> is the budget stop.\<close>

definition remove_stale ::
  "('s, 'd, 'o, 'h) collector \<Rightarrow> bool \<Rightarrow> string list \<Rightarrow> ('s, collect_error, nat) io" where
  "remove_stale C complete stale =
     (if complete then io_bind (io_wrap StoreFailed (io_err (sa_delete (co_store C) stale))) (\<lambda>_. io_ret (length stale))
      else io_ret 0)"

definition close_sweep ::
  "('s, 'd, 'o, 'h) collector \<Rightarrow> usage \<Rightarrow> budget \<Rightarrow> bool \<Rightarrow> sweep_summary \<Rightarrow> ('s, collect_error, sweep_summary) io" where
  "close_sweep C rest0 gql0 complete sm = (\<lambda>s. let sm' = finish_summary (co_env C) rest0 gql0 s sm in
     io_bind (io_wrap StoreFailed (io_err (sa_put_sweep (co_store C) sm'))) (\<lambda>_.
       if complete then io_bind (io_wrap StoreFailed (io_err (sa_delete_cursor (co_store C)))) (\<lambda>_. io_ret sm')
       else io_ret sm') s)"

definition finish_sweep ::
  "('s, 'd, 'o, 'h) collector \<Rightarrow> usage \<Rightarrow> budget \<Rightarrow> ('d, 'o) sources \<Rightarrow> (string \<times> repo_node) list \<Rightarrow>
   (string \<times> repo_record) list \<Rightarrow> string list \<Rightarrow> rate_limit option \<Rightarrow> sweep_summary \<Rightarrow>
   ('s, collect_error, sweep_summary) pio" where
  "finish_sweep C rest0 gql0 src nodes old finished stop sum0 =
     (let complete = (stop = None);
          sum1 = (case stop of None \<Rightarrow> sum0
            | Some rl \<Rightarrow> sum0\<lparr>ss_errors := ss_errors sum0 @
                [''stopped at the budget floor: '' @ budget_text (op_budgetFloor (co_opts C)) rl]\<rparr>);
          names = sweep_names complete nodes src
      in case assemble C src nodes old finished names sum1 of
           None \<Rightarrow> (\<lambda>s. None)
         | Some (records, sum2) \<Rightarrow>
             pio_bind (write_records C src records) (\<lambda>checks.
             let sum3 = fold count_record records (sum2\<lparr>ss_engineChecks := int checks\<rparr>) in
             pio_bind (pio_of (remove_stale C complete (stale_keys (op_org (co_opts C)) names old))) (\<lambda>removed.
             pio_of (close_sweep C rest0 gql0 complete (sum3\<lparr>ss_removed := int removed\<rparr>)))))"

definition read_repositories ::
  "('s, 'd, 'o, 'h) collector \<Rightarrow> rate_limit option \<Rightarrow>
   ('s, collect_error, (string \<times> repo_node) list \<times> rate_limit option \<times> string list) pio" where
  "read_repositories C stop s = (case stop of
      Some rl \<Rightarrow> Some (s, Inr ([], Some rl, []))
    | None \<Rightarrow> pio_wrap (\<lambda>(page, e). PageFailed page e)
        (fetch_repositories (co_env C) 1 (op_pageSize (co_opts C)) None [] []) s)"

definition read_histories ::
  "('s, 'd, 'o, 'h) collector \<Rightarrow> rate_limit option \<Rightarrow> string list \<Rightarrow> (string \<times> repo_node) list \<Rightarrow>
   ('s, collect_error, (string \<times> repo_node) list \<times> rate_limit option) pio" where
  "read_histories C stop finished nodes s = (case stop of
      Some rl \<Rightarrow> Some (s, Inr (nodes, Some rl))
    | None \<Rightarrow> pio_wrap HistoriesFailed
        (fetch_histories (co_env C) (op_historyBatch (co_opts C)) (history_names finished nodes) nodes) s)"

definition read_existing :: "('s, 'd, 'o, 'h) collector \<Rightarrow> ('s, collect_error, (string \<times> repo_record) list) pio" where
  "read_existing C = pio_bind (pio_wrap StoreFailed (ac_list (sa_records (co_store C)))) (\<lambda>recs. pio_of (io_ret (existing recs)))"

text \<open>A sweep from its cursor on, after the sources: the second component says whether the pass was
  complete.\<close>

definition sweep_repositories ::
  "('s, 'd, 'o, 'h) collector \<Rightarrow> usage \<Rightarrow> budget \<Rightarrow> sweep_cursor \<Rightarrow> ('d, 'o) sources \<Rightarrow> rate_limit option \<Rightarrow>
   ('s, collect_error, sweep_summary \<times> bool) pio" where
  "sweep_repositories C rest0 gql0 cur src stop0 =
     pio_bind (read_repositories C stop0) (\<lambda>(nodes, stop1, errs).
     pio_bind (read_existing C) (\<lambda>old.
     let finished = done_names (sc_startedAt cur) old;
         sum0 = (empty_summary cur)\<lparr>ss_errors := so_problems src @ errs\<rparr>
     in pio_bind (read_histories C stop1 finished nodes) (\<lambda>(nodes', stop).
        pio_bind (finish_sweep C rest0 gql0 src nodes' old finished stop sum0) (\<lambda>sm.
        pio_of (io_ret (sm, stop = None))))))"

definition sweep_body ::
  "('s, 'd, 'o, 'h) collector \<Rightarrow> (('s, 'd, 'o, 'h) world, collect_error, sweep_summary \<times> bool) pio" where
  "sweep_body C =
     pio_bind (on_world (pio_of (sweep_cursor_of C))) (\<lambda>cur st.
       let rest0 = ev_rest (co_env C) (fst st); gql0 = ev_gql (co_env C) (fst st) in
       pio_bind (read_sources C) (\<lambda>(src, stop) st'.
         on_world (sweep_repositories C rest0 gql0 cur src stop) (set_sources C (Some src) st')) st)"

definition sweep ::
  "('s, 'd, 'o, 'h) collector \<Rightarrow> (('s, 'd, 'o, 'h) world, collect_error, sweep_summary \<times> bool) pio" where
  "sweep C st =
     (if me_running (snd st) then Some (st, Inl SweepRunning)
      else map_option (\<lambda>((s', m'), r). ((s', m'\<lparr>me_running := False\<rparr>), r))
        (sweep_body C (fst st, (snd st)\<lparr>me_running := True\<rparr>)))"

section \<open>The refresh of one repository\<close>

definition sourcesTTL :: duration where "sourcesTTL = 5 * minute"

definition predates :: "time \<Rightarrow> last_run option \<Rightarrow> bool" where
  "predates at run = (case run of None \<Rightarrow> False | Some lr \<Rightarrow> person_made (lr_change lr) \<and> at < lr_timestamp lr)"

text \<open>A stop at the budget floor is an error of the read here.\<close>

definition sources_for ::
  "('s, 'd, 'o, 'h) collector \<Rightarrow> last_run option \<Rightarrow> (('s, 'd, 'o, 'h) world, collect_error, ('d, 'o) sources) pio" where
  "sources_for C run st =
     (case (if time_sub (ev_clock (co_env C) (fst st)) (me_srcAt (snd st)) < sourcesTTL \<and> \<not> predates (me_srcAt (snd st)) run
            then me_src (snd st) else None) of
        Some src \<Rightarrow> Some (st, Inr src)
      | None \<Rightarrow> pio_bind (read_sources C) (\<lambda>(src, stop) st'. case stop of
            Some rl \<Rightarrow> Some (st', Inl (BudgetLow (budget_text (op_budgetFloor (co_opts C)) rl)))
          | None \<Rightarrow> Some (set_sources C (Some src) st', Inr src)) st)"

definition get_old :: "('s, 'd, 'o, 'h) collector \<Rightarrow> string \<Rightarrow> ('s, collect_error, repo_record option) io" where
  "get_old C key s = (case ac_get (sa_records (co_store C)) key s of
      (s', Inr r) \<Rightarrow> (s', Inr (Some r))
    | (s', Inl (ErrNotFound k)) \<Rightarrow> (s', Inr None)
    | (s', Inl e) \<Rightarrow> (s', Inl (StoreFailed e)))"

text \<open>The completion hook: \<open>None\<close> where the team was told, else why not.\<close>

type_synonym 's reconciled_hook = "repo_record \<Rightarrow> 's \<Rightarrow> 's \<times> string option"

definition tell :: "'s reconciled_hook \<Rightarrow> repo_record \<Rightarrow> ('s, collect_error, unit) io" where
  "tell hook r s = (case hook r s of
      (s', None) \<Rightarrow> (s', Inr ()) | (s', Some e) \<Rightarrow> (s', Inl (NotTold (rc_repository r) e)))"

text \<open>The record rebuilt, checked and stored; told where it carries a run.\<close>

definition rebuild ::
  "('s, 'd, 'o, 'h) collector \<Rightarrow> 's reconciled_hook option \<Rightarrow> string \<Rightarrow> repo_node option \<Rightarrow> ('d, 'o) sources \<Rightarrow>
   repo_record option \<Rightarrow> last_run option \<Rightarrow> string \<Rightarrow> ('s, collect_error, repo_record) pio" where
  "rebuild C hook name node src old run source s =
     (let rec = build (co_engine C) (co_node C) (op_org (co_opts C)) name node src old run in
      case check (co_engine C) (co_rx C) (co_env C) (op_org (co_opts C)) src False no_pace rec s of
        None \<Rightarrow> None
      | Some (s1, r1, engine_ran) \<Rightarrow>
          (let r2 = (finalize (co_engine C) r1)\<lparr>rc_refreshedAt := ev_clock (co_env C) s1, rc_source := source\<rparr> in
           Some (case ac_put (sa_records (co_store C)) r2 s1 of
               (s2, Some e) \<Rightarrow> (s2, Inl (StoreFailed e))
             | (s2, None) \<Rightarrow> (case (run, hook) of
                   (Some lr, Some h) \<Rightarrow> io_bind (tell h r2) (\<lambda>_. io_ret r2) s2
                 | _ \<Rightarrow> (s2, Inr r2)))))"

definition refresh_with ::
  "('s, 'd, 'o, 'h) collector \<Rightarrow> 's reconciled_hook option \<Rightarrow> string \<Rightarrow> ('d, 'o) sources \<Rightarrow> last_run option \<Rightarrow> string \<Rightarrow>
   ('s, collect_error, repo_record) pio" where
  "refresh_with C hook name src run source =
     (let key = op_org (co_opts C) @ ''/'' @ name in
      pio_bind (pio_of (fetch_one (co_env C) name)) (\<lambda>node.
      pio_bind (pio_of (get_old C key)) (\<lambda>old.
      if node = None \<and> map_of (so_declarations src) name = None then
        (case old of
           Some r \<Rightarrow>
             if awaits_creation r then pio_of (io_ret r)
             else (\<lambda>s. Some (fst (sa_delete (co_store C) [key] s), Inl (NeitherDeclaredNorThere key)))
         | None \<Rightarrow> pio_of (io_fail (NeitherDeclaredNorThere key)))
      else rebuild C hook name node src old run source)))"

definition refresh ::
  "('s, 'd, 'o, 'h) collector \<Rightarrow> 's reconciled_hook option \<Rightarrow> string \<Rightarrow> last_run option \<Rightarrow> string \<Rightarrow>
   (('s, 'd, 'o, 'h) world, collect_error, repo_record) pio" where
  "refresh C hook repository run source =
     (let name = trim_prefix repository (op_org (co_opts C) @ ''/'') in
      if name = [] \<or> str_contains name ''/'' then pio_of (io_fail (NotARepository repository))
      else pio_bind (sources_for C run) (\<lambda>src. on_world (refresh_with C hook name src run source)))"

section \<open>The schedule\<close>

definition first_wait :: "('s, 'd, 'o, 'h) collector \<Rightarrow> duration \<Rightarrow> 's \<Rightarrow> 's \<times> duration" where
  "first_wait C interval s =
     (let now = ev_clock (co_env C) s in
      case sa_cursor (co_store C) s of (s1, r1) \<Rightarrow>
        if (case r1 of Inr (Some cur) \<Rightarrow> time_sub now (sc_startedAt cur) < interval | _ \<Rightarrow> False) then (s1, 0)
        else (case sa_sweep (co_store C) s1 of (s2, r2) \<Rightarrow>
          (s2, case r2 of
             Inr (Some before) \<Rightarrow> (if time_sub now (ss_finishedAt before) < interval
                then interval - time_sub now (ss_finishedAt before) else 0)
           | _ \<Rightarrow> 0)))"

text \<open>One turn of the loop of \<open>RunSchedule\<close>: the next wait, or that it returned.\<close>

definition schedule_turn ::
  "('s, 'd, 'o, 'h) collector \<Rightarrow> duration \<Rightarrow> duration \<Rightarrow> ('s, 'd, 'o, 'h) world \<Rightarrow>
   (('s, 'd, 'o, 'h) world \<times> duration option) option" where
  "schedule_turn C interval wait st = (case ev_sleep (co_env C) wait (fst st) of
      (s1, Some e) \<Rightarrow> Some ((s1, snd st), None)
    | (s1, None) \<Rightarrow> map_option (\<lambda>(st', r).
        (st', case r of
            Inr (sm, True) \<Rightarrow> Some interval
          | _ \<Rightarrow> if ev_ctx (co_env C) (fst st') \<noteq> None then None else Some (min interval hour)))
        (sweep C (s1, snd st)))"

end
