(* ===== verification/TeamFiles.thy ===== *)
theory TeamFiles
  imports Entries "HOL-Library.AList"
begin

text \<open>
  internal/teamfiles/teamfiles.go and rerender.go: the repository of the team files as a
  client sees it. go-github's calls are the fields of \<open>github\<close>, over the state \<open>'g\<close> of GitHub
  as the client's credential sees and changes it; the client itself is the argument \<open>G\<close>. An
  error keeps the response's status (\<open>ge_resp\<close>, \<open>None\<close> without a response) and the status of a
  \<open>github.ErrorResponse\<close> (\<open>ge_status\<close>), the two things the code looks at, beside its text.
\<close>

section \<open>GitHub\<close>

record gh_error =
  ge_resp :: "int option"
  ge_status :: "int option"
  ge_text :: string

record gh_pull =
  gp_number :: int
  gp_title :: string
  gp_body :: string
  gp_url :: string
  gp_author :: string
  gp_nodeID :: string
  gp_merged :: bool
  gp_autoMerge :: bool
  gp_mergeable :: "bool option"
  gp_headRef :: string
  gp_headSHA :: string

record dir_entry =
  de_type :: string
  de_name :: string
  de_path :: string

datatype contents = FileContents "string option" string | DirContents "dir_entry list"

record 'g github =
  gh_contents :: "string \<Rightarrow> string \<Rightarrow> string \<Rightarrow> string \<Rightarrow> ('g, gh_error, contents) io"
  gh_repository :: "string \<Rightarrow> string \<Rightarrow> ('g, gh_error, unit) io"
  gh_get_ref :: "string \<Rightarrow> string \<Rightarrow> string \<Rightarrow> ('g, gh_error, string) io"
  gh_create_tree :: "string \<Rightarrow> string \<Rightarrow> string \<Rightarrow> (string \<times> string) list \<Rightarrow> ('g, gh_error, string) io"
  gh_create_commit :: "string \<Rightarrow> string \<Rightarrow> string \<Rightarrow> string \<Rightarrow> string \<Rightarrow> ('g, gh_error, string) io"
  gh_create_ref :: "string \<Rightarrow> string \<Rightarrow> string \<Rightarrow> string \<Rightarrow> ('g, gh_error, unit) io"
  gh_update_ref :: "string \<Rightarrow> string \<Rightarrow> string \<Rightarrow> string \<Rightarrow> bool \<Rightarrow> ('g, gh_error, unit) io"
  gh_create_pull :: "string \<Rightarrow> string \<Rightarrow> string \<Rightarrow> string \<Rightarrow> string \<Rightarrow> string \<Rightarrow> ('g, gh_error, gh_pull) io"
  gh_list_pulls :: "string \<Rightarrow> string \<Rightarrow> string \<Rightarrow> string \<Rightarrow> ('g, gh_error, gh_pull list) io"
  gh_get_pull :: "string \<Rightarrow> string \<Rightarrow> int \<Rightarrow> ('g, gh_error, gh_pull) io"
  gh_merge :: "string \<Rightarrow> string \<Rightarrow> int \<Rightarrow> string \<Rightarrow> ('g, gh_error, unit) io"
  gh_auto_merge :: "string \<Rightarrow> ('g, gh_error, string list) io"
  gh_list_files :: "string \<Rightarrow> string \<Rightarrow> int \<Rightarrow> ('g, gh_error, string list) io"
  gh_create_review :: "string \<Rightarrow> string \<Rightarrow> int \<Rightarrow> string \<Rightarrow> ('g, gh_error, string) io"
  gh_list_reviews :: "string \<Rightarrow> string \<Rightarrow> int \<Rightarrow> int \<Rightarrow> ('g, gh_error, string list \<times> int) io"
  gh_dispatch :: "string \<Rightarrow> string \<Rightarrow> string \<Rightarrow> string \<Rightarrow> (string \<times> string) list \<Rightarrow> ('g, gh_error, unit) io"
  gh_membership :: "string \<Rightarrow> string \<Rightarrow> string \<Rightarrow> ('g, gh_error, string) io"
  gh_compare :: "string \<Rightarrow> string \<Rightarrow> string \<Rightarrow> string \<Rightarrow> ('g, gh_error, string \<times> string list) io"
  gh_wait :: "('g, gh_error, unit) io"

datatype tf_error =
    NotOwnerName string
  | NotAFile string
  | DecodeFile string
  | ReadFailed string gh_error
  | ReadFailedProbe string gh_error tf_error
  | RepoNotReachable string int
  | FileNotFound string string
  | ProbeFailed gh_error
  | BadTeamFile string string
  | NoEntry string "string list"
  | NoticesMissing string
  | BadYAML string string
  | OneDocument string
  | BadChannelID string string
  | BadChannelName string string
  | NoFiles
  | ReadRef string gh_error
  | ReadBranch string gh_error
  | CreateTree gh_error
  | CreateCommit gh_error
  | CreateBranch string gh_error
  | OpenPull gh_error
  | BranchExistsRead string gh_error
  | BranchExists string
  | NoNodeID
  | AutoMergeCall gh_error
  | AutoMergeRefused string
  | ListFiles int gh_error
  | ApproveFailed int gh_error
  | DispatchFailed string gh_error
  | Membership gh_error
  | MergeableUnknown int
  | ReadPull int gh_error
  | NoHeadBranch int
  | CompareFailed gh_error
  | NoMergeBase
  | NotATeamFileChange string
  | RerenderFile string entry_error
  | OnRefAlready
  | ForcePush string gh_error
  | Reviews int gh_error

section \<open>The repository\<close>

definition DefaultRepository :: string where "DefaultRepository = ''giantswarm/github''"
definition DefaultRef :: string where "DefaultRef = ''main''"
definition ChannelsDir :: string where "ChannelsDir = ''teams''"
definition ReconcilerWorkflow :: string where "ReconcilerWorkflow = ''reconcile-repositories.yaml''"
definition WriteApp :: string where "WriteApp = ''giantswarm-repo-manager''"

text \<open>devctl's \<open>reposetup.TeamFilesDir\<close>, \<open>TeamFilePath\<close>, \<open>TeamOf\<close> and \<open>SchemaPath\<close>.\<close>

record team_paths =
  tp_dir :: string
  tp_file :: "string \<Rightarrow> string"
  tp_team :: "string \<Rightarrow> string"
  tp_schema :: string

record repo =
  ro_owner :: string
  ro_name :: string
  ro_ref :: string
  ro_as :: string

definition new_repo :: "string \<Rightarrow> string \<Rightarrow> tf_error + repo" where
  "new_repo repository ref =
     (let repository' = (if repository = [] then DefaultRepository else repository);
          ref' = (if ref = [] then DefaultRef else ref)
      in case str_cut repository' ''/'' of (owner, name, ok) \<Rightarrow>
        if \<not> ok \<or> owner = [] \<or> name = [] then Inl (NotOwnerName repository')
        else Inr \<lparr>ro_owner = owner, ro_name = name, ro_ref = ref', ro_as = []\<rparr>)"

definition Slug :: "repo \<Rightarrow> string" where
  "Slug r = ro_owner r @ ''/'' @ ro_name r @ ''@'' @ ro_ref r"

definition URL :: "repo \<Rightarrow> string" where
  "URL r = ''https://github.com/'' @ ro_owner r @ ''/'' @ ro_name r"

definition WorkflowURL :: "repo \<Rightarrow> string \<Rightarrow> string" where
  "WorkflowURL r workflow = URL r @ ''/actions/workflows/'' @ workflow"

record tfile =
  fi_path :: string
  fi_content :: string
  fi_sha :: string

definition denied :: "gh_error \<Rightarrow> bool" where
  "denied e \<longleftrightarrow> ge_resp e = Some 404 \<or> ge_resp e = Some 403"

definition Reachable :: "'g github \<Rightarrow> repo \<Rightarrow> ('g, tf_error, bool) io" where
  "Reachable G r = io_bind (io_try (gh_repository G (ro_owner r) (ro_name r))) (\<lambda>a. case a of
      Inr _ \<Rightarrow> io_ret True
    | Inl e \<Rightarrow> if denied e then io_ret False else io_fail (ProbeFailed e))"

definition not_reachable :: "repo \<Rightarrow> int \<Rightarrow> tf_error" where
  "not_reachable r status = RepoNotReachable (ro_as r) status"

definition read_error :: "'g github \<Rightarrow> repo \<Rightarrow> string \<Rightarrow> gh_error \<Rightarrow> ('g, tf_error, 'a) io" where
  "read_error G r path e =
     (if denied e then
        io_bind (io_try (Reachable G r)) (\<lambda>a. case a of
            Inl perr \<Rightarrow> io_fail (ReadFailedProbe path e perr)
          | Inr reachable \<Rightarrow>
              if \<not> reachable then io_fail (not_reachable r (case ge_resp e of Some s \<Rightarrow> s | None \<Rightarrow> 0))
              else if ge_resp e = Some 404 then io_fail (FileNotFound path (ro_ref r))
              else io_fail (ReadFailed path e))
      else io_fail (ReadFailed path e))"

definition Read :: "'g github \<Rightarrow> repo \<Rightarrow> string \<Rightarrow> ('g, tf_error, tfile) io" where
  "Read G r path = io_bind (io_try (gh_contents G (ro_owner r) (ro_name r) path (ro_ref r))) (\<lambda>a. case a of
      Inl e \<Rightarrow> read_error G r path e
    | Inr (DirContents _) \<Rightarrow> io_fail (NotAFile path)
    | Inr (FileContents None _) \<Rightarrow> io_fail (DecodeFile path)
    | Inr (FileContents (Some c) sha) \<Rightarrow> io_ret \<lparr>fi_path = path, fi_content = c, fi_sha = sha\<rparr>)"

definition read_optional :: "'g github \<Rightarrow> repo \<Rightarrow> string \<Rightarrow> ('g, tf_error, string option) io" where
  "read_optional G r path = io_bind (io_try (Read G r path)) (\<lambda>a. case a of
      Inl (FileNotFound p ref) \<Rightarrow> io_ret None
    | Inl e \<Rightarrow> io_fail e
    | Inr f \<Rightarrow> io_ret (Some (fi_content f)))"

definition at_ref :: "repo \<Rightarrow> string \<Rightarrow> repo" where
  "at_ref r ref = r\<lparr>ro_ref := ref\<rparr>"

record 'd team_file =
  tf_file :: tfile
  tf_team :: string
  tf_entries :: "'d list"

definition TeamFile ::
  "'g github \<Rightarrow> team_paths \<Rightarrow> 'd reposetup \<Rightarrow> repo \<Rightarrow> string \<Rightarrow> ('g, tf_error, 'd team_file) io" where
  "TeamFile G T R r team = io_bind (Read G r (tp_file T team)) (\<lambda>f.
     case rs_parse R team (fi_content f) of
       Inl e \<Rightarrow> io_fail (BadTeamFile (fi_path f) e)
     | Inr ds \<Rightarrow> io_ret \<lparr>tf_file = f, tf_team = team, tf_entries = ds\<rparr>)"

definition Schema :: "'g github \<Rightarrow> team_paths \<Rightarrow> repo \<Rightarrow> ('g, tf_error, string option) io" where
  "Schema G T r = read_optional G r (tp_schema T)"

definition Teams :: "'g github \<Rightarrow> team_paths \<Rightarrow> repo \<Rightarrow> ('g, tf_error, string list) io" where
  "Teams G T r = io_bind (io_try (gh_contents G (ro_owner r) (ro_name r) (tp_dir T) (ro_ref r))) (\<lambda>a. case a of
      Inl e \<Rightarrow> read_error G r (tp_dir T) e
    | Inr (FileContents _ _) \<Rightarrow> io_ret []
    | Inr (DirContents dir) \<Rightarrow> io_ret (sort (map (\<lambda>e. tp_team T (de_path e))
        (filter (\<lambda>e. de_type e = ''file'' \<and> has_suffix (de_name e) ''.yaml'') dir))))"

fun find_in_teams ::
  "'g github \<Rightarrow> team_paths \<Rightarrow> 'd reposetup \<Rightarrow> repo \<Rightarrow> string \<Rightarrow> string list \<Rightarrow>
   ('g, tf_error, 'd team_file option) io" where
  "find_in_teams G T R r name [] = io_ret None"
| "find_in_teams G T R r name (team # teams) = io_bind (TeamFile G T R r team) (\<lambda>tf.
     if rs_entry R (tf_entries tf) name \<noteq> None then io_ret (Some tf)
     else find_in_teams G T R r name teams)"

definition FindEntry ::
  "'g github \<Rightarrow> team_paths \<Rightarrow> 'd reposetup \<Rightarrow> repo \<Rightarrow> string \<Rightarrow> string \<Rightarrow> ('g, tf_error, 'd team_file) io" where
  "FindEntry G T R r name hint =
     io_bind (if hint \<noteq> [] then io_ret [hint] else Teams G T r) (\<lambda>teams.
       io_bind (find_in_teams G T R r name teams) (\<lambda>found. case found of
         Some tf \<Rightarrow> io_ret tf
       | None \<Rightarrow> io_fail (NoEntry name teams)))"

section \<open>The channel file\<close>

record channel =
  cl_id :: string
  cl_name :: string

record channels =
  cs_team :: string
  cs_asks :: "channel option"
  cs_notices :: channel

definition upper :: "char \<Rightarrow> bool" where "upper c \<longleftrightarrow> CHR ''A'' \<le> c \<and> c \<le> CHR ''Z''"
definition lower :: "char \<Rightarrow> bool" where "lower c \<longleftrightarrow> CHR ''a'' \<le> c \<and> c \<le> CHR ''z''"
definition is_digit :: "char \<Rightarrow> bool" where "is_digit c \<longleftrightarrow> CHR ''0'' \<le> c \<and> c \<le> CHR ''9''"

text \<open>\<open>^[CDG][A-Z0-9]{5,}$\<close> and \<open>^[a-z0-9][a-z0-9._-]*$\<close>.\<close>

definition channelIDPattern :: "string \<Rightarrow> bool" where
  "channelIDPattern s = (case s of [] \<Rightarrow> False
     | c # cs \<Rightarrow> (c = CHR ''C'' \<or> c = CHR ''D'' \<or> c = CHR ''G'') \<and> 5 \<le> length cs \<and>
         list_all (\<lambda>d. upper d \<or> is_digit d) cs)"

definition channelNamePattern :: "string \<Rightarrow> bool" where
  "channelNamePattern s = (case s of [] \<Rightarrow> False
     | c # cs \<Rightarrow> (lower c \<or> is_digit c) \<and>
         list_all (\<lambda>d. lower d \<or> is_digit d \<or> d = CHR ''.'' \<or> d = CHR ''_'' \<or> d = CHR ''-'') cs)"

definition check_channel :: "channel \<Rightarrow> string \<Rightarrow> tf_error option" where
  "check_channel ch key =
     (if \<not> channelIDPattern (cl_id ch) then Some (BadChannelID key (cl_id ch))
      else if \<not> channelNamePattern (cl_name ch) then Some (BadChannelName key (cl_name ch))
      else None)"

text \<open>
  What yaml.v3's strict decoder answers for the content: the first document into
  \<open>asks\<close> and \<open>notices\<close> (\<open>NoDocument\<close> for io.EOF), and whether the second \<open>Decode\<close>
  answered io.EOF.
\<close>

datatype decoded = NoDocument | DecodeError string | Decoded "channel option" channel

record channel_yaml =
  cy_decode :: "string \<Rightarrow> decoded"
  cy_single :: "string \<Rightarrow> bool"

definition ParseChannels :: "channel_yaml \<Rightarrow> string \<Rightarrow> string \<Rightarrow> string \<Rightarrow> tf_error + channels" where
  "ParseChannels D team path content = (case cy_decode D content of
      NoDocument \<Rightarrow> Inl (NoticesMissing path)
    | DecodeError e \<Rightarrow> Inl (BadYAML path e)
    | Decoded asks notices \<Rightarrow>
        if \<not> cy_single D content then Inl (OneDocument path)
        else if notices = \<lparr>cl_id = [], cl_name = []\<rparr> then Inl (NoticesMissing path)
        else (case check_channel notices ''notices'' of
            Some e \<Rightarrow> Inl e
          | None \<Rightarrow> (case asks of
              None \<Rightarrow> Inr \<lparr>cs_team = team, cs_asks = None, cs_notices = notices\<rparr>
            | Some ch \<Rightarrow> (case check_channel ch ''asks'' of
                Some e \<Rightarrow> Inl e
              | None \<Rightarrow> Inr \<lparr>cs_team = team, cs_asks = Some ch, cs_notices = notices\<rparr>))))"

definition ChannelsPath :: "string \<Rightarrow> string" where
  "ChannelsPath team = ChannelsDir @ ''/'' @ team @ ''.yaml''"

definition Channels :: "'g github \<Rightarrow> channel_yaml \<Rightarrow> repo \<Rightarrow> string \<Rightarrow> ('g, tf_error, channels) io" where
  "Channels G D r team = io_bind (Read G r (ChannelsPath team)) (\<lambda>f.
     io_of (ParseChannels D team (fi_path f) (fi_content f)))"

section \<open>Pull requests\<close>

record tf_change =
  tc_branch :: string
  tc_title :: string
  tc_body :: string
  tc_files :: "(string \<times> string) list"

record opened_pull =
  op_number :: int
  op_url :: string
  op_branch :: string
  op_title :: string
  op_author :: string
  op_existing :: bool
  op_autoMerge :: bool
  op_nodeID :: string

record landing =
  la_merged :: bool
  la_autoMerge :: bool
  la_reason :: string

text \<open>The files of a change are a Go map: pairs with distinct paths, committed in the paths'
  order.\<close>

definition commit_files :: "'g github \<Rightarrow> repo \<Rightarrow> string \<Rightarrow> string \<Rightarrow> (string \<times> string) list \<Rightarrow> ('g, tf_error, string) io" where
  "commit_files G r base title files =
     io_bind (io_wrap CreateTree (gh_create_tree G (ro_owner r) (ro_name r) base
         (sort_key fst files))) (\<lambda>tree.
       io_wrap CreateCommit (gh_create_commit G (ro_owner r) (ro_name r) title tree base))"

definition open_for :: "'g github \<Rightarrow> repo \<Rightarrow> string \<Rightarrow> ('g, tf_error, opened_pull) io" where
  "open_for G r branch =
     io_bind (io_wrap (BranchExistsRead branch)
         (gh_list_pulls G (ro_owner r) (ro_name r) (ro_owner r @ '':'' @ branch) (ro_ref r))) (\<lambda>prs.
       case prs of
         [] \<Rightarrow> io_fail (BranchExists branch)
       | pr # _ \<Rightarrow> io_ret \<lparr>op_number = gp_number pr, op_url = gp_url pr, op_branch = branch,
           op_title = gp_title pr, op_author = gp_author pr, op_existing = True,
           op_autoMerge = gp_autoMerge pr, op_nodeID = gp_nodeID pr\<rparr>)"

definition OpenPullRequest :: "'g github \<Rightarrow> repo \<Rightarrow> tf_change \<Rightarrow> ('g, tf_error, opened_pull) io" where
  "OpenPullRequest G r ch =
     (if tc_files ch = [] then io_fail NoFiles
      else
        io_bind (io_wrap (ReadRef (ro_ref r))
            (gh_get_ref G (ro_owner r) (ro_name r) (''heads/'' @ ro_ref r))) (\<lambda>base.
          io_bind (io_try (gh_get_ref G (ro_owner r) (ro_name r) (''heads/'' @ tc_branch ch))) (\<lambda>existing.
            case existing of
              Inr _ \<Rightarrow> open_for G r (tc_branch ch)
            | Inl e \<Rightarrow>
                if ge_resp e \<noteq> Some 404 then io_fail (ReadBranch (tc_branch ch) e)
                else
                  io_bind (commit_files G r base (tc_title ch) (tc_files ch)) (\<lambda>sha.
                    io_bind (io_wrap (CreateBranch (tc_branch ch))
                        (gh_create_ref G (ro_owner r) (ro_name r) (''refs/heads/'' @ tc_branch ch) sha)) (\<lambda>_.
                      io_bind (io_wrap OpenPull (gh_create_pull G (ro_owner r) (ro_name r) (tc_title ch)
                          (tc_branch ch) (ro_ref r) (tc_body ch))) (\<lambda>pr.
                        io_ret \<lparr>op_number = gp_number pr, op_url = gp_url pr, op_branch = tc_branch ch,
                          op_title = tc_title ch, op_author = gp_author pr, op_existing = False,
                          op_autoMerge = False, op_nodeID = gp_nodeID pr\<rparr>))))))"

definition EnableAutoMerge :: "'g github \<Rightarrow> repo \<Rightarrow> string \<Rightarrow> ('g, tf_error, unit) io" where
  "EnableAutoMerge G r nodeID =
     (if nodeID = [] then io_fail NoNodeID
      else io_bind (io_wrap AutoMergeCall (gh_auto_merge G nodeID)) (\<lambda>errors. case errors of
          [] \<Rightarrow> io_ret ()
        | m # _ \<Rightarrow> io_fail (AutoMergeRefused m)))"

definition not_mergeable_yet :: "gh_error \<Rightarrow> bool" where
  "not_mergeable_yet e \<longleftrightarrow> ge_status e = Some 405 \<or> ge_status e = Some 409"

text \<open>The text of an error of \<open>EnableAutoMerge\<close>, as \<open>%v\<close> writes it.\<close>

fun auto_merge_text :: "repo \<Rightarrow> tf_error \<Rightarrow> string" where
  "auto_merge_text r NoNodeID = Slug r @ '': enable auto-merge: the pull request's node id is unknown''"
| "auto_merge_text r (AutoMergeCall e) = Slug r @ '': enable auto-merge: '' @ ge_text e"
| "auto_merge_text r (AutoMergeRefused m) = Slug r @ '': enable auto-merge: '' @ m"
| "auto_merge_text r _ = []"

definition pull_slug :: "repo \<Rightarrow> int \<Rightarrow> string" where
  "pull_slug r number = ro_owner r @ ''/'' @ ro_name r @ ''#'' @ show_int number"

definition landed :: "bool \<Rightarrow> bool \<Rightarrow> string \<Rightarrow> landing" where
  "landed m a reason = \<lparr>la_merged = m, la_autoMerge = a, la_reason = reason\<rparr>"

definition Land :: "'g github \<Rightarrow> repo \<Rightarrow> int \<Rightarrow> 'g \<Rightarrow> 'g \<times> landing" where
  "Land G r number g = (case gh_get_pull G (ro_owner r) (ro_name r) number g of
      (g1, Inl e) \<Rightarrow> (g1, landed False False (pull_slug r number @ '' could not be read: '' @ ge_text e))
    | (g1, Inr pr) \<Rightarrow>
        if gp_merged pr then (g1, landed True False [])
        else if gp_autoMerge pr then (g1, landed False True [])
        else
          (case gh_merge G (ro_owner r) (ro_name r) number
                  (gp_title pr @ '' (#'' @ show_int number @ '')'') g1 of
             (g2, Inr _) \<Rightarrow> (g2, landed True False [])
           | (g2, Inl e) \<Rightarrow>
               if \<not> not_mergeable_yet e then
                 (g2, landed False False (''merging '' @ pull_slug r number @ '' failed: '' @ ge_text e))
               else
                 (case EnableAutoMerge G r (gp_nodeID pr) g2 of
                    (g3, Inl e') \<Rightarrow> (g3, landed False False (pull_slug r number @
                      '' cannot be merged yet and auto-merge could not be armed: '' @ auto_merge_text r e'))
                  | (g3, Inr _) \<Rightarrow> (g3, landed False True []))))"

definition is_team_file :: "team_paths \<Rightarrow> string \<Rightarrow> bool" where
  "is_team_file T path \<longleftrightarrow> has_prefix path (tp_dir T @ ''/'') \<and> has_suffix path ''.yaml''"

definition ChangedTeamFiles :: "'g github \<Rightarrow> team_paths \<Rightarrow> repo \<Rightarrow> int \<Rightarrow> ('g, tf_error, string list) io" where
  "ChangedTeamFiles G T r number =
     io_bind (io_wrap (ListFiles number) (gh_list_files G (ro_owner r) (ro_name r) number)) (\<lambda>files.
       io_ret (map (tp_team T) (filter (is_team_file T) files)))"

definition Approve :: "'g github \<Rightarrow> repo \<Rightarrow> int \<Rightarrow> string \<Rightarrow> ('g, tf_error, string) io" where
  "Approve G r number body =
     io_wrap (ApproveFailed number) (gh_create_review G (ro_owner r) (ro_name r) number body)"

definition Dispatch :: "'g github \<Rightarrow> repo \<Rightarrow> string \<Rightarrow> (string \<times> string) list \<Rightarrow> ('g, tf_error, unit) io" where
  "Dispatch G r workflow inputs =
     io_wrap (DispatchFailed workflow) (gh_dispatch G (ro_owner r) (ro_name r) workflow (ro_ref r) inputs)"

definition IsMember :: "'g github \<Rightarrow> string \<Rightarrow> string \<Rightarrow> string \<Rightarrow> ('g, tf_error, bool) io" where
  "IsMember G org team login = io_bind (io_try (gh_membership G org team login)) (\<lambda>a. case a of
      Inl e \<Rightarrow> if ge_resp e = Some 404 then io_ret False else io_fail (Membership e)
    | Inr state \<Rightarrow> io_ret (state = ''active''))"

section \<open>Re-rendering a pull request\<close>

definition mergeableReads :: nat where "mergeableReads = 4"

text \<open>\<open>Conflicts\<close>: the loop's counter runs from 1 to \<open>mergeableReads\<close>; \<open>fuel\<close> counts the turns
  left. \<open>gh_wait\<close> is the pause, whose error is the context's.\<close>

fun conflicts_loop ::
  "'g github \<Rightarrow> repo \<Rightarrow> nat \<Rightarrow> gh_pull \<Rightarrow> ('g, tf_error, gh_pull \<times> bool) io" where
  "conflicts_loop G r fuel pr = (case gp_mergeable pr of
      Some m \<Rightarrow> io_ret (pr, \<not> m)
    | None \<Rightarrow> (case fuel of
        0 \<Rightarrow> io_fail (MergeableUnknown (gp_number pr))
      | Suc n \<Rightarrow> io_bind (io_wrap (ReadPull (gp_number pr)) (gh_wait G)) (\<lambda>_.
          io_bind (io_wrap (ReadPull (gp_number pr))
              (gh_get_pull G (ro_owner r) (ro_name r) (gp_number pr))) (\<lambda>again.
            conflicts_loop G r n again))))"

definition Conflicts :: "'g github \<Rightarrow> repo \<Rightarrow> gh_pull \<Rightarrow> ('g, tf_error, gh_pull \<times> bool) io" where
  "Conflicts G r pr = conflicts_loop G r (mergeableReads - 1) pr"

record rerendered =
  rr_number :: int
  rr_branch :: string
  rr_base :: string
  rr_commit :: string
  rr_files :: "string list"
  rr_entries :: "string list"

text \<open>The loop over the files the comparison names: the rewritten files, by path, and the
  names of the entries they change.\<close>

definition rerender_step ::
  "'g github \<Rightarrow> yaml \<Rightarrow> 'd reposetup \<Rightarrow> team_paths \<Rightarrow> repo \<Rightarrow> string \<Rightarrow> string \<Rightarrow> string \<Rightarrow>
   (string \<times> string) list \<times> string list \<Rightarrow> ('g, tf_error, (string \<times> string) list \<times> string list) io" where
  "rerender_step G Y R T r mergeBase branch path acc =
     (if \<not> is_team_file T path then io_fail (NotATeamFileChange path)
      else
        io_bind (read_optional G (at_ref r mergeBase) path) (\<lambda>was.
          io_bind (read_optional G (at_ref r branch) path) (\<lambda>want.
            io_bind (read_optional G r path) (\<lambda>now.
              case rerender_file Y R (tp_team T path) was want now of
                Inl e \<Rightarrow> io_fail (RerenderFile path e)
              | Inr (content, names) \<Rightarrow>
                  io_ret (if content = (case now of None \<Rightarrow> [] | Some b \<Rightarrow> b) then fst acc
                          else AList.update path content (fst acc),
                    snd acc @ names)))))"

definition Rerender ::
  "'g github \<Rightarrow> yaml \<Rightarrow> 'd reposetup \<Rightarrow> team_paths \<Rightarrow> repo \<Rightarrow> gh_pull \<Rightarrow> ('g, tf_error, rerendered) io" where
  "Rerender G Y R T r pr =
     (let number = gp_number pr; branch = gp_headRef pr; head = gp_headSHA pr in
      if branch = [] \<or> head = [] then io_fail (NoHeadBranch number)
      else
        io_bind (io_wrap CompareFailed (gh_compare G (ro_owner r) (ro_name r) (ro_ref r) head)) (\<lambda>(mergeBase, changed).
          if mergeBase = [] then io_fail NoMergeBase
          else
            io_bind (io_wrap (ReadRef (ro_ref r))
                (gh_get_ref G (ro_owner r) (ro_name r) (''heads/'' @ ro_ref r))) (\<lambda>base.
              io_bind (io_fold (rerender_step G Y R T r mergeBase branch) changed ([], [])) (\<lambda>(files, entries).
                if files = [] then io_fail OnRefAlready
                else
                  io_bind (commit_files G r base (gp_title pr) files) (\<lambda>sha.
                    io_bind (io_wrap (ForcePush branch)
                        (gh_update_ref G (ro_owner r) (ro_name r) (''heads/'' @ branch) sha True)) (\<lambda>_.
                      io_ret \<lparr>rr_number = number, rr_branch = branch, rr_base = base, rr_commit = sha,
                        rr_files = sort (map fst files), rr_entries = sort (remdups entries)\<rparr>))))))"

text \<open>\<open>Approved\<close> follows the pages of reviews: \<open>None\<close> where they never end.\<close>

partial_function (option) approved_from ::
  "'g github \<Rightarrow> repo \<Rightarrow> int \<Rightarrow> int \<Rightarrow> 'g \<Rightarrow> ('g \<times> (tf_error + bool)) option" where
  "approved_from G r number page g = (case gh_list_reviews G (ro_owner r) (ro_name r) number page g of
      (g', Inl e) \<Rightarrow> Some (g', Inl (Reviews number e))
    | (g', Inr (states, next_page)) \<Rightarrow>
        if ''APPROVED'' \<in> set states then Some (g', Inr True)
        else if next_page = 0 then Some (g', Inr False)
        else approved_from G r number next_page g')"

definition Approved :: "'g github \<Rightarrow> repo \<Rightarrow> int \<Rightarrow> 'g \<Rightarrow> ('g \<times> (tf_error + bool)) option" where
  "Approved G r number = approved_from G r number 0"

end
