(* ===== verification/Reconciler.thy ===== *)
theory Reconciler
  imports Sweeps TeamFiles
begin

text \<open>
  internal/collect/reconciler.go: the poller of the reconciler's workflow runs. The Actions and pull
  request calls of go-github, the download and the zip are the fields of \<open>actions\<close>; the store's
  lease and cursor those of \<open>poll_access\<close>; the completion and conflict hooks are arguments. A
  run's artifacts are read concurrently, each for its own repository: the model takes them in the
  order of the list. \<open>None\<close> is a nil dereference or a listing that never ends.
\<close>

section \<open>Options\<close>

record reconciler_options =
  rk_repository :: string
  rk_workflow :: string
  rk_pollInterval :: duration
  rk_pendingInterval :: duration
  rk_pendingWindow :: duration
  rk_lookback :: duration
  rk_maxArtifact :: int

definition DefaultReconcilerPoll :: duration where "DefaultReconcilerPoll = 5 * minute"
definition defaultPendingInterval :: duration where "defaultPendingInterval = 30 * second"
definition defaultPendingWindow :: duration where "defaultPendingWindow = 15 * minute"
definition defaultLookback :: duration where "defaultLookback = 7 * 24 * hour"
definition defaultMaxArtifact :: int where "defaultMaxArtifact = 4 * 2 ^ 20"
definition leaseTTL :: duration where "leaseTTL = 3 * minute"
definition retryWindow :: duration where "retryWindow = 30 * minute"
definition ArtifactPrefix :: string where "ArtifactPrefix = ''reconcile-''"
definition runCompleted :: string where "runCompleted = ''completed''"
definition runSuccess :: string where "runSuccess = ''success''"
definition eventWorkflowDispatch :: string where "eventWorkflowDispatch = ''workflow_dispatch''"
definition eventPush :: string where "eventPush = ''push''"
definition reconcileJobPrefix :: string where "reconcileJobPrefix = ''Reconcile ''"
definition dispatchSlack :: duration where "dispatchSlack = minute"

definition reconciler_defaults :: "reconciler_options \<Rightarrow> reconciler_options" where
  "reconciler_defaults o' = o'\<lparr>
     rk_repository := (if rk_repository o' = [] then DefaultRepository else rk_repository o'),
     rk_workflow := (if rk_workflow o' = [] then ReconcilerWorkflow else rk_workflow o'),
     rk_pendingInterval := (if rk_pendingInterval o' \<le> 0 then defaultPendingInterval else rk_pendingInterval o'),
     rk_pendingWindow := (if rk_pendingWindow o' \<le> 0 then defaultPendingWindow else rk_pendingWindow o'),
     rk_lookback := (if rk_lookback o' \<le> 0 then defaultLookback else rk_lookback o'),
     rk_maxArtifact := (if rk_maxArtifact o' \<le> 0 then defaultMaxArtifact else rk_maxArtifact o')\<rparr>"

definition reconciler_repo :: "reconciler_options \<Rightarrow> string \<times> string" where
  "reconciler_repo o' = (case str_cut (rk_repository o') ''/'' of (owner, name, found) \<Rightarrow> (owner, name))"

definition runs_url :: "reconciler_options \<Rightarrow> string" where
  "runs_url o' = (case reconciler_repo o' of (owner, name) \<Rightarrow>
     WorkflowURL \<lparr>ro_owner = owner, ro_name = name, ro_ref = [], ro_as = []\<rparr> (rk_workflow o'))"

section \<open>Runs, jobs and artifacts\<close>

record workflow_run =
  wr_id :: int
  wr_attempt :: int
  wr_status :: string
  wr_conclusion :: string
  wr_event :: string
  wr_headSHA :: string
  wr_url :: string
  wr_createdAt :: time
  wr_updatedAt :: time

record artifact =
  at_id :: int
  at_name :: string
  at_expired :: bool
  at_size :: int

record poll_pull =
  pp_merged :: bool
  pp_mergedAt :: time
  pp_mergeSHA :: string
  pp_state :: string
  pp_mergeable :: "bool option"

text \<open>A decoded report: the result with when it finished, the run's URL, when the report finished
  and the change the run followed. The run number fields only have to be numbers.\<close>

record report =
  rt_result :: result
  rt_resultFinishedAt :: time
  rt_runURL :: string
  rt_finishedAt :: time
  rt_change :: "change option"

datatype download_error = DownloadFailed string | Malformed string

record 's actions =
  ax_runs :: "string \<Rightarrow> int \<Rightarrow> ('s, string, workflow_run list \<times> int) io"
  ax_artifacts :: "int \<Rightarrow> int \<Rightarrow> ('s, string, artifact list \<times> int) io"
  ax_jobs :: "int \<Rightarrow> int \<Rightarrow> ('s, string, string list \<times> int) io"
  ax_download :: "int \<Rightarrow> ('s, string, string) io"
  ax_unzip :: "string \<Rightarrow> (string \<times> (string + string)) list option"
  ax_report :: "string \<Rightarrow> string + report"
  ax_pull :: "int \<Rightarrow> ('s, string, poll_pull) io"

text \<open>The loop of the three listings: the page after the last is 0.\<close>

partial_function (option) list_pages ::
  "(int \<Rightarrow> ('s, string, 'x list \<times> int) io) \<Rightarrow> int \<Rightarrow> 'x list \<Rightarrow> 's \<Rightarrow> ('s \<times> (string + 'x list)) option" where
  "list_pages call page out s = (case call page s of
      (s', Inl e) \<Rightarrow> Some (s', Inl e)
    | (s', Inr (xs, next_page)) \<Rightarrow>
        if next_page = 0 then Some (s', Inr (out @ xs)) else list_pages call next_page (out @ xs) s')"

definition run_key :: "workflow_run \<Rightarrow> string" where
  "run_key run = show_int (wr_id run) @ ''/'' @ show_int (wr_attempt run)"

text \<open>The listing's filter, in the format of the pattern.\<close>

definition created_filter :: "time \<Rightarrow> string" where
  "created_filter since = ''>='' @ take (length (rfc3339 since) - 1) (rfc3339 since) @ ''+00:00''"

fun last_index :: "string \<Rightarrow> string \<Rightarrow> nat option" where
  "last_index [] sub = (if sub = [] then Some 0 else None)"
| "last_index (c # cs) sub = (case last_index cs sub of
      Some i \<Rightarrow> Some (Suc i)
    | None \<Rightarrow> if has_prefix (c # cs) sub then Some 0 else None)"

definition repository_of_job :: "string \<Rightarrow> string" where
  "repository_of_job job =
     (let j = (case last_index job '' / '' of Some i \<Rightarrow> drop (i + 3) job | None \<Rightarrow> job) in
      if has_prefix j reconcileJobPrefix then drop (length reconcileJobPrefix) j else [])"

definition run_repositories :: "'s actions \<Rightarrow> int \<Rightarrow> ('s, string, string list) pio" where
  "run_repositories X run =
     pio_bind (list_pages (ax_jobs X run) 0 []) (\<lambda>jobs. pio_of (io_ret (filter (\<lambda>n. n \<noteq> []) (map repository_of_job jobs))))"

section \<open>An artifact's report\<close>

text \<open>\<open>runNumber\<close>: the raw JSON of a run's id or attempt, nothing, a number or a string of one.
  \<open>strconv.Unquote\<close> is the argument.\<close>

definition run_number :: "(string \<Rightarrow> string option) \<Rightarrow> string \<Rightarrow> string \<Rightarrow> string + int" where
  "run_number unquote raw field =
     (if raw = [] \<or> raw = ''null'' then Inr 0
      else (case atoi (case unquote raw of Some u \<Rightarrow> u | None \<Rightarrow> raw) of
          Some n \<Rightarrow> Inr n
        | None \<Rightarrow> Inl (field @ '': '' @ raw @ '' is not a run number'')))"

fun decode_files ::
  "(string \<Rightarrow> string + report) \<Rightarrow> int \<Rightarrow> (string \<times> (string + string)) list \<Rightarrow> download_error + report" where
  "decode_files decode limit [] = Inl (Malformed ''no JSON file in the zip'')"
| "decode_files decode limit ((name, content) # fs) =
     (if \<not> has_suffix name ''.json'' then decode_files decode limit fs
      else (case content of
          Inl e \<Rightarrow> Inl (Malformed e)
        | Inr b \<Rightarrow>
            if int (length b) > limit then Inl (Malformed (name @ '' is over '' @ show_int limit @ '' bytes''))
            else (case decode b of Inl e \<Rightarrow> Inl (Malformed (name @ '': '' @ e)) | Inr r \<Rightarrow> Inr r)))"

definition decode_artifact :: "'s actions \<Rightarrow> string \<Rightarrow> int \<Rightarrow> download_error + report" where
  "decode_artifact X zipped limit = (case ax_unzip X zipped of
      None \<Rightarrow> Inl (Malformed ''zip: not a valid zip file'')
    | Some files \<Rightarrow> decode_files (ax_report X) limit files)"

definition download_artifact :: "'s actions \<Rightarrow> int \<Rightarrow> int \<Rightarrow> ('s, download_error, report) io" where
  "download_artifact X limit i = io_bind (io_wrap DownloadFailed (ax_download X i)) (\<lambda>body.
     if int (length body) > limit then io_fail (Malformed (''over '' @ show_int limit @ '' bytes''))
     else io_of (decode_artifact X body limit))"

fun first_time :: "time list \<Rightarrow> time" where
  "first_time [] = zero_time"
| "first_time (t # ts) = (if t \<noteq> zero_time then t else first_time ts)"

section \<open>The poll's record\<close>

record reconciler_poll =
  po_runs :: nat
  po_artifacts :: nat
  po_skipped :: nat
  po_pending :: nat
  po_missing :: nat
  po_conflicting :: nat
  po_watermark :: time
  po_standby :: bool
  po_errors :: nat

definition empty_poll :: reconciler_poll where
  "empty_poll = \<lparr>po_runs = 0, po_artifacts = 0, po_skipped = 0, po_pending = 0, po_missing = 0,
     po_conflicting = 0, po_watermark = zero_time, po_standby = False, po_errors = 0\<rparr>"

record 's poll_access =
  pa_lease :: "('s, store_error, bool) io"
  pa_release :: "'s \<Rightarrow> 's \<times> store_error option"
  pa_cursor :: "('s, store_error, reconciler_cursor option) io"
  pa_put_cursor :: "reconciler_cursor \<Rightarrow> 's \<Rightarrow> 's \<times> store_error option"

definition store_poll_access :: "'s valkey \<Rightarrow> reconciler_cursor codec \<Rightarrow> store \<Rightarrow> string \<Rightarrow> 's poll_access" where
  "store_poll_access V C st holder = \<lparr>pa_lease = LeaseReconciler V st holder leaseTTL,
     pa_release = ReleaseReconciler V st holder, pa_cursor = ReconcilerCursor V C st,
     pa_put_cursor = PutReconcilerCursor V C st\<rparr>"

record ('s, 'd, 'o, 'h) poller =
  pl_collector :: "('s, 'd, 'o, 'h) collector"
  pl_opts :: reconciler_options
  pl_actions :: "'s actions"
  pl_access :: "'s poll_access"
  pl_reconciled :: "'s reconciled_hook option"
  pl_conflicted :: "(repo_record \<Rightarrow> poll_pull \<Rightarrow> 's \<Rightarrow> 's) option"

abbreviation pl_env where "pl_env P \<equiv> co_env (pl_collector P)"
abbreviation pl_records where "pl_records P \<equiv> sa_records (co_store (pl_collector P))"
abbreviation pl_org where "pl_org P \<equiv> op_org (co_opts (pl_collector P))"

section \<open>One artifact\<close>

text \<open>How the caller reads the result: stored, already there, malformed, a repository that is not
  there yet, a team not told, or unread now.\<close>

datatype artifact_outcome = Stored | AlreadyStored | BadArtifact | NotThereYet | NotToldYet | Unread

fun outcome_of :: "collect_error \<Rightarrow> artifact_outcome" where
  "outcome_of (NeitherDeclaredNorThere k) = NotThereYet"
| "outcome_of (NotTold r e) = NotToldYet"
| "outcome_of _ = Unread"

definition last_run_of :: "workflow_run \<Rightarrow> report \<Rightarrow> last_run" where
  "last_run_of run rep = \<lparr>lr_result = rt_result rep,
     lr_runURL = first_non_empty [rt_runURL rep, wr_url run],
     lr_timestamp = first_time [rt_finishedAt rep, rt_resultFinishedAt rep, wr_updatedAt run],
     lr_runID = wr_id run, lr_attempt = wr_attempt run, lr_change = rt_change rep, lr_told = False\<rparr>"

definition store_report ::
  "('s, 'd, 'o, 'h) poller \<Rightarrow> string \<Rightarrow> last_run option \<Rightarrow> last_run \<Rightarrow> ('s, 'd, 'o, 'h) world \<Rightarrow>
   (('s, 'd, 'o, 'h) world \<times> artifact_outcome) option" where
  "store_report P key stored lr st =
     (if (case stored of None \<Rightarrow> False | Some before \<Rightarrow> lr_timestamp before > lr_timestamp lr) then Some (st, AlreadyStored)
      else map_option (\<lambda>(st', r). (st', case r of Inl e \<Rightarrow> outcome_of e | Inr _ \<Rightarrow> Stored))
        (refresh (pl_collector P) (pl_reconciled P) key (Some lr) SourceReconciler st))"

definition fetch_report ::
  "('s, 'd, 'o, 'h) poller \<Rightarrow> workflow_run \<Rightarrow> artifact \<Rightarrow> string \<Rightarrow> last_run option \<Rightarrow> ('s, 'd, 'o, 'h) world \<Rightarrow>
   (('s, 'd, 'o, 'h) world \<times> artifact_outcome) option" where
  "fetch_report P run a key stored st =
     (if at_size a > rk_maxArtifact (pl_opts P) then Some (st, BadArtifact)
      else (case download_artifact (pl_actions P) (rk_maxArtifact (pl_opts P)) (at_id a) (fst st) of
          (s', Inl (DownloadFailed e)) \<Rightarrow> Some ((s', snd st), Unread)
        | (s', Inl (Malformed e)) \<Rightarrow> Some ((s', snd st), BadArtifact)
        | (s', Inr rep) \<Rightarrow> store_report P key stored (last_run_of run rep) (s', snd st)))"

text \<open>A run the record names already: told now where nobody was told of it.\<close>

definition tell_again ::
  "('s, 'd, 'o, 'h) poller \<Rightarrow> repo_record \<Rightarrow> last_run \<Rightarrow> 's \<Rightarrow> 's \<times> artifact_outcome" where
  "tell_again P r lr s = (case pl_reconciled P of
      None \<Rightarrow> (s, AlreadyStored)
    | Some h \<Rightarrow>
        if lr_told lr then (s, AlreadyStored)
        else (case tell h r s of (s', Inl e) \<Rightarrow> (s', NotToldYet) | (s', Inr u) \<Rightarrow> (s', Stored)))"

definition consume_artifact ::
  "('s, 'd, 'o, 'h) poller \<Rightarrow> workflow_run \<Rightarrow> artifact \<Rightarrow> string \<Rightarrow> ('s, 'd, 'o, 'h) world \<Rightarrow>
   (('s, 'd, 'o, 'h) world \<times> artifact_outcome) option" where
  "consume_artifact P run a name st =
     (let key = pl_org P @ ''/'' @ name in
      case get_old (pl_collector P) key (fst st) of
        (s1, Inl e) \<Rightarrow> Some ((s1, snd st), Unread)
      | (s1, Inr None) \<Rightarrow> fetch_report P run a key None (s1, snd st)
      | (s1, Inr (Some r)) \<Rightarrow> (case su_lastRun (rc_setup r) of
          None \<Rightarrow> fetch_report P run a key None (s1, snd st)
        | Some lr \<Rightarrow>
            if run_names (Some lr) (wr_id run) (wr_attempt run) then
              (case tell_again P r lr s1 of (s2, out) \<Rightarrow> Some ((s2, snd st), out))
            else fetch_report P run a key (Some lr) (s1, snd st)))"

section \<open>One run\<close>

definition reports_of :: "artifact list \<Rightarrow> (artifact \<times> string) list" where
  "reports_of as = map (\<lambda>a. (a, trim_prefix (at_name a) ArtifactPrefix))
     (filter (\<lambda>a. has_prefix (at_name a) ArtifactPrefix \<and> \<not> at_expired a) as)"

text \<open>What an outcome does to the poll's record and to whether the run stays open. \<open>recent\<close> says the
  run completed less than \<open>retryWindow\<close> ago.\<close>

definition note_outcome :: "artifact_outcome \<Rightarrow> bool \<Rightarrow> reconciler_poll \<times> bool \<Rightarrow> reconciler_poll \<times> bool" where
  "note_outcome out recent acc = (case acc of (poll, ok) \<Rightarrow>
     (case out of
        Stored \<Rightarrow> (poll\<lparr>po_artifacts := po_artifacts poll + 1\<rparr>, ok)
      | AlreadyStored \<Rightarrow> (poll\<lparr>po_skipped := po_skipped poll + 1\<rparr>, ok)
      | BadArtifact \<Rightarrow> (poll\<lparr>po_errors := po_errors poll + 1\<rparr>, ok)
      | NotThereYet \<Rightarrow> (poll\<lparr>po_errors := po_errors poll + 1\<rparr>, ok \<and> \<not> recent)
      | NotToldYet \<Rightarrow> (poll\<lparr>po_errors := po_errors poll + 1\<rparr>, ok \<and> \<not> recent)
      | Unread \<Rightarrow> (poll\<lparr>po_errors := po_errors poll + 1\<rparr>, False)))"

fun consume_reports ::
  "('s, 'd, 'o, 'h) poller \<Rightarrow> workflow_run \<Rightarrow> (artifact \<times> string) list \<Rightarrow> reconciler_poll \<times> bool \<Rightarrow>
   ('s, 'd, 'o, 'h) world \<Rightarrow> (('s, 'd, 'o, 'h) world \<times> reconciler_poll \<times> bool) option" where
  "consume_reports P run [] acc st = Some (st, acc)"
| "consume_reports P run ((a, name) # rs) acc st = (case consume_artifact P run a name st of
      None \<Rightarrow> None
    | Some (st1, out) \<Rightarrow>
        (let st2 = (if out = NotThereYet then set_sources (pl_collector P) None st1 else st1);
             recent = time_sub (ev_clock (pl_env P) (fst st2)) (wr_updatedAt run) < retryWindow
         in consume_reports P run rs (note_outcome out recent acc) st2))"

definition expects :: "pending_run \<Rightarrow> workflow_run \<Rightarrow> string \<Rightarrow> bool" where
  "expects p run mergeSHA = (case pn_pullRequest p of
      None \<Rightarrow> wr_event run = eventWorkflowDispatch \<and> \<not> pn_dispatchedAt p > wr_createdAt run + dispatchSlack
    | Some pr \<Rightarrow> wr_event run = eventPush \<and> mergeSHA \<noteq> [] \<and> mergeSHA = wr_headSHA run)"

text \<open>The record with the merge noted, and the merge commit.\<close>

definition read_merge_commit ::
  "('s, 'd, 'o, 'h) poller \<Rightarrow> repo_record \<Rightarrow> pending_run \<Rightarrow> change_pull_request \<Rightarrow> 's \<Rightarrow> 's \<times> repo_record \<times> string" where
  "read_merge_commit P r p pr s = (case ax_pull (pl_actions P) (cp_number pr) s of
      (s', Inl e) \<Rightarrow> (s', r, [])
    | (s', Inr pull) \<Rightarrow>
        if \<not> pp_merged pull then (s', r, [])
        else (s', (if pn_mergedAt p = None then (case merged (pp_mergedAt pull) r of Some r' \<Rightarrow> r' | None \<Rightarrow> r) else r),
              pp_mergeSHA pull))"

definition fail_record ::
  "('s, 'd, 'o, 'h) poller \<Rightarrow> workflow_run \<Rightarrow> time \<Rightarrow> repo_record \<Rightarrow> reconciler_poll \<Rightarrow> 's \<Rightarrow> 's \<times> reconciler_poll" where
  "fail_record P run now r poll s = (case su_pendingRun (rc_setup r) of
      None \<Rightarrow> (s, poll)
    | Some p \<Rightarrow>
        (case (case pn_pullRequest p of
             Some pr \<Rightarrow> if wr_event run = eventPush then read_merge_commit P r p pr s else (s, r, [])
           | None \<Rightarrow> (s, r, [])) of
           (s1, r1, sha) \<Rightarrow>
             if \<not> expects p run sha then (s1, poll)
             else (case ac_put (pl_records P)
                 (run_failed (co_engine (pl_collector P)) now (runs_url (pl_opts P)) (wr_url run) (wr_conclusion run) r1) s1 of
                 (s2, Some e) \<Rightarrow> (s2, poll)
               | (s2, None) \<Rightarrow> (s2, poll\<lparr>po_missing := po_missing poll + 1\<rparr>))))"

fun fail_names ::
  "('s, 'd, 'o, 'h) poller \<Rightarrow> workflow_run \<Rightarrow> string list \<Rightarrow> time \<Rightarrow> string list \<Rightarrow> reconciler_poll \<Rightarrow> 's \<Rightarrow> 's \<times> reconciler_poll" where
  "fail_names P run reported_names now [] poll s = (s, poll)"
| "fail_names P run reported_names now (name # names) poll s =
     (if name \<in> set reported_names then fail_names P run reported_names now names poll s
      else (case ac_get (pl_records P) (pl_org P @ ''/'' @ name) s of
          (s1, Inl e) \<Rightarrow> fail_names P run reported_names now names poll s1
        | (s1, Inr r) \<Rightarrow> (case fail_record P run now r poll s1 of
            (s2, poll') \<Rightarrow> fail_names P run reported_names now names poll' s2)))"

definition run_without_report ::
  "('s, 'd, 'o, 'h) poller \<Rightarrow> workflow_run \<Rightarrow> string list \<Rightarrow> reconciler_poll \<Rightarrow> 's \<Rightarrow> ('s \<times> reconciler_poll) option" where
  "run_without_report P run reported_names poll s = (case run_repositories (pl_actions P) (wr_id run) s of
      None \<Rightarrow> None
    | Some (s', Inl e) \<Rightarrow> Some (s', poll\<lparr>po_errors := po_errors poll + 1\<rparr>)
    | Some (s', Inr names) \<Rightarrow> Some (fail_names P run reported_names (ev_clock (pl_env P) s') names poll s'))"

definition consume_run ::
  "('s, 'd, 'o, 'h) poller \<Rightarrow> workflow_run \<Rightarrow> reconciler_poll \<Rightarrow> ('s, 'd, 'o, 'h) world \<Rightarrow>
   (('s, 'd, 'o, 'h) world \<times> reconciler_poll \<times> bool) option" where
  "consume_run P run poll st = (case list_pages (ax_artifacts (pl_actions P) (wr_id run)) 0 [] (fst st) of
      None \<Rightarrow> None
    | Some (s1, Inl e) \<Rightarrow> Some ((s1, snd st), poll\<lparr>po_errors := po_errors poll + 1\<rparr>, False)
    | Some (s1, Inr as) \<Rightarrow>
        (case consume_reports P run (reports_of as) (poll, True) (s1, snd st) of
           None \<Rightarrow> None
         | Some (st2, poll2, ok) \<Rightarrow>
             if reports_of as = [] \<or> wr_conclusion run \<noteq> runSuccess then
               map_option (\<lambda>(s3, poll3). ((s3, snd st2), poll3, ok))
                 (run_without_report P run (map snd (reports_of as)) poll2 (fst st2))
             else Some (st2, poll2, ok)))"

section \<open>Pending runs\<close>

text \<open>Whether GitHub reports the open pull request conflicting: noted once, dropped when it merges
  again.\<close>

definition read_conflict ::
  "('s, 'd, 'o, 'h) poller \<Rightarrow> repo_record \<Rightarrow> poll_pull \<Rightarrow> reconciler_poll \<Rightarrow> 's \<Rightarrow> 's \<times> reconciler_poll" where
  "read_conflict P r pull poll s = (case pp_mergeable pull of
      None \<Rightarrow> (s, poll)
    | Some mergeable_now \<Rightarrow>
        (let poll' = (if mergeable_now then poll else poll\<lparr>po_conflicting := po_conflicting poll + 1\<rparr>);
             noted = conflicting (su_pendingRun (rc_setup r))
         in if \<not> mergeable_now \<and> \<not> noted then
              (let r' = conflicts (ev_clock (pl_env P) s) r in
               case ac_put (pl_records P) r' s of
                 (s', Some e) \<Rightarrow> (s', poll')
               | (s', None) \<Rightarrow> ((case pl_conflicted P of None \<Rightarrow> s' | Some h \<Rightarrow> h r' pull s'), poll'))
            else if mergeable_now \<and> noted then (fst (ac_put (pl_records P) (mergeable r) s), poll')
            else (s, poll')))"

text \<open>The record as it then is, and the window's start.\<close>

definition read_merge ::
  "('s, 'd, 'o, 'h) poller \<Rightarrow> repo_record \<Rightarrow> change_pull_request \<Rightarrow> reconciler_poll \<Rightarrow> 's \<Rightarrow>
   's \<times> repo_record \<times> time \<times> reconciler_poll" where
  "read_merge P r pr poll s = (case ax_pull (pl_actions P) (cp_number pr) s of
      (s1, Inl e) \<Rightarrow> (s1, r, zero_time, poll)
    | (s1, Inr pull) \<Rightarrow>
        if pp_merged pull then
          (let r' = (case merged (pp_mergedAt pull) r of Some x \<Rightarrow> x | None \<Rightarrow> r) in
           case ac_put (pl_records P) r' s1 of
             (s2, Some e) \<Rightarrow> (s2, r', zero_time, poll)
           | (s2, None) \<Rightarrow> (s2, r', pp_mergedAt pull, poll))
        else if pp_state pull = ''closed'' then
          (let r' = closed (co_engine (pl_collector P)) r in (fst (ac_put (pl_records P) r' s1), r', zero_time, poll))
        else (case read_conflict P r pull poll s1 of (s2, poll') \<Rightarrow> (s2, r, zero_time, poll')))"

text \<open>The end of a record's wait, where its start is known.\<close>

definition expire_from ::
  "('s, 'd, 'o, 'h) poller \<Rightarrow> time \<Rightarrow> time \<Rightarrow> repo_record \<Rightarrow> reconciler_poll \<Rightarrow> 's \<Rightarrow> 's \<times> reconciler_poll" where
  "expire_from P now start r poll s =
     (if time_sub now start < rk_pendingWindow (pl_opts P) then (s, poll\<lparr>po_pending := po_pending poll + 1\<rparr>)
      else (case ac_put (pl_records P) (run_missing (co_engine (pl_collector P)) now (runs_url (pl_opts P)) r) s of
          (s', Some e) \<Rightarrow> (s', poll)
        | (s', None) \<Rightarrow> (s', poll\<lparr>po_missing := po_missing poll + 1\<rparr>)))"

text \<open>\<open>None\<close>: a mark without a pull request and without a time has none to read.\<close>

definition expire_record ::
  "('s, 'd, 'o, 'h) poller \<Rightarrow> time \<Rightarrow> repo_record \<Rightarrow> reconciler_poll \<Rightarrow> 's \<Rightarrow> ('s \<times> reconciler_poll) option" where
  "expire_record P now r poll s = (case su_pendingRun (rc_setup r) of
      None \<Rightarrow> Some (s, poll)
    | Some p \<Rightarrow>
        if awaited_from p \<noteq> zero_time then Some (expire_from P now (awaited_from p) r poll s)
        else (case pn_pullRequest p of
            None \<Rightarrow> None
          | Some pr \<Rightarrow> (case read_merge P r pr poll s of (s1, r1, start, poll1) \<Rightarrow>
              Some (if start = zero_time then (s1, poll1) else expire_from P now start r1 poll1 s1))))"

fun expire_records ::
  "('s, 'd, 'o, 'h) poller \<Rightarrow> time \<Rightarrow> repo_record list \<Rightarrow> reconciler_poll \<Rightarrow> 's \<Rightarrow> ('s \<times> reconciler_poll) option" where
  "expire_records P now [] poll s = Some (s, poll)"
| "expire_records P now (r # rs) poll s = (case expire_record P now r poll s of
      None \<Rightarrow> None | Some (s', poll') \<Rightarrow> expire_records P now rs poll' s')"

definition expire_pending ::
  "('s, 'd, 'o, 'h) poller \<Rightarrow> time \<Rightarrow> reconciler_poll \<Rightarrow> 's \<Rightarrow> ('s \<times> reconciler_poll) option" where
  "expire_pending P now poll s = (case ac_list (pl_records P) s of
      None \<Rightarrow> None
    | Some (s', Inl e) \<Rightarrow> Some (s', poll)
    | Some (s', Inr recs) \<Rightarrow> expire_records P now recs poll s')"

section \<open>The poll\<close>

datatype poll_error = PollStore store_error | LeaseLost | RunsNotListed string

definition renew_lease :: "('s, 'd, 'o, 'h) poller \<Rightarrow> ('s, poll_error, unit) io" where
  "renew_lease P s = (case pa_lease (pl_access P) s of
      (s', Inl e) \<Rightarrow> (s', Inl (PollStore e))
    | (s', Inr held) \<Rightarrow> (s', if held then Inr () else Inl LeaseLost))"

text \<open>The loop over the runs. \<open>hold\<close> is the zero time until a run stays open.\<close>

record run_scan =
  rs_consumed :: "string \<rightharpoonup> time"
  rs_poll :: reconciler_poll
  rs_newest :: time
  rs_hold :: time

definition hold_run :: "time \<Rightarrow> run_scan \<Rightarrow> run_scan" where
  "hold_run created sc =
     (if rs_hold sc = zero_time \<or> created < rs_hold sc then sc\<lparr>rs_hold := created\<rparr> else sc)"

definition see_run :: "time \<Rightarrow> run_scan \<Rightarrow> run_scan" where
  "see_run created sc = (if created > rs_newest sc then sc\<lparr>rs_newest := created\<rparr> else sc)"

definition scan_run_step ::
  "('s, 'd, 'o, 'h) poller \<Rightarrow> workflow_run \<Rightarrow> run_scan \<Rightarrow> (('s, 'd, 'o, 'h) world, poll_error, run_scan) pio" where
  "scan_run_step P run sc0 st =
     (let sc = see_run (wr_createdAt run) sc0 in
      if rs_consumed sc (run_key run) \<noteq> None then Some (st, Inr sc)
      else if wr_status run \<noteq> runCompleted then Some (st, Inr (hold_run (wr_createdAt run) sc))
      else (case renew_lease P (fst st) of
          (s1, Inl e) \<Rightarrow> Some ((s1, snd st), Inl e)
        | (s1, Inr u) \<Rightarrow> (case consume_run P run (rs_poll sc) (s1, snd st) of
            None \<Rightarrow> None
          | Some (st2, poll', ok) \<Rightarrow>
              if ok then Some (st2, Inr (sc\<lparr>rs_consumed := (rs_consumed sc)(run_key run \<mapsto> wr_createdAt run),
                rs_poll := poll'\<lparr>po_runs := po_runs poll' + 1\<rparr>\<rparr>))
              else Some (st2, Inr (hold_run (wr_createdAt run) (sc\<lparr>rs_poll := poll'\<rparr>))))))"

fun scan_runs ::
  "('s, 'd, 'o, 'h) poller \<Rightarrow> workflow_run list \<Rightarrow> run_scan \<Rightarrow> (('s, 'd, 'o, 'h) world, poll_error, run_scan) pio" where
  "scan_runs P [] sc st = Some (st, Inr sc)"
| "scan_runs P (run # runs) sc st = pio_bind (scan_run_step P run sc) (scan_runs P runs) st"

definition start_cursor :: "reconciler_options \<Rightarrow> time \<Rightarrow> reconciler_cursor option \<Rightarrow> reconciler_cursor" where
  "start_cursor o' now cur =
     (let c = (case cur of Some x \<Rightarrow> x
            | None \<Rightarrow> \<lparr>rcu_watermark = zero_time, rcu_consumed = Map.empty, rcu_polledAt = zero_time\<rparr>);
          floor = now - rk_lookback o'
      in if rcu_watermark c < floor then c\<lparr>rcu_watermark := floor\<rparr> else c)"

definition next_cursor :: "time \<Rightarrow> reconciler_cursor \<Rightarrow> run_scan \<Rightarrow> reconciler_cursor" where
  "next_cursor now cur sc =
     (let wm = (if rs_hold sc \<noteq> zero_time then rs_hold sc
            else if rs_newest sc > rcu_watermark cur then rs_newest sc else rcu_watermark cur)
      in \<lparr>rcu_watermark = wm,
          rcu_consumed = (\<lambda>k. case rs_consumed sc k of Some t \<Rightarrow> if t < wm then None else Some t | None \<Rightarrow> None),
          rcu_polledAt = now\<rparr>)"

definition list_runs :: "('s, 'd, 'o, 'h) poller \<Rightarrow> time \<Rightarrow> ('s, poll_error, workflow_run list) pio" where
  "list_runs P since = pio_wrap RunsNotListed (list_pages (ax_runs (pl_actions P) (created_filter since)) 0 [])"

definition start_scan :: "reconciler_cursor \<Rightarrow> run_scan" where
  "start_scan cur = \<lparr>rs_consumed = rcu_consumed cur, rs_poll = empty_poll, rs_newest = zero_time, rs_hold = zero_time\<rparr>"

definition poll_runs ::
  "('s, 'd, 'o, 'h) poller \<Rightarrow> reconciler_cursor \<Rightarrow> (('s, 'd, 'o, 'h) world, poll_error, run_scan) pio" where
  "poll_runs P cur = pio_bind (on_world (list_runs P (rcu_watermark cur))) (\<lambda>runs. scan_runs P runs (start_scan cur))"

definition put_cursor :: "('s, 'd, 'o, 'h) poller \<Rightarrow> reconciler_cursor \<Rightarrow> ('s, poll_error, unit) io" where
  "put_cursor P cur = io_bind (renew_lease P) (\<lambda>_. io_wrap PollStore (io_err (pa_put_cursor (pl_access P) cur)))"

definition poll_body ::
  "('s, 'd, 'o, 'h) poller \<Rightarrow> (('s, 'd, 'o, 'h) world, poll_error, reconciler_poll) pio" where
  "poll_body P st =
     (let now = ev_clock (pl_env P) (fst st) in
      pio_bind (on_world (pio_of (io_wrap PollStore (pa_cursor (pl_access P))))) (\<lambda>stored.
      let cur = start_cursor (pl_opts P) now stored in
      pio_bind (poll_runs P cur) (\<lambda>sc.
      let cur' = next_cursor now cur sc; poll = (rs_poll sc)\<lparr>po_watermark := rcu_watermark cur'\<rparr> in
      pio_bind (on_world (pio_of (put_cursor P cur'))) (\<lambda>_.
      on_world (\<lambda>s. map_option (\<lambda>(s', p). (s', Inr p)) (expire_pending P now poll s))))) st)"

text \<open>\<open>PollReconciler\<close>: the lease, the poll, the lease given back whatever the poll did.\<close>

definition poll_reconciler ::
  "('s, 'd, 'o, 'h) poller \<Rightarrow> (('s, 'd, 'o, 'h) world, poll_error, reconciler_poll) pio" where
  "poll_reconciler P st = (case pa_lease (pl_access P) (fst st) of
      (s1, Inl e) \<Rightarrow> Some ((s1, snd st), Inl (PollStore e))
    | (s1, Inr False) \<Rightarrow> Some ((s1, snd st), Inr (empty_poll\<lparr>po_standby := True\<rparr>))
    | (s1, Inr True) \<Rightarrow> map_option (\<lambda>((s2, m2), r). ((fst (pa_release (pl_access P) s2), m2), r))
        (poll_body P (s1, snd st)))"

text \<open>The wait until the loop's next poll, where no wake comes first: \<open>pollLoop\<close> with the poll of
  \<open>RunReconcilerPoll\<close>.\<close>

definition next_poll :: "reconciler_options \<Rightarrow> poll_error + reconciler_poll \<Rightarrow> duration" where
  "next_poll o' r = (case r of
      Inl e \<Rightarrow> rk_pollInterval o'
    | Inr p \<Rightarrow> if po_pending p > 0 then rk_pendingInterval o' else rk_pollInterval o')"

end
