(* ===== verification/SourcesProps.thy ===== *)
theory SourcesProps
  imports Sources
begin

text \<open>
  What the sources promise: the schema's cache is never a wrong schema, and each declared name is
  the last entry read for it, with a duplicate named among the problems.
\<close>

section \<open>The schema's cache\<close>

definition cache_ok :: "('d, 'h) setup_lib \<Rightarrow> 'h schema_cache \<Rightarrow> bool" where
  "cache_ok L cache \<longleftrightarrow> (case cache of None \<Rightarrow> True | Some (doc, s) \<Rightarrow> sl_compile L doc = Inr s)"

lemma declared_schema_compiles:
  "cache_ok L cache \<Longrightarrow> snd (declared_schema L doc cache) = sl_compile L doc \<and>
     cache_ok L (fst (declared_schema L doc cache))"
  by (auto simp: declared_schema_def cache_ok_def split: option.splits sum.splits)

section \<open>The entries read\<close>

text \<open>The entries of the team files that parse and validate, in the order they are read.\<close>

definition file_entries ::
  "('d, 'h) setup_lib \<Rightarrow> string \<Rightarrow> 'h \<Rightarrow> tree_entry \<Rightarrow> (string \<times> string \<times> 'd entry_verdict list \<times> 'd) list" where
  "file_entries L org schema e =
     (let file = TeamFilesDir @ ''/'' @ te_name e in
      case te_object e of
        Some text \<Rightarrow>
          if te_type e = ''blob'' \<and> has_suffix (te_name e) ''.yaml'' then
            (case sl_parse L (sl_team_of L file) text of
               Inl err \<Rightarrow> []
             | Inr (team, ds) \<Rightarrow> (case sl_validate L schema org team ds of
                 Inl err \<Rightarrow> [] | Inr vs \<Rightarrow> map (\<lambda>d. (team, file, vs, d)) ds))
          else []
      | None \<Rightarrow> [])"

definition entries_read where
  "entries_read L org schema files = concat (map (file_entries L org schema) files)"

definition entry_name :: "('d, 'h) setup_lib \<Rightarrow> string \<times> string \<times> 'd entry_verdict list \<times> 'd \<Rightarrow> string" where
  "entry_name L x = (case x of (team, file, vs, d) \<Rightarrow> sl_name L d)"

definition entry_file :: "string \<times> string \<times> 'd entry_verdict list \<times> 'd \<Rightarrow> string" where
  "entry_file x = (case x of (team, file, vs, d) \<Rightarrow> file)"

definition entry_declared where
  "entry_declared L engine x = (case x of (team, file, vs, d) \<Rightarrow> declared_of L engine team file vs d)"

definition latest where
  "latest L engine xs = map_of (map (\<lambda>x. (entry_name L x, entry_declared L engine x)) (rev xs))"

text \<open>Every entry whose name was read before is a problem that names it and its file.\<close>

definition twice_told where
  "twice_told L xs problems \<longleftrightarrow>
     (\<forall>i < length xs. entry_name L (xs ! i) \<in> entry_name L ` set (take i xs) \<longrightarrow>
        (\<exists>prev. entry_name L (xs ! i) @ '' is declared twice: '' @ prev @ '' and '' @ entry_file (xs ! i) \<in> set problems))"

definition read_so_far where
  "read_so_far L engine xs src \<longleftrightarrow>
     map_of (so_declarations src) = latest L engine xs \<and> twice_told L xs (so_problems src)"

lemma map_of_AList_update: "map_of (AList.update k v al) = (map_of al)(k \<mapsto> v)"
  by (rule ext) (simp add: update_conv')

lemma latest_names: "latest L engine xs k \<noteq> None \<longleftrightarrow> k \<in> entry_name L ` set xs"
  by (auto simp: latest_def map_of_eq_None_iff image_image)

lemma twice_told_more: "twice_told L xs ps \<Longrightarrow> set ps \<subseteq> set qs \<Longrightarrow> twice_told L xs qs"
  unfolding twice_told_def by (meson subsetD)

lemma twice_told_snoc:
  assumes "twice_told L xs ps"
    and "entry_name L x \<in> entry_name L ` set xs \<Longrightarrow>
      \<exists>prev. entry_name L x @ '' is declared twice: '' @ prev @ '' and '' @ entry_file x \<in> set ps"
  shows "twice_told L (xs @ [x]) ps"
  using assms unfolding twice_told_def
  by (auto simp: nth_append less_Suc_eq)

lemma read_so_far_add:
  assumes "read_so_far L engine xs src"
  shows "read_so_far L engine (xs @ [(team, file, vs, d)]) (add_declaration L engine team file vs d src)"
proof -
  let ?x = "(team, file, vs, d)" and ?src = "add_declaration L engine team file vs d src"
  have m: "map_of (so_declarations src) = latest L engine xs" and t: "twice_told L xs (so_problems src)"
    using assms by (auto simp: read_so_far_def)
  have "map_of (so_declarations ?src) = latest L engine (xs @ [?x])"
    by (simp add: add_declaration_def map_of_AList_update m latest_def entry_name_def entry_declared_def)
  moreover have "twice_told L (xs @ [?x]) (so_problems ?src)"
  proof (rule twice_told_snoc)
    show "twice_told L xs (so_problems ?src)"
      by (rule twice_told_more [OF t]) (auto simp: add_declaration_def)
    assume "entry_name L ?x \<in> entry_name L ` set xs"
    then obtain prev where "map_of (so_declarations src) (sl_name L d) = Some prev"
      using latest_names [of L engine xs "sl_name L d"] m by (auto simp: entry_name_def)
    then show "\<exists>prev. entry_name L ?x @ '' is declared twice: '' @ prev @ '' and '' @ entry_file ?x \<in> set (so_problems ?src)"
      by (auto simp: add_declaration_def entry_name_def entry_file_def)
  qed
  ultimately show ?thesis by (simp add: read_so_far_def)
qed

lemma read_so_far_adds:
  "read_so_far L engine xs src \<Longrightarrow>
   read_so_far L engine (xs @ map (\<lambda>d. (team, fname, vs, d)) ds) (fold (add_declaration L engine team fname vs) ds src)"
proof (induction ds arbitrary: xs src)
  case (Cons d ds)
  show ?case using Cons.IH [OF read_so_far_add [OF Cons.prems, of team fname vs d]] by simp
qed simp

lemma read_so_far_file:
  assumes "read_so_far L engine xs src"
  shows "read_so_far L engine (xs @ file_entries L org schema e) (read_team_file L org engine schema e src)"
proof -
  have more: "read_so_far L engine xs (src\<lparr>so_problems := so_problems src @ ps\<rparr>)" for ps
    using assms twice_told_more [of L xs "so_problems src" "so_problems src @ ps"]
    by (auto simp: read_so_far_def)
  show ?thesis
    using assms more
    by (auto simp: read_team_file_def file_entries_def Let_def read_so_far_adds
        split: option.splits sum.splits)
qed

lemma read_so_far_files:
  "read_so_far L engine xs src \<Longrightarrow>
   read_so_far L engine (xs @ entries_read L org schema files) (fold (read_team_file L org engine schema) files src)"
proof (induction files arbitrary: xs src)
  case (Cons e files)
  show ?case using Cons.IH [OF read_so_far_file [OF Cons.prems, of org schema e]]
    by (simp add: entries_read_def)
qed (simp add: entries_read_def)

lemma add_declarations_ref: "so_ref (fold (add_declaration L engine team fname vs) ds src) = so_ref src"
  by (induction ds arbitrary: src) (simp_all add: add_declaration_def)

lemma read_team_files_ref: "so_ref (fold (read_team_file L org engine schema) files src) = so_ref src"
proof (induction files arbitrary: src)
  case (Cons e files)
  have "so_ref (read_team_file L org engine schema e src) = so_ref src"
    by (auto simp: read_team_file_def Let_def add_declarations_ref split: option.splits sum.splits)
  then show ?case by (simp add: Cons)
qed simp

lemma read_so_far_fill:
  assumes "read_so_far L engine [] src"
  shows "read_so_far L engine (entries_read L org schema files)
    (fill_sources L Y org engine schema files catalog_text mapping_text src)"
  using read_so_far_files [OF assms, of org schema files]
  by (auto simp: read_so_far_def fill_sources_def Let_def split: option.splits intro: twice_told_more)

text \<open>C22.
  The team files, read from nothing: a name is declared exactly when a team file that parses and
  validates has an entry of it; its declaration is the last such entry's; and every entry whose
  name an entry before it had is named among the problems, with its file. The schema the files are
  validated with is the one compiled from the document beside them, cached or not.\<close>

theorem declarations_last_wins:
  assumes "cache_ok L cache"
    and "parse_sources L Y org engine data no_sources cache = (cache', Inr src)"
  shows "cache_ok L cache' \<and>
    (\<exists>gh files doc schema eng. sd_github data = Some gh \<and> gd_teamFiles gh = Some files \<and> gd_schema gh = Some doc \<and>
       gd_head gh = Some (so_ref src) \<and> engine = Some eng \<and> sl_compile L doc = Inr schema \<and>
       map_of (so_declarations src) = latest L eng (entries_read L org schema files) \<and>
       twice_told L (entries_read L org schema files) (so_problems src))"
proof -
  obtain gh files ref eng doc schema where g: "sd_github data = Some gh" "gd_teamFiles gh = Some files"
      "gd_head gh = Some ref" "engine = Some eng" "gd_schema gh = Some doc"
      "declared_schema L doc cache = (cache', Inr schema)"
      "src = fill_sources L Y org eng schema files (gd_catalog gh) (sd_mapping data) (no_sources\<lparr>so_ref := ref\<rparr>)"
    using assms(2)
    by (auto simp: parse_sources_def Let_def split: option.splits if_splits prod.splits sum.splits)
  have c: "sl_compile L doc = Inr schema" "cache_ok L cache'"
    using declared_schema_compiles [OF assms(1), of doc] g(6) by auto
  have "so_ref src = ref"
    by (simp add: g(7) fill_sources_def Let_def read_team_files_ref no_sources_def split: option.splits)
  moreover have "read_so_far L eng (entries_read L org schema files) src"
    unfolding g(7) by (rule read_so_far_fill)
      (simp add: read_so_far_def no_sources_def latest_def twice_told_def)
  ultimately show ?thesis
    using g c by (auto simp: read_so_far_def)
qed

definition sample_setup_lib :: "(string, unit) setup_lib" where
  "sample_setup_lib = \<lparr>sl_team_of = (\<lambda>f. ''team''), sl_parse = (\<lambda>team text. Inr (team, [text, text])),
     sl_name = (\<lambda>d. d), sl_yaml = (\<lambda>d. d), sl_instance = (\<lambda>d. None), sl_compile = (\<lambda>doc. Inr ()),
     sl_validate = (\<lambda>h org team ds. Inr []), sl_problems = (\<lambda>h v. [])\<rparr>"

definition sample_sources_data :: sources_data where
  "sample_sources_data = \<lparr>sd_teams = [], sd_page = \<lparr>pg_hasNextPage = False, pg_endCursor = []\<rparr>,
     sd_github = Some \<lparr>gd_head = Some ''ref'', gd_teamFiles = Some [\<lparr>te_name = ''t.yaml'', te_type = ''blob'',
        te_object = Some ''repo''\<rparr>], gd_schema = Some ''{}'', gd_catalog = None\<rparr>, sd_mapping = None\<rparr>"

theorem declarations_last_wins_witness:
  "\<exists>src :: (string, unit) sources.
     snd (parse_sources sample_setup_lib \<lparr>yl_catalog = (\<lambda>t. []), yl_mapping = (\<lambda>t. None)\<rparr> ''org'' (Some ())
       sample_sources_data no_sources None) = Inr src \<and> so_ref src = ''ref''"
proof -
  have ok: "cache_ok sample_setup_lib None" by (simp add: cache_ok_def)
  obtain c src where p: "parse_sources sample_setup_lib \<lparr>yl_catalog = (\<lambda>t. []), yl_mapping = (\<lambda>t. None)\<rparr> ''org''
      (Some ()) sample_sources_data (no_sources :: (string, unit) sources) None = (c, Inr src)"
    by (simp add: parse_sources_def sample_sources_data_def declared_schema_def sample_setup_lib_def Let_def)
  from declarations_last_wins [OF ok p] have "so_ref src = ''ref''"
    by (auto simp: sample_sources_data_def)
  then show ?thesis using p by auto
qed

end
