(* ===== verification/SweepsProps.thy ===== *)
theory SweepsProps
  imports Sweeps SourcesProps
begin

text \<open>
  What a sweep promises: its reads end, only a complete pass deletes records and only those of
  repositories it did not see and no team file declares, and what it writes carries the run state it
  read at its start.
\<close>

section \<open>The reads end\<close>

text \<open>Each step either takes names off the list or shrinks a batch larger than 3.\<close>

lemma fetch_histories_returns:
  "1 \<le> batch \<Longrightarrow> \<exists>r. fetch_histories V batch names nodes s = Some r"
proof (induction "length names" arbitrary: names batch nodes s rule: less_induct)
  case less
  note shorter = less.hyps
  show ?case
    using less.prems
  proof (induction batch arbitrary: nodes s rule: less_induct)
    case (less b)
    let ?n = "min b (length names)"
    show ?case
    proof (cases "names = []")
      case False
      then have n: "length (drop ?n names) < length names" using less.prems by simp
      obtain s' r where q: "ev_histories V (take ?n names) s = (s', r)" by fastforce
      show ?thesis
      proof (cases r)
        case (Inl e)
        have "b > 3 \<Longrightarrow> max 3 (b div 2) < b" by simp
        then show ?thesis
          using less.IH [of "max 3 (b div 2)"] q Inl False
          by (subst fetch_histories.simps) auto
      next
        case (Inr rep)
        then show ?thesis
          using shorter [OF n less.prems] q False
          by (subst fetch_histories.simps) (simp add: Let_def)
      qed
    qed (subst fetch_histories.simps, simp)
  qed
qed

text \<open>With the collector's options the histories of any repositories are read to an end: the loop that
  halves a failing batch and drops an answered one returns from every state of the world, whatever
  GitHub answers.\<close>

theorem histories_end:
  "\<exists>r. fetch_histories V (op_historyBatch (defaults owner opts)) names nodes s = Some r"
  by (rule fetch_histories_returns) (simp add: defaults_def)

section \<open>What a write carries\<close>

definition run_state :: "setup_state \<Rightarrow> last_run option \<times> pending_run option \<times> missing_run option \<times> string list" where
  "run_state su = (su_lastRun su, su_pendingRun su, su_missingRun su, su_told su)"

lemma check_run_state:
  assumes "check E rx V org src keepOld pace r s = Some (s', r', ran_it)"
  shows "run_state (rc_setup r') = run_state (rc_setup r) \<and> rc_repository r' = rc_repository r \<and>
    su_release (rc_setup r') = su_release (rc_setup r)"
  using assms
  by (auto simp: check_def run_checks_def set_checks_def check_failed_def run_state_def Let_def
      split: option.splits prod.splits sum.splits if_splits)

lemma rewrite_release_run_state:
  assumes "rewrite_release_step E rx r = Some r'"
  shows "run_state (rc_setup r') = run_state (rc_setup r) \<and> rc_repository r' = rc_repository r"
  using assms
  by (auto simp: rewrite_release_step_def run_state_def split: option.splits if_splits prod.splits)

lemma keep_release_run_state:
  assumes "keep_release E rx A r s = Some (s', r')" and "rc_findings r = findings E r"
  shows "run_state (rc_setup r') = run_state (rc_setup r) \<and> rc_repository r' = rc_repository r \<and>
    rc_findings r' = findings E r'"
proof -
  have w: "run_state (rc_setup (with_release r v)) = run_state (rc_setup r)" "rc_repository (with_release r v) = rc_repository r" for v
    by (simp_all add: with_release_def run_state_def)
  have f: "run_state (rc_setup (finalize E x)) = run_state (rc_setup x)" "rc_repository (finalize E x) = rc_repository x"
      "rc_findings (finalize E x) = findings E (finalize E x)" for x
    by (simp_all add: finalize_def findings_findings)
  show ?thesis
    using assms rewrite_release_run_state [of E rx "with_release r _"]
    by (auto simp: keep_release_def w f split: prod.splits sum.splits option.splits if_splits)
qed

lemma findings_stamp: "findings E (r\<lparr>rc_refreshedAt := t, rc_source := src\<rparr>) = findings E r"
  by (auto simp: findings_def presence_findings_def declared_but_gone_def missing_run_finding_def
      unknown_fields_finding_def expected_run_text_def Let_def split: option.splits)

lemma store_record_put:
  assumes "store_record C r w s = Some (s', w')" and "wr_written w' \<noteq> wr_written w"
  shows "\<exists>s1 r2. ac_put (sa_records (co_store C)) r2 s1 = (s', None) \<and> run_state (rc_setup r2) = run_state (rc_setup r) \<and>
    rc_repository r2 = rc_repository r \<and> rc_findings r2 = findings (co_engine C) r2 \<and> rc_source r2 = SourceSweep"
proof -
  obtain s1 r1 where k: "keep_release (co_engine C) (co_rx C) (sa_records (co_store C)) (finalize (co_engine C) r) s = Some (s1, r1)"
    using assms(1) by (auto simp: store_record_def)
  note K = keep_release_run_state [OF k finalize_findings]
  have "run_state (rc_setup (finalize (co_engine C) r)) = run_state (rc_setup r)"
    "rc_repository (finalize (co_engine C) r) = rc_repository r" by (simp_all add: finalize_def)
  then show ?thesis
    using assms k K
    by (intro exI [of _ s1] exI [of _ "r1\<lparr>rc_refreshedAt := ev_clock (co_env C) s1, rc_source := SourceSweep\<rparr>"])
      (auto simp: store_record_def findings_stamp Let_def split: prod.splits option.splits)
qed

lemma build_run_state:
  "run_state (rc_setup (build E B org name node src (Some old) None)) = run_state (rc_setup old)"
  "rc_repository (build E B org name node src o' run) = org @ ''/'' @ name"
  by (auto simp: build_def with_node_def Let_def split: option.splits prod.splits)

text \<open>C25.
  What a sweep writes for a repository it rebuilt. Whatever the store holds by then, the record
  stored carries the last run, the pending and the missing run and the told sentences of the record
  read at the sweep's start, its findings are those of the record itself, and only the release
  watch is read again: a run stored, or an Align now marked, while the sweep ran is written over.\<close>

theorem sweep_writes_run_state_read:
  assumes "write_record C src (build (co_engine C) (co_node C) org name node src (Some old) None) w s = Some (s', w')"
    and "wr_written w' \<noteq> wr_written w"
  shows "\<exists>s1 r2. ac_put (sa_records (co_store C)) r2 s1 = (s', None) \<and> rc_repository r2 = org @ ''/'' @ name \<and>
    run_state (rc_setup r2) = run_state (rc_setup old) \<and> rc_findings r2 = findings (co_engine C) r2 \<and>
    rc_source r2 = SourceSweep"
proof -
  let ?r = "build (co_engine C) (co_node C) org name node src (Some old) None"
  have ns: "\<not> stopped (co_env C) w s" using assms by (auto simp: write_record_def)
  obtain s1 r1 ran_it where c: "(if op_engineChecks (co_opts C)
        then check (co_engine C) (co_rx C) (co_env C) (op_org (co_opts C)) src True
               (rest_pause (co_env C) (op_restFloor (co_opts C))) ?r s
        else Some (s, ?r, False)) = Some (s1, r1, ran_it)"
    using assms(1) ns by (auto simp: write_record_def split: option.splits if_splits)
  define w1 where "w1 = w\<lparr>wr_checks := wr_checks w + (if ran_it then 1 else 0)\<rparr>"
  have "store_record C r1 w1 s1 = Some (s', w')" "wr_written w1 = wr_written w"
    using assms ns c by (auto simp: write_record_def w1_def Let_def split: if_splits)
  moreover have "run_state (rc_setup r1) = run_state (rc_setup ?r)" "rc_repository r1 = rc_repository ?r"
    using c by (cases "op_engineChecks (co_opts C)"; auto dest: check_run_state)+
  ultimately have st: "store_record C r1 w1 s1 = Some (s', w')" "wr_written w1 = wr_written w"
      "run_state (rc_setup r1) = run_state (rc_setup ?r)" "rc_repository r1 = rc_repository ?r" by blast+
  show ?thesis
    using store_record_put [OF st(1)] st assms(2) by (auto simp: build_run_state)
qed

text \<open>A collector whose world is the list of the records put and of the keys deleted, over an org
  with no repositories: the instance the witnesses use.\<close>

type_synonym put_log = "repo_record list \<times> string list"

definition sample_access :: "repo_record list \<Rightarrow> put_log access" where
  "sample_access recs = \<lparr>ac_get = (\<lambda>k. io_fail (ErrNotFound k)), ac_put = (\<lambda>r s. ((fst s @ [r], snd s), None)),
     ac_list = (\<lambda>s. Some (s, Inr recs))\<rparr>"

definition sample_page :: "repo_page reply" where
  "sample_page = \<lparr>rp_partial = [''Something went wrong''],
     rp_data = \<lparr>rpg_total = 1, rpg_page = \<lparr>pg_hasNextPage = False, pg_endCursor = []\<rparr>, rpg_nodes = [None]\<rparr>,
     rp_budget = None\<rparr>"

definition sample_env :: "(put_log, string, unit) env" where
  "sample_env = \<lparr>ev_clock = (\<lambda>s. 0), ev_ctx = (\<lambda>s. None), ev_sleep = (\<lambda>d s. (s, None)),
     ev_rest = (\<lambda>s. \<lparr>us_calls = 0, us_remaining = 0, us_limit = 0, us_resetAt = 0\<rparr>), ev_gql = (\<lambda>s. zero_budget),
     ev_sources = (\<lambda>a. io_ret \<lparr>rp_partial = [], rp_data = \<lparr>sd_teams = [],
       sd_page = \<lparr>pg_hasNextPage = False, pg_endCursor = []\<rparr>, sd_github = Some \<lparr>gd_head = Some ''ref'',
       gd_teamFiles = Some [], gd_schema = Some ''{}'', gd_catalog = None\<rparr>, sd_mapping = None\<rparr>, rp_budget = None\<rparr>),
     ev_overrides = (\<lambda>r. io_ret ()), ev_page = (\<lambda>first after. io_ret sample_page),
     ev_histories = (\<lambda>ns. io_ret \<lparr>rp_partial = [], rp_data = [], rp_budget = None\<rparr>),
     ev_one = (\<lambda>n. io_ret \<lparr>rp_partial = [], rp_data = None, rp_budget = None\<rparr>), ev_checker = None,
     ev_refused = (\<lambda>q t. \<lparr>res_repository = [], res_mode = ModeCheck, res_steps = [], res_converged = False\<rparr>),
     ev_codeowners = (\<lambda>o' n. io_ret None)\<rparr>"

definition sample_collector :: "repo_record list \<Rightarrow> (put_log, string, unit, unit) collector" where
  "sample_collector recs = \<lparr>co_engine = sample_engine, co_rx = (\<lambda>p. None), co_lib = sample_setup_lib,
     co_yaml = \<lparr>yl_catalog = (\<lambda>t. []), yl_mapping = (\<lambda>t. None)\<rparr>,
     co_node = \<lparr>lb_json = (\<lambda>t. None), lb_yaml = (\<lambda>t. Inr [])\<rparr>, co_env = sample_env,
     co_store = \<lparr>sa_records = sample_access recs, sa_delete = (\<lambda>ks s. ((fst s, snd s @ ks), None)),
       sa_sweep = io_ret None, sa_put_sweep = (\<lambda>x s. (s, None)), sa_cursor = io_ret None,
       sa_put_cursor = (\<lambda>c s. (s, None)), sa_delete_cursor = (\<lambda>s. (s, None))\<rparr>,
     co_opts = \<lparr>op_org = ''org'', op_engineChecks = False, op_concurrency = 4, op_pageSize = 20,
       op_historyBatch = 20, op_historyDepth = 30, op_budgetFloor = 0, op_restFloor = 0, op_interval = 0,
       op_releases = \<lparr>ro_interval = 0, ro_grace = 0, ro_anonymous = True\<rparr>\<rparr>, co_schema = Some ()\<rparr>"

definition pending_sample :: pending_run where
  "pending_sample = no_pending_run\<lparr>pn_by := ''alice''\<rparr>"

definition sample_old :: repo_record where
  "sample_old = zero_record\<lparr>rc_setup := zero_setup\<lparr>su_pendingRun := Some pending_sample\<rparr>\<rparr>"

definition sample_writing :: writing where
  "sample_writing = \<lparr>wr_checks = 0, wr_written = 0, wr_stopped = None\<rparr>"

theorem sweep_writes_run_state_read_witness:
  "\<exists>s1 r2. ac_put (sa_records (co_store (sample_collector []))) r2 s1 =
     (fst (the (write_record (sample_collector []) no_sources (build sample_engine (co_node (sample_collector [])) ''org'' ''r''
        None (no_sources :: (string, unit) sources) (Some sample_old) None) sample_writing ([], []))), None) \<and>
     su_pendingRun (rc_setup r2) = Some pending_sample"
proof -
  let ?C = "sample_collector []"
  let ?b = "build sample_engine (co_node ?C) ''org'' ''r'' None (no_sources :: (string, unit) sources) (Some sample_old) None"
  obtain s' w' where w: "write_record ?C no_sources ?b sample_writing ([], []) = Some (s', w')" "wr_written w' \<noteq> 0"
    by (simp add: write_record_def store_record_def keep_release_def sample_collector_def sample_env_def
        sample_access_def stopped_def sample_writing_def Let_def)
  have e: "co_engine ?C = sample_engine" by (simp add: sample_collector_def)
  from sweep_writes_run_state_read [of ?C no_sources "''org''" "''r''" None sample_old sample_writing "([], [])" s' w'] w
  obtain s1 r2 where "ac_put (sa_records (co_store ?C)) r2 s1 = (s', None)" "run_state (rc_setup r2) = run_state (rc_setup sample_old)"
    by (auto simp: e sample_writing_def)
  moreover from this have "su_pendingRun (rc_setup r2) = Some pending_sample"
    by (simp add: run_state_def sample_old_def)
  moreover have "s' = fst (the (write_record ?C no_sources ?b sample_writing ([], [])))" using w by simp
  ultimately show ?thesis by blast
qed

section \<open>What a sweep deletes\<close>

text \<open>A view of the world that every call of the collector but \<open>Delete\<close> keeps: a log of the
  deletions is one.\<close>

definition quiet :: "('s, 'd, 'o, 'h) collector \<Rightarrow> ('s \<Rightarrow> 'x) \<Rightarrow> bool" where
  "quiet C v \<longleftrightarrow>
     (let V = co_env C; S = co_store C; A = sa_records S in
      (\<forall>a. io_keeps v (ev_sources V a)) \<and> (\<forall>x. io_keeps v (ev_overrides V x)) \<and>
      (\<forall>f a. io_keeps v (ev_page V f a)) \<and> (\<forall>ns. io_keeps v (ev_histories V ns)) \<and>
      (\<forall>c q. ev_checker V = Some c \<longrightarrow> io_keeps v (c q)) \<and> (\<forall>o' n. io_keeps v (ev_codeowners V o' n)) \<and>
      (\<forall>d s. v (fst (ev_sleep V d s)) = v s) \<and> (\<forall>r. io_keeps v (io_err (ac_put A r))) \<and>
      (\<forall>k. io_keeps v (ac_get A k)) \<and> pio_keeps v (ac_list A) \<and> io_keeps v (sa_cursor S) \<and>
      (\<forall>c. io_keeps v (io_err (sa_put_cursor S c))) \<and> (\<forall>x. io_keeps v (io_err (sa_put_sweep S x))) \<and>
      io_keeps v (io_err (sa_delete_cursor S)))"

lemma io_keeps_fst: "io_keeps v m \<longleftrightarrow> (\<forall>g. v (fst (m g)) = v g)"
  unfolding io_keeps_def by (metis fst_conv prod.collapse)

lemma io_err_keeps: "io_keeps v (io_err m) \<longleftrightarrow> (\<forall>g. v (fst (m g)) = v g)"
proof -
  have "fst (io_err m g) = fst (m g)" for g by (auto simp: io_err_def split: prod.split option.split)
  then show ?thesis by (simp add: io_keeps_fst)
qed

lemma quietD:
  assumes "quiet C v"
  shows "io_keeps v (ev_sources (co_env C) a)" "io_keeps v (ev_overrides (co_env C) x)"
    "io_keeps v (ev_page (co_env C) f af)" "io_keeps v (ev_histories (co_env C) ns)"
    "ev_checker (co_env C) = Some c \<Longrightarrow> io_keeps v (c q)" "io_keeps v (ev_codeowners (co_env C) o' n)"
    "v (fst (ev_sleep (co_env C) d s)) = v s" "v (fst (ac_put (sa_records (co_store C)) r s)) = v s"
    "io_keeps v (ac_get (sa_records (co_store C)) k)" "pio_keeps v (ac_list (sa_records (co_store C)))"
    "io_keeps v (sa_cursor (co_store C))" "io_keeps v (io_err (sa_put_cursor (co_store C) cu))"
    "io_keeps v (io_err (sa_put_sweep (co_store C) sm))" "io_keeps v (io_err (sa_delete_cursor (co_store C)))"
  using assms by (auto simp: quiet_def Let_def io_err_keeps)

lemma fetch_repositories_keeps:
  fixes V :: "('s, 'd, 'o) env"
  assumes "\<And>f a. io_keeps v (ev_page V f a)"
    and "fetch_repositories V page first after nodes errs s = Some y"
  shows "v (fst y) = v s"
proof (rule fetch_repositories.raw_induct [where P = "\<lambda>V' page first after nodes errs s y. V' = V \<longrightarrow> v (fst y) = v s",
      OF _ assms(2), THEN mp, OF _ refl])
  fix g :: "('s, 'd, 'o) env \<Rightarrow> int \<Rightarrow> int \<Rightarrow> string option \<Rightarrow> (string \<times> repo_node) list \<Rightarrow> string list \<Rightarrow>
      's \<Rightarrow> ('s \<times> (int \<times> gql_error + (string \<times> repo_node) list \<times> rate_limit option \<times> string list)) option"
    and V' page first after nodes errs s y
  assume IH: "\<And>V' page first after nodes errs s y. g V' page first after nodes errs s = Some y \<Longrightarrow> V' = V \<longrightarrow> v (fst y) = v s"
    and eq: "(case ev_page V' first after s of (s', Inl e) \<Rightarrow>
        if first > minPageSize \<and> ev_ctx V' s' = None then
          g V' (page + 1) (max minPageSize (first div 2)) after nodes
            (errs @ [halved_text page first e (max minPageSize (first div 2))]) s'
        else Some (s', Inl (page, e))
    | (s', Inr rep) \<Rightarrow>
        (let nodes' = add_nodes (rpg_nodes (rp_data rep)) nodes; errs' = errs @ rp_partial rep in
         if rp_budget rep \<noteq> None then Some (s', Inr (nodes', rp_budget rep, errs'))
         else if \<not> pg_hasNextPage (rpg_page (rp_data rep)) then Some (s', Inr (nodes', None, errs'))
         else g V' (page + 1) first (Some (pg_endCursor (rpg_page (rp_data rep)))) nodes' errs' s')) = Some y"
  show "V' = V \<longrightarrow> v (fst y) = v s"
  proof
    assume V: "V' = V"
    obtain s' r where q: "ev_page V' first after s = (s', r)" by fastforce
    have "v s' = v s" using assms(1) q V io_keepsD by metis
    then show "v (fst y) = v s"
      using eq q V IH by (auto simp: Let_def split: sum.splits if_splits)
  qed
qed

lemma fetch_histories_keeps:
  fixes V :: "('s, 'd, 'o) env"
  assumes "\<And>ns. io_keeps v (ev_histories V ns)"
    and "fetch_histories V batch names nodes s = Some y"
  shows "v (fst y) = v s"
proof (rule fetch_histories.raw_induct [where P = "\<lambda>V' batch names nodes s y. V' = V \<longrightarrow> v (fst y) = v s",
      OF _ assms(2), THEN mp, OF _ refl])
  fix g :: "('s, 'd, 'o) env \<Rightarrow> nat \<Rightarrow> string list \<Rightarrow> (string \<times> repo_node) list \<Rightarrow>
      's \<Rightarrow> ('s \<times> (gql_error + (string \<times> repo_node) list \<times> rate_limit option)) option"
    and V' batch names nodes s y
  assume IH: "\<And>V' batch names nodes s y. g V' batch names nodes s = Some y \<Longrightarrow> V' = V \<longrightarrow> v (fst y) = v s"
    and eq: "(if names = [] then Some (s, Inr (nodes, None))
      else (case ev_histories V' (take (min batch (length names)) names) s of
          (s', Inl e) \<Rightarrow>
            if batch > 3 \<and> ev_ctx V' s' = None then g V' (max 3 (batch div 2)) names nodes s'
            else Some (s', Inl e)
        | (s', Inr rep) \<Rightarrow>
            (let nodes' = fold attach_history (rp_data rep) nodes in
             if rp_budget rep \<noteq> None then Some (s', Inr (nodes', rp_budget rep))
             else g V' batch (drop (min batch (length names)) names) nodes' s'))) = Some y"
  show "V' = V \<longrightarrow> v (fst y) = v s"
  proof
    assume V: "V' = V"
    obtain s' r where q: "ev_histories V' (take (min batch (length names)) names) s = (s', r)" by fastforce
    have "v s' = v s" using assms(1) q V io_keepsD by metis
    then show "v (fst y) = v s"
      using eq q V IH by (auto simp: Let_def split: sum.splits if_splits)
  qed
qed

lemma first_page_keeps:
  assumes "\<And>x. io_keeps v (remote x)"
  shows "io_keeps (v \<circ> fst) (first_page L Y org engine remote data src)"
  using assms
  by (auto simp: io_keeps_fst first_page_def list_overrides_def io_wrap_def split: prod.splits sum.splits)
    (metis fst_conv)+

lemma fetch_pages_keeps:
  fixes query :: "string option \<Rightarrow> ('s, gql_error, sources_data reply) io" and remote :: "string \<Rightarrow> ('s, string, 'o) io"
  assumes "\<And>a. io_keeps v (query a)" "\<And>x. io_keeps v (remote x)"
    and "fetch_pages L Y org engine remote query after src st = Some y"
  shows "v (fst (fst y)) = v (fst st)"
proof (rule fetch_pages.raw_induct [where P = "\<lambda>L Y org engine remote' query' after src st y.
      remote' = remote \<and> query' = query \<longrightarrow> v (fst (fst y)) = v (fst st)", OF _ assms(3), THEN mp, OF _ conjI, OF _ refl refl])
  fix g :: "('d, 'h) setup_lib \<Rightarrow> yaml_lib \<Rightarrow> string \<Rightarrow> 'h option \<Rightarrow> (string \<Rightarrow> ('s, string, 'o) io) \<Rightarrow>
      (string option \<Rightarrow> ('s, gql_error, sources_data reply) io) \<Rightarrow> string option \<Rightarrow> ('d, 'o) sources \<Rightarrow>
      's \<times> 'h schema_cache \<Rightarrow> (('s \<times> 'h schema_cache) \<times> (sources_error + ('d, 'o) sources \<times> rate_limit option)) option"
    and L Y org engine remote' query' after src st y
  assume IH: "\<And>L Y org engine remote' query' after src st y. g L Y org engine remote' query' after src st = Some y \<Longrightarrow>
      remote' = remote \<and> query' = query \<longrightarrow> v (fst (fst y)) = v (fst st)"
    and eq: "(case query' after (fst st) of
        (s1, Inl e) \<Rightarrow> Some ((s1, snd st), Inl (SourcesQuery e))
      | (s1, Inr rep) \<Rightarrow>
          (let data = rp_data rep;
               src1 = src\<lparr>so_problems := so_problems src @ rp_partial rep,
                 so_teams := remdups (so_teams src @ sd_teams data)\<rparr>
           in case (if after = None then first_page L Y org engine remote' data src1 (s1, snd st)
                    else ((s1, snd st), Inr src1)) of
                (st', Inl e) \<Rightarrow> Some (st', Inl e)
              | (st', Inr src2) \<Rightarrow>
                  if rp_budget rep \<noteq> None then Some (st', Inr (src2, rp_budget rep))
                  else if \<not> pg_hasNextPage (sd_page data) then Some (st', Inr (src2, None))
                  else g L Y org engine remote' query' (Some (pg_endCursor (sd_page data))) src2 st')) = Some y"
  show "remote' = remote \<and> query' = query \<longrightarrow> v (fst (fst y)) = v (fst st)"
  proof
    assume same: "remote' = remote \<and> query' = query"
    obtain s1 r where q: "query' after (fst st) = (s1, r)" by fastforce
    have v1: "v s1 = v (fst st)" using assms(1) q same io_keepsD by metis
    show "v (fst (fst y)) = v (fst st)"
    proof (cases r)
      case (Inl e)
      then show ?thesis using eq q v1 by auto
    next
      case (Inr rep)
      let ?src = "src\<lparr>so_problems := so_problems src @ rp_partial rep, so_teams := remdups (so_teams src @ sd_teams (rp_data rep))\<rparr>"
      obtain st' r2 where p: "(if after = None then first_page L Y org engine remote' (rp_data rep) ?src (s1, snd st)
          else ((s1, snd st), Inr ?src)) = (st', r2)" by fastforce
      have k: "io_keeps (v \<circ> fst) (first_page L Y org engine remote (rp_data rep) ?src)"
        by (rule first_page_keeps [OF assms(2)])
      have "v (fst st') = v s1"
        using p io_keepsD [OF k, of "(s1, snd st)"] same
        by (auto split: if_splits)
      then show ?thesis
        using eq q v1 Inr p IH same by (auto simp: Let_def split: sum.splits if_splits)
    qed
  qed
qed

lemma keep_release_keeps:
  assumes "quiet C v" and "keep_release E rx (sa_records (co_store C)) r s = Some (s', r')"
  shows "v s' = v s"
  using assms(2) io_keepsD [OF quietD(9) [OF assms(1)], of "rc_repository r" s]
  by (auto simp: keep_release_def split: prod.splits sum.splits option.splits if_splits)

lemma rest_pause_keeps: "quiet C v \<Longrightarrow> v (fst (rest_pause (co_env C) floor s)) = v s"
  by (simp add: rest_pause_def Let_def quietD(7))

lemma run_checks_keeps:
  assumes q: "quiet C v" and c: "ev_checker (co_env C) = Some checker"
    and r: "run_checks E rx (co_env C) checker org overrides keepOld d r s = Some (s', r', b)"
  shows "v s' = v s"
proof -
  obtain s2 r2 where o1: "ev_codeowners (co_env C) overrides (rc_name r) s = (s2, r2)" by fastforce
  have v2: "v s2 = v s" using io_keepsD [OF quietD(6) [OF q] o1] .
  show ?thesis
  proof (cases r2)
    case (Inr ov)
    obtain s3 r3 where o2: "checker ((request_of org d)\<lparr>rq_override := ov\<rparr>) s2 = (s3, r3)" by fastforce
    have "v s3 = v s2" using io_keepsD [OF quietD(5) [OF q c] o2] .
    then show ?thesis using r o1 o2 v2 Inr by (auto simp: run_checks_def split: sum.splits)
  qed (use r o1 v2 in \<open>auto simp: run_checks_def\<close>)
qed

lemma check_keeps:
  assumes q: "quiet C v" and pace: "\<And>s. v (fst (pace s)) = v s"
    and c: "check E rx (co_env C) org src keepOld pace r s = Some (s', r', b)"
  shows "v s' = v s"
proof -
  obtain s1 e where p: "pace s = (s1, e)" by fastforce
  then have v1: "v s1 = v s" using pace [of s] by simp
  have "s' = s \<or> s' = s1 \<or> (\<exists>checker d. ev_checker (co_env C) = Some checker \<and>
      run_checks E rx (co_env C) checker org (so_overrides src) keepOld d r s1 = Some (s', r', b))"
    using c p by (cases e) (auto simp: check_def split: option.splits if_splits)
  then show ?thesis using run_checks_keeps [OF q] v1 by (elim disjE exE conjE) (simp, simp, metis)
qed

lemma store_record_keeps:
  assumes "quiet C v" and "store_record C r w s = Some (s', w')"
  shows "v s' = v s"
proof -
  obtain s1 r1 where k: "keep_release (co_engine C) (co_rx C) (sa_records (co_store C)) (finalize (co_engine C) r) s = Some (s1, r1)"
    using assms(2) by (auto simp: store_record_def)
  show ?thesis
    using assms(2) k keep_release_keeps [OF assms(1) k] quietD(8) [OF assms(1)]
    by (auto simp: store_record_def Let_def split: prod.splits option.splits) (metis fst_conv)+
qed

lemma write_record_step:
  assumes "\<not> stopped (co_env C) w s"
    and "(if op_engineChecks (co_opts C)
        then check (co_engine C) (co_rx C) (co_env C) (op_org (co_opts C)) src True
               (rest_pause (co_env C) (op_restFloor (co_opts C))) r s
        else Some (s, r, False)) = Some (s1, r1, b)"
  shows "write_record C src r w s =
    (if stopped (co_env C) (w\<lparr>wr_checks := wr_checks w + (if b then 1 else 0)\<rparr>) s1
     then Some (s1, w\<lparr>wr_checks := wr_checks w + (if b then 1 else 0)\<rparr>)
     else store_record C r1 (w\<lparr>wr_checks := wr_checks w + (if b then 1 else 0)\<rparr>) s1)"
  unfolding write_record_def assms(2) using assms(1) by (simp add: Let_def)

lemma write_record_keeps:
  assumes "quiet C v" and "write_record C src r w s = Some (s', w')"
  shows "v s' = v s"
proof (cases "stopped (co_env C) w s")
  case True
  then show ?thesis using assms(2) by (simp add: write_record_def)
next
  case False
  obtain s1 r1 b where c: "(if op_engineChecks (co_opts C)
        then check (co_engine C) (co_rx C) (co_env C) (op_org (co_opts C)) src True
               (rest_pause (co_env C) (op_restFloor (co_opts C))) r s
        else Some (s, r, False)) = Some (s1, r1, b)"
    using assms(2) False by (auto simp: write_record_def split: option.splits if_splits)
  have v1: "v s1 = v s"
  proof (cases "op_engineChecks (co_opts C)")
    case True
    then have "check (co_engine C) (co_rx C) (co_env C) (op_org (co_opts C)) src True
        (rest_pause (co_env C) (op_restFloor (co_opts C))) r s = Some (s1, r1, b)" using c by (simp only: if_True)
    from check_keeps [where v = v and pace = "rest_pause (co_env C) (op_restFloor (co_opts C))", OF assms(1)
        rest_pause_keeps [OF assms(1)] this] show ?thesis .
  qed (use c in simp)
  let ?w = "w\<lparr>wr_checks := wr_checks w + (if b then 1 else 0)\<rparr>"
  have "s' = s1 \<or> store_record C r1 ?w s1 = Some (s', w')"
    using assms(2) unfolding write_record_step [OF False c] by (metis option.inject prod.inject)
  then show ?thesis using store_record_keeps [OF assms(1)] v1 by (elim disjE) (simp, metis)
qed

lemma write_all_keeps: "quiet C v \<Longrightarrow> write_all C src rs w s = Some (s', w') \<Longrightarrow> v s' = v s"
proof (induction rs arbitrary: w s)
  case (Cons r rs)
  then obtain s1 w1 where "write_record C src r w s = Some (s1, w1)" "write_all C src rs w1 s1 = Some (s', w')"
    by (auto split: option.splits)
  then show ?case using Cons.IH Cons.prems(1) write_record_keeps by metis
qed simp

lemma write_records_keeps: "quiet C v \<Longrightarrow> pio_keeps v (write_records C src rs)"
  unfolding pio_keeps_def write_records_def by (auto dest: write_all_keeps)

lemma existing_in: "(k, r) \<in> set (existing recs) \<Longrightarrow> r \<in> set recs \<and> rc_repository r = k"
proof -
  have "\<forall>(k, r) \<in> set acc. r \<in> A \<and> rc_repository r = k \<Longrightarrow> set recs \<subseteq> A \<Longrightarrow>
    \<forall>(k, r) \<in> set (fold (\<lambda>r. AList.update (rc_repository r) r) recs acc). r \<in> A \<and> rc_repository r = k" for A acc
  proof (induction recs arbitrary: acc)
    case (Cons r recs)
    have "set (AList.update (rc_repository r) r acc) \<subseteq> insert (rc_repository r, r) (set acc)"
      by (induction acc) auto
    then show ?case using Cons.IH [of "AList.update (rc_repository r) r acc"] Cons.prems by auto
  qed simp
  from this [of "[]" "set recs"] show "(k, r) \<in> set (existing recs) \<Longrightarrow> ?thesis" by (auto simp: existing_def)
qed

lemma close_sweep_removed:
  assumes "quiet C v" and "close_sweep C rest0 gql0 complete sm s = (s', Inr sm')"
  shows "v s' = v s \<and> ss_removed sm' = ss_removed sm"
proof -
  define x where "x = finish_summary (co_env C) rest0 gql0 s sm"
  let ?m = "io_bind (io_wrap StoreFailed (io_err (sa_put_sweep (co_store C) x))) (\<lambda>_.
      if complete then io_bind (io_wrap StoreFailed (io_err (sa_delete_cursor (co_store C)))) (\<lambda>_. io_ret x)
      else io_ret x)"
  have "io_keeps v ?m"
    by (cases complete; simp only: if_True if_False)
      (intro io_keeps_bind io_keeps_wrap io_keeps_ret quietD(13,14) [OF assms(1)])+
  moreover have m: "?m s = (s', Inr sm')" using assms(2) unfolding close_sweep_def Let_def x_def .
  moreover have "sm' = x" using m by (auto simp: io_bind_Inr split: if_splits)
  ultimately show ?thesis using io_keepsD [of v ?m s s'] by (simp add: x_def finish_summary_def)
qed

definition deletes :: "('s, 'd, 'o, 'h) collector \<Rightarrow> ('s \<Rightarrow> 'x) \<Rightarrow> string list \<Rightarrow> 's \<Rightarrow> 's \<Rightarrow> bool" where
  "deletes C v keys s s' \<longleftrightarrow> (\<exists>s1. v s1 = v s \<and> v s' = v (fst (sa_delete (co_store C) keys s1)))"

lemma remove_stale_deletes:
  assumes "remove_stale C complete keys s = (s', Inr n)"
  shows "if complete then s' = fst (sa_delete (co_store C) keys s) \<and> n = length keys else s' = s \<and> n = 0"
  using assms
  by (auto simp: remove_stale_def io_bind_Inr io_wrap_Inr io_err_def split: if_splits prod.splits option.splits)

lemma finish_sweep_deletes:
  assumes q: "quiet C v"
    and f: "finish_sweep C rest0 gql0 src nodes old finished stop sum0 s = Some (s', Inr sm)"
  shows "if stop = None then
      deletes C v (stale_keys (op_org (co_opts C)) (sweep_names True nodes src) old) s s' \<and>
      ss_removed sm = int (length (stale_keys (op_org (co_opts C)) (sweep_names True nodes src) old))
    else v s' = v s"
proof -
  let ?keys = "stale_keys (op_org (co_opts C)) (sweep_names (stop = None) nodes src) old"
  obtain records checks s1 s2 removed sm3 where
      w: "write_records C src records s = Some (s1, Inr checks)"
    and r: "remove_stale C (stop = None) ?keys s1 = (s2, Inr removed)"
    and c: "close_sweep C rest0 gql0 (stop = None) (sm3\<lparr>ss_removed := int removed\<rparr>) s2 = (s', Inr sm)"
    using f by (auto simp: finish_sweep_def Let_def pio_bind_Inr split: option.splits)
  have v1: "v s1 = v s" using pio_keepsD [OF write_records_keeps [OF q] w] .
  have v3: "v s' = v s2" "ss_removed sm = int removed" using close_sweep_removed [OF q c] by simp_all
  show ?thesis
    using remove_stale_deletes [OF r] v1 v3 by (auto simp: deletes_def)
qed

lemma read_existing_listed:
  assumes "read_existing C s = Some (s', Inr old)"
  shows "\<exists>recs. ac_list (sa_records (co_store C)) s = Some (s', Inr recs) \<and> old = existing recs"
  using assms by (auto simp: read_existing_def pio_bind_Inr pio_wrap_Inr)

lemma pio_keeps_or:
  "pio_keeps v m \<Longrightarrow> pio_keeps v (\<lambda>s. case stop of Some rl \<Rightarrow> Some (s, Inr (f rl)) | None \<Rightarrow> m s)"
  by (cases stop) (auto simp: pio_keeps_def)

lemma reads_keep:
  assumes q: "quiet C v"
  shows "pio_keeps v (read_repositories C stop)" "pio_keeps v (read_histories C stop finished nodes)"
    "pio_keeps v (read_existing C)"
proof -
  have "pio_keeps v (fetch_repositories (co_env C) page first after nodes errs)" for page first after nodes errs
    using fetch_repositories_keeps [where V = "co_env C" and v = v, OF quietD(3) [OF q]] by (fastforce simp: pio_keeps_def)
  then show "pio_keeps v (read_repositories C stop)"
    unfolding read_repositories_def [abs_def] by (intro pio_keeps_or pio_keeps_wrap)
  have "pio_keeps v (fetch_histories (co_env C) batch names nodes)" for batch names nodes
    using fetch_histories_keeps [where V = "co_env C" and v = v, OF quietD(4) [OF q]] by (fastforce simp: pio_keeps_def)
  then show "pio_keeps v (read_histories C stop finished nodes)"
    unfolding read_histories_def [abs_def] by (intro pio_keeps_or pio_keeps_wrap)
  show "pio_keeps v (read_existing C)"
    unfolding read_existing_def by (intro pio_keeps_bind pio_keeps_wrap pio_keeps_of io_keeps_ret quietD(10) [OF q])
qed

lemma sweep_repositories_deletes:
  assumes q: "quiet C v"
    and r: "sweep_repositories C rest0 gql0 cur src stop0 s = Some (s', Inr (sm, complete))"
  shows "\<exists>nodes ls ls' recs. ac_list (sa_records (co_store C)) ls = Some (ls', Inr recs) \<and>
    (if complete then
       deletes C v (stale_keys (op_org (co_opts C)) (sweep_names True nodes src) (existing recs)) s s' \<and>
       ss_removed sm = int (length (stale_keys (op_org (co_opts C)) (sweep_names True nodes src) (existing recs)))
     else v s' = v s)"
proof -
  obtain nodes0 stop1 errs s1 old s2 nodes stop s3 sum0 where
      a: "read_repositories C stop0 s = Some (s1, Inr (nodes0, stop1, errs))"
    and b: "read_existing C s1 = Some (s2, Inr old)"
    and c: "read_histories C stop1 (done_names (sc_startedAt cur) old) nodes0 s2 = Some (s3, Inr (nodes, stop))"
    and d: "finish_sweep C rest0 gql0 src nodes old (done_names (sc_startedAt cur) old) stop sum0 s3 = Some (s', Inr sm)"
    and e: "complete = (stop = None)"
    using r by (auto simp: sweep_repositories_def Let_def pio_bind_Inr)
  have v3: "v s3 = v s"
    using pio_keepsD [OF reads_keep(1) [OF q] a] pio_keepsD [OF reads_keep(3) [OF q] b]
      pio_keepsD [OF reads_keep(2) [OF q] c] by simp
  obtain recs where l: "ac_list (sa_records (co_store C)) s1 = Some (s2, Inr recs)" "old = existing recs"
    using read_existing_listed [OF b] by blast
  show ?thesis
    using finish_sweep_deletes [OF q d] l e v3
    by (intro exI [of _ nodes] exI [of _ s1] exI [of _ s2] exI [of _ recs]) (auto simp: deletes_def)
qed

lemma on_world_Some: "on_world m st = Some (st', r) \<longleftrightarrow> (\<exists>s'. m (fst st) = Some (s', r) \<and> st' = (s', snd st))"
  by (auto simp: on_world_def split: option.splits)

lemma sweep_cursor_keeps:
  assumes "quiet C v" and "sweep_cursor_of C s = (s', r)"
  shows "v s' = v s"
proof -
  define now where "now = ev_clock (co_env C) s"
  have "io_keeps v (io_bind (io_wrap StoreFailed (sa_cursor (co_store C))) (\<lambda>cur.
       io_bind (io_wrap StoreFailed (io_err (sa_put_cursor (co_store C) (f cur)))) (\<lambda>_. io_ret (f cur))))" for f
    by (intro io_keeps_bind io_keeps_wrap io_keeps_ret quietD(11,12) [OF assms(1)])
  then show ?thesis using assms(2) unfolding sweep_cursor_of_def Let_def by (rule io_keepsD)
qed

lemma read_sources_keeps:
  assumes "quiet C v" and "read_sources C st = Some (st', r)"
  shows "v (fst st') = v (fst st)"
proof -
  let ?Q = "ev_sources (co_env C)" and ?R = "ev_overrides (co_env C)"
  obtain y where y: "fetch_pages (co_lib C) (co_yaml C) (op_org (co_opts C)) (co_schema C) ?R ?Q None no_sources
      (fst st, me_schema (snd st)) = Some y" "fst st' = fst (fst y)"
    using assms(2) by (auto simp: read_sources_def fetch_sources_def split: option.splits)
  show ?thesis
    using fetch_pages_keeps [where v = v and query = ?Q and remote = ?R, OF quietD(1) [OF assms(1)] quietD(2) [OF assms(1)] y(1)]
      y(2) by simp
qed

lemma declared_not_stale:
  "map_of (so_declarations src) n \<noteq> None \<Longrightarrow> org @ ''/'' @ n \<notin> set (stale_keys org (sweep_names True nodes src) old)"
proof -
  assume "map_of (so_declarations src) n \<noteq> None"
  then have "n \<in> fst ` set (so_declarations src)" by (simp add: map_of_eq_None_iff)
  moreover have "map_of nodes n \<noteq> None \<Longrightarrow> n \<in> fst ` set nodes" by (simp add: map_of_eq_None_iff)
  ultimately have "n \<in> set (sweep_names True nodes src)" by (auto simp: sweep_names_def)
  then show ?thesis by (auto simp: stale_keys_def)
qed

text \<open>C24.
  What a sweep deletes. Take any view of the world that every call but a deletion keeps. A sweep
  that stopped at the budget leaves it as it was. A complete one deletes one list of keys, as long as
  its summary says: each is the key of a record the store listed, none of them awaits its creation,
  and none is the key of a repository the sources it read declare.\<close>

theorem sweep_deletes_stale_only:
  assumes q: "quiet C v" and "sweep C st = Some (st', Inr (sm, complete))"
  shows "if complete then
      (\<exists>keys recs src ls ls'. deletes C v keys (fst st) (fst st') \<and> ss_removed sm = int (length keys) \<and>
         ac_list (sa_records (co_store C)) ls = Some (ls', Inr recs) \<and> me_src (snd st') = Some src \<and>
         (\<forall>k \<in> set keys. \<exists>r \<in> set recs. rc_repository r = k \<and> \<not> awaits_creation r) \<and>
         (\<forall>n. map_of (so_declarations src) n \<noteq> None \<longrightarrow> op_org (co_opts C) @ ''/'' @ n \<notin> set keys))
    else v (fst st') = v (fst st)"
proof -
  obtain s2 m2 where body: "sweep_body C (fst st, (snd st)\<lparr>me_running := True\<rparr>) = Some ((s2, m2), Inr (sm, complete))"
      and st': "st' = (s2, m2\<lparr>me_running := False\<rparr>)"
    using assms(2) by (auto simp: sweep_def split: if_splits)
  obtain w1 cur where "on_world (pio_of (sweep_cursor_of C)) (fst st, (snd st)\<lparr>me_running := True\<rparr>) = Some (w1, Inr cur)"
      and r0: "pio_bind (read_sources C) (\<lambda>(src, stop) st'. on_world (sweep_repositories C (ev_rest (co_env C) (fst w1))
         (ev_gql (co_env C) (fst w1)) cur src stop) (set_sources C (Some src) st')) w1 = Some ((s2, m2), Inr (sm, complete))"
    using body unfolding sweep_body_def pio_bind_Inr Let_def by blast
  then have c: "sweep_cursor_of C (fst st) = (fst w1, Inr cur)" by (auto simp: on_world_Some)
  obtain w2 src stop where rs: "read_sources C w1 = Some (w2, Inr (src, stop))"
      and r1: "on_world (sweep_repositories C (ev_rest (co_env C) (fst w1)) (ev_gql (co_env C) (fst w1)) cur src stop)
        (set_sources C (Some src) w2) = Some ((s2, m2), Inr (sm, complete))"
    using r0 unfolding pio_bind_Inr by auto
  then have r: "sweep_repositories C (ev_rest (co_env C) (fst w1)) (ev_gql (co_env C) (fst w1)) cur src stop (fst w2)
        = Some (s2, Inr (sm, complete))" and m: "me_src m2 = Some src"
    by (auto simp: on_world_Some set_sources_def)
  have v: "v (fst w2) = v (fst st)"
    using sweep_cursor_keeps [OF q c] read_sources_keeps [OF q rs] by simp
  obtain nodes ls ls' recs where l: "ac_list (sa_records (co_store C)) ls = Some (ls', Inr recs)"
      "if complete then
         deletes C v (stale_keys (op_org (co_opts C)) (sweep_names True nodes src) (existing recs)) (fst w2) s2 \<and>
         ss_removed sm = int (length (stale_keys (op_org (co_opts C)) (sweep_names True nodes src) (existing recs)))
       else v s2 = v (fst w2)"
    using sweep_repositories_deletes [OF q r] by blast
  have k: "\<exists>r \<in> set recs. rc_repository r = k \<and> \<not> awaits_creation r"
    if "k \<in> set (stale_keys org names (existing recs))" for k org names
    using that existing_in by (fastforce simp: stale_keys_def)
  show ?thesis
  proof (cases complete)
    case True
    let ?keys = "stale_keys (op_org (co_opts C)) (sweep_names True nodes src) (existing recs)"
    have "deletes C v ?keys (fst st) (fst st')" "ss_removed sm = int (length ?keys)"
      using l(2) True v by (simp_all add: st' deletes_def)
    moreover have "me_src (snd st') = Some src" using m by (simp add: st')
    moreover have "\<forall>k \<in> set ?keys. \<exists>r \<in> set recs. rc_repository r = k \<and> \<not> awaits_creation r" using k by blast
    moreover have "\<forall>n. map_of (so_declarations src) n \<noteq> None \<longrightarrow> op_org (co_opts C) @ ''/'' @ n \<notin> set ?keys"
      using declared_not_stale by blast
    ultimately show ?thesis using l(1) True by (simp only: if_True) blast
  qed (use l(2) v in \<open>simp add: st'\<close>)
qed

section \<open>A repository GitHub could not read is taken for gone\<close>

text \<open>The page of \<open>sample_page\<close> has one repository, which GitHub answered as null with an error beside
  it. The sweep is complete all the same, and deletes the record of that repository.\<close>

definition seen_before :: repo_record where
  "seen_before = zero_record\<lparr>rc_repository := ''org/r'', rc_name := ''r'', rc_reality := Some zero_reality,
     rc_refreshedAt := -1\<rparr>"

definition fresh_memory :: "(string, unit, unit) memory" where
  "fresh_memory = \<lparr>me_running = False, me_src = None, me_srcAt = 0, me_schema = None\<rparr>"

lemma sample_fetches:
  "fetch_repositories sample_env 1 20 None [] [] s = Some (s, Inr ([], None, [''Something went wrong'']))"
  "fetch_histories sample_env b [] [] s = Some (s, Inr ([], None))"
  by (subst fetch_repositories.simps, simp add: sample_env_def sample_page_def add_nodes_def Let_def)
    (subst fetch_histories.simps, simp)

lemma sample_env_calls:
  "ev_clock sample_env s = 0" "ev_ctx sample_env s = None" "ev_gql sample_env s = zero_budget"
  "ev_rest sample_env s = \<lparr>us_calls = 0, us_remaining = 0, us_limit = 0, us_resetAt = 0\<rparr>"
  by (simp_all add: sample_env_def)

lemma sample_sources:
  "\<exists>src cache. fetch_sources sample_setup_lib \<lparr>yl_catalog = (\<lambda>t. []), yl_mapping = (\<lambda>t. None)\<rparr> ''org'' (Some ())
     (ev_overrides sample_env) (ev_sources sample_env) (s, None) = Some ((s, cache), Inr (src, None)) \<and>
     so_declarations src = []"
  unfolding fetch_sources_def
  by (subst fetch_pages.simps)
    (simp add: sample_env_def sample_setup_lib_def first_page_def parse_sources_def declared_schema_def list_overrides_def
      io_wrap_def fill_sources_def no_sources_def Let_def)

lemma null_node_deleted:
  "\<exists>st' sm. sweep (sample_collector [seen_before]) (([], []), fresh_memory) = Some (st', Inr (sm, True)) \<and>
     snd (fst st') = [''org/r''] \<and> ss_errors sm \<noteq> []"
proof -
  obtain src cache where s: "fetch_sources sample_setup_lib \<lparr>yl_catalog = (\<lambda>t. []), yl_mapping = (\<lambda>t. None)\<rparr> ''org'' (Some ())
     (ev_overrides sample_env) (ev_sources sample_env) (([], []), None) = Some ((([], []), cache), Inr (src, None))"
     "so_declarations src = []"
    using sample_sources by blast
  show ?thesis
    by (simp add: sweep_def fresh_memory_def sweep_body_def pio_bind_def on_world_def sweep_cursor_of_def
        read_sources_def set_sources_def sweep_repositories_def read_repositories_def read_existing_def
        read_histories_def finish_sweep_def Let_def io_bind_def io_wrap_def pio_wrap_def io_err_def
        sample_collector_def sample_fetches s sample_env_calls sample_access_def existing_def done_names_def
        history_names_def sweep_names_def stale_keys_def write_records_def remove_stale_def close_sweep_def
        finish_summary_def empty_summary_def awaits_creation_def seen_before_def zero_record_def)
qed

lemma sample_quiet: "quiet (sample_collector recs) snd"
  by (simp add: quiet_def sample_collector_def sample_env_def sample_access_def Let_def io_keeps_def pio_keeps_def
      io_err_def)

theorem sweep_deletes_stale_only_witness:
  "\<exists>st' sm keys. sweep (sample_collector [seen_before]) (([], []), fresh_memory) = Some (st', Inr (sm, True)) \<and>
     snd (fst st') = keys \<and> ss_removed sm = int (length keys)"
proof -
  obtain st' sm where s: "sweep (sample_collector [seen_before]) (([], []), fresh_memory) = Some (st', Inr (sm, True))"
      "snd (fst st') = [''org/r'']"
    using null_node_deleted by blast
  obtain keys where "deletes (sample_collector [seen_before]) snd keys ([], []) (fst st')" "ss_removed sm = int (length keys)"
    using sweep_deletes_stale_only [OF sample_quiet s(1)] by auto
  moreover from this have "snd (fst st') = keys"
    by (auto simp: deletes_def sample_collector_def)
  ultimately show ?thesis using s(1) by blast
qed

end
