(* ===== verification/ReconcilerProps.thy ===== *)
theory ReconcilerProps
  imports Reconciler SweepsProps
begin

text \<open>
  What the poller promises: no run is lost behind the watermark, a record is given up only by the run
  it awaits, and a wait whose window is over ends.
\<close>

section \<open>The watermark\<close>

text \<open>Runs seen and not consumed hold the watermark; what was consumed stays so.\<close>

definition held :: "workflow_run list \<Rightarrow> run_scan \<Rightarrow> bool" where
  "held seen sc \<longleftrightarrow> (\<forall>run \<in> set seen. rs_consumed sc (run_key run) = None \<longrightarrow>
     rs_hold sc \<noteq> zero_time \<and> rs_hold sc \<le> wr_createdAt run)"

definition keeps_consumed :: "run_scan \<Rightarrow> run_scan \<Rightarrow> bool" where
  "keeps_consumed sc sc' \<longleftrightarrow> (\<forall>k t. rs_consumed sc k = Some t \<longrightarrow> rs_consumed sc' k = Some t)"

lemma hold_run_simps [simp]:
  "rs_consumed (hold_run c sc) = rs_consumed sc" "rs_consumed (see_run c sc) = rs_consumed sc"
  "rs_hold (see_run c sc) = rs_hold sc"
  by (simp_all add: hold_run_def see_run_def)

lemma hold_run_hold:
  "zero_time < c \<Longrightarrow> rs_hold (hold_run c sc) \<noteq> zero_time \<and> rs_hold (hold_run c sc) \<le> c \<and>
     (rs_hold sc \<noteq> zero_time \<longrightarrow> rs_hold (hold_run c sc) \<le> rs_hold sc)"
  by (auto simp: hold_run_def)

text \<open>A step either consumes the run or skips it as consumed, or holds the watermark at it.\<close>

lemma scan_run_step_cases:
  assumes "scan_run_step P run sc st = Some (st', Inr sc')"
  shows "(rs_hold sc' = rs_hold sc \<and> (rs_consumed sc' = rs_consumed sc \<and> rs_consumed sc (run_key run) \<noteq> None \<or>
            rs_consumed sc (run_key run) = None \<and>
            rs_consumed sc' = (rs_consumed sc)(run_key run \<mapsto> wr_createdAt run))) \<or>
         (rs_consumed sc' = rs_consumed sc \<and> (\<exists>sc1. rs_hold sc1 = rs_hold sc \<and> rs_hold sc' = rs_hold (hold_run (wr_createdAt run) sc1)))"
proof -
  let ?sc = "see_run (wr_createdAt run) sc"
  consider "rs_consumed ?sc (run_key run) \<noteq> None" "sc' = ?sc"
    | "rs_consumed ?sc (run_key run) = None" "sc' = hold_run (wr_createdAt run) ?sc"
    | poll' where "rs_consumed ?sc (run_key run) = None"
        "sc' = ?sc\<lparr>rs_consumed := (rs_consumed ?sc)(run_key run \<mapsto> wr_createdAt run), rs_poll := poll'\<rparr>"
    | poll' where "sc' = hold_run (wr_createdAt run) (?sc\<lparr>rs_poll := poll'\<rparr>)"
    using assms
    by (auto simp: scan_run_step_def Let_def split: if_splits option.splits prod.splits sum.splits)
  then show ?thesis
  proof cases
    case 2
    then have "rs_hold ?sc = rs_hold sc" by simp
    with 2 show ?thesis by (metis hold_run_simps(1,2))
  next
    case (4 poll')
    then have "rs_hold (?sc\<lparr>rs_poll := poll'\<rparr>) = rs_hold sc" by simp
    moreover have "rs_consumed sc' = rs_consumed sc" using 4 by simp
    ultimately show ?thesis using 4 by metis
  qed auto
qed

lemma scan_run_step_held:
  assumes "scan_run_step P run sc st = Some (st', Inr sc')" and "held seen sc"
    and "\<forall>r \<in> set (run # seen). zero_time < wr_createdAt r"
  shows "held (run # seen) sc' \<and> keeps_consumed sc sc'"
  using scan_run_step_cases [OF assms(1)]
proof (elim disjE conjE exE)
  fix sc1 assume c: "rs_consumed sc' = rs_consumed sc" "rs_hold sc1 = rs_hold sc"
      "rs_hold sc' = rs_hold (hold_run (wr_createdAt run) sc1)"
  note h = hold_run_hold [of "wr_createdAt run" sc1]
  have "zero_time < wr_createdAt run" using assms(3) by simp
  then show ?thesis using c h assms(2) by (auto simp: held_def keeps_consumed_def)
qed (use assms(2) in \<open>auto simp: held_def keeps_consumed_def\<close>)

lemma scan_runs_held:
  "scan_runs P runs sc st = Some (st', Inr sc') \<Longrightarrow> held seen sc \<Longrightarrow>
   \<forall>r \<in> set runs \<union> set seen. zero_time < wr_createdAt r \<Longrightarrow>
   held (rev runs @ seen) sc' \<and> keeps_consumed sc sc'"
proof (induction runs arbitrary: sc st seen)
  case (Cons run runs)
  obtain st1 sc1 where s: "scan_run_step P run sc st = Some (st1, Inr sc1)" "scan_runs P runs sc1 st1 = Some (st', Inr sc')"
    using Cons.prems(1) by (auto simp: pio_bind_Inr)
  have one: "held (run # seen) sc1 \<and> keeps_consumed sc sc1"
    using Cons.prems(3) by (intro scan_run_step_held [OF s(1) Cons.prems(2)]) auto
  have "held (rev runs @ run # seen) sc' \<and> keeps_consumed sc1 sc'"
    using Cons.prems(3) one by (intro Cons.IH [OF s(2)]) auto
  then show ?case using one by (auto simp: keeps_consumed_def)
qed (auto simp: keeps_consumed_def)

text \<open>What a scan consumed and earlier polls did not is a completed run of the list whose artifacts and
  reports were dealt with.\<close>

definition finished_run :: "('s, 'd, 'o, 'h) poller \<Rightarrow> workflow_run \<Rightarrow> bool" where
  "finished_run P run \<longleftrightarrow> wr_status run = runCompleted \<and>
     (\<exists>poll w w' poll'. consume_run P run poll w = Some (w', poll', True))"

lemma scan_run_step_consumed:
  assumes "scan_run_step P run sc st = Some (st', Inr sc')" and "rs_consumed sc' k = Some t"
  shows "rs_consumed sc k = Some t \<or> k = run_key run \<and> t = wr_createdAt run \<and> finished_run P run"
proof -
  consider "rs_consumed sc' = rs_consumed sc"
    | "rs_consumed sc' = (rs_consumed sc)(run_key run \<mapsto> wr_createdAt run)" "wr_status run = runCompleted"
      "\<exists>poll w w' poll'. consume_run P run poll w = Some (w', poll', True)"
    using assms(1) unfolding scan_run_step_def Let_def
    by (fastforce split: if_splits option.splits prod.splits sum.splits)
  then show ?thesis
    using assms(2) by cases (auto simp: finished_run_def split: if_splits)
qed

lemma scan_runs_consumed:
  "scan_runs P runs sc st = Some (st', Inr sc') \<Longrightarrow> rs_consumed sc' k = Some t \<Longrightarrow>
   rs_consumed sc k = Some t \<or> (\<exists>run \<in> set runs. k = run_key run \<and> t = wr_createdAt run \<and> finished_run P run)"
proof (induction runs arbitrary: sc st)
  case (Cons run runs)
  obtain st1 sc1 where s: "scan_run_step P run sc st = Some (st1, Inr sc1)" "scan_runs P runs sc1 st1 = Some (st', Inr sc')"
    using Cons.prems(1) by (auto simp: pio_bind_Inr)
  show ?case using Cons.IH [OF s(2) Cons.prems(2)] scan_run_step_consumed [OF s(1)] by fastforce
qed simp

text \<open>What a poll that listed \<open>runs\<close> from the cursor \<open>cur\<close> owes: the runs it consumed are named or
  older than the watermark, the others are not older.\<close>

definition loses_none ::
  "('s, 'd, 'o, 'h) poller \<Rightarrow> reconciler_cursor \<Rightarrow> workflow_run list \<Rightarrow> (string \<rightharpoonup> time) \<Rightarrow> reconciler_cursor \<Rightarrow> bool" where
  "loses_none P cur runs consumed cur' \<longleftrightarrow>
     (\<forall>run \<in> set runs. consumed (run_key run) = None \<longrightarrow> rcu_watermark cur' \<le> wr_createdAt run) \<and>
     (\<forall>k t. rcu_consumed cur k = Some t \<longrightarrow> consumed k = Some t) \<and>
     (\<forall>k t. consumed k = Some t \<longrightarrow> rcu_watermark cur' \<le> t \<longrightarrow> rcu_consumed cur' k = Some t) \<and>
     (\<forall>k t. consumed k = Some t \<longrightarrow> rcu_consumed cur k = Some t \<or>
        (\<exists>run \<in> set runs. k = run_key run \<and> t = wr_createdAt run \<and> finished_run P run))"

lemma next_cursor_names:
  "rs_consumed sc k = Some t \<Longrightarrow> rcu_watermark (next_cursor now cur sc) \<le> t \<Longrightarrow>
   rcu_consumed (next_cursor now cur sc) k = Some t"
  by (auto simp: next_cursor_def Let_def)

lemma next_cursor_held:
  "held runs sc \<Longrightarrow> run \<in> set runs \<Longrightarrow> rs_consumed sc (run_key run) = None \<Longrightarrow>
   rcu_watermark (next_cursor now cur sc) \<le> wr_createdAt run"
  by (auto simp: held_def next_cursor_def Let_def)

lemma io_err_Inr [go_simps]: "io_err m s = (s', Inr u) \<longleftrightarrow> m s = (s', None)"
  by (cases "m s"; cases "snd (m s)") (auto simp: io_err_def)

text \<open>The course of a poll that took the lease: the cursor it started from, the runs it listed, what
  its scan left consumed and the cursor it stored.\<close>

definition poll_course ::
  "('s, 'd, 'o, 'h) poller \<Rightarrow> ('s, 'd, 'o, 'h) world \<Rightarrow> ('s, 'd, 'o, 'h) world \<Rightarrow> reconciler_poll \<Rightarrow>
   reconciler_cursor \<Rightarrow> workflow_run list \<Rightarrow> (string \<rightharpoonup> time) \<Rightarrow> reconciler_cursor \<Rightarrow> bool" where
  "poll_course P st st' poll cur runs consumed cur' \<longleftrightarrow> (\<exists>s1 stored s2 s3 w4 sc s5 s6.
     pa_lease (pl_access P) (fst st) = (s1, Inr True) \<and> pa_cursor (pl_access P) s1 = (s2, Inr stored) \<and>
     cur = start_cursor (pl_opts P) (ev_clock (pl_env P) s1) stored \<and>
     list_runs P (rcu_watermark cur) s2 = Some (s3, Inr runs) \<and>
     scan_runs P runs (start_scan cur) (s3, snd st) = Some (w4, Inr sc) \<and> consumed = rs_consumed sc \<and>
     cur' = next_cursor (ev_clock (pl_env P) s1) cur sc \<and> put_cursor P cur' (fst w4) = (s5, Inr ()) \<and>
     expire_pending P (ev_clock (pl_env P) s1) ((rs_poll sc)\<lparr>po_watermark := rcu_watermark cur'\<rparr>) s5 = Some (s6, poll) \<and>
     st' = (fst (pa_release (pl_access P) s6), snd w4))"

lemma on_world_pio_of: "on_world (pio_of m) st = Some (st', r) \<longleftrightarrow> m (fst st) = (fst st', r) \<and> snd st' = snd st"
  by (cases "m (fst st)"; cases st') (auto simp: on_world_def)

lemma on_world_Inr: "on_world m st = Some (st', Inr x) \<longleftrightarrow> m (fst st) = Some (fst st', Inr x) \<and> snd st' = snd st"
  by (cases st') (auto simp: on_world_Some)

lemma poll_has_course:
  fixes P :: "('s, 'd, 'o, 'h) poller"
  assumes "poll_reconciler P st = Some (st', Inr poll)" and "\<not> po_standby poll"
  shows "\<exists>cur runs consumed cur'. poll_course P st st' poll cur runs consumed cur'"
proof -
  obtain s1 w where lease: "pa_lease (pl_access P) (fst st) = (s1, Inr True)"
      and body: "poll_body P (s1, snd st) = Some (w, Inr poll)"
      and st': "st' = (fst (pa_release (pl_access P) (fst w)), snd w)"
    using assms by (auto simp: poll_reconciler_def split: prod.splits sum.splits bool.splits)
  let ?now = "ev_clock (pl_env P) s1"
  obtain stored w2 where c: "pa_cursor (pl_access P) s1 = (fst w2, Inr stored)" "snd w2 = snd st"
      and b2: "pio_bind (poll_runs P (start_cursor (pl_opts P) ?now stored)) (\<lambda>sc.
        pio_bind (on_world (pio_of (put_cursor P (next_cursor ?now (start_cursor (pl_opts P) ?now stored) sc)))) (\<lambda>_.
        on_world (\<lambda>s. map_option (\<lambda>(s', p). (s', Inr p)) (expire_pending P ?now
          ((rs_poll sc)\<lparr>po_watermark := rcu_watermark (next_cursor ?now (start_cursor (pl_opts P) ?now stored) sc)\<rparr>) s)))) w2
        = Some (w, Inr poll)"
    using body unfolding poll_body_def Let_def pio_bind_Inr [of "on_world (pio_of (io_wrap PollStore (pa_cursor (pl_access P))))"]
    by (auto simp: on_world_pio_of io_wrap_Inr)
  let ?cur = "start_cursor (pl_opts P) ?now stored"
  obtain sc w4 u w5 where r: "poll_runs P ?cur w2 = Some (w4, Inr sc)"
      and p: "put_cursor P (next_cursor ?now ?cur sc) (fst w4) = (fst w5, Inr u)" "snd w5 = snd w4"
      and e: "map_option (\<lambda>(s', p). (s', Inr p :: poll_error + reconciler_poll)) (expire_pending P ?now
          ((rs_poll sc)\<lparr>po_watermark := rcu_watermark (next_cursor ?now ?cur sc)\<rparr>) (fst w5)) = Some (fst w, Inr poll)"
        "snd w = snd w5"
    using b2 unfolding pio_bind_Inr on_world_Inr pio_of_simp option.inject by blast
  obtain w3 runs where l: "list_runs P (rcu_watermark ?cur) (fst w2) = Some (fst w3, Inr runs)" "snd w3 = snd w2"
      and s: "scan_runs P runs (start_scan ?cur) w3 = Some (w4, Inr sc)"
    using r unfolding poll_runs_def pio_bind_Inr on_world_Inr by blast
  have "scan_runs P runs (start_scan ?cur) (fst w3, snd st) = Some (w4, Inr sc)"
    using s l(2) c(2) by (metis prod.collapse)
  moreover have "expire_pending P ?now ((rs_poll sc)\<lparr>po_watermark := rcu_watermark (next_cursor ?now ?cur sc)\<rparr>) (fst w5)
      = Some (fst w, poll)"
    using e(1) by auto
  ultimately have "poll_course P st st' poll ?cur runs (rs_consumed sc) (next_cursor ?now ?cur sc)"
    unfolding poll_course_def using lease c(1) l(1) p e(2) by (intro exI conjI) (auto simp: st')
  then show ?thesis by blast
qed

lemma course_loses_none:
  assumes "poll_course P st st' poll cur runs consumed cur'" and "\<forall>run \<in> set runs. zero_time < wr_createdAt run"
  shows "loses_none P cur runs consumed cur'"
proof -
  obtain sc now w w' where s: "scan_runs P runs (start_scan cur) w = Some (w', Inr sc)"
      and c: "consumed = rs_consumed sc" "cur' = next_cursor now cur sc"
    using assms(1) unfolding poll_course_def by blast
  have h: "held (rev runs @ []) sc \<and> keeps_consumed (start_scan cur) sc"
    using assms(2) by (intro scan_runs_held [OF s]) (auto simp: held_def)
  then have "held runs sc" by (simp add: held_def)
  then show ?thesis
    using h next_cursor_names next_cursor_held scan_runs_consumed [OF s]
    by (auto simp: loses_none_def keeps_consumed_def start_scan_def c)
qed

text \<open>C26.
  A poll that ended well lost no run. It took the lease, read a cursor, listed the runs from its
  watermark, scanned them and stored the next cursor. Where every run has a creation time, a run that
  no poll consumed yet was created at or after the new watermark, so the next poll lists it again;
  what earlier polls consumed is still consumed; the cursor names every consumed run created at or
  after the watermark, so none is consumed twice; and what this poll consumed was a completed run of
  the list.\<close>

theorem poll_loses_no_run:
  fixes P :: "('s, 'd, 'o, 'h) poller"
  assumes "poll_reconciler P st = Some (st', Inr poll)" and "\<not> po_standby poll"
  shows "\<exists>cur runs consumed cur'. poll_course P st st' poll cur runs consumed cur' \<and>
    ((\<forall>run \<in> set runs. zero_time < wr_createdAt run) \<longrightarrow> loses_none P cur runs consumed cur')"
  using poll_has_course [OF assms] course_loses_none by blast

text \<open>A poller over \<open>sample_collector\<close>: the lease is free, one completed run is listed and one
  that runs still.\<close>

definition sample_run :: "int \<Rightarrow> string \<Rightarrow> time \<Rightarrow> workflow_run" where
  "sample_run n status at = \<lparr>wr_id = n, wr_attempt = 1, wr_status = status, wr_conclusion = ''failure'',
     wr_event = ''workflow_dispatch'', wr_headSHA = [], wr_url = ''run'', wr_createdAt = at, wr_updatedAt = at\<rparr>"

definition sample_actions :: "put_log actions" where
  "sample_actions = \<lparr>ax_runs = (\<lambda>since page. io_ret ([sample_run 2 ''in_progress'' 30, sample_run 1 ''completed'' 20], 0)),
     ax_artifacts = (\<lambda>run page. io_ret ([], 0)), ax_jobs = (\<lambda>run page. io_ret ([''Plan'', ''atlas / Reconcile r''], 0)),
     ax_download = (\<lambda>i. io_fail ''gone''), ax_unzip = (\<lambda>z. None), ax_report = (\<lambda>t. Inl ''no report''),
     ax_pull = (\<lambda>n. io_fail ''gone'')\<rparr>"

definition sample_poller :: "repo_record list \<Rightarrow> (put_log, string, unit, unit) poller" where
  "sample_poller recs = \<lparr>pl_collector = sample_collector recs,
     pl_opts = reconciler_defaults \<lparr>rk_repository = [], rk_workflow = [], rk_pollInterval = DefaultReconcilerPoll,
       rk_pendingInterval = 0, rk_pendingWindow = 0, rk_lookback = 0, rk_maxArtifact = 0\<rparr>,
     pl_actions = sample_actions,
     pl_access = \<lparr>pa_lease = io_ret True, pa_release = (\<lambda>s. (s, None)), pa_cursor = io_ret None,
       pa_put_cursor = (\<lambda>c s. (s, None))\<rparr>,
     pl_reconciled = None, pl_conflicted = None\<rparr>"

lemma one_page: "call 0 s = (s', Inr (xs, 0)) \<Longrightarrow> list_pages call 0 [] s = Some (s', Inr xs)"
  by (subst list_pages.simps) simp

lemma sample_jobs: "run_repositories sample_actions n s = Some (s, Inr [''r''])"
proof -
  have "list_pages (ax_jobs sample_actions n) 0 [] s = Some (s, Inr [''Plan'', ''atlas / Reconcile r''])"
    by (rule one_page) (simp add: sample_actions_def)
  moreover have "map repository_of_job [''Plan'', ''atlas / Reconcile r''] = [[], ''r'']" by code_simp
  ultimately show ?thesis by (simp add: run_repositories_def pio_bind_def)
qed

lemma sample_poll:
  "\<exists>poll. poll_reconciler (sample_poller []) (s, m) = Some ((s, m), Inr poll) \<and> \<not> po_standby poll \<and> po_runs poll = 1"
proof -
  have runs: "list_pages (ax_runs sample_actions since) 0 [] s =
      Some (s, Inr [sample_run 2 ''in_progress'' 30, sample_run 1 ''completed'' 20])" for since
    by (rule one_page) (simp add: sample_actions_def)
  have arts: "list_pages (ax_artifacts sample_actions n) 0 [] s = Some (s, Inr [])" for n
    by (rule one_page) (simp add: sample_actions_def)
  show ?thesis
    by (simp add: zero_time_def defaultLookback_def duration_units poll_reconciler_def poll_body_def poll_runs_def list_runs_def put_cursor_def renew_lease_def
        sample_poller_def on_world_def pio_bind_def pio_wrap_def io_bind_def io_wrap_def io_err_def Let_def runs
        scan_run_step_def start_scan_def start_cursor_def reconciler_defaults_def see_run_def hold_run_def consume_run_def
        arts reports_of_def run_without_report_def sample_jobs empty_poll_def expire_pending_def sample_collector_def
        sample_access_def sample_env_def sample_run_def runCompleted_def)
qed

theorem poll_loses_no_run_witness:
  "\<exists>st' poll cur runs consumed cur'.
    poll_course (sample_poller []) (([], []), fresh_memory) st' poll cur runs consumed cur' \<and> po_runs poll = 1 \<and>
    ((\<forall>run \<in> set runs. zero_time < wr_createdAt run) \<longrightarrow> loses_none (sample_poller []) cur runs consumed cur')"
proof -
  obtain poll where "poll_reconciler (sample_poller []) (([], []), fresh_memory) = Some ((([], []), fresh_memory), Inr poll)"
      "\<not> po_standby poll" "po_runs poll = 1"
    using sample_poll by blast
  then show ?thesis using poll_loses_no_run by blast
qed

section \<open>The end of a wait\<close>

text \<open>A mark the poller can read: of an Align now, or of a pull request.\<close>

definition readable_mark :: "repo_record \<Rightarrow> bool" where
  "readable_mark r \<longleftrightarrow> (\<forall>p. su_pendingRun (rc_setup r) = Some p \<longrightarrow>
     awaited_from p \<noteq> zero_time \<or> pn_pullRequest p \<noteq> None)"

text \<open>A record whose run stays away past the window.\<close>

definition overdue :: "reconciler_options \<Rightarrow> time \<Rightarrow> repo_record \<Rightarrow> bool" where
  "overdue o' now r \<longleftrightarrow> (\<exists>p. su_pendingRun (rc_setup r) = Some p \<and> awaited_from p \<noteq> zero_time \<and>
     rk_pendingWindow o' \<le> time_sub now (awaited_from p))"

text \<open>A view of the world as the stored records: a put stores its record, nothing else the poller
  calls at the end of a wait changes them.\<close>

definition record_view :: "('s, 'd, 'o, 'h) poller \<Rightarrow> ('s \<Rightarrow> string \<rightharpoonup> repo_record) \<Rightarrow> bool" where
  "record_view P v \<longleftrightarrow>
     (\<forall>r s. snd (ac_put (pl_records P) r s) = None) \<and>
     (\<forall>r s s'. ac_put (pl_records P) r s = (s', None) \<longrightarrow> v s' = (v s)(rc_repository r \<mapsto> r)) \<and>
     (\<forall>n s. v (fst (ax_pull (pl_actions P) n s)) = v s) \<and>
     (\<forall>h r pull s. pl_conflicted P = Some h \<longrightarrow> v (h r pull s) = v s)"

text \<open>The record has given its run up at \<open>now\<close>, and says so in its findings.\<close>

definition gave_up :: "time \<Rightarrow> repo_record \<Rightarrow> repo_record \<Rightarrow> bool" where
  "gave_up now r r' \<longleftrightarrow> su_pendingRun (rc_setup r') = None \<and>
     (\<exists>m. su_missingRun (rc_setup r') = Some m \<and> Some (mr_pendingRun m) = su_pendingRun (rc_setup r) \<and> mr_noticedAt m = now) \<and>
     (\<exists>f \<in> set (rc_findings r'). fd_kind f = FindingReconcileRunMissing \<and> fd_source f = FindingSourceInventory)"

lemma run_missing_gave_up:
  "su_pendingRun (rc_setup r) = Some p \<Longrightarrow> gave_up now r (run_missing E now url r)"
  using missing_finding_iff [of E "run_missing E now url r"]
  by (auto simp: gave_up_def run_missing_def give_up_def finalize_findings)

lemma expire_record_returns: "readable_mark r \<Longrightarrow> \<exists>s' poll'. expire_record P now r poll s = Some (s', poll')"
  by (cases "su_pendingRun (rc_setup r)")
    (auto simp: expire_record_def readable_mark_def split: option.split prod.split)

lemma record_viewD:
  assumes "record_view P v"
  shows "snd (ac_put (pl_records P) r s) = None"
    and "v (fst (ac_put (pl_records P) r s)) = (v s)(rc_repository r \<mapsto> r)"
    and "v (fst (ax_pull (pl_actions P) n s)) = v s"
    and "pl_conflicted P = Some h \<Longrightarrow> v (h r pull s) = v s"
  using assms unfolding record_view_def by (simp, metis prod.collapse, blast, blast)

lemma put_view:
  "record_view P v \<Longrightarrow> ac_put (pl_records P) r s = (s', e) \<Longrightarrow> e = None \<and> v s' = (v s)(rc_repository r \<mapsto> r)"
  using record_viewD(1,2) [of P v r s] by auto

lemma pull_view: "record_view P v \<Longrightarrow> ax_pull (pl_actions P) n s = (s', a) \<Longrightarrow> v s' = v s"
  using record_viewD(3) [of P v n s] by auto

text \<open>The rewrites of a mark keep the record's name.\<close>

lemma mark_repository [simp]:
  "rc_repository (give_up E m r) = rc_repository r" "rc_repository (run_missing E now url r) = rc_repository r"
  "rc_repository (conflicts t r) = rc_repository r" "rc_repository (mergeable r) = rc_repository r"
  "rc_repository (closed E r) = rc_repository r"
  by (auto simp: give_up_def run_missing_def conflicts_def mergeable_def closed_def split: option.split)

lemma merged_repository: "merged t r = Some r' \<Longrightarrow> rc_repository r' = rc_repository r"
  by (auto simp: merged_def split: option.splits)

lemma read_conflict_view:
  "record_view P v \<Longrightarrow> read_conflict P r pull poll s = (s', poll') \<Longrightarrow> k \<noteq> rc_repository r \<Longrightarrow> v s' k = v s k"
  by (auto simp: read_conflict_def Let_def record_viewD(4) split: option.splits prod.splits if_splits;
      (drule (1) put_view)?; (simp add: record_viewD)?)

lemma read_merge_view:
  assumes "record_view P v" and "read_merge P r pr poll s = (s', r', start, poll')" and "k \<noteq> rc_repository r"
  shows "v s' k = v s k \<and> rc_repository r' = rc_repository r"
proof -
  obtain s1 a where pull: "ax_pull (pl_actions P) (cp_number pr) s = (s1, a)" by fastforce
  have put: "v (fst (ac_put (pl_records P) x s1)) k = v s k" if "rc_repository x = rc_repository r" for x
    using that assms(3) record_viewD(2) [OF assms(1)] pull_view [OF assms(1) pull] by simp
  have keep: "v s1 = v s" by (rule pull_view [OF assms(1) pull])
  note rm = assms(2) [unfolded read_merge_def pull Let_def]
  show ?thesis
  proof (cases a)
    case (Inl e)
    then show ?thesis using rm keep by simp
  next
    case (Inr pl)
    consider "pp_merged pl" | "\<not> pp_merged pl" "pp_state pl = ''closed''" | "\<not> pp_merged pl" "pp_state pl \<noteq> ''closed''"
      by blast
    then show ?thesis
    proof cases
      case 1
      have "rc_repository r' = rc_repository r \<and> s' = fst (ac_put (pl_records P) r' s1)"
        using rm Inr 1 merged_repository by (auto split: option.splits prod.splits)
      then show ?thesis using put by blast
    next
      case 2
      then show ?thesis using rm Inr put by auto
    next
      case 3
      then have "read_conflict P r pl poll s1 = (s', poll') \<and> r' = r" using rm Inr by (auto split: prod.splits)
      then show ?thesis using read_conflict_view [OF assms(1) _ assms(3)] keep by metis
    qed
  qed
qed

lemma expire_from_view:
  "record_view P v \<Longrightarrow> expire_from P now start r poll s = (s', poll') \<Longrightarrow> k \<noteq> rc_repository r \<Longrightarrow> v s' k = v s k"
  by (auto simp: expire_from_def split: if_splits prod.splits option.splits dest: put_view)

lemma expire_record_view:
  assumes "record_view P v" and "expire_record P now r poll s = Some (s', poll')" and "k \<noteq> rc_repository r"
  shows "v s' k = v s k"
  using assms(2,3)
  by (auto simp: expire_record_def split: option.splits prod.splits if_splits
      dest: read_merge_view [OF assms(1)] expire_from_view [OF assms(1)])
    (metis read_merge_view [OF assms(1)] expire_from_view [OF assms(1)])

lemma expire_records_view:
  "record_view P v \<Longrightarrow> expire_records P now recs poll s = Some (s', poll') \<Longrightarrow> k \<notin> rc_repository ` set recs \<Longrightarrow> v s' k = v s k"
  by (induction recs arbitrary: poll s)
    (auto split: option.splits prod.splits dest: expire_record_view)

lemma overdue_record_gives_up:
  assumes "record_view P v" and "overdue (pl_opts P) now r" and "expire_record P now r poll s = Some (s', poll')"
  shows "\<exists>r'. v s' (rc_repository r) = Some r' \<and> gave_up now r r'"
proof -
  obtain p where p: "su_pendingRun (rc_setup r) = Some p" "awaited_from p \<noteq> zero_time"
      "rk_pendingWindow (pl_opts P) \<le> time_sub now (awaited_from p)"
    using assms(2) by (auto simp: overdue_def)
  let ?r = "run_missing (co_engine (pl_collector P)) now (runs_url (pl_opts P)) r"
  obtain e where "ac_put (pl_records P) ?r s = (s', e)"
    using assms(3) p by (auto simp: expire_record_def expire_from_def split: prod.splits option.splits)
  from put_view [OF assms(1) this] have "v s' (rc_repository r) = Some ?r" by simp
  then show ?thesis using run_missing_gave_up [OF p(1)] by blast
qed

lemma expire_records_end:
  assumes "record_view P v"
  shows "\<forall>r \<in> set recs. readable_mark r \<Longrightarrow> distinct (map rc_repository recs) \<Longrightarrow>
    \<exists>s' poll'. expire_records P now recs poll s = Some (s', poll') \<and>
      (\<forall>r \<in> set recs. overdue (pl_opts P) now r \<longrightarrow> (\<exists>r'. v s' (rc_repository r) = Some r' \<and> gave_up now r r'))"
proof (induction recs arbitrary: poll s)
  case (Cons r rs)
  obtain s1 poll1 where one: "expire_record P now r poll s = Some (s1, poll1)"
    using Cons.prems(1) expire_record_returns by fastforce
  obtain s' poll' where rest: "expire_records P now rs poll1 s1 = Some (s', poll')"
      "\<forall>r \<in> set rs. overdue (pl_opts P) now r \<longrightarrow> (\<exists>r'. v s' (rc_repository r) = Some r' \<and> gave_up now r r')"
    using Cons.IH [of poll1 s1] Cons.prems by auto
  have "v s' (rc_repository r) = v s1 (rc_repository r)"
    using Cons.prems(2) by (intro expire_records_view [OF assms rest(1)]) auto
  then show ?case
    using rest one overdue_record_gives_up [OF assms _ one] by auto
qed simp

text \<open>C27.
  A wait ends. Where the store takes every put and each mark is readable, the poll's last part
  returns, and every listed record whose run stayed away past the pending window is stored then as
  missing its run: the mark is gone, the run noted missing at the poll's time, and the finding
  reconcile-run-missing stands.\<close>

theorem overdue_wait_ends:
  assumes "record_view P v" and "ac_list (pl_records P) s = Some (s1, Inr recs)"
    and "\<forall>r \<in> set recs. readable_mark r" and "distinct (map rc_repository recs)"
  shows "\<exists>s' poll'. expire_pending P now poll s = Some (s', poll') \<and>
    (\<forall>r \<in> set recs. overdue (pl_opts P) now r \<longrightarrow> (\<exists>r'. v s' (rc_repository r) = Some r' \<and> gave_up now r r'))"
  using expire_records_end [OF assms(1,3,4)] assms(2) by (simp add: expire_pending_def)

text \<open>An Align now of which nobody heard for an hour.\<close>

definition sample_overdue :: repo_record where
  "sample_overdue = zero_record\<lparr>rc_repository := ''org/r'',
     rc_setup := zero_setup\<lparr>su_pendingRun := Some (no_pending_run\<lparr>pn_dispatchedAt := minute\<rparr>)\<rparr>\<rparr>"

definition put_view_of :: "put_log \<Rightarrow> string \<rightharpoonup> repo_record" where
  "put_view_of s = map_of (map (\<lambda>r. (rc_repository r, r)) (rev (fst s)))"

theorem overdue_wait_ends_witness:
  "\<exists>s' poll' r'. expire_pending (sample_poller [sample_overdue]) hour empty_poll ([], []) = Some (s', poll') \<and>
     put_view_of s' ''org/r'' = Some r' \<and> gave_up hour sample_overdue r'"
proof -
  let ?P = "sample_poller [sample_overdue]"
  have view: "record_view ?P put_view_of"
    by (auto simp: record_view_def put_view_of_def sample_poller_def sample_collector_def sample_access_def
        sample_actions_def fun_eq_iff)
  have listed: "ac_list (pl_records ?P) ([], []) = Some (([], []), Inr [sample_overdue])"
    by (simp add: sample_poller_def sample_collector_def sample_access_def)
  have over: "overdue (pl_opts ?P) hour sample_overdue"
    by (simp add: overdue_def sample_overdue_def sample_poller_def reconciler_defaults_def defaultPendingWindow_def
        awaited_from_def no_pending_run_def zero_time_def duration_units time_sub_def zero_setup_def min_duration_def max_duration_def)
  then have "readable_mark sample_overdue" by (auto simp: overdue_def readable_mark_def)
  then obtain s' poll' where "expire_pending ?P hour empty_poll ([], []) = Some (s', poll')"
      "\<exists>r'. put_view_of s' (rc_repository sample_overdue) = Some r' \<and> gave_up hour sample_overdue r'"
    using overdue_wait_ends [OF view listed, of hour empty_poll] over by auto
  then show ?thesis by (auto simp: sample_overdue_def)
qed

end
