(* ===== verification/StoreProps.thy ===== *)
theory StoreProps
  imports Store
begin

text \<open>
  What the store promises its callers. \<open>record_store\<close> is the interface the collector and the
  tools use (put, get, remove, over the records the store holds); its laws are discharged for
  the operations of Store over any Valkey that satisfies \<open>valkey_ok\<close>, and the facts about
  callers are proved once inside it.
\<close>

section \<open>What Valkey and the encoding do\<close>

definition answers :: "('s \<Rightarrow> string \<rightharpoonup> string) \<Rightarrow> 's \<Rightarrow> string \<Rightarrow> vk_error + string \<Rightarrow> bool" where
  "answers view w k a \<longleftrightarrow> (\<forall>v. a = Inr v \<longrightarrow> view w k = Some v) \<and> (a = Inl VkNil \<longrightarrow> view w k = None)"

definition valkey_ok :: "'s valkey \<Rightarrow> ('s \<Rightarrow> string \<rightharpoonup> string) \<Rightarrow> bool" where
  "valkey_ok V view \<longleftrightarrow>
     (\<forall>w k w' a. vk_get V w k = (w', a) \<longrightarrow> view w' = view w \<and> answers view w k a) \<and>
     (\<forall>w k v w'. vk_set V w k v = (w', None) \<longrightarrow> view w' = (view w)(k \<mapsto> v)) \<and>
     (\<forall>w ks w'. vk_del V w ks = (w', None) \<longrightarrow> view w' = view w |` (- set ks)) \<and>
     (\<forall>w ks w' as. vk_multi_get V w ks = (w', as) \<longrightarrow>
        view w' = view w \<and> list_all2 (answers view w) ks as)"

definition codec_ok :: "'a codec \<Rightarrow> bool" where
  "codec_ok C \<longleftrightarrow> (\<forall>r b. enc C r = Some b \<longrightarrow> dec C b = Some r)"

definition stored :: "('s \<Rightarrow> string \<rightharpoonup> string) \<Rightarrow> repo_record codec \<Rightarrow> 's \<Rightarrow> string \<rightharpoonup> repo_record" where
  "stored view C w k = (case view w (KeyPrefix @ k) of None \<Rightarrow> None | Some b \<Rightarrow> dec C b)"

lemma valkey_okD:
  assumes "valkey_ok V view"
  shows "vk_get V w k = (w', a) \<Longrightarrow> view w' = view w \<and> answers view w k a"
    and "vk_set V w k v = (w', None) \<Longrightarrow> view w' = (view w)(k \<mapsto> v)"
    and "vk_del V w ks = (w', None) \<Longrightarrow> view w' = view w |` (- set ks)"
    and "vk_multi_get V w ks = (w', as) \<Longrightarrow> view w' = view w \<and> list_all2 (answers view w) ks as"
  using assms unfolding valkey_ok_def by blast+

section \<open>The interface of the record store\<close>

locale record_store =
  fixes put :: "repo_record \<Rightarrow> 'w \<Rightarrow> 'w \<times> 'e option"
    and get :: "string \<Rightarrow> 'w \<Rightarrow> 'w \<times> ('e + repo_record)"
    and remove :: "string list \<Rightarrow> 'w \<Rightarrow> 'w \<times> 'e option"
    and records :: "'w \<Rightarrow> string \<rightharpoonup> repo_record"
    and usable :: bool
  assumes put_records: "usable \<Longrightarrow> put r w = (w', None) \<Longrightarrow>
      records w' = (records w)(rc_repository r \<mapsto> r)"
    and get_frame: "usable \<Longrightarrow> get k w = (w', a) \<Longrightarrow> records w' = records w"
    and get_value: "usable \<Longrightarrow> get k w = (w', Inr r) \<Longrightarrow> records w k = Some r"
    and remove_records: "usable \<Longrightarrow> remove ks w = (w', None) \<Longrightarrow>
      records w' = records w |` (- set ks)"
begin

text \<open>Every record stands under its own name.\<close>

definition keyed :: "'w \<Rightarrow> bool" where
  "keyed w \<longleftrightarrow> (\<forall>k r. records w k = Some r \<longrightarrow> rc_repository r = k)"

lemma put_keyed: "usable \<Longrightarrow> keyed w \<Longrightarrow> put r w = (w', None) \<Longrightarrow> keyed w'"
  by (auto simp: keyed_def put_records)

lemma remove_keyed: "usable \<Longrightarrow> keyed w \<Longrightarrow> remove ks w = (w', None) \<Longrightarrow> keyed w'"
  by (auto simp: keyed_def remove_records restrict_map_def split: if_splits)

lemma put_get:
  assumes "usable" and "put r w = (w', None)" and "get k w' = (w'', Inr r')"
  shows "if k = rc_repository r then r' = r else records w k = Some r'"
  using assms get_value put_records by fastforce

text \<open>A caller that reads a record, changes it and writes it back changes that record only.\<close>

lemma read_modify_write:
  assumes "usable" and "keyed w" and "get k w = (w1, Inr r)"
    and "rc_repository (f r) = rc_repository r" and "put (f r) w1 = (w2, None)"
  shows "records w2 = (records w)(k \<mapsto> f r) \<and> keyed w2"
proof -
  have "records w k = Some r" and frame: "records w1 = records w"
    using assms get_value get_frame by blast+
  then have "rc_repository r = k" using assms(2) by (auto simp: keyed_def)
  with assms have "records w2 = (records w1)(k \<mapsto> f r)" using put_records by metis
  moreover have "keyed w1" using assms(2) frame by (simp add: keyed_def)
  ultimately show ?thesis using frame assms(1,5) put_keyed by metis
qed

end

lemma put_record_stored:
  assumes "valkey_ok V view \<and> codec_ok C" and "put_record V C s r w = (w', None)"
  shows "stored view C w' = (stored view C w)(rc_repository r \<mapsto> r)"
proof -
  from assms(2) obtain b where b: "enc C r = Some b"
      and w': "vk_set V w (KeyPrefix @ rc_repository r) b = (w', None)"
    by (auto simp: put_record_def put_bytes_def split: option.splits prod.splits)
  have "view w' = (view w)(KeyPrefix @ rc_repository r \<mapsto> b)"
    using assms(1) w' by (auto dest: valkey_okD(2))
  moreover have "dec C b = Some r" using assms(1) b by (auto simp: codec_ok_def)
  ultimately show ?thesis by (auto simp: stored_def fun_eq_iff)
qed

lemma get_record_frame:
  "valkey_ok V view \<Longrightarrow> get_record V C s k w = (w', a) \<Longrightarrow> stored view C w' = stored view C w"
  by (auto simp: get_record_def stored_def fun_eq_iff dest: valkey_okD(1)
      split: option.splits prod.splits sum.splits vk_error.splits)

lemma get_record_value:
  assumes "valkey_ok V view" and "get_record V C s k w = (w', Inr r)"
  shows "stored view C w k = Some r"
proof -
  from assms(2) obtain b where "vk_get V w (KeyPrefix @ k) = (w', Inr b)" and "dec C b = Some r"
    by (auto simp: get_record_def split: option.splits prod.splits sum.splits vk_error.splits)
  then show ?thesis
    using valkey_okD(1) [OF assms(1)] by (fastforce simp: stored_def answers_def)
qed

lemma delete_records_stored:
  "valkey_ok V view \<Longrightarrow> delete_records V s ks w = (w', None) \<Longrightarrow>
   stored view C w' = stored view C w |` (- set ks)"
  by (auto simp: delete_records_def stored_def fun_eq_iff restrict_map_def
      dest!: valkey_okD(3) split: option.splits prod.splits if_splits)

interpretation valkey_store: record_store "put_record V C s" "get_record V C s"
    "delete_records V s" "stored view C" "valkey_ok V view \<and> codec_ok C" for V C s view
  by unfold_locales
    (blast intro: put_record_stored get_record_frame get_record_value delete_records_stored)+

section \<open>Listing\<close>

text \<open>The reference: every key read on its own, those without a record left out.\<close>

fun read_all :: "('s \<Rightarrow> string \<rightharpoonup> string) \<Rightarrow> repo_record codec \<Rightarrow> 's \<Rightarrow> string list \<Rightarrow> repo_record list" where
  "read_all view C w [] = []"
| "read_all view C w (k # ks) =
     (case stored view C w k of Some r \<Rightarrow> r # read_all view C w ks | None \<Rightarrow> read_all view C w ks)"

lemma read_all_append: "read_all view C w (ks @ ls) = read_all view C w ks @ read_all view C w ls"
  by (induction ks) (auto split: option.splits)

lemma read_batch_reads:
  assumes "list_all2 (answers view w) (map (\<lambda>k. KeyPrefix @ k) ks) as"
    and "read_batch C ks as out = Inr rs"
  shows "rs = out @ read_all view C w ks"
  using assms
proof (induction C ks as out arbitrary: rs rule: read_batch.induct)
  case (3 C k ks b as out)
  then show ?case by (auto simp: stored_def answers_def split: option.splits)
qed (auto simp: stored_def answers_def split: option.splits)

lemma list_from_reads:
  assumes "valkey_ok V view"
  shows "list_from V C keys out w = (w', Inr rs) \<Longrightarrow>
    rs = out @ read_all view C w keys \<and> view w' = view w"
proof (induction "length keys" arbitrary: keys out w rs rule: less_induct)
  case less
  show ?case
  proof (cases "keys = []")
    case True
    with less.prems show ?thesis by (simp add: list_from.simps)
  next
    case False
    then obtain w1 as out' where
        m: "vk_multi_get V w (map (\<lambda>k. KeyPrefix @ k) (take 200 keys)) = (w1, as)"
        and b: "read_batch C (take 200 keys) as out = Inr out'"
        and r: "list_from V C (drop 200 keys) out' w1 = (w', Inr rs)"
      using less.prems by (auto simp: list_from.simps [of V C keys] split: prod.splits sum.splits)
    from valkey_okD(4) [OF assms m] have view: "view w1 = view w"
        and ans: "list_all2 (answers view w) (map (\<lambda>k. KeyPrefix @ k) (take 200 keys)) as"
      by simp_all
    have out': "out' = out @ read_all view C w (take 200 keys)"
      by (rule read_batch_reads [OF ans b])
    have "length (drop 200 keys) < length keys" using False by simp
    from less.hyps [OF this r]
    have "rs = out' @ read_all view C w1 (drop 200 keys) \<and> view w' = view w1" .
    moreover have "read_all view C w1 ks = read_all view C w ks" for ks
      using view by (induction ks) (auto simp: stored_def split: option.splits)
    ultimately have "rs = out @ read_all view C w (take 200 keys @ drop 200 keys) \<and> view w' = view w"
      unfolding read_all_append using out' view by simp
    then show ?thesis by simp
  qed
qed

section \<open>Scanning\<close>

text \<open>A run of the SCAN loop as the server answers it: the batches of keys from a cursor on to
  the answer whose cursor is 0.\<close>

inductive scan_run :: "'s valkey \<Rightarrow> 's \<Rightarrow> nat \<Rightarrow> string list list \<Rightarrow> 's \<Rightarrow> bool" for V where
  scan_last: "vk_scan V w c = (w', Inr (es, 0)) \<Longrightarrow> scan_run V w c [es] w'"
| scan_more: "vk_scan V w c = (w1, Inr (es, n)) \<Longrightarrow> n \<noteq> 0 \<Longrightarrow> scan_run V w1 n bs w' \<Longrightarrow>
    scan_run V w c (es # bs) w'"

inductive_cases scan_runE: "scan_run V w c bs w'"

definition strip_key :: "string \<Rightarrow> string" where "strip_key k = trim_prefix k KeyPrefix"

lemma scan_keys_complete:
  "scan_run V w c bs w' \<Longrightarrow>
   scan_keys V c out w = Some (w', Inr (sort (out @ map strip_key (concat bs))))"
proof (induction arbitrary: out rule: scan_run.induct)
  case (scan_last w c w' es)
  then show ?case by (subst scan_keys.simps) (simp add: strip_key_def [abs_def])
next
  case (scan_more w c w1 es n bs w')
  then show ?case by (subst scan_keys.simps) (simp add: strip_key_def [abs_def])
qed

lemma scan_keys_sound_raw:
  assumes "scan_keys V c out w = Some y"
  shows "\<forall>w' ks. y = (w', Inr ks) \<longrightarrow>
    (\<exists>bs. scan_run V w c bs w' \<and> ks = sort (out @ map strip_key (concat bs)))"
proof (rule scan_keys.raw_induct [where P = "\<lambda>V c out w y. \<forall>w' ks. y = (w', Inr ks) \<longrightarrow>
    (\<exists>bs. scan_run V w c bs w' \<and> ks = sort (out @ map strip_key (concat bs)))", OF _ assms])
  fix f :: "'b valkey \<Rightarrow> nat \<Rightarrow> string list \<Rightarrow> 'b \<Rightarrow> ('b \<times> (store_error + string list)) option"
    and V c out w y
  assume IH: "\<And>V c out w y. f V c out w = Some y \<Longrightarrow> \<forall>w' ks. y = (w', Inr ks) \<longrightarrow>
      (\<exists>bs. scan_run V w c bs w' \<and> ks = sort (out @ map strip_key (concat bs)))"
    and eq: "(case vk_scan V w c of (w', Inl e) \<Rightarrow> Some (w', Inl (fail ''scan'' e))
      | (w', Inr (elements, next_cursor)) \<Rightarrow>
          let out' = out @ map (\<lambda>k. trim_prefix k KeyPrefix) elements
          in if next_cursor = 0 then Some (w', Inr (sort out')) else f V next_cursor out' w') = Some y"
  show "\<forall>w' ks. y = (w', Inr ks) \<longrightarrow>
      (\<exists>bs. scan_run V w c bs w' \<and> ks = sort (out @ map strip_key (concat bs)))"
  proof (intro allI impI)
    fix w' ks assume y: "y = (w', Inr ks)"
    with eq obtain w1 es n where sc: "vk_scan V w c = (w1, Inr (es, n))"
      by (cases "vk_scan V w c") (auto split: sum.splits)
    show "\<exists>bs. scan_run V w c bs w' \<and> ks = sort (out @ map strip_key (concat bs))"
    proof (cases "n = 0")
      case True
      with eq sc y have "scan_run V w c [es] w' \<and> ks = sort (out @ map strip_key (concat [es]))"
        by (auto simp: Let_def strip_key_def [abs_def] intro: scan_last)
      then show ?thesis by blast
    next
      case False
      with eq sc have "f V n (out @ map strip_key es) w1 = Some y"
        by (simp add: Let_def strip_key_def [abs_def])
      with IH y obtain bs where "scan_run V w1 n bs w'"
          and "ks = sort ((out @ map strip_key es) @ map strip_key (concat bs))" by blast
      with sc False show ?thesis
        by (intro exI [of _ "es # bs"]) (auto intro: scan_more)
    qed
  qed
qed

lemma scan_keys_sound:
  "scan_keys V c out w = Some (w', Inr ks) \<Longrightarrow>
   \<exists>bs. scan_run V w c bs w' \<and> ks = sort (out @ map strip_key (concat bs))"
  using scan_keys_sound_raw [of V c out w "(w', Inr ks)"] by simp

section \<open>Waiting for the store\<close>

fun backs_off :: "duration \<Rightarrow> duration list \<Rightarrow> bool" where
  "backs_off b [] = True"
| "backs_off b (p # ps) = (0 < p \<and> p \<le> b \<and> backs_off (min (b * 2) connectMaxBackoff) ps)"

lemma wait_connected_backs_off:
  "0 < backoff \<Longrightarrow> wait_connected wd backoff attempt s ts = (s', pauses, out) \<Longrightarrow>
   backs_off backoff pauses"
proof (induction wd backoff attempt s ts arbitrary: pauses s' out rule: wait_connected.induct)
  case (2 wd backoff attempt s t ts)
  have pos: "0 < min (backoff * 2) connectMaxBackoff"
    using "2.prems"(1) by (simp add: connectMaxBackoff_def second_def)
  obtain s1 e where c: "connect (tn_ctx t) (tn_dial t) s = (s1, e)" by fastforce
  consider "pauses = []" | p where "pauses = [p]" "0 < p" "p \<le> backoff"
    | p ps s2 o2 where "pauses = p # ps" "0 < p" "p \<le> backoff"
        "wait_connected wd (min (backoff * 2) connectMaxBackoff) (Suc attempt) s1 ts = (s2, ps, o2)"
        "e \<noteq> None" "tn_done t = None"
        "\<not> (case tn_remaining t of Some remaining \<Rightarrow> remaining \<le> 0 | None \<Rightarrow> False)"
    using "2.prems" c
    by (auto simp: Let_def split: option.splits if_splits prod.splits)
  then show ?case
  proof cases
    case 3
    then have "backs_off (min (backoff * 2) connectMaxBackoff) ps"
      using "2.IH" [OF c [symmetric]] pos by (auto simp: Let_def)
    with 3 show ?thesis by simp
  qed auto
qed simp

lemma backs_off_nth:
  "backs_off b ps \<Longrightarrow> i < length ps \<Longrightarrow> 0 < ps ! i \<and> ps ! i \<le> 2 ^ i * b"
proof (induction b ps arbitrary: i rule: backs_off.induct)
  case (2 b p ps)
  show ?case
  proof (cases i)
    case 0
    with 2 show ?thesis by simp
  next
    case (Suc j)
    with 2 have "0 < ps ! j \<and> ps ! j \<le> 2 ^ j * min (b * 2) connectMaxBackoff" by simp
    moreover have "2 ^ j * min (b * 2) connectMaxBackoff \<le> 2 ^ j * (b * 2)" by simp
    ultimately have "0 < ps ! j \<and> ps ! j \<le> 2 ^ j * (b * 2)" by linarith
    then show ?thesis using Suc by (simp add: ac_simps)
  qed
qed simp

lemma backs_off_max: "backs_off b ps \<Longrightarrow> b \<le> connectMaxBackoff \<Longrightarrow> p \<in> set ps \<Longrightarrow> p \<le> connectMaxBackoff"
  by (induction b ps rule: backs_off.induct) auto

lemma wait_connected_connected:
  "wait_connected wd backoff attempt s ts = (s', pauses, Connected n) \<Longrightarrow>
   st_client s' \<and> n = attempt + length pauses"
proof (induction wd backoff attempt s ts arbitrary: pauses s' rule: wait_connected.induct)
  case (2 wd backoff attempt s t ts)
  obtain s1 e where c: "connect (tn_ctx t) (tn_dial t) s = (s1, e)" by fastforce
  show ?case
  proof (cases e)
    case None
    with "2.prems" c show ?thesis by (auto simp: connect_def split: option.splits)
  next
    case (Some err)
    then obtain p ps where "pauses = p # ps"
        "wait_connected wd (min (backoff * 2) connectMaxBackoff) (Suc attempt) s1 ts = (s', ps, Connected n)"
        "tn_done t = None"
        "\<not> (case tn_remaining t of Some remaining \<Rightarrow> remaining \<le> 0 | None \<Rightarrow> False)"
      using "2.prems" c by (auto simp: Let_def split: option.splits if_splits prod.splits)
    with "2.IH" [OF c [symmetric]] Some show ?thesis by (auto simp: Let_def)
  qed
qed simp

section \<open>The lease\<close>













section \<open>A server for the witnesses\<close>

definition sample_valkey :: "(string \<rightharpoonup> string) valkey" where
  "sample_valkey = \<lparr>vk_ping = (\<lambda>w. (w, None)),
     vk_get = (\<lambda>w k. (w, case w k of None \<Rightarrow> Inl VkNil | Some v \<Rightarrow> Inr v)),
     vk_set = (\<lambda>w k v. (w(k \<mapsto> v), None)),
     vk_del = (\<lambda>w ks. (w |` (- set ks), None)),
     vk_scan = (\<lambda>w c. (w, Inr (if w ''repo:'' = None then [] else [''repo:''], 0))),
     vk_multi_get = (\<lambda>w ks. (w, map (\<lambda>k. case w k of None \<Rightarrow> Inl VkNil | Some v \<Rightarrow> Inr v) ks)),
     vk_exec = (\<lambda>w scr. case scr w of (w', n) \<Rightarrow> (w', Inr n)),
     rc_get = (\<lambda>w k. w k),
     rc_set_nx_px = (\<lambda>w k v ms. if w k = None then (w(k \<mapsto> v), True) else (w, False)),
     rc_pexpire = (\<lambda>w k ms. (w, if w k = None then 0 else 1)),
     rc_del = (\<lambda>w k. (w(k := None), if w k = None then 0 else 1))\<rparr>"

definition sample_codec :: "repo_record codec" where
  "sample_codec = \<lparr>enc = (\<lambda>r. if r = zero_record then Some ''zero'' else None),
     dec = (\<lambda>b. if b = ''zero'' then Some zero_record else None)\<rparr>"

definition sample_store :: store where
  "sample_store = \<lparr>st_addr = ''valkey:6379'', st_client = True, st_lastErr = None\<rparr>"

lemma sample_valkey_simps [simp]:
  "vk_get sample_valkey w k = (w, case w k of None \<Rightarrow> Inl VkNil | Some v \<Rightarrow> Inr v)"
  "vk_set sample_valkey w k v = (w(k \<mapsto> v), None)"
  "vk_scan sample_valkey w c = (w, Inr (if w ''repo:'' = None then [] else [''repo:''], 0))"
  "vk_multi_get sample_valkey w ks =
     (w, map (\<lambda>k. case w k of None \<Rightarrow> Inl VkNil | Some v \<Rightarrow> Inr v) ks)"
  "vk_exec sample_valkey w scr = (case scr w of (w', n) \<Rightarrow> (w', Inr n))"
  "rc_get sample_valkey w k = w k"
  "rc_set_nx_px sample_valkey w k v ms = (if w k = None then (w(k \<mapsto> v), True) else (w, False))"
  by (simp_all add: sample_valkey_def)

lemma sample_codec_simps [simp]:
  "enc sample_codec zero_record = Some ''zero''" "dec sample_codec ''zero'' = Some zero_record"
  by (simp_all add: sample_codec_def)

lemma sample_valkey_ok: "valkey_ok sample_valkey (\<lambda>w. w)"
  by (auto simp: valkey_ok_def sample_valkey_def answers_def list_all2_conv_all_nth
      split: option.splits)

lemma sample_codec_ok: "codec_ok sample_codec"
  by (simp add: codec_ok_def sample_codec_def)


lemma sample_conn: "conn sample_store = None"
  by (simp add: conn_def sample_store_def)

section \<open>Properties\<close>

text \<open>
  C3. What is put is what is read: after a successful \<open>Put\<close> of a record, a successful \<open>Get\<close>
  answers that record under its own name and, under any other name, what the store held
  before.
\<close>
theorem put_then_get:
  assumes "valkey_ok V view" and "codec_ok C"
    and "put_record V C s r w = (w', None)" and "get_record V C s k w' = (w'', Inr r')"
  shows "if k = rc_repository r then r' = r else stored view C w k = Some r'"
  using valkey_store.put_get [of V view C s r w w' k w'' r'] assms by simp

theorem put_then_get_witness:
  "\<exists>w' w''. put_record sample_valkey sample_codec sample_store zero_record Map.empty = (w', None) \<and>
     get_record sample_valkey sample_codec sample_store [] w' = (w'', Inr zero_record)"
proof -
  let ?w' = "[KeyPrefix \<mapsto> ''zero'']"
  have z: "rc_repository zero_record = []" by (simp add: zero_record_def)
  have p: "put_record sample_valkey sample_codec sample_store zero_record Map.empty = (?w', None)"
    by (simp add: put_record_def put_bytes_def sample_conn z)
  have g: "get_record sample_valkey sample_codec sample_store [] ?w' = (?w', Inr zero_record)"
    by (simp add: get_record_def sample_conn)
  from put_then_get [OF sample_valkey_ok sample_codec_ok p g] p g show ?thesis by blast
qed

text \<open>
  C4. \<open>List\<close> reads its keys in pipelined batches of 200 and skips the records deleted between
  the scan and the read; the result is what reading every scanned key on its own would give,
  in the order of the keys.
\<close>
theorem list_reads_every_key:
  assumes "valkey_ok V view" and "List V C s w = Some (w', Inr rs)"
  shows "\<exists>w1 ks. Keys V s w = Some (w1, Inr ks) \<and> rs = read_all view C w1 ks \<and> view w' = view w1"
proof -
  from assms(2) obtain w1 a where k: "Keys V s w = Some (w1, a)"
    by (auto simp: List_def)
  with assms(2) obtain ks where "a = Inr ks" and "list_from V C ks [] w1 = (w', Inr rs)"
    by (cases a; cases "conn s") (auto simp: List_def)
  with k list_from_reads [OF assms(1)] show ?thesis by fastforce
qed

theorem list_reads_every_key_witness:
  "\<exists>w1 ks. Keys sample_valkey sample_store [KeyPrefix \<mapsto> ''zero''] = Some (w1, Inr ks) \<and>
     read_all (\<lambda>w. w) sample_codec w1 ks = [zero_record]"
proof -
  let ?w = "[KeyPrefix \<mapsto> ''zero'']"
  have k: "Keys sample_valkey sample_store ?w = Some (?w, Inr [[]])"
    by (simp add: Keys_def sample_conn scan_keys.simps KeyPrefix_def trim_prefix_def has_prefix_def)
  have "List sample_valkey sample_codec sample_store ?w = Some (?w, Inr [zero_record])"
    by (simp add: List_def k sample_conn list_from.simps)
  from list_reads_every_key [OF sample_valkey_ok this] show ?thesis by auto
qed

text \<open>
  \<open>Keys\<close> returns exactly when the server ends the scan (answers the cursor 0), with the
  names of every batch of the run, sorted. Nothing is dropped, a key the server answered twice
  included.
\<close>
theorem keys_scan:
  "st_client s \<Longrightarrow> (Keys V s w = Some (w', Inr ks)) \<longleftrightarrow>
     (\<exists>bs. scan_run V w 0 bs w' \<and> ks = sort (map strip_key (concat bs)))"
  using scan_keys_sound [of V 0 "[]" w w' ks] scan_keys_complete [of V w 0 _ w' "[]"]
  by (auto simp: Keys_def conn_def)

theorem keys_scan_witness:
  "Keys sample_valkey sample_store Map.empty = Some (Map.empty, Inr [])"
proof -
  have "vk_scan sample_valkey Map.empty 0 = (Map.empty, Inr ([], 0))"
    by simp
  then have "scan_run sample_valkey Map.empty 0 [[]] Map.empty" by (rule scan_last)
  moreover have "st_client sample_store" by (simp add: sample_store_def)
  ultimately show ?thesis using keys_scan [of sample_store sample_valkey Map.empty Map.empty "[]"]
    by force
qed

text \<open>
  C5. \<open>WaitConnected\<close> never pauses without end and never hammers the store: its k-th pause is
  positive and at most 2^k seconds, ten at most, and it reports the store connected at its n-th
  attempt exactly after n-1 pauses, with a client in place.
\<close>
theorem wait_connected_backoff:
  assumes "WaitConnected window s ts = (s', pauses, out)"
  shows "(\<forall>i < length pauses. 0 < pauses ! i \<and> pauses ! i \<le> min (2 ^ i * second) (10 * second)) \<and>
     (\<forall>n. out = Connected n \<longrightarrow> st_client s' \<and> n = Suc (length pauses))"
proof -
  have b: "backs_off second pauses"
    using wait_connected_backs_off [of connectInitialBackoff] assms
    by (fastforce simp: WaitConnected_def connectInitialBackoff_def second_def)
  have "pauses ! i \<le> 10 * second" if "i < length pauses" for i
    using backs_off_max [OF b] that by (simp add: connectMaxBackoff_def second_def)
  with backs_off_nth [OF b] wait_connected_connected assms show ?thesis
    by (fastforce simp: WaitConnected_def)
qed

definition sample_turn :: "string option \<Rightarrow> turn" where
  "sample_turn dial = \<lparr>tn_ctx = None, tn_dial = dial, tn_remaining = None, tn_done = None\<rparr>"

theorem wait_connected_backoff_witness:
  "\<exists>s'. WaitConnected 0 (sample_store\<lparr>st_client := False\<rparr>)
      [sample_turn (Some ''refused''), sample_turn None] = (s', [second], Connected 2) \<and> st_client s'"
proof -
  obtain s' where w: "WaitConnected 0 (sample_store\<lparr>st_client := False\<rparr>)
      [sample_turn (Some ''refused''), sample_turn None] = (s', [second], Connected 2)"
    by (simp add: WaitConnected_def sample_turn_def connect_def connectInitialBackoff_def)
  from wait_connected_backoff [OF this] w show ?thesis by blast
qed

text \<open>
  Before the first connection (and after \<open>Close\<close>) every operation answers
  ErrUnavailable and sends the server nothing; \<open>Delete\<close> of no repository is the one that has
  nothing to do.
\<close>
theorem unconnected_unavailable:
  assumes "\<not> st_client s"
  shows "(\<exists>e. put_record V C s r w = (w, Some e) \<and> is_unavailable e) \<and>
    (\<exists>e. get_record V C s k w = (w, Inl e) \<and> is_unavailable e) \<and>
    (\<exists>e. Keys V s w = Some (w, Inl e) \<and> is_unavailable e) \<and>
    (\<exists>e. List V C s w = Some (w, Inl e) \<and> is_unavailable e) \<and>
    (\<exists>e. Clear V s w = Some (w, Some e) \<and> is_unavailable e) \<and>
    (\<exists>e. LeaseReconciler V s h ttl w = (w, Inl e) \<and> is_unavailable e) \<and>
    (\<exists>e. ReleaseReconciler V s h w = (w, Some e) \<and> is_unavailable e) \<and>
    (\<exists>e. PutSweep V D s summary w = (w, Some e) \<and> is_unavailable e) \<and>
    (delete_records V s ks w = (w, None) \<longleftrightarrow> ks = []) \<and>
    (\<exists>e. ks = [] \<or> (delete_records V s ks w = (w, Some e) \<and> is_unavailable e))"
  using assms
  by (simp add: put_record_def get_record_def Keys_def List_def Clear_def LeaseReconciler_def
      ReleaseReconciler_def PutSweep_def putJSON_def delete_records_def conn_def)

theorem unconnected_unavailable_witness:
  "\<exists>e. Keys sample_valkey (close sample_store) Map.empty = Some (Map.empty, Inl e) \<and> is_unavailable e"
proof -
  have "\<not> st_client (close sample_store)" by (simp add: close_def)
  then show ?thesis
    by (rule unconnected_unavailable [THEN conjunct2, THEN conjunct2, THEN conjunct1])
qed



end
