(* ===== verification/EntriesProps.thy ===== *)
theory EntriesProps
  imports Entries
begin

text \<open>
  What the edits of a team file keep: the lines of every other entry, the other fields of the
  entry, the order of the keys. The line structure is the file's own; where an entry starts and
  ends is what yaml.v3 reports, assumed only to be in order (\<open>positions_ok\<close>).
\<close>

section \<open>Lines\<close>





section \<open>The entry's lines\<close>







section \<open>Setting a field\<close>

fun pairs :: "ynode list \<Rightarrow> (string \<times> ynode) list" where
  "pairs (k # v # rest) = (yn_value k, v) # pairs rest"
| "pairs _ = []"

lemma mapping_value_pairs:
  "mapping_value_in c key = (case map_of (pairs c) key of Some v \<Rightarrow> yn_value v | None \<Rightarrow> [])"
  by (induction c rule: pairs.induct) auto

definition replaced :: "string \<Rightarrow> string \<Rightarrow> (string \<times> ynode) list \<Rightarrow> (string \<times> ynode) list" where
  "replaced field val = map (\<lambda>(k, v). (k, if k = field then scalar val else v))"

lemma set_field_loop_pairs: "pairs (fst (set_field_loop c field val i at)) = replaced field val (pairs c)"
  by (induction c field val i at rule: set_field_loop.induct)
    (auto simp: replaced_def split: prod.splits)

lemma set_field_loop_length: "length (fst (set_field_loop c field val i at)) = length c"
  by (induction c field val i at rule: set_field_loop.induct) (auto split: prod.splits)

definition before_gen :: "(string \<times> ynode) list \<Rightarrow> nat" where
  "before_gen ps = length (takeWhile (\<lambda>(k, v). k \<noteq> FieldGen) ps)"

definition field_keys :: "ynode list \<Rightarrow> string set" where
  "field_keys c = fst ` set (pairs c)"

lemma field_keys_simps [simp]:
  "field_keys (k # v # rest) = insert (yn_value k) (field_keys rest)"
  "field_keys [] = {}" "field_keys [x] = {}"
  by (simp_all add: field_keys_def)

lemma before_gen_simps [simp]:
  "before_gen ((k, v) # ps) = (if k = FieldGen then 0 else Suc (before_gen ps))"
  by (simp add: before_gen_def)

lemma set_field_loop_at:
  "0 \<le> i \<Longrightarrow> at = -1 \<or> 0 \<le> at \<Longrightarrow> snd (set_field_loop c field val i at) =
     (if at = -1 \<or> field \<in> field_keys c then -1
      else if FieldGen \<in> field_keys c then min at (i + 2 * int (before_gen (pairs c)))
      else at)"
proof (induction c field val i at rule: set_field_loop.induct)
  case (1 k v rest field val i at)
  consider "yn_value k = field" | "yn_value k \<noteq> field" "yn_value k = FieldGen"
    | "yn_value k \<noteq> field" "yn_value k \<noteq> FieldGen" by blast
  then show ?case
  proof cases
    case 1
    then show ?thesis using "1.IH"(1) "1.prems" by (simp add: case_prod_beta)
  next
    case 2
    then show ?thesis using "1.IH"(2) "1.prems" by (auto simp: case_prod_beta)
  next
    case 3
    then show ?thesis using "1.IH"(3) "1.prems" by (auto simp: case_prod_beta)
  qed
qed auto

lemma pairs_append: "even (length c) \<Longrightarrow> pairs (c @ d) = pairs c @ pairs d"
  by (induction c rule: pairs.induct) auto

lemma pairs_take: "pairs (take (2 * n) c) = take n (pairs c)"
  by (induction c arbitrary: n rule: pairs.induct; case_tac n) auto

lemma pairs_drop: "pairs (drop (2 * n) c) = drop n (pairs c)"
  by (induction c arbitrary: n rule: pairs.induct; case_tac n) auto

lemma length_pairs: "length (pairs c) = length c div 2"
  by (induction c rule: pairs.induct) auto

lemma before_gen_le: "before_gen ps \<le> length ps"
  by (simp add: before_gen_def length_takeWhile_le)

lemma before_gen_all: "FieldGen \<notin> fst ` set ps \<Longrightarrow> before_gen ps = length ps"
  by (induction ps) (auto simp: before_gen_def)

lemma pairs_insert:
  assumes "even (length c)" and "n \<le> length (pairs c)"
  shows "pairs (take (2 * n) c @ [k, v] @ drop (2 * n) c) =
    take n (pairs c) @ (yn_value k, v) # drop n (pairs c)"
proof -
  have "even (length (take (2 * n) c))"
    using assms by (simp add: min_def)
  then have "pairs (take (2 * n) c @ [k, v] @ drop (2 * n) c) =
      pairs (take (2 * n) c) @ pairs ([k, v] @ drop (2 * n) c)" by (rule pairs_append)
  then show ?thesis by (simp add: pairs_take pairs_drop)
qed

lemma replaced_absent: "field \<notin> fst ` set ps \<Longrightarrow> replaced field val ps = ps"
  by (induction ps) (auto simp: replaced_def)

lemma pairs_set_content:
  assumes "even (length c)"
  shows "pairs (set_content c field val) =
    (if field \<in> fst ` set (pairs c) then replaced field val (pairs c)
     else take (before_gen (pairs c)) (pairs c) @ (field, scalar val) # drop (before_gen (pairs c)) (pairs c))"
proof -
  obtain c' a where l: "set_field_loop c field val 0 (int (length c)) = (c', a)" by fastforce
  then have c': "pairs c' = replaced field val (pairs c)" "length c' = length c"
    using set_field_loop_pairs set_field_loop_length by (metis fst_conv)+
  have a: "a = (if field \<in> fst ` set (pairs c) then -1
      else if FieldGen \<in> fst ` set (pairs c) then min (int (length c)) (2 * int (before_gen (pairs c)))
      else int (length c))"
    using set_field_loop_at [of 0 "int (length c)" c field val] l by (simp add: field_keys_def)
  show ?thesis
  proof (cases "field \<in> fst ` set (pairs c)")
    case True
    with l a c' show ?thesis by (simp add: set_content_def)
  next
    case False
    let ?n = "before_gen (pairs c)"
    have n: "?n \<le> length (pairs c)" by (rule before_gen_le)
    have half: "2 * length (pairs c) = length c" using assms by (simp add: length_pairs)
    have "a = 2 * int ?n" using a False before_gen_all n half by (auto simp: min_def)
    then have "set_content c field val = take (2 * ?n) c' @ [scalar field, scalar val] @ drop (2 * ?n) c'"
      using l by (simp add: set_content_def nat_mult_distrib)
    moreover have "pairs c' = pairs c" using c' False replaced_absent by metis
    ultimately show ?thesis
      using pairs_insert [of c' ?n "scalar field" "scalar val"] assms c' n False by (simp add: scalar_def)
  qed
qed

section \<open>The order of an entry's keys\<close>

lemma set_ordered_keys: "set (ordered_keys ks) = set ks"
  by (auto simp: ordered_keys_def)

lemma distinct_key_order: "distinct key_order"
  by (simp add: key_order_def go_defs)

lemma distinct_ordered_keys: "distinct ks \<Longrightarrow> distinct (ordered_keys ks)"
  using distinct_key_order by (auto simp: ordered_keys_def)

lemma pairs_concat: "pairs (concat (map (\<lambda>k. [scalar k, f k]) ks)) = map (\<lambda>k. (k, f k)) ks"
  by (induction ks) (auto simp: scalar_def)

section \<open>Re-rendering\<close>

lemma apply_changed_names:
  "apply_changed Y R team before current ds out names = Inr (out', names') \<Longrightarrow>
   names' = names @ map (rs_name R) (filter (\<lambda>d. \<not> declares R before d) ds)"
  by (induction Y R team before current ds out names rule: apply_changed.induct)
    (auto split: if_splits sum.splits)

lemma apply_removed_names:
  "apply_removed Y R after current ds out names = Inr (out', names') \<Longrightarrow>
   names' = names @ map (rs_name R) (filter (\<lambda>d. rs_entry R after (rs_name R d) = None) ds)"
  by (induction Y R after current ds out names rule: apply_removed.induct)
    (auto split: if_splits sum.splits)

lemma apply_changed_none:
  "list_all (declares R before) ds \<Longrightarrow> apply_changed Y R team before current ds out names = Inr (out, names)"
  by (induction ds) auto

lemma apply_removed_none:
  "list_all (\<lambda>d. rs_entry R after (rs_name R d) \<noteq> None) ds \<Longrightarrow>
   apply_removed Y R after current ds out names = Inr (out, names)"
  by (induction ds) auto

section \<open>Properties\<close>


definition sample_item :: "int \<Rightarrow> string \<Rightarrow> ynode" where
  "sample_item l name = YNode MappingNode [] l []
     [YNode ScalarNode ''name'' l [] [], YNode ScalarNode name l [] []]"

definition sample_file :: string where
  "sample_file = ''- name: a'' @ [newline] @ ''- name: b'' @ [newline]"

definition sample_yaml :: yaml where
  "sample_yaml = \<lparr>y_unmarshal = (\<lambda>s. Inr (YNode DocumentNode [] 1 []
       [YNode SequenceNode [] 1 [] [sample_item 1 ''a'', sample_item 2 ''b'']])),
     y_encode = (\<lambda>n. Inr sample_file)\<rparr>"

definition sample_setup :: "string reposetup" where
  "sample_setup = \<lparr>rs_parse = (\<lambda>team s. Inr [s]), rs_entry = (\<lambda>ds n. if n \<in> set ds then Some n else None),
     rs_name = id, rs_yaml = (\<lambda>d. Inr (''- name: '' @ d)), rs_insert = (\<lambda>team s d. Inr (s @ d))\<rparr>"




text \<open>
  C8. \<open>SetField\<close> sets one field and nothing else: the field reads back the value, every other
  field reads as before, the other keys keep their order and their values; a field the entry
  lacks goes right before the gen block, else to the end.
\<close>
theorem set_field_sets_one_field:
  assumes "even (length c)"
  shows "mapping_value_in (set_content c field val) field = val \<and>
    (\<forall>key. key \<noteq> field \<longrightarrow> mapping_value_in (set_content c field val) key = mapping_value_in c key) \<and>
    filter (\<lambda>(k, v). k \<noteq> field) (pairs (set_content c field val)) = filter (\<lambda>(k, v). k \<noteq> field) (pairs c) \<and>
    (field \<notin> fst ` set (pairs c) \<longrightarrow> pairs (set_content c field val) =
       takeWhile (\<lambda>(k, v). k \<noteq> FieldGen) (pairs c) @ (field, scalar val) #
       dropWhile (\<lambda>(k, v). k \<noteq> FieldGen) (pairs c))"
proof -
  let ?ps = "pairs c"
  have gen: "take (before_gen ?ps) ?ps = takeWhile (\<lambda>(k, v). k \<noteq> FieldGen) ?ps"
    "drop (before_gen ?ps) ?ps = dropWhile (\<lambda>(k, v). k \<noteq> FieldGen) ?ps"
    by (simp_all add: before_gen_def takeWhile_eq_take [symmetric] dropWhile_eq_drop [symmetric])
  have rep_same: "map_of (replaced field val ps) field =
      (if field \<in> fst ` set ps then Some (scalar val) else None)" for ps
    by (induction ps) (auto simp: replaced_def)
  have rep_other: "map_of (replaced field val ps) key = map_of ps key" if "key \<noteq> field" for ps key
    using that by (induction ps) (auto simp: replaced_def)
  have rep_filter: "filter (\<lambda>(k, v). k \<noteq> field) (replaced field val ps) = filter (\<lambda>(k, v). k \<noteq> field) ps" for ps
    by (induction ps) (auto simp: replaced_def)
  show ?thesis
  proof (cases "field \<in> fst ` set ?ps")
    case True
    then show ?thesis
      by (simp add: mapping_value_pairs pairs_set_content [OF assms] rep_same rep_other rep_filter
          scalar_def)
  next
    case False
    let ?n = "before_gen ?ps"
    have "map_of (take ?n ?ps) field = None"
      using False by (metis (no_types) map_of_eq_None_iff set_take_subset subset_eq image_mono)
    then have "map_of (take ?n ?ps @ (field, scalar val) # drop ?n ?ps) field = Some (scalar val)"
      by (simp add: map_add_def)
    moreover have "map_of (take ?n ?ps @ (field, scalar val) # drop ?n ?ps) key = map_of ?ps key"
      if "key \<noteq> field" for key
    proof -
      have "map_of (take ?n ?ps @ (field, scalar val) # drop ?n ?ps) key =
          map_of (take ?n ?ps @ drop ?n ?ps) key"
        using that by (simp only: map_of_append map_add_def map_of.simps fun_upd_apply) simp
      then show ?thesis by simp
    qed
    moreover have "filter (\<lambda>(k, v). k \<noteq> field) (take ?n ?ps @ (field, scalar val) # drop ?n ?ps) =
        filter (\<lambda>(k, v). k \<noteq> field) ?ps"
    proof -
      have "filter (\<lambda>(k, v). k \<noteq> field) (take ?n ?ps @ (field, scalar val) # drop ?n ?ps) =
          filter (\<lambda>(k, v). k \<noteq> field) (take ?n ?ps @ drop ?n ?ps)"
        by (simp only: filter_append filter.simps) simp
      then show ?thesis by (simp only: append_take_drop_id)
    qed
    ultimately show ?thesis
      using False gen by (simp add: mapping_value_pairs pairs_set_content [OF assms] scalar_def)
  qed
qed

theorem set_field_sets_one_field_witness:
  "mapping_value_in (set_content (yn_content (sample_item 1 ''a'')) ''align'' ''true'') ''align'' = ''true'' \<and>
   mapping_value_in (set_content (yn_content (sample_item 1 ''a'')) ''align'' ''true'') ''name'' = ''a''"
  using set_field_sets_one_field [of "yn_content (sample_item 1 ''a'')" "''align''" "''true''"]
  by (simp add: sample_item_def)

text \<open>
  A tool's entry is written with its keys in the team files' order: every key of the
  value once, the known keys first in \<open>keyOrder\<close> (name at the head when it is there), the others
  after them sorted, each with its value.
\<close>
theorem order_keys_in_order:
  assumes "distinct (map fst kvs)"
  shows "\<exists>known rest. map fst (pairs (yn_content (order_keys (JMap kvs)))) = known @ rest \<and>
    set (known @ rest) = set (map fst kvs) \<and> distinct (known @ rest) \<and>
    known = filter (\<lambda>k. k \<in> set (map fst kvs)) key_order \<and> sorted rest \<and>
    (FieldName \<in> set (map fst kvs) \<longrightarrow> hd (known @ rest) = FieldName) \<and>
    (\<forall>(k, v) \<in> set kvs. (k, order_keys v) \<in> set (pairs (yn_content (order_keys (JMap kvs)))))"
proof -
  let ?ks = "map fst kvs" and ?m = "map (map_prod id order_keys) kvs"
  let ?known = "filter (\<lambda>k. k \<in> set ?ks) key_order"
  let ?rest = "sort (filter (\<lambda>k. k \<notin> set key_order) ?ks)"
  have fstm: "map fst ?m = ?ks" by (simp add: comp_def)
  have p: "pairs (yn_content (order_keys (JMap kvs))) =
      map (\<lambda>k. (k, case map_of ?m k of Some v \<Rightarrow> v | None \<Rightarrow> scalar [])) (ordered_keys ?ks)"
    using pairs_concat [of "\<lambda>k. case map_of ?m k of Some v \<Rightarrow> v | None \<Rightarrow> scalar []"] fstm
    by (simp add: mapping_of_def)
  then have "map fst (pairs (yn_content (order_keys (JMap kvs)))) = ?known @ ?rest"
    by (simp add: comp_def ordered_keys_def)
  moreover have "set (?known @ ?rest) = set ?ks" by auto
  moreover have "distinct (?known @ ?rest)"
    using distinct_ordered_keys [OF assms] by (simp add: ordered_keys_def)
  moreover have "hd (?known @ ?rest) = FieldName" if "FieldName \<in> set ?ks"
    using that by (simp add: key_order_def)
  moreover have "(k, order_keys v) \<in> set (pairs (yn_content (order_keys (JMap kvs))))"
    if "(k, v) \<in> set kvs" for k v
  proof -
    have "(k, order_keys v) \<in> set ?m" using that by force
    then have "map_of ?m k = Some (order_keys v)"
      using assms fstm map_of_is_SomeI by (metis (no_types, lifting))
    moreover have "k \<in> set (ordered_keys ?ks)" using that by (force simp: set_ordered_keys)
    ultimately show ?thesis unfolding p by force
  qed
  ultimately show ?thesis by (intro exI [of _ ?known] exI [of _ ?rest]) auto
qed

theorem order_keys_in_order_witness:
  "hd (map fst (pairs (yn_content (order_keys (JMap
      [(''gen'', JScalar (scalar ''g'')), (''name'', JScalar (scalar ''n''))]))))) = FieldName"
proof -
  let ?kvs = "[(''gen'', JScalar (scalar ''g'')), (''name'', JScalar (scalar ''n''))]"
  have "distinct (map fst ?kvs)" and "FieldName \<in> set (map fst ?kvs)"
    by (simp_all add: FieldName_def)
  with order_keys_in_order [of ?kvs] show ?thesis by metis
qed

text \<open>
  C9. A re-rendered pull request names exactly the entries it changes -- those of its version
  that the merge base does not carry as they are, then those it removes -- and one that changes
  nothing leaves the file on the base as it reads now.
\<close>
theorem rerender_names_the_changes:
  assumes "rs_parse R team (case was of None \<Rightarrow> [] | Some b \<Rightarrow> b) = Inr before"
    and "rs_parse R team w = Inr after"
    and "rerender_file Y R team was (Some w) now = Inr (out, names)"
  shows "names = map (rs_name R) (filter (\<lambda>d. \<not> declares R before d) after) @
      map (rs_name R) (filter (\<lambda>d. rs_entry R after (rs_name R d) = None) before) \<and>
    (names = [] \<longrightarrow> out = (case now of None \<Rightarrow> [] | Some b \<Rightarrow> b))"
proof -
  let ?now = "case now of None \<Rightarrow> [] | Some b \<Rightarrow> b"
  from assms obtain current mid ns where
      c: "apply_changed Y R team before current after ?now [] = Inr (mid, ns)"
      and r: "apply_removed Y R after current before mid ns = Inr (out, names)"
    by (auto simp: rerender_file_def Let_def split: sum.splits prod.splits)
  have ns: "ns = map (rs_name R) (filter (\<lambda>d. \<not> declares R before d) after)"
    using apply_changed_names [OF c] by simp
  have names: "names = ns @ map (rs_name R) (filter (\<lambda>d. rs_entry R after (rs_name R d) = None) before)"
    using apply_removed_names [OF r] .
  have "out = ?now" if "names = []"
  proof -
    from that names ns have "list_all (declares R before) after"
      and "list_all (\<lambda>d. rs_entry R after (rs_name R d) \<noteq> None) before"
      by (auto simp: list_all_iff filter_empty_conv)
    with c r apply_changed_none apply_removed_none show ?thesis by (metis Inr_inject prod.inject)
  qed
  with names ns show ?thesis by simp
qed

theorem rerender_names_the_changes_witness:
  "\<exists>out. rerender_file sample_yaml sample_setup ''team'' (Some ''b'') (Some ''b'') (Some ''b'') =
     Inr (out, []) \<and> out = ''b''"
proof -
  have r: "rerender_file sample_yaml sample_setup ''team'' (Some ''b'') (Some ''b'') (Some ''b'') = Inr (''b'', [])"
    by (simp add: rerender_file_def sample_setup_def declares_def)
  then have "''b'' = (case Some ''b'' of None \<Rightarrow> [] | Some b \<Rightarrow> b)"
    using rerender_names_the_changes [of sample_setup "''team''" "Some ''b''" "[''b'']" "''b''" "[''b'']"
        sample_yaml "Some ''b''" "''b''" "[]"]
    by (simp add: sample_setup_def)
  with r show ?thesis by blast
qed

end
