(* ===== verification/TeamFilesProps.thy ===== *)
theory TeamFilesProps
  imports TeamFiles
begin

text \<open>
  What the repository of the team files promises: which answer of GitHub reads as a missing
  file, that an existing branch is never written to, that a landing has one outcome, that a
  re-render commits exactly the re-applied entries and pushes nothing when it refuses, and how
  often GitHub is asked whether a pull request conflicts. \<open>reads_keep\<close> names what the proofs
  use of go-github's reading calls: they leave the part \<open>v\<close> of GitHub a client can change as
  it is.
\<close>

section \<open>Reads\<close>

definition reads_keep :: "('g \<Rightarrow> 'v) \<Rightarrow> 'g github \<Rightarrow> bool" where
  "reads_keep v G \<longleftrightarrow>
     (\<forall>ow n p ref. io_keeps v (gh_contents G ow n p ref)) \<and> (\<forall>ow n. io_keeps v (gh_repository G ow n)) \<and>
     (\<forall>ow n ref. io_keeps v (gh_get_ref G ow n ref)) \<and> (\<forall>ow n h b. io_keeps v (gh_list_pulls G ow n h b)) \<and>
     (\<forall>ow n b h. io_keeps v (gh_compare G ow n b h))"

lemma reads_keepD:
  assumes "reads_keep v G"
  shows "io_keeps v (gh_contents G ow n p ref)" "io_keeps v (gh_repository G ow n)"
    "io_keeps v (gh_get_ref G ow n ref)" "io_keeps v (gh_list_pulls G ow n h b)"
    "io_keeps v (gh_compare G ow n b h)"
  using assms by (simp_all add: reads_keep_def)

lemma keeps_Reachable: "reads_keep v G \<Longrightarrow> io_keeps v (Reachable G r)"
  unfolding Reachable_def
  by (rule io_keeps_bind) (auto intro: reads_keepD split: sum.splits)

lemma keeps_read_error: "reads_keep v G \<Longrightarrow> io_keeps v (read_error G r path e)"
  unfolding read_error_def
  by (auto intro!: io_keeps_bind io_keeps_try keeps_Reachable split: sum.splits)

lemma keeps_Read: "reads_keep v G \<Longrightarrow> io_keeps v (Read G r path)"
  unfolding Read_def
  by (auto intro!: io_keeps_bind io_keeps_try keeps_read_error reads_keepD
      split: sum.splits contents.splits option.splits)

lemma keeps_read_optional: "reads_keep v G \<Longrightarrow> io_keeps v (read_optional G r path)"
  unfolding read_optional_def
  by (auto intro!: io_keeps_bind io_keeps_try keeps_Read split: sum.splits tf_error.splits)

lemma Reachable_True: "Reachable G r g = (g', Inr True) \<longleftrightarrow>
    gh_repository G (ro_owner r) (ro_name r) g = (g', Inr ())"
  by (auto simp: Reachable_def io_bind_def io_try_def split: prod.splits sum.splits)

lemma read_error_not_found:
  "read_error G r path e g = (g', Inl (FileNotFound p ref)) \<longleftrightarrow>
     p = path \<and> ref = ro_ref r \<and> ge_resp e = Some 404 \<and>
     gh_repository G (ro_owner r) (ro_name r) g = (g', Inr ())"
  unfolding Reachable_True [symmetric]
  by (auto simp: read_error_def not_reachable_def io_bind_def io_try_def denied_def
      split: prod.splits sum.splits if_splits)

lemma read_error_fails: "\<exists>g' e'. read_error G r path e g = (g', Inl e')"
  by (auto simp: read_error_def io_bind_def io_try_def split: prod.splits sum.splits)

lemma Read_not_found:
  "Read G r path g = (g', Inl (FileNotFound p ref)) \<longleftrightarrow>
     p = path \<and> ref = ro_ref r \<and>
     (\<exists>g1 e. gh_contents G (ro_owner r) (ro_name r) path (ro_ref r) g = (g1, Inl e) \<and>
        ge_resp e = Some 404 \<and> gh_repository G (ro_owner r) (ro_name r) g1 = (g', Inr ()))"
proof (cases "gh_contents G (ro_owner r) (ro_name r) path (ro_ref r) g")
  case (Pair g1 a)
  show ?thesis
  proof (cases a)
    case (Inl e)
    then show ?thesis by (auto simp: Read_def io_bind_def io_try_def Pair read_error_not_found)
  next
    case (Inr c)
    then show ?thesis
      by (auto simp: Read_def io_bind_def io_try_def Pair split: contents.splits option.splits)
  qed
qed

lemma read_optional_Inr:
  "read_optional G r path g = (g', Inr x) \<longleftrightarrow>
     (case x of None \<Rightarrow> \<exists>p ref. Read G r path g = (g', Inl (FileNotFound p ref))
      | Some c \<Rightarrow> \<exists>f. Read G r path g = (g', Inr f) \<and> fi_content f = c)"
  by (cases "Read G r path g"; cases "snd (Read G r path g)"; cases x)
    (auto simp: read_optional_def io_bind_def io_try_def split: tf_error.splits)

text \<open>
  C10. A file reads as absent (\<open>readOptional\<close>'s nil content, which is how a schema or a side of a
  re-render may be missing) exactly when GitHub answered 404 for its contents and the probe of
  the repository succeeded with the same credential: a credential that does not reach the
  repository, for which GitHub answers 404 too, never reads as an empty file.
\<close>
theorem absent_only_when_reachable:
  "read_optional G r path g = (g', Inr None) \<longleftrightarrow>
     (\<exists>g1 e. gh_contents G (ro_owner r) (ro_name r) path (ro_ref r) g = (g1, Inl e) \<and>
        ge_resp e = Some 404 \<and> gh_repository G (ro_owner r) (ro_name r) g1 = (g', Inr ()))"
  by (simp add: read_optional_Inr Read_not_found)

section \<open>The team file of an entry\<close>

lemma TeamFile_Inr:
  "TeamFile G T R r team g = (g', Inr tf) \<Longrightarrow>
     tf_team tf = team \<and> rs_parse R team (fi_content (tf_file tf)) = Inr (tf_entries tf)"
  unfolding TeamFile_def io_bind_Inr by (elim exE conjE) (auto split: sum.splits)

lemma find_in_teams_Some:
  "find_in_teams G T R r name teams g = (g', Inr (Some tf)) \<Longrightarrow>
     tf_team tf \<in> set teams \<and> rs_entry R (tf_entries tf) name \<noteq> None \<and>
     rs_parse R (tf_team tf) (fi_content (tf_file tf)) = Inr (tf_entries tf)"
proof (induction teams arbitrary: g)
  case (Cons team teams)
  then obtain g1 tf1 where one: "TeamFile G T R r team g = (g1, Inr tf1)"
    and rest: "(if rs_entry R (tf_entries tf1) name \<noteq> None then io_ret (Some tf1)
      else find_in_teams G T R r name teams) g1 = (g', Inr (Some tf))"
    by (auto simp: io_bind_Inr)
  show ?case
  proof (cases "rs_entry R (tf_entries tf1) name = None")
    case True
    with rest Cons.IH [of g1] show ?thesis by auto
  next
    case False
    with rest have "tf1 = tf" by auto
    with TeamFile_Inr [OF one] False show ?thesis by auto
  qed
qed simp

lemma find_entry_declares:
  assumes "FindEntry G T R r name hint g = (g', Inr tf)"
  shows "rs_entry R (tf_entries tf) name \<noteq> None"
    and "rs_parse R (tf_team tf) (fi_content (tf_file tf)) = Inr (tf_entries tf)"
    and "hint \<noteq> [] \<Longrightarrow> tf_team tf = hint"
proof -
  obtain g1 g2 teams where
    "(if hint \<noteq> [] then io_ret [hint] else Teams G T r) g = (g1, Inr teams)"
    and f: "find_in_teams G T R r name teams g1 = (g2, Inr (Some tf))"
    using assms by (auto simp: FindEntry_def io_bind_Inr split: option.splits)
  with find_in_teams_Some [OF f] show "rs_entry R (tf_entries tf) name \<noteq> None"
    "rs_parse R (tf_team tf) (fi_content (tf_file tf)) = Inr (tf_entries tf)"
    "hint \<noteq> [] \<Longrightarrow> tf_team tf = hint" by auto
qed

section \<open>The channel file\<close>

definition valid_channel :: "channel \<Rightarrow> bool" where
  "valid_channel ch \<longleftrightarrow> channelIDPattern (cl_id ch) \<and> channelNamePattern (cl_name ch)"

lemma check_channel_None: "check_channel ch key = None \<longleftrightarrow> valid_channel ch"
  by (simp add: check_channel_def valid_channel_def)

lemma check_channel_Some: "check_channel ch key = Some e \<Longrightarrow> \<not> valid_channel ch"
  by (simp add: check_channel_None [symmetric, of ch key])

lemma valid_channel_ne: "valid_channel ch \<Longrightarrow> ch \<noteq> \<lparr>cl_id = [], cl_name = []\<rparr>"
  by (auto simp: valid_channel_def channelIDPattern_def)

text \<open>
  \<open>ParseChannels\<close> accepts a content exactly when it is one document that decodes strictly,
  its notices channel has a Slack channel ID and name, and so has its asks channel where it
  names one; the channels it answers are the decoded ones, for the team asked for.
\<close>
theorem parse_channels_accepts:
  "ParseChannels D team path content = Inr c \<longleftrightarrow>
     cy_decode D content = Decoded (cs_asks c) (cs_notices c) \<and> cy_single D content \<and>
     cs_team c = team \<and> valid_channel (cs_notices c) \<and> pred_option valid_channel (cs_asks c)"
  unfolding ParseChannels_def
  by (cases c) (auto simp: check_channel_None dest: valid_channel_ne check_channel_Some
      split: decoded.splits option.splits)


section \<open>GitHub with a fixed content, for the instances\<close>

text \<open>The state counts the writes; a file absent under a ref answers 404.\<close>

definition gone :: gh_error where
  "gone = \<lparr>ge_resp = Some 404, ge_status = Some 404, ge_text = ''404''\<rparr>"

definition sample_pull :: "int \<Rightarrow> bool option \<Rightarrow> gh_pull" where
  "sample_pull n m = \<lparr>gp_number = n, gp_title = ''t'', gp_body = [], gp_url = ''u'', gp_author = ''p'', gp_nodeID = ''N'',
     gp_merged = False, gp_autoMerge = False, gp_mergeable = m, gp_headRef = ''h'', gp_headSHA = ''c''\<rparr>"

definition written :: "'a \<Rightarrow> (nat, gh_error, 'a) io" where
  "written x g = (Suc g, Inr x)"

lemma written_simp [simp]: "written x g = (Suc g, Inr x)"
  by (simp add: written_def)

definition fixed_github :: "(string \<Rightarrow> string \<Rightarrow> string option) \<Rightarrow> (string \<Rightarrow> bool) \<Rightarrow> string list \<Rightarrow> nat github" where
  "fixed_github F branch changed = \<lparr>
     gh_contents = (\<lambda>ow n p ref. case F ref p of None \<Rightarrow> io_fail gone
        | Some c \<Rightarrow> io_ret (FileContents (Some c) ''s'')),
     gh_repository = (\<lambda>ow n. io_ret ()),
     gh_get_ref = (\<lambda>ow n ref. if branch ref then io_ret ref else io_fail gone),
     gh_create_tree = (\<lambda>ow n b fs. written ''tree''),
     gh_create_commit = (\<lambda>ow n m t b. written ''commit''),
     gh_create_ref = (\<lambda>ow n ref s. written ()),
     gh_update_ref = (\<lambda>ow n ref s f. written ()),
     gh_create_pull = (\<lambda>ow n t h b d. written (sample_pull 7 None)),
     gh_list_pulls = (\<lambda>ow n h b. io_ret [sample_pull 5 None]),
     gh_get_pull = (\<lambda>ow n k. written (sample_pull k (Some False))),
     gh_merge = (\<lambda>ow n k t. written ()),
     gh_auto_merge = (\<lambda>i. written []),
     gh_list_files = (\<lambda>ow n k. io_ret changed),
     gh_create_review = (\<lambda>ow n k b. written ''r''),
     gh_list_reviews = (\<lambda>ow n k p. io_ret ([], 0)),
     gh_dispatch = (\<lambda>ow n w ref ins. written ()),
     gh_membership = (\<lambda>og t l. io_ret ''active''),
     gh_compare = (\<lambda>ow n b h. io_ret (''base'', changed)),
     gh_wait = io_ret ()\<rparr>"

lemma fixed_github_fields [simp]:
  "gh_contents (fixed_github F B C) ow n p ref = (case F ref p of None \<Rightarrow> io_fail gone
     | Some c \<Rightarrow> io_ret (FileContents (Some c) ''s''))"
  "gh_repository (fixed_github F B C) ow n = io_ret ()"
  "gh_get_ref (fixed_github F B C) ow n ref = (if B ref then io_ret ref else io_fail gone)"
  "gh_create_tree (fixed_github F B C) ow n b fs = written ''tree''"
  "gh_create_commit (fixed_github F B C) ow n m t b = written ''commit''"
  "gh_create_ref (fixed_github F B C) ow n ref s = written ()"
  "gh_update_ref (fixed_github F B C) ow n ref s f = written ()"
  "gh_create_pull (fixed_github F B C) ow n t h b d = written (sample_pull 7 None)"
  "gh_list_pulls (fixed_github F B C) ow n h b = io_ret [sample_pull 5 None]"
  "gh_get_pull (fixed_github F B C) ow n k = written (sample_pull k (Some False))"
  "gh_compare (fixed_github F B C) ow n b h = io_ret (''base'', C)"
  "gh_wait (fixed_github F B C) = io_ret ()"
  by (simp_all add: fixed_github_def)

lemma fixed_github_keeps: "reads_keep id (fixed_github F B C)"
  by (auto simp: reads_keep_def split: option.splits)

section \<open>Opening a pull request\<close>

definition sample_repo :: repo where
  "sample_repo = \<lparr>ro_owner = ''o'', ro_name = ''g'', ro_ref = ''main'', ro_as = []\<rparr>"

lemma sample_repo_fields [simp]:
  "ro_owner sample_repo = ''o''" "ro_name sample_repo = ''g''" "ro_ref sample_repo = ''main''"
  by (simp_all add: sample_repo_def)





section \<open>Landing\<close>

text \<open>
  C12. \<open>Land\<close> has exactly one outcome: the pull request is merged, or auto-merge waits on it, or
  there is a reason a person can act on. It answers merged only where GitHub read it as merged
  or accepted the merge, and auto-merge only where it waited already or was armed after a
  refusal that is GitHub's refusal for now (405 or 409).
\<close>
theorem land_has_one_outcome:
  "Land G r number g = (g', l) \<longrightarrow>
     (la_merged l \<and> \<not> la_autoMerge l \<and> la_reason l = []
      \<or> \<not> la_merged l \<and> la_autoMerge l \<and> la_reason l = []
      \<or> \<not> la_merged l \<and> \<not> la_autoMerge l \<and> la_reason l \<noteq> [])
   \<and> (la_merged l \<longrightarrow> (\<exists>g1 pr. gh_get_pull G (ro_owner r) (ro_name r) number g = (g1, Inr pr) \<and>
        (gp_merged pr \<or> gh_merge G (ro_owner r) (ro_name r) number
            (gp_title pr @ '' (#'' @ show_int number @ '')'') g1 = (g', Inr ()))))
   \<and> (la_autoMerge l \<longrightarrow> (\<exists>g1 pr. gh_get_pull G (ro_owner r) (ro_name r) number g = (g1, Inr pr) \<and>
        (gp_autoMerge pr \<or> (\<exists>g2 e. gh_merge G (ro_owner r) (ro_name r) number
            (gp_title pr @ '' (#'' @ show_int number @ '')'') g1 = (g2, Inl e) \<and>
            (ge_status e = Some 405 \<or> ge_status e = Some 409) \<and>
            EnableAutoMerge G r (gp_nodeID pr) g2 = (g', Inr ())))))"
  by (auto simp: Land_def landed_def pull_slug_def not_mergeable_yet_def split: prod.splits sum.splits if_splits)

theorem land_has_one_outcome_witness:
  "\<exists>g' l. Land (fixed_github (\<lambda>_ _. None) (\<lambda>_. True) []) sample_repo 7 0 = (g', l) \<and>
     (la_merged l \<or> la_autoMerge l \<or> la_reason l \<noteq> [])"
proof -
  obtain g' l where "Land (fixed_github (\<lambda>_ _. None) (\<lambda>_. True) []) sample_repo 7 0 = (g', l)" by fastforce
  with land_has_one_outcome [of "fixed_github (\<lambda>_ _. None) (\<lambda>_. True) []" sample_repo 7 0 g' l]
  show ?thesis by blast
qed

section \<open>Mergeability\<close>

lemma conflicts_loop_reads:
  fixes c :: "'g \<Rightarrow> nat"
  assumes get: "\<And>k g g' a. gh_get_pull G (ro_owner r) (ro_name r) k g = (g', a) \<Longrightarrow> c g' = Suc (c g)"
    and pause: "\<And>g g' a. gh_wait G g = (g', a) \<Longrightarrow> c g' = c g"
    and run: "conflicts_loop G r n pr g = (g', res)"
  shows "c g' \<le> c g + n \<and>
    (case res of
       Inr (pr', b) \<Rightarrow> gp_mergeable pr' = Some (\<not> b)
     | Inl (MergeableUnknown k) \<Rightarrow> c g' = c g + n
     | Inl e \<Rightarrow> True)"
  using run
proof (induction n arbitrary: pr g)
  case 0
  then show ?case by (auto split: option.splits)
next
  case (Suc n)
  show ?case
  proof (cases "gp_mergeable pr")
    case (Some m)
    then show ?thesis using Suc.prems by auto
  next
    case None
    obtain g1 a where w: "gh_wait G g = (g1, a)" by fastforce
    then have c1: "c g1 = c g" by (rule pause)
    show ?thesis
    proof (cases a)
      case (Inl e)
      then show ?thesis using Suc.prems None w c1 by (auto simp: io_bind_def io_wrap_def)
    next
      case (Inr u)
      obtain g2 b where p: "gh_get_pull G (ro_owner r) (ro_name r) (gp_number pr) g1 = (g2, b)" by fastforce
      then have c2: "c g2 = Suc (c g)" using get c1 by metis
      show ?thesis
      proof (cases b)
        case (Inl e)
        then show ?thesis using Suc.prems None w Inr p c2 by (auto simp: io_bind_def io_wrap_def)
      next
        case (Inr again)
        then have "conflicts_loop G r n again g2 = (g', res)"
          using Suc.prems None w \<open>a = Inr u\<close> p by (auto simp: io_bind_def io_wrap_def)
        from Suc.IH [OF this] show ?thesis using c2 by (auto split: sum.splits tf_error.splits)
      qed
    qed
  qed
qed

text \<open>
  C13. \<open>Conflicts\<close> reads the pull request at most three times more (four reads with the one it is
  given); the answer is the negation of the mergeability of the pull request it returns, and it
  gives up as unknown only after all three. \<open>c\<close> counts the reads.
\<close>
theorem conflicts_reads_bounded:
  fixes c :: "'g \<Rightarrow> nat"
  assumes "\<And>k g g' a. gh_get_pull G (ro_owner r) (ro_name r) k g = (g', a) \<Longrightarrow> c g' = Suc (c g)"
    and "\<And>g g' a. gh_wait G g = (g', a) \<Longrightarrow> c g' = c g"
    and "Conflicts G r pr g = (g', res)"
  shows "c g' \<le> c g + 3 \<and>
    (case res of
       Inr (pr', b) \<Rightarrow> gp_mergeable pr' = Some (\<not> b)
     | Inl (MergeableUnknown k) \<Rightarrow> c g' = c g + 3
     | Inl e \<Rightarrow> True)"
  using conflicts_loop_reads [of G r c, OF assms(1,2)] assms(3)
  by (simp add: Conflicts_def mergeableReads_def)

theorem conflicts_reads_bounded_witness:
  "\<exists>g' pr' b. Conflicts (fixed_github (\<lambda>_ _. None) (\<lambda>_. True) []) sample_repo (sample_pull 7 None) 0
     = (g', Inr (pr', b)) \<and> g' \<le> 3 \<and> b"
proof -
  let ?G = "fixed_github (\<lambda>_ _. None) (\<lambda>_. True) []"
  have r: "Conflicts ?G sample_repo (sample_pull 7 None) 0 = (1, Inr (sample_pull 7 (Some False), True))"
    by (simp add: Conflicts_def mergeableReads_def sample_pull_def io_bind_def io_wrap_def numeral_eq_Suc)
  have "id (1::nat) \<le> id 0 + 3"
    using conflicts_reads_bounded [where c = id, OF _ _ r] by auto
  then show ?thesis using r by auto
qed

section \<open>Re-rendering\<close>

text \<open>
  The specification: \<open>rd ref path\<close> is what a file reads under a ref; \<open>reapplied\<close> is the file of
  \<open>path\<close> re-applied on the base, and \<open>rewritten\<close> its new content where that differs from what
  the base reads.
\<close>

definition reapplied ::
  "yaml \<Rightarrow> 'd reposetup \<Rightarrow> team_paths \<Rightarrow> (string \<Rightarrow> string \<Rightarrow> string option) \<Rightarrow> string \<Rightarrow> string \<Rightarrow> string \<Rightarrow>
   string \<Rightarrow> entry_error + string \<times> string list" where
  "reapplied Y R T rd mb branch base path =
     rerender_file Y R (tp_team T path) (rd mb path) (rd branch path) (rd base path)"

definition rewritten ::
  "yaml \<Rightarrow> 'd reposetup \<Rightarrow> team_paths \<Rightarrow> (string \<Rightarrow> string \<Rightarrow> string option) \<Rightarrow> string \<Rightarrow> string \<Rightarrow> string \<Rightarrow>
   string \<Rightarrow> string option" where
  "rewritten Y R T rd mb branch base path = (case reapplied Y R T rd mb branch base path of
      Inl e \<Rightarrow> None
    | Inr (c, names) \<Rightarrow> if c = (case rd base path of None \<Rightarrow> [] | Some b \<Rightarrow> b) then None else Some c)"

definition reads_as :: "('g \<Rightarrow> 'v) \<Rightarrow> 'g github \<Rightarrow> repo \<Rightarrow> ('v \<Rightarrow> string \<Rightarrow> string \<Rightarrow> string option) \<Rightarrow> bool" where
  "reads_as v G r rd \<longleftrightarrow> (\<forall>ref path g g' x.
     read_optional G (at_ref r ref) path g = (g', Inr x) \<longrightarrow> x = rd (v g) ref path)"

lemma at_own_ref [simp]: "at_ref r (ro_ref r) = r"
  by (simp add: at_ref_def)

lemma rerender_step_Inr:
  assumes keep: "reads_keep v G" and rd: "reads_as v G r rd"
    and run: "rerender_step G Y R T r mb branch path (fs, es) g = (g', Inr (fs', es'))"
  shows "is_team_file T path \<and> v g' = v g \<and> (\<exists>c ns.
     reapplied Y R T (rd (v g)) mb branch (ro_ref r) path = Inr (c, ns) \<and> es' = es @ ns \<and>
     fs' = (case rewritten Y R T (rd (v g)) mb branch (ro_ref r) path of
              None \<Rightarrow> fs | Some c \<Rightarrow> AList.update path c fs))"
proof -
  have tfile: "is_team_file T path" using run by (auto simp: rerender_step_def split: if_splits)
  obtain g1 was g2 want g3 now where
    r1: "read_optional G (at_ref r mb) path g = (g1, Inr was)" and
    r2: "read_optional G (at_ref r branch) path g1 = (g2, Inr want)" and
    r3: "read_optional G r path g2 = (g3, Inr now)" and
    rest: "(case rerender_file Y R (tp_team T path) was want now of
        Inl e \<Rightarrow> io_fail (RerenderFile path e)
      | Inr (content, names) \<Rightarrow> io_ret (if content = (case now of None \<Rightarrow> [] | Some b \<Rightarrow> b) then fst (fs, es)
            else AList.update path content (fst (fs, es)), snd (fs, es) @ names)) g3 = (g', Inr (fs', es'))"
    using run tfile unfolding rerender_step_def
    by (simp only: not_True_eq_False if_False io_bind_Inr) (elim exE conjE, rule that)
  have v1: "v g1 = v g" and v2: "v g2 = v g" and v3: "v g3 = v g"
    using io_keepsD [OF keeps_read_optional [OF keep]] r1 r2 r3 by metis+
  have "was = rd (v g) mb path" using rd r1 unfolding reads_as_def by blast
  moreover have "want = rd (v g) branch path" using rd r2 v1 unfolding reads_as_def by metis
  moreover have "now = rd (v g) (ro_ref r) path"
    using rd r3 v2 at_own_ref unfolding reads_as_def by metis
  ultimately show ?thesis
    using rest tfile v3 by (auto simp: reapplied_def rewritten_def split: sum.splits prod.splits)
qed

lemma rerender_fold_Inr:
  assumes keep: "reads_keep v G" and rd: "reads_as v G r rd"
    and run: "io_fold (rerender_step G Y R T r mb branch) paths (fs, es) g = (g', Inr (fs', es'))"
    and dist: "distinct (map fst fs)"
  shows "v g' = v g \<and> distinct (map fst fs') \<and>
    (\<forall>p \<in> set paths. is_team_file T p \<and> (\<exists>x. reapplied Y R T (rd (v g)) mb branch (ro_ref r) p = Inr x)) \<and>
    (\<forall>p. map_of fs' p = (case (if p \<in> set paths then rewritten Y R T (rd (v g)) mb branch (ro_ref r) p else None) of
        None \<Rightarrow> map_of fs p | Some c \<Rightarrow> Some c)) \<and>
    set es' = set es \<union> {n. \<exists>p \<in> set paths. \<exists>c ns.
      reapplied Y R T (rd (v g)) mb branch (ro_ref r) p = Inr (c, ns) \<and> n \<in> set ns}"
  using run dist
proof (induction paths arbitrary: g fs es)
  case Nil
  then show ?case by simp
next
  case (Cons p ps)
  from Cons.prems obtain g1 fs1 es1 where
    s: "rerender_step G Y R T r mb branch p (fs, es) g = (g1, Inr (fs1, es1))" and
    f: "io_fold (rerender_step G Y R T r mb branch) ps (fs1, es1) g1 = (g', Inr (fs', es'))"
    by (auto simp: io_bind_Inr)
  from rerender_step_Inr [OF keep rd s] obtain c ns where
    one: "is_team_file T p" "v g1 = v g"
      "reapplied Y R T (rd (v g)) mb branch (ro_ref r) p = Inr (c, ns)" "es1 = es @ ns"
      "fs1 = (case rewritten Y R T (rd (v g)) mb branch (ro_ref r) p of
              None \<Rightarrow> fs | Some c \<Rightarrow> AList.update p c fs)" by (elim exE conjE)
  have d1: "distinct (map fst fs1)"
    using Cons.prems(2) one(5) by (auto simp: distinct_update split: option.splits)
  have m1: "map_of fs1 q = (case (if q = p then rewritten Y R T (rd (v g)) mb branch (ro_ref r) q else None) of
        None \<Rightarrow> map_of fs q | Some c \<Rightarrow> Some c)" for q
    using one(5) by (auto simp: update_conv' split: option.splits)
  note IH = Cons.IH [OF f d1, unfolded one(2)]
  have e: "set es' = set es \<union> {n. \<exists>q \<in> set (p # ps). \<exists>c ns.
      reapplied Y R T (rd (v g)) mb branch (ro_ref r) q = Inr (c, ns) \<and> n \<in> set ns}"
    using IH one(3,4) by auto
  have m: "map_of fs' q = (case (if q \<in> set (p # ps) then rewritten Y R T (rd (v g)) mb branch (ro_ref r) q else None) of
        None \<Rightarrow> map_of fs q | Some c \<Rightarrow> Some c)" for q
    using IH m1 [of q] by (auto split: option.splits if_splits)
  show ?case using IH one(1,3) e m by auto
qed

lemma keeps_rerender_step: "reads_keep v G \<Longrightarrow> io_keeps v (rerender_step G Y R T r mb branch p acc)"
  unfolding rerender_step_def
  by (auto intro!: io_keeps_bind keeps_read_optional split: sum.splits)

lemma commit_files_Inl:
  "commit_files G r base t fs g = (g', Inl e) \<Longrightarrow> (\<exists>x. e = CreateTree x \<or> e = CreateCommit x)"
  by (auto simp: commit_files_def io_bind_def io_wrap_def split: prod.splits sum.splits)

lemma rerender_refusal:
  assumes keep: "reads_keep v G" and run: "Rerender G Y R T r pr g = (g', Inl e)"
  shows "v g' = v g \<or> (\<exists>x. e = CreateTree x \<or> e = CreateCommit x \<or> e = ForcePush (gp_headRef pr) x)"
proof -
  have kc: "gh_compare G ow n b h k = (k', a) \<Longrightarrow> v k' = v k" for ow n b h k k' a
    using reads_keepD(5) [OF keep] by (rule io_keepsD)
  have kr: "gh_get_ref G ow n ref k = (k', a) \<Longrightarrow> v k' = v k" for ow n ref k k' a
    using reads_keepD(3) [OF keep] by (rule io_keepsD)
  have kf: "io_fold (rerender_step G Y R T r mb b) ps acc k = (k', a) \<Longrightarrow> v k' = v k" for mb b ps acc k k' a
    using io_keeps_fold [OF keeps_rerender_step [OF keep]] by (rule io_keepsD)
  show ?thesis
    using run unfolding Rerender_def Let_def
    by (auto simp: io_bind_def io_wrap_def split: if_splits prod.splits sum.splits
        dest!: commit_files_Inl kc kr kf)
qed

lemma rerender_success:
  assumes "Rerender G Y R T r pr g = (g', Inr out)"
  obtains mb changed g1 base g2 files entries g3 g4 where
    "gh_compare G (ro_owner r) (ro_name r) (ro_ref r) (gp_headSHA pr) g = (g1, Inr (mb, changed))"
    "gh_get_ref G (ro_owner r) (ro_name r) (''heads/'' @ ro_ref r) g1 = (g2, Inr base)"
    "io_fold (rerender_step G Y R T r mb (gp_headRef pr)) changed ([], []) g2 = (g3, Inr (files, entries))"
    "files \<noteq> []"
    "commit_files G r base (gp_title pr) files g3 = (g4, Inr (rr_commit out))"
    "gh_update_ref G (ro_owner r) (ro_name r) (''heads/'' @ gp_headRef pr) (rr_commit out) True g4 = (g', Inr ())"
    "rr_base out = base" "rr_files out = sort (map fst files)" "rr_entries out = sort (remdups entries)"
  using assms unfolding Rerender_def Let_def io_bind_Inr
  by (auto simp: io_bind_Inr io_wrap_Inr split: if_splits prod.splits)

text \<open>
  C14. A re-render that succeeds force-pushes one commit on the base's current head whose files
  are exactly the changed team files that read differently once the pull request's entries are
  re-applied to what they read on the base now, each with the re-applied content, and it names
  exactly the entries re-applied. A re-render that fails wrote nothing, unless GitHub refused
  one of its own writes. \<open>reads_keep\<close> and \<open>reads_as\<close> are about go-github's reads: they change
  nothing, and a file reads the same until something is written.
\<close>
theorem rerender_commits_reapplied:
  assumes "reads_keep v G" and "reads_as v G r rd" and "Rerender G Y R T r pr g = (g', res)"
  shows "case res of
      Inl e \<Rightarrow> v g' = v g \<or> (\<exists>x. e = CreateTree x \<or> e = CreateCommit x \<or> e = ForcePush (gp_headRef pr) x)
    | Inr out \<Rightarrow> \<exists>mb changed g1 g2 g3 files.
        gh_compare G (ro_owner r) (ro_name r) (ro_ref r) (gp_headSHA pr) g = (g1, Inr (mb, changed)) \<and>
        list_all (is_team_file T) changed \<and> files \<noteq> [] \<and> distinct (map fst files) \<and>
        map_of files = (\<lambda>p. if p \<in> set changed
          then rewritten Y R T (rd (v g)) mb (gp_headRef pr) (ro_ref r) p else None) \<and>
        v g2 = v g \<and> commit_files G r (rr_base out) (gp_title pr) files g2 = (g3, Inr (rr_commit out)) \<and>
        gh_update_ref G (ro_owner r) (ro_name r) (''heads/'' @ gp_headRef pr) (rr_commit out) True g3 = (g', Inr ()) \<and>
        rr_files out = sort (map fst files) \<and>
        set (rr_entries out) = {n. \<exists>p \<in> set changed. \<exists>c ns.
          reapplied Y R T (rd (v g)) mb (gp_headRef pr) (ro_ref r) p = Inr (c, ns) \<and> n \<in> set ns}"
proof (cases res)
  case (Inl e)
  then show ?thesis using rerender_refusal assms(1,3) by fastforce
next
  case (Inr out)
  obtain mb changed g1 base g2 files entries g3 g4 where
    c: "gh_compare G (ro_owner r) (ro_name r) (ro_ref r) (gp_headSHA pr) g = (g1, Inr (mb, changed))" and
    b: "gh_get_ref G (ro_owner r) (ro_name r) (''heads/'' @ ro_ref r) g1 = (g2, Inr base)" and
    f: "io_fold (rerender_step G Y R T r mb (gp_headRef pr)) changed ([], []) g2 = (g3, Inr (files, entries))" and
    w: "files \<noteq> []" "commit_files G r base (gp_title pr) files g3 = (g4, Inr (rr_commit out))"
    "gh_update_ref G (ro_owner r) (ro_name r) (''heads/'' @ gp_headRef pr) (rr_commit out) True g4 = (g', Inr ())"
    "rr_base out = base" "rr_files out = sort (map fst files)" "rr_entries out = sort (remdups entries)"
    using assms(3) unfolding Inr by (rule rerender_success)
  have v2: "v g2 = v g" using c b reads_keepD(3,5) [OF assms(1)] io_keepsD by metis
  note F = rerender_fold_Inr [OF assms(1,2) f, simplified, unfolded v2]
  have "map_of files = (\<lambda>p. if p \<in> set changed
      then rewritten Y R T (rd (v g)) mb (gp_headRef pr) (ro_ref r) p else None)"
    using F by (auto simp: fun_eq_iff split: option.splits)
  moreover have "list_all (is_team_file T) changed" using F by (simp add: list_all_iff)
  moreover have "set (rr_entries out) = {n. \<exists>p \<in> set changed. \<exists>c ns.
          reapplied Y R T (rd (v g)) mb (gp_headRef pr) (ro_ref r) p = Inr (c, ns) \<and> n \<in> set ns}"
    using F w(6) by simp
  ultimately show ?thesis using c w F Inr by auto
qed

definition line_setup :: "string reposetup" where
  "line_setup = \<lparr>rs_parse = (\<lambda>team s. Inr (if s = [] then [] else [s])),
     rs_entry = (\<lambda>ds n. if n \<in> set ds then Some n else None), rs_name = (\<lambda>d. d),
     rs_yaml = (\<lambda>d. Inr d), rs_insert = (\<lambda>team s d. Inr (s @ d))\<rparr>"

definition line_yaml :: yaml where
  "line_yaml = \<lparr>y_unmarshal = (\<lambda>s. Inl s), y_encode = (\<lambda>n. Inl [])\<rparr>"

definition sample_paths :: team_paths where
  "sample_paths = \<lparr>tp_dir = ''r'', tp_file = (\<lambda>t. ''r/'' @ t @ ''.yaml''), tp_team = (\<lambda>p. p), tp_schema = ''s''\<rparr>"

definition new_file :: "string \<Rightarrow> string \<Rightarrow> string option" where
  "new_file ref path = (if ref = ''h'' then Some ''x'' else None)"

lemma fixed_read_optional:
  "read_optional (fixed_github F B C) r path g = (g, Inr (F (ro_ref r) path))"
  by (cases "F (ro_ref r) path")
    (simp_all add: read_optional_def Read_def read_error_def Reachable_def denied_def gone_def
      io_bind_def io_try_def)

lemma fixed_reads_as: "reads_as id (fixed_github F B C) r (\<lambda>_. F)"
  by (auto simp: reads_as_def fixed_read_optional at_ref_def)

lemma sample_rerender:
  "Rerender (fixed_github new_file (\<lambda>_. True) [''r/a.yaml'']) line_yaml line_setup sample_paths sample_repo
     (sample_pull 7 None) 0 =
   (3, Inr \<lparr>rr_number = 7, rr_branch = ''h'', rr_base = ''heads/main'', rr_commit = ''commit'',
      rr_files = [''r/a.yaml''], rr_entries = [''x'']\<rparr>)"
  by (simp add: Rerender_def Let_def sample_pull_def io_bind_def io_wrap_def rerender_step_def fixed_read_optional
      is_team_file_def sample_paths_def has_prefix_def has_suffix_def new_file_def at_ref_def
      rerender_file_def line_setup_def declares_def commit_files_def insort_key_def)

theorem rerender_commits_reapplied_witness:
  "\<exists>files. map_of files ''r/a.yaml'' = Some ''x'' \<and> dom (map_of files) = {''r/a.yaml''} \<and>
     rewritten line_yaml line_setup sample_paths new_file ''base'' ''h'' ''main'' ''r/a.yaml'' = Some ''x''"
proof -
  let ?w = "rewritten line_yaml line_setup sample_paths new_file ''base'' ''h'' ''main''"
  have w: "?w ''r/a.yaml'' = Some ''x''"
    by (simp add: rewritten_def reapplied_def sample_paths_def new_file_def rerender_file_def
        line_setup_def declares_def)
  let ?G = "fixed_github new_file (\<lambda>_. True) [''r/a.yaml'']"
  obtain mb changed g1 files where
    c: "gh_compare ?G (ro_owner sample_repo) (ro_name sample_repo) (ro_ref sample_repo)
      (gp_headSHA (sample_pull 7 None)) 0 = (g1, Inr (mb, changed))" and
    m: "map_of files = (\<lambda>p. if p \<in> set changed then rewritten line_yaml line_setup sample_paths new_file mb
      (gp_headRef (sample_pull 7 None)) (ro_ref sample_repo) p else None)"
    using rerender_commits_reapplied [OF fixed_github_keeps fixed_reads_as sample_rerender, unfolded sum.case]
    by (elim exE conjE) (rule that)
  from c have "mb = ''base''" "changed = [''r/a.yaml'']" by simp_all
  with m have "map_of files = (\<lambda>p. if p = ''r/a.yaml'' then ?w p else None)"
    by (simp add: sample_pull_def cong: if_cong)
  with w have "map_of files ''r/a.yaml'' = Some ''x''" "dom (map_of files) = {''r/a.yaml''}"
    by (auto simp: dom_def)
  with w show ?thesis by blast
qed

end
