(* ===== verification/StepsProps.thy ===== *)
theory StepsProps
  imports Steps
begin

text \<open>
  What the written steps say: which statuses of a commit make a release red, when a release is
  reported as not built, and that filling the steps touches nothing else of a result.
  \<open>watch_ok\<close> is the invariant of a release watch under which the release step is total: a
  built or red release has its pipeline.
\<close>

section \<open>Findings of a step\<close>

definition reports :: "step_result \<Rightarrow> finding_kind \<Rightarrow> bool" where
  "reports sr k \<longleftrightarrow> k \<in> ef_kind ` set (sr_findings sr)"

lemma reports_step [simp]:
  "reports (step_result_of st v s ch fs) k \<longleftrightarrow> k \<in> ef_kind ` set fs"
  by (simp add: reports_def)

lemma ef_kind_finding [simp]: "ef_kind (step_finding E k m f) = k"
  by (simp add: step_finding_def)

lemma kinds_distinct [simp]:
  "FindingUnchecked \<noteq> FindingRedRelease" "FindingRedRelease \<noteq> FindingUnchecked"
  "FindingUnchecked \<noteq> FindingMissedTagBuild" "FindingMissedTagBuild \<noteq> FindingUnchecked"
  "FindingRedRelease \<noteq> FindingMissedTagBuild" "FindingMissedTagBuild \<noteq> FindingRedRelease"
  by (simp_all add: finding_kinds)

section \<open>The statuses of a commit\<close>



lemma unpublished_subset:
  assumes "unpublished E xs = (failed, published)"
  shows "failed = filter (\<lambda>x. \<not> published_job E x) xs" and "published = filter (published_job E) xs"
  using assms by (simp_all add: unpublished_def)

text \<open>
  A status that can only be the tag pipeline's: every use of its job in the declaration runs on
  no branch and one runs on the tag.
\<close>

definition tag_pipelines :: "regexp \<Rightarrow> ci option \<Rightarrow> string \<Rightarrow> string \<Rightarrow> bool" where
  "tag_pipelines rx c tag ctx \<longleftrightarrow> (\<exists>b. c = Some b \<and>
     (\<exists>j \<in> set (ci_jobs b). cj_name j = JobOf ctx \<and> runs_on_tag rx j tag) \<and>
     (\<forall>j \<in> set (ci_jobs b). cj_name j = JobOf ctx \<longrightarrow> \<not> runs_on_branches j))"

lemma job_index_Some: "job_index c n = Some js \<longleftrightarrow>
    (\<exists>b. c = Some b \<and> js = filter (\<lambda>j. cj_name j = n) (ci_jobs b) \<and> js \<noteq> [])"
  by (auto simp: job_index_def split: option.splits list.splits)

lemma any_tag_only_iff: "any_tag_only rx xs c tag \<longleftrightarrow> (\<exists>x \<in> set xs. tag_pipelines rx c tag x)"
proof -
  have "(case job_index c (JobOf x) of
      Some js \<Rightarrow> runs_any js (\<lambda>j. runs_on_tag rx j tag) \<and> \<not> runs_any js runs_on_branches
    | None \<Rightarrow> False) \<longleftrightarrow> tag_pipelines rx c tag x" for x
    unfolding tag_pipelines_def
    by (cases "job_index c (JobOf x)")
      (auto simp: job_index_Some runs_any_def list_ex_iff job_index_def filter_empty_conv
        split: option.splits list.splits)
  then show ?thesis by (auto simp: any_tag_only_def list_ex_iff)
qed

lemma foreign_status_iff: "foreign_status c runs ctx \<longleftrightarrow> (\<exists>b. c = Some b \<and>
    (\<exists>j \<in> set (ci_jobs b). cj_name j = JobOf ctx) \<and>
    (\<forall>j \<in> set (ci_jobs b). cj_name j = JobOf ctx \<longrightarrow> \<not> runs j))"
proof (cases "job_index c (JobOf ctx)")
  case None
  then show ?thesis
    by (auto simp: foreign_status_def job_index_def filter_empty_conv split: option.splits list.splits)
next
  case (Some js)
  then have "foreign_status c runs ctx \<longleftrightarrow> \<not> runs_any js runs" by (simp add: foreign_status_def)
  with Some show ?thesis
    by (auto simp: job_index_Some runs_any_def list_ex_iff filter_empty_conv)
qed

text \<open>The jobs left of a commit's statuses for the tag: the failed ones that leave something
  unpublished, and the pending ones.\<close>

definition tag_statuses :: "engine \<Rightarrow> regexp \<Rightarrow> string \<Rightarrow> head_status \<Rightarrow> ci option \<Rightarrow>
    string list \<times> string list \<times> string list \<times> string list" where
  "tag_statuses E rx tag b c =
     (case split_statuses b c (\<lambda>j. runs_on_tag rx j tag) of (own, foreign) \<Rightarrow>
      case states_of b own of (failed0, pending) \<Rightarrow>
        (own, foreign, fst (unpublished E failed0), pending))"

lemma statuses_release_step_cases:
  assumes "tag_statuses E rx tag b c = (own, foreign, failed, pending)"
  shows "reports (statuses_release_step E rx slug tag b c tagOnly) FindingRedRelease \<longleftrightarrow>
      failed \<noteq> [] \<and> (foreign = [] \<or> (\<exists>x \<in> set failed. tag_pipelines rx c tag x))"
    and "reports (statuses_release_step E rx slug tag b c tagOnly) FindingUnchecked \<longleftrightarrow>
      failed \<noteq> [] \<and> foreign \<noteq> [] \<and> \<not> (\<exists>x \<in> set failed. tag_pipelines rx c tag x) \<or>
      failed = [] \<and> pending = [] \<and> tagOnly \<noteq> [] \<and> \<not> reported own tagOnly"
    and "\<not> reports (statuses_release_step E rx slug tag b c tagOnly) FindingMissedTagBuild"
    and "sr_verdict (statuses_release_step E rx slug tag b c tagOnly) = VerdictOK \<longleftrightarrow>
      failed = [] \<and> (pending \<noteq> [] \<or> tagOnly = [] \<or> reported own tagOnly)"
  using assms
  by (auto simp: statuses_release_step_def tag_statuses_def any_tag_only_iff Let_def case_prod_beta)


definition sample_job :: "string \<Rightarrow> string list \<Rightarrow> string list \<Rightarrow> ci_job" where
  "sample_job n only tags = \<lparr>cj_name = n, cj_branchesOnly = only, cj_branchesIgnore = [], cj_tagsOnly = tags,
     cj_tagsIgnore = []\<rparr>"

definition red_status :: head_status where
  "red_status = \<lparr>hs_state = ''failure'', hs_contexts = [''ci/circleci:push''], hs_failed = [''ci/circleci:push''],
     hs_pending = [], hs_at = 0\<rparr>"

lemma red_status_simps [simp]:
  "hs_state red_status = ''failure''" "hs_contexts red_status = [''ci/circleci:push'']"
  "hs_failed red_status = [''ci/circleci:push'']" "hs_pending red_status = []"
  by (simp_all add: red_status_def)



section \<open>The release step\<close>

definition watch_ok :: "release_watch \<Rightarrow> bool" where
  "watch_ok w \<longleftrightarrow> (rw_state w = ReleaseBuilt \<or> rw_state w = ReleaseRed \<longrightarrow> rw_pipeline w \<noteq> None)"

lemma watch_states_distinct [simp]:
  "ReleaseBuilt \<noteq> ReleaseRed" "ReleaseRed \<noteq> ReleaseBuilt" "ReleaseBuilt \<noteq> ReleaseUnbuilt"
  "ReleaseUnbuilt \<noteq> ReleaseBuilt" "ReleaseBuilt \<noteq> ReleaseWatching" "ReleaseWatching \<noteq> ReleaseBuilt"
  "ReleaseBuilt \<noteq> ReleaseUnchecked" "ReleaseUnchecked \<noteq> ReleaseBuilt" "ReleaseRed \<noteq> ReleaseUnbuilt"
  "ReleaseUnbuilt \<noteq> ReleaseRed" "ReleaseRed \<noteq> ReleaseWatching" "ReleaseWatching \<noteq> ReleaseRed"
  "ReleaseRed \<noteq> ReleaseUnchecked" "ReleaseUnchecked \<noteq> ReleaseRed" "ReleaseUnbuilt \<noteq> ReleaseWatching"
  "ReleaseWatching \<noteq> ReleaseUnbuilt" "ReleaseUnbuilt \<noteq> ReleaseUnchecked"
  "ReleaseUnchecked \<noteq> ReleaseUnbuilt" "ReleaseWatching \<noteq> ReleaseUnchecked"
  "ReleaseUnchecked \<noteq> ReleaseWatching"
  by (simp_all add: release_states)

lemma watched_nil_iff: "watched_release_step E slug tag w = NilPipeline \<longleftrightarrow> \<not> watch_ok w"
  by (auto simp: watched_release_step_def watch_ok_def Let_def split: option.splits)

lemma watched_step_release: "watched_release_step E slug tag w = Decided sr \<Longrightarrow> sr_step sr = StepRelease"
  by (auto simp: watched_release_step_def Let_def split: option.splits if_splits)

lemma watched_missing: "watched_release_step E slug tag w = Decided sr \<Longrightarrow>
    reports sr FindingMissedTagBuild \<longleftrightarrow> rw_state w = ReleaseUnbuilt"
  by (auto simp: watched_release_step_def Let_def split: option.splits if_splits)

lemma statuses_step_release: "sr_step (statuses_release_step E rx slug tag b c tagOnly) = StepRelease"
  by (simp add: statuses_release_step_def Let_def case_prod_beta)

lemma run_step_release: "sr_step (run_release_step run l tag) = StepRelease"
  by (simp add: run_release_step_def Let_def)

lemma untold_step_release: "sr_step (untold_release_step E slug tag rel wt) = StepRelease"
  by (simp add: untold_release_step_def split: option.splits)

lemma run_reports: "reports (run_release_step run l tag) k \<longleftrightarrow> reports run k"
  by (simp add: run_release_step_def reports_def Let_def)

lemma untold_missing: "reports (untold_release_step E slug tag rel wt) FindingMissedTagBuild \<longleftrightarrow>
    (\<exists>r. rel = Some r \<and> rl_tag r = tag \<and> \<not> rl_buildTruncated r \<and>
       \<not> (\<exists>w. wt = Some w \<and> rw_tag w = tag \<and> rw_state w = ReleaseWatching))"
  by (auto simp: untold_release_step_def pending_read_def split: option.splits)

lemma statuses_not_missing: "\<not> reports (statuses_release_step E rx slug tag b c tagOnly) FindingMissedTagBuild"
  using statuses_release_step_cases(3) by (metis surj_pair)

text \<open>The release step by its sources: the watch, the commit's statuses, the run, none.\<close>

lemma release_step_cases:
  assumes "release_step E rx slug tag branch rel c lr wt = Some sr"
  obtains (watch) w where "wt = Some w" "rw_tag w = tag" "watched_release_step E slug tag w = Decided sr"
  | (statuses) r b where "rel = Some r" "rl_tag r = tag" "rl_build r = Some b"
      "sr = statuses_release_step E rx slug tag b c (tag_only rx c tag branch)"
      "\<And>run l. tag_run E lr tag = Some (run, l) \<Longrightarrow> \<not> built run tag"
  | (run) run l where "tag_run E lr tag = Some (run, l)" "sr = run_release_step run l tag"
  | (none) "tag_run E lr tag = None" "sr = untold_release_step E slug tag rel wt"
      "\<not> (\<exists>r b. rel = Some r \<and> rl_tag r = tag \<and> rl_build r = Some b)"
proof -
  define ws where "ws = (case wt of Some w \<Rightarrow> if rw_tag w = tag then watched_release_step E slug tag w else LeftOver
                     | None \<Rightarrow> LeftOver)"
  define ob where "ob = (case rel of Some r \<Rightarrow> if rl_tag r = tag then rl_build r else None | None \<Rightarrow> None)"
  have eq: "release_step E rx slug tag branch rel c lr wt = (case ws of
        Decided done_step \<Rightarrow> Some done_step | NilPipeline \<Rightarrow> None
      | LeftOver \<Rightarrow> Some (case ob of
             Some b \<Rightarrow> (case tag_run E lr tag of
                  Some (run, l) \<Rightarrow>
                    if built run tag \<or> unbuilt run \<and> \<not> reported (hs_contexts b) (tag_only rx c tag branch)
                    then run_release_step run l tag
                    else statuses_release_step E rx slug tag b c (tag_only rx c tag branch)
                | None \<Rightarrow> statuses_release_step E rx slug tag b c (tag_only rx c tag branch))
           | None \<Rightarrow> (case tag_run E lr tag of
                 Some (run, l) \<Rightarrow> run_release_step run l tag
               | None \<Rightarrow> untold_release_step E slug tag rel wt)))"
    unfolding release_step_def ws_def ob_def Let_def ..
  show ?thesis
  proof (cases ws)
    case (Decided done_step)
    then show ?thesis using assms eq watch
      by (auto simp: ws_def split: option.splits if_splits)
  next
    case NilPipeline
    then show ?thesis using assms eq by simp
  next
    case LeftOver
    show ?thesis
    proof (cases ob)
      case (Some b)
      then obtain r where r: "rel = Some r" "rl_tag r = tag" "rl_build r = Some b"
        by (auto simp: ob_def split: option.splits if_splits)
      show ?thesis
      proof (cases "tag_run E lr tag")
        case None
        then show ?thesis using statuses [OF r] assms eq LeftOver Some by auto
      next
        case (Some q)
        obtain run l where q: "q = (run, l)" by fastforce
        show ?thesis
          using statuses [OF r] run [of run l] assms eq LeftOver \<open>ob = Some b\<close> Some q
          by (cases "built run tag \<or> unbuilt run \<and> \<not> reported (hs_contexts b) (tag_only rx c tag branch)") auto
      qed
    next
      case None
      then have "\<not> (\<exists>r b. rel = Some r \<and> rl_tag r = tag \<and> rl_build r = Some b)"
        by (auto simp: ob_def split: option.splits if_splits)
      then show ?thesis using none run assms eq LeftOver None
        by (cases "tag_run E lr tag") auto
    qed
  qed
qed

lemma release_step_nil:
  "release_step E rx slug tag branch rel c lr wt = None \<longleftrightarrow>
     (\<exists>w. wt = Some w \<and> rw_tag w = tag \<and> \<not> watch_ok w)"
proof (cases wt)
  case (Some w)
  then show ?thesis
    using watched_nil_iff [of E slug tag w]
    by (cases "watched_release_step E slug tag w") (auto simp: release_step_def)
qed (simp add: release_step_def)

lemma tag_run_step: "tag_run E lr tag = Some (run, l) \<Longrightarrow>
    lr = Some l \<and> run_step E lr StepRelease = Some run \<and> mentions run tag"
  by (auto simp: tag_run_def split: option.splits if_splits)

text \<open>
  C16. When a release is reported as not built. The finding missed-tag-build comes from one of
  three places only: the release watch settled the tag as unbuilt, the reconciler's run that names
  the tag reported it, or the record read this release, its commit carries no CircleCI status
  though none was left out, no run names the tag and the watch is not waiting for its pipeline. In
  particular a release the record has not read yet, or one still within the watch's grace period,
  is never reported as missed.
\<close>
theorem missed_tag_build_sources:
  assumes step: "release_step E rx slug tag branch rel c lr wt = Some sr"
    and missed: "reports sr FindingMissedTagBuild"
  shows "(\<exists>w. wt = Some w \<and> rw_tag w = tag \<and> rw_state w = ReleaseUnbuilt)
    \<or> (\<exists>l run. lr = Some l \<and> run_step E lr StepRelease = Some run \<and> mentions run tag \<and>
         reports run FindingMissedTagBuild)
    \<or> (\<exists>r. rel = Some r \<and> rl_tag r = tag \<and> rl_build r = None \<and> \<not> rl_buildTruncated r \<and>
         tag_run E lr tag = None \<and>
         \<not> (\<exists>w. wt = Some w \<and> rw_tag w = tag \<and> rw_state w = ReleaseWatching))"
  using step
proof (cases rule: release_step_cases)
  case (watch w)
  then have "rw_state w = ReleaseUnbuilt" using missed watched_missing by metis
  with watch(1,2) show ?thesis by blast
next
  case (statuses r b)
  then show ?thesis using missed statuses_not_missing by metis
next
  case (run run l)
  then have "reports run FindingMissedTagBuild" using missed run_reports by metis
  with tag_run_step [OF run(1)] show ?thesis by blast
next
  case none
  then obtain r where "rel = Some r" "rl_tag r = tag" "\<not> rl_buildTruncated r"
      "\<not> (\<exists>w. wt = Some w \<and> rw_tag w = tag \<and> rw_state w = ReleaseWatching)"
    using missed untold_missing by metis
  with none(1,3) show ?thesis by (cases "rl_build r") blast+
qed

definition bare_release :: release where
  "bare_release = \<lparr>rl_tag = ''v1'', rl_publishedAt = 0, rl_build = None, rl_buildTruncated = False\<rparr>"

theorem missed_tag_build_sources_witness:
  "rl_build bare_release = None \<and> \<not> rl_buildTruncated bare_release"
proof -
  let ?sr = "untold_release_step sample_engine ''o/r'' ''v1'' (Some bare_release) None"
  have s: "release_step sample_engine (\<lambda>_. None) ''o/r'' ''v1'' ''main'' (Some bare_release) None None None = Some ?sr"
    by (simp add: release_step_def bare_release_def tag_run_def run_step_def)
  have "reports ?sr FindingMissedTagBuild" by (simp add: untold_missing bare_release_def)
  from missed_tag_build_sources [OF s this] show ?thesis by auto
qed

section \<open>Filling the steps\<close>

lemma circleci_step_step: "sr_step (circleci_step E rx slug branch cc c lr) = StepCircleCI"
  by (auto simp: circleci_step_def run_circleci_step_def Let_def split: option.splits)

lemma release_step_step: "release_step E rx slug tag branch rel c lr wt = Some sr \<Longrightarrow> sr_step sr = StepRelease"
  by (cases rule: release_step_cases, assumption)
    (metis watched_step_release statuses_step_release run_step_release untold_step_release)+

text \<open>A result in which only steps of one kind that \<open>P\<close> allows are rewritten.\<close>

definition rewritten_steps :: "(step_result \<Rightarrow> bool) \<Rightarrow> result \<Rightarrow> result \<Rightarrow> bool" where
  "rewritten_steps P res res' \<longleftrightarrow> length (res_steps res') = length (res_steps res) \<and>
     res_mode res' = res_mode res \<and> res_repository res' = res_repository res \<and>
     (\<forall>i < length (res_steps res). sr_step (res_steps res' ! i) = sr_step (res_steps res ! i) \<and>
        (res_steps res' ! i \<noteq> res_steps res ! i \<longrightarrow> P (res_steps res ! i)))"

lemma rewritten_refl [simp]: "rewritten_steps P res res"
  by (simp add: rewritten_steps_def)

lemma rewritten_set_step:
  "i < length (res_steps res) \<Longrightarrow> sr_step sr = sr_step (res_steps res ! i) \<Longrightarrow> P (res_steps res ! i) \<Longrightarrow>
   rewritten_steps P res (set_step res i sr)"
  by (auto simp: rewritten_steps_def nth_list_update)

lemma rewritten_trans:
  "rewritten_steps P a b \<Longrightarrow> rewritten_steps Q b d \<Longrightarrow> (\<And>s. P s \<Longrightarrow> sr_step s = x) \<Longrightarrow> (\<And>s. Q s \<Longrightarrow> sr_step s = y) \<Longrightarrow> x \<noteq> y \<Longrightarrow>
   rewritten_steps (\<lambda>s. P s \<or> Q s) a d"
  unfolding rewritten_steps_def by metis

lemma fill_circleci_rewrites:
  assumes "engine_step_ok E"
  shows "rewritten_steps (\<lambda>s. clientless s \<and> sr_step s = StepCircleCI) res (fill_circleci E rx r re res)"
  using assms circleci_step_step
  by (auto simp: fill_circleci_def engine_step_ok_def intro!: rewritten_set_step split: option.splits)

lemma fill_release_rewrites:
  assumes "engine_step_ok E" and "fill_release E rx r re res = Some res'"
  shows "rewritten_steps (\<lambda>s. clientless s \<and> sr_step s = StepRelease) res res'"
  using assms
  by (auto simp: fill_release_def engine_step_ok_def dest!: release_step_step intro!: rewritten_set_step
      split: option.splits if_splits)

lemma converge_rewrites: "rewritten_steps P res res' \<Longrightarrow> rewritten_steps P res (converge E res')"
  by (simp add: rewritten_steps_def converge_def)

text \<open>
  C17. What filling the clientless steps does to a result. Only a step the engine skipped for want
  of a CircleCI client is rewritten, and only the circleci and the release step; a rewritten step
  stays the step it was; the result converges exactly when every one of its steps does. It is
  total for a record whose release watch is well-formed, and a result that is absent, or a record
  without reality, is left as it is.
\<close>
theorem fill_clientless_frame:
  assumes "engine_step_ok E"
  shows "case res of
      None \<Rightarrow> fill_clientless_steps E rx res r = Some None
    | Some q \<Rightarrow>
        if rc_reality r = None then fill_clientless_steps E rx res r = Some (Some q)
        else case fill_clientless_steps E rx res r of
          None \<Rightarrow> \<not> pred_option watch_ok (su_release (rc_setup r))
        | Some out \<Rightarrow> \<exists>q'. out = Some q' \<and>
            rewritten_steps (\<lambda>s. clientless s \<and> sr_step s \<in> {StepCircleCI, StepRelease}) q q' \<and>
            (res_converged q' \<longleftrightarrow> (\<forall>s \<in> set (res_steps q'). eng_converges E s))"
proof (cases res)
  case None
  then show ?thesis by (simp add: fill_clientless_steps_def)
next
  case (Some q)
  show ?thesis
  proof (cases "rc_reality r")
    case None
    with Some show ?thesis by (simp add: fill_clientless_steps_def)
  next
    case (Some re)
    let ?q1 = "fill_circleci E rx r re q"
    show ?thesis
    proof (cases "fill_release E rx r re ?q1")
      case None
      then have "\<not> pred_option watch_ok (su_release (rc_setup r))"
        by (auto simp: fill_release_def release_step_nil split: option.splits if_splits)
      then show ?thesis using Some None \<open>res = Some q\<close> by (simp add: fill_clientless_steps_def)
    next
      case (Some q2)
      have "rewritten_steps (\<lambda>s. clientless s \<and> sr_step s = StepCircleCI \<or> clientless s \<and> sr_step s = StepRelease) q q2"
        using fill_circleci_rewrites [OF assms] fill_release_rewrites [OF assms Some]
        by (rule rewritten_trans) auto
      then have "rewritten_steps (\<lambda>s. clientless s \<and> sr_step s \<in> {StepCircleCI, StepRelease}) q q2"
        by (auto simp: rewritten_steps_def)
      from converge_rewrites [OF this, of E] show ?thesis
        using Some \<open>res = Some q\<close> \<open>rc_reality r = Some re\<close>
        by (auto simp: fill_clientless_steps_def converge_def list_all_iff)
    qed
  qed
qed

definition sample_result :: result where
  "sample_result = \<lparr>res_repository = ''o/r'', res_mode = ModeCheck,
     res_steps = [step_of StepScaffold VerdictOK, (step_of StepCircleCI VerdictSkipped)\<lparr>sr_summary := noCircleCIClient\<rparr>],
     res_converged = False\<rparr>"

theorem fill_clientless_frame_witness:
  "\<exists>q'. fill_clientless_steps sample_engine (\<lambda>_. None) (Some sample_result)
      (zero_record\<lparr>rc_reality := Some zero_reality\<rparr>) = Some (Some q') \<and>
     length (res_steps q') = 2 \<and> res_steps q' ! 0 = step_of StepScaffold VerdictOK"
proof -
  let ?r = "zero_record\<lparr>rc_reality := Some zero_reality\<rparr>"
  let ?f = "fill_clientless_steps sample_engine (\<lambda>_. None) (Some sample_result) ?r"
  note F = fill_clientless_frame [OF sample_engine_ok, of "\<lambda>_. None" "Some sample_result" ?r]
  have "su_release (rc_setup ?r) = None" by (simp add: zero_record_def zero_setup_def)
  then obtain out where o: "?f = Some out" using F by (cases ?f) (auto split: option.splits)
  then obtain q' where "out = Some q'" and q:
    "rewritten_steps (\<lambda>s. clientless s \<and> sr_step s \<in> {StepCircleCI, StepRelease}) sample_result q'"
    using F by auto
  with o q show ?thesis by (auto simp: rewritten_steps_def sample_result_def step_of_def)
qed

end
