(* ===== verification/ReleaseWatchProps.thy ===== *)
theory ReleaseWatchProps
  imports ReleaseWatch StepsProps
begin

text \<open>
  What the release watch promises: a pipeline is red or built by its newest workflows, a pass
  never dereferences a missing pipeline and keeps the watch well-formed, the team hears of a
  release once, and the tags the watch reads are exactly the ones of the regular expression.
\<close>

section \<open>The verdict on a pipeline\<close>

definition red_run :: "engine \<Rightarrow> 's cc_client \<Rightarrow> (string \<Rightarrow> cc_job list) \<Rightarrow> cc_workflow \<Rightarrow> bool" where
  "red_run E CL jobs run \<longleftrightarrow> ck_failed CL (wf_status run) \<and> \<not> release_only E (jobs (wf_id run))"

definition green_run :: "engine \<Rightarrow> 's cc_client \<Rightarrow> (string \<Rightarrow> cc_job list) \<Rightarrow> cc_workflow \<Rightarrow> bool" where
  "green_run E CL jobs run \<longleftrightarrow>
     (if ck_failed CL (wf_status run) then release_only E (jobs (wf_id run)) else ck_succeeded CL (wf_status run))"

definition moving_run :: "'s cc_client \<Rightarrow> cc_workflow \<Rightarrow> bool" where
  "moving_run CL run \<longleftrightarrow> \<not> ck_failed CL (wf_status run) \<and> \<not> ck_succeeded CL (wf_status run) \<and>
     wf_status run \<noteq> workflowNotRun"

text \<open>CircleCI's answer for a workflow's jobs while the pass reads them.\<close>

definition jobs_are :: "'s cc_client \<Rightarrow> (string \<Rightarrow> cc_job list) \<Rightarrow> bool" where
  "jobs_are CL jobs \<longleftrightarrow> (\<forall>i s s' js. ck_jobs CL i s = (s', Inr js) \<longrightarrow> js = jobs i)"

lemma read_workflow_verdict:
  assumes "jobs_are CL jobs" and "read_workflow E CL org name run tp s = (s', tp', None)"
  shows "(tp_failed tp' \<noteq> [] \<longleftrightarrow> tp_failed tp \<noteq> [] \<or> red_run E CL jobs run) \<and>
    (tp_running tp' \<longleftrightarrow> tp_running tp \<or> moving_run CL run) \<and>
    tp_succeeded tp' = tp_succeeded tp + (if green_run E CL jobs run then 1 else 0)"
proof (cases "ck_failed CL (wf_status run)")
  case True
  obtain s1 a where j: "ck_jobs CL (wf_id run) s = (s1, a)" by fastforce
  with assms(2) True obtain js where a: "a = Inr js"
    by (cases a) (auto simp: read_workflow_def Let_def)
  with j assms(1) have js: "js = jobs (wf_id run)" by (auto simp: jobs_are_def)
  show ?thesis
  proof (cases "release_only E js")
    case True
    then have "tp' = tp\<lparr>tp_workflows := tp_workflows tp @ [wf_name run @ '' ('' @ wf_status run @ '')''],
        tp_succeeded := tp_succeeded tp + 1\<rparr>"
      using assms(2) \<open>ck_failed CL (wf_status run)\<close> j a by (simp add: read_workflow_def Let_def)
    then show ?thesis
      using True js \<open>ck_failed CL (wf_status run)\<close> by (simp add: red_run_def green_run_def moving_run_def)
  next
    case False
    then have "tp_failed tp' \<noteq> []" "tp_running tp' = tp_running tp" "tp_succeeded tp' = tp_succeeded tp"
      using assms(2) \<open>ck_failed CL (wf_status run)\<close> j a
      by (auto simp: read_workflow_def Let_def split: if_splits)
    then show ?thesis
      using False js \<open>ck_failed CL (wf_status run)\<close> by (simp add: red_run_def green_run_def moving_run_def)
  qed
next
  case False
  then show ?thesis
    using assms(2) by (auto simp: read_workflow_def Let_def red_run_def green_run_def moving_run_def split: if_splits)
qed

lemma read_workflows_verdict:
  assumes "jobs_are CL jobs" and "read_workflows E CL org name runs tp s = (s', tp', None)"
  shows "(tp_failed tp' \<noteq> [] \<longleftrightarrow> tp_failed tp \<noteq> [] \<or> list_ex (red_run E CL jobs) runs) \<and>
    (tp_running tp' \<longleftrightarrow> tp_running tp \<or> list_ex (moving_run CL) runs) \<and>
    tp_succeeded tp' = tp_succeeded tp + int (length (filter (green_run E CL jobs) runs))"
  using assms(2)
proof (induction runs arbitrary: tp s)
  case (Cons run runs)
  obtain s1 tp1 err where one: "read_workflow E CL org name run tp s = (s1, tp1, err)" by (metis surj_pair)
  with Cons.prems have err: "err = None" and rest: "read_workflows E CL org name runs tp1 s1 = (s', tp', None)"
    by (auto split: option.splits)
  note O = read_workflow_verdict [OF assms(1) one [unfolded err]]
  note I = Cons.IH [OF rest]
  have f: "tp_failed tp' \<noteq> [] \<longleftrightarrow> tp_failed tp \<noteq> [] \<or> list_ex (red_run E CL jobs) (run # runs)"
    using O I by simp
  have r: "tp_running tp' \<longleftrightarrow> tp_running tp \<or> list_ex (moving_run CL) (run # runs)"
    using O I by simp
  have "tp_succeeded tp' = tp_succeeded tp + int (length (filter (green_run E CL jobs) (run # runs)))"
    using O I by (cases "green_run E CL jobs run") simp_all
  with f r show ?case by blast
qed simp

text \<open>
  C18. The verdict on a tag's pipeline. Where \<open>ReadTagPipeline\<close> read everything, the pipeline is red
  exactly when one of its newest workflow runs failed with more than the publication of the
  release, whatever still runs, and built exactly when none did, none is still moving and at least
  one is green, a failure of the publication alone counting as green; so it is never both.
\<close>
theorem tag_pipeline_verdict:
  assumes "jobs_are CL jobs"
    and "ck_workflows CL (pl_id p) s = (s1, Inr runs)"
    and "read_tag_pipeline E CL org name p s = (s', tp, None)"
  shows "(Red tp \<longleftrightarrow> (\<exists>run \<in> set (ck_newest CL runs). red_run E CL jobs run)) \<and>
    (Built tp \<longleftrightarrow> (\<forall>run \<in> set (ck_newest CL runs). \<not> red_run E CL jobs run \<and> \<not> moving_run CL run) \<and>
       (\<exists>run \<in> set (ck_newest CL runs). green_run E CL jobs run))"
proof -
  let ?tp0 = "\<lparr>tp_pipeline = \<lparr>rp_number = pl_number p, rp_url = ck_pipeline_url CL org name (pl_number p),
      rp_workflow = []\<rparr>, tp_workflows = [], tp_failed = [], tp_running = False, tp_succeeded = 0\<rparr>"
  have r: "read_workflows E CL org name (ck_newest CL runs) ?tp0 s1 = (s', tp, None)"
    using assms(2,3) by (simp add: read_tag_pipeline_def Let_def)
  note V = read_workflows_verdict [OF assms(1) r, simplified]
  have "(0 < int (length (filter (green_run E CL jobs) (ck_newest CL runs)))) \<longleftrightarrow>
      (\<exists>run \<in> set (ck_newest CL runs). green_run E CL jobs run)"
    by (auto simp: filter_empty_conv)
  then show ?thesis using V by (auto simp: Red_def Built_def list_ex_iff)
qed

definition sample_circle :: "cc_workflow list \<Rightarrow> cc_job list \<Rightarrow> nat cc_client" where
  "sample_circle runs jobs = \<lparr>ck_find = (\<lambda>ow n t. io_ret (Some \<lparr>pl_id = ''p'', pl_number = 7\<rparr>)),
     ck_workflows = (\<lambda>i. io_ret runs), ck_jobs = (\<lambda>i. io_ret jobs), ck_newest = (\<lambda>rs. rs),
     ck_failed = (\<lambda>st. st = ''failed''), ck_succeeded = (\<lambda>st. st = ''success''),
     ck_pipeline_url = (\<lambda>ow n k. ''u''), ck_workflow_url = (\<lambda>ow n k i. ''w'')\<rparr>"

lemma sample_circle_simps [simp]:
  "ck_find (sample_circle runs jobs) ow n t = io_ret (Some \<lparr>pl_id = ''p'', pl_number = 7\<rparr>)"
  "ck_workflows (sample_circle runs jobs) i = io_ret runs" "ck_jobs (sample_circle runs jobs) i = io_ret jobs"
  "ck_newest (sample_circle runs jobs) rs = rs"
  "ck_failed (sample_circle runs jobs) st \<longleftrightarrow> st = ''failed''"
  "ck_succeeded (sample_circle runs jobs) st \<longleftrightarrow> st = ''success''"
  "ck_pipeline_url (sample_circle runs jobs) ow n k = ''u''"
  "ck_workflow_url (sample_circle runs jobs) ow n k i = ''w''"
  by (simp_all add: sample_circle_def)

lemma sample_jobs_are: "jobs_are (sample_circle runs jobs) (\<lambda>i. jobs)"
  by (auto simp: jobs_are_def)

theorem tag_pipeline_verdict_witness:
  "\<exists>s' tp. read_tag_pipeline sample_engine
      (sample_circle [\<lparr>wf_id = ''a'', wf_name = ''build'', wf_status = ''success''\<rparr>] []) ''o'' ''r''
      \<lparr>pl_id = ''p'', pl_number = 7\<rparr> 0 = (s', tp, None) \<and> Built tp \<and> \<not> Red tp"
proof -
  let ?CL = "sample_circle [\<lparr>wf_id = ''a'', wf_name = ''build'', wf_status = ''success''\<rparr>] []"
  let ?p = "\<lparr>pl_id = ''p'', pl_number = 7\<rparr>"
  obtain s' tp where r: "read_tag_pipeline sample_engine ?CL ''o'' ''r'' ?p 0 = (s', tp, None)"
    by (simp add: read_tag_pipeline_def read_workflow_def Let_def)
  have "Built tp \<and> \<not> Red tp"
    using tag_pipeline_verdict [OF sample_jobs_are _ r] by (simp add: red_run_def green_run_def moving_run_def)
  with r show ?thesis by blast
qed

section \<open>The watch of one repository\<close>

lemma settle_simps [simp]:
  "rw_state (settle now st w) = st" "rw_pipeline (settle now st w) = rw_pipeline w"
  "rw_told (settle now st w) = rw_told w" "rw_tag (settle now st w) = rw_tag w"
  "rw_createdAt (settle now st w) = rw_createdAt w"
  by (simp_all add: settle_def)

text \<open>A read of the release leaves its tag and its notice alone, keeps the watch well-formed and
  calls a release unbuilt only once the grace period is over.\<close>

lemma read_release_frame:
  assumes "read_release E CL opts org name now w s = (s', w')"
  shows "rw_tag w' = rw_tag w" and "rw_told w' = rw_told w" and "rw_createdAt w' = rw_createdAt w"
    and "watch_ok w \<Longrightarrow> watch_ok w'"
    and "rw_state w' = ReleaseUnbuilt \<Longrightarrow> rw_state w = ReleaseUnbuilt \<or>
      ro_grace opts \<le> time_sub now (rw_createdAt w)"
  using assms
  by (auto simp: read_release_def Let_def watch_ok_def split: prod.splits sum.splits option.splits if_splits)

lemma new_watch_simps [simp]:
  "rw_tag (new_watch l re now) = lt_tagName l" "rw_told (new_watch l re now) = []"
  "rw_createdAt (new_watch l re now) = published_at l"
  by (simp_all add: new_watch_def zero_release_watch_def settle_def Let_def)

lemma new_watch_state: "rw_state (new_watch l re now) = ReleaseWatching \<or> rw_state (new_watch l re now) = ReleaseUnchecked"
  by (simp add: new_watch_def Let_def)

lemma new_watch_ok: "watch_ok (new_watch l re now)"
  using new_watch_state [of l re now] by (auto simp: watch_ok_def)

lemma tell_release_frame:
  assumes "tell_release hook now r w s = (s', w', posted)"
  shows "rw_tag w' = rw_tag w" and "rw_state w' = rw_state w" and "rw_pipeline w' = rw_pipeline w"
    and "rw_createdAt w' = rw_createdAt w"
    and "rw_told w \<noteq> [] \<Longrightarrow> rw_told w' = rw_told w \<and> \<not> posted"
    and "posted \<Longrightarrow> (rw_state w = ReleaseRed \<or> rw_state w = ReleaseUnbuilt) \<and> rw_told w' \<noteq> []"
  using assms
  by (auto simp: tell_release_def untold_def Let_def split: if_splits option.splits prod.splits)

lemma rewrite_release_step_total:
  assumes "watch_ok w"
  shows "\<exists>r'. rewrite_release_step E rx (with_release r w) = Some r' \<and>
    su_release (rc_setup r') = Some w \<and> su_told (rc_setup r') = su_told (rc_setup r)"
proof -
  have "release_step E rx a b c rel d lr (Some w) \<noteq> None" for a b c rel d lr
    using assms by (simp add: release_step_nil)
  then have "rewrite_release_step E rx (with_release r w) \<noteq> None"
    by (auto simp: rewrite_release_step_def with_release_def split: option.splits)
  then obtain r' where r': "rewrite_release_step E rx (with_release r w) = Some r'" by blast
  then have "su_release (rc_setup r') = Some w \<and> su_told (rc_setup r') = su_told (rc_setup r)"
    by (auto simp: rewrite_release_step_def with_release_def split: option.splits if_splits)
  with r' show ?thesis by blast
qed

text \<open>What a stored record says of the watch it replaced (\<open>w0\<close>, before the read of this pass).\<close>

definition told_once :: "release_options \<Rightarrow> time \<Rightarrow> release_watch \<Rightarrow> watched \<Rightarrow> repo_record \<Rightarrow> bool" where
  "told_once opts now w0 out r' \<longleftrightarrow> (\<exists>w'. su_release (rc_setup r') = Some w' \<and> watch_ok w' \<and>
     rw_tag w' = rw_tag w0 \<and>
     (rw_told w0 \<noteq> [] \<longrightarrow> rw_told w' = rw_told w0 \<and> \<not> wd_told out) \<and>
     (wd_told out \<longrightarrow> (rw_state w' = ReleaseRed \<or> rw_state w' = ReleaseUnbuilt) \<and> rw_told w' \<noteq> []) \<and>
     (rw_state w' = ReleaseUnbuilt \<longrightarrow> rw_state w0 = ReleaseUnbuilt \<or>
        ro_grace opts \<le> time_sub now (rw_createdAt w0)) \<and>
     (wd_watching out \<longleftrightarrow> following (Some w')))"

lemma proceed_told_once:
  assumes "watch_ok w0"
  shows "\<exists>s' r' out. proceed E rx CL hook opts org name now started r w0 s = Some (s', r', out) \<and>
    told_once opts now w0 out r'"
proof -
  obtain s1 w1 where rd: "(if following (Some w0) then read_release E CL opts org name now w0 s else (s, w0)) = (s1, w1)"
    by fastforce
  have w1: "rw_tag w1 = rw_tag w0" "rw_told w1 = rw_told w0" "watch_ok w1"
    "rw_state w1 = ReleaseUnbuilt \<Longrightarrow> rw_state w0 = ReleaseUnbuilt \<or> ro_grace opts \<le> time_sub now (rw_createdAt w0)"
    using read_release_frame [of E CL opts org name now w0 s s1 w1] rd assms
    by (auto split: if_splits)
  obtain r1 where r1: "rewrite_release_step E rx (with_release r w1) = Some r1" "su_release (rc_setup r1) = Some w1"
    using rewrite_release_step_total [OF w1(3)] by blast
  obtain s2 w2 posted where t: "tell_release hook now (finalize E r1) w1 s1 = (s2, w2, posted)" by (metis surj_pair)
  note T = tell_release_frame [OF t]
  have "watch_ok w2" using w1(3) T by (simp add: watch_ok_def)
  then show ?thesis
    using rd r1 t T w1 by (auto simp: proceed_def told_once_def with_release_def Let_def)
qed

lemma starts_Some: "starts wt node = Some l \<Longrightarrow> map_option rw_tag wt \<noteq> Some (lt_tagName l)"
  by (auto simp: starts_def split: option.splits if_splits)

lemma starts_None_fresh:
  "starts None node = None \<Longrightarrow> read_latest_release r re node = (r', fresh) \<Longrightarrow> \<not> fresh"
  by (auto simp: starts_def page_release_def read_latest_release_def release_of_def split: option.splits)

text \<open>
  C19. One pass over a repository, from a well-formed watch. It never dereferences a missing
  pipeline. Where it stores the record, the watch it stores is well-formed; it is either the
  release followed so far, whose notice is kept and never sent again once the team was told, or
  the page's other tag, not told yet; the team is told only of a release that ended red or unbuilt;
  and a release is called unbuilt only once its grace period is over.
\<close>
theorem watch_tells_once:
  assumes "pred_option watch_ok (su_release (rc_setup r))"
  shows "\<exists>s' stored out. watch_record E rx CL hook opts org name node now r s = Some (s', stored, out) \<and>
    (case stored of
       None \<Rightarrow> out = nothing_watched
     | Some r' \<Rightarrow> \<exists>w0. told_once opts now w0 out r' \<and>
         (su_release (rc_setup r) = Some w0 \<or>
          rw_told w0 = [] \<and> map_option rw_tag (su_release (rc_setup r)) \<noteq> Some (rw_tag w0)))"
proof (cases "\<exists>d re. rc_declaration r = Some d \<and> rc_reality r = Some re \<and> \<not> re_isArchived re")
  case False
  then have "watch_record E rx CL hook opts org name node now r s = Some (s, None, nothing_watched)"
    by (auto simp: watch_record_def split: option.splits)
  then show ?thesis by simp
next
  case True
  then obtain d re where rec: "rc_declaration r = Some d" "rc_reality r = Some re" "\<not> re_isArchived re" by blast
  obtain r' fresh where rl: "read_latest_release r re node = (r', fresh)" by fastforce
  let ?wt = "su_release (rc_setup r)"
  let ?res = "watch_record E rx CL hook opts org name node now r s"
  show ?thesis
  proof (cases "starts ?wt node")
    case (Some l)
    let ?w0 = "new_watch l re now"
    obtain s' r'' out where p: "proceed E rx CL hook opts org name now True r' ?w0 s = Some (s', r'', out)"
      "told_once opts now ?w0 out r''" by (metis proceed_told_once new_watch_ok)
    then have "?res = Some (s', Some r'', out)" using rec rl Some by (simp add: watch_record_def Let_def)
    with p(2) starts_Some [OF Some] show ?thesis by (auto intro!: exI [of _ ?w0])
  next
    case None
    show ?thesis
    proof (cases "\<not> following ?wt \<and> \<not> fresh")
      case True
      then have "?res = Some (s, None, nothing_watched)"
        using rec rl None by (simp add: watch_record_def Let_def)
      then show ?thesis by simp
    next
      case False
      then obtain w where w: "?wt = Some w"
        using None starts_None_fresh [OF _ rl] by (cases ?wt) (auto simp: following_def)
      obtain s' r'' out where p: "proceed E rx CL hook opts org name now False r' w s = Some (s', r'', out)"
        "told_once opts now w out r''" using proceed_told_once assms w by (metis option.pred_inject(2))
      then have "?res = Some (s', Some r'', out)"
        using rec rl None False w by (auto simp: watch_record_def Let_def)
      with p(2) w show ?thesis by auto
    qed
  qed
qed

definition told_watch :: release_watch where
  "told_watch = zero_release_watch\<lparr>rw_tag := ''v1.0.0'', rw_state := ReleaseRed, rw_told := ''said'',
     rw_pipeline := Some \<lparr>rp_number = 7, rp_url = ''u'', rp_workflow = ''w''\<rparr>\<rparr>"

definition told_record :: repo_record where
  "told_record = zero_record\<lparr>rc_declaration := Some zero_declaration, rc_reality := Some zero_reality,
     rc_setup := zero_setup\<lparr>su_release := Some told_watch\<rparr>\<rparr>"

theorem watch_tells_once_witness:
  "\<exists>s' r' out w'. watch_record sample_engine (\<lambda>_. None) (sample_circle [] []) None
      \<lparr>ro_interval = 0, ro_grace = 0, ro_anonymous = False\<rparr> ''o'' ''r'' None 5 told_record (0::nat) =
        Some (s', Some r', out) \<and>
     su_release (rc_setup r') = Some w' \<and> watch_ok w'"
proof -
  let ?opts = "\<lparr>ro_interval = 0, ro_grace = 0, ro_anonymous = False\<rparr>"
  let ?run = "watch_record sample_engine (\<lambda>_. None) (sample_circle [] []) None ?opts ''o'' ''r'' None 5 told_record (0::nat)"
  have "pred_option watch_ok (su_release (rc_setup told_record))"
    by (simp add: watch_ok_def told_watch_def told_record_def)
  from watch_tells_once [OF this, of sample_engine "\<lambda>_. None" "sample_circle [] []" None ?opts "''o''" "''r''" None 5 0]
  obtain s' stored out where o: "?run = Some (s', stored, out)"
    and c: "case stored of None \<Rightarrow> out = nothing_watched | Some r' \<Rightarrow> \<exists>w0. told_once ?opts 5 w0 out r' \<and>
         (su_release (rc_setup told_record) = Some w0 \<or>
          rw_told w0 = [] \<and> map_option rw_tag (su_release (rc_setup told_record)) \<noteq> Some (rw_tag w0))"
    by (elim exE conjE)
  have "stored \<noteq> None"
    using o by (auto simp: watch_record_def told_record_def zero_reality_def read_latest_release_def release_of_def
        starts_def page_release_def following_def told_watch_def)
  then obtain r' where "stored = Some r'" by blast
  moreover obtain w' where "su_release (rc_setup r') = Some w'" "watch_ok w'"
    using c \<open>stored = Some r'\<close> by (auto simp: told_once_def)
  ultimately show ?thesis using o by blast
qed

section \<open>The tags the watch reads\<close>

definition num_ok :: "string \<Rightarrow> bool" where
  "num_ok n \<longleftrightarrow> n = ''0'' \<or> (\<exists>d ds. n = d # ds \<and> CHR ''1'' \<le> d \<and> d \<le> CHR ''9'' \<and> list_all digit_char ds)"

definition suffix_ok :: "char \<Rightarrow> string \<Rightarrow> bool" where
  "suffix_ok c p \<longleftrightarrow> p = [] \<or> (\<exists>t. p = c # t \<and> t \<noteq> [] \<and> list_all suffix_char t)"

lemma leading_digit: "digit_char d \<and> d \<noteq> CHR ''0'' \<longleftrightarrow> CHR ''1'' \<le> d \<and> d \<le> CHR ''9''"
proof -
  let ?n = "of_char d :: nat"
  have "?n = of_char CHR ''0'' \<longleftrightarrow> d = CHR ''0''" by (simp only: of_char_eq_iff)
  then have z: "d = CHR ''0'' \<longleftrightarrow> ?n = 48" by simp
  show ?thesis unfolding digit_char_def less_eq_char_def z by simp linarith
qed

lemma digit_zero: "digit_char CHR ''0''"
  by (simp add: digit_char_def less_eq_char_def)

lemma num_ok_iff: "num_ok n \<longleftrightarrow> list_all digit_char n \<and> (n = ''0'' \<or> n \<noteq> [] \<and> hd n \<noteq> CHR ''0'')"
proof (cases n)
  case (Cons d ds)
  show ?thesis
    unfolding num_ok_def Cons using leading_digit [of d] digit_zero by (simp only: list.inject) auto
qed (simp add: num_ok_def)

lemma takeWhile_stop:
  assumes "list_all P n" and "r = [] \<or> \<not> P (hd r)"
  shows "takeWhile P (n @ r) = n" and "dropWhile P (n @ r) = r"
proof -
  have n: "\<forall>x \<in> set n. P x" using assms(1) by (simp add: list_all_iff)
  have r: "takeWhile P r = [] \<and> dropWhile P r = r" using assms(2) by (cases r) auto
  show "takeWhile P (n @ r) = n" "dropWhile P (n @ r) = r"
    using n r by (simp_all add: takeWhile_append2 dropWhile_append2)
qed

lemma version_number_iff:
  "version_number s = Some r \<longleftrightarrow> (\<exists>n. s = n @ r \<and> num_ok n \<and> (r = [] \<or> \<not> digit_char (hd r)))"
proof
  assume v: "version_number s = Some r"
  let ?n = "takeWhile digit_char s"
  have "?n = ''0'' \<or> ?n \<noteq> [] \<and> hd ?n \<noteq> CHR ''0''" "r = dropWhile digit_char s"
    using v by (auto simp: version_number_def Let_def split: if_splits)
  moreover have "list_all digit_char ?n" by (auto simp: list_all_iff dest: set_takeWhileD)
  ultimately have "num_ok ?n \<and> s = ?n @ r \<and> (r = [] \<or> \<not> digit_char (hd r))"
    using hd_dropWhile [of digit_char s] by (auto simp: num_ok_iff)
  then show "\<exists>n. s = n @ r \<and> num_ok n \<and> (r = [] \<or> \<not> digit_char (hd r))" by blast
next
  assume "\<exists>n. s = n @ r \<and> num_ok n \<and> (r = [] \<or> \<not> digit_char (hd r))"
  then obtain n where n: "s = n @ r" "num_ok n" "r = [] \<or> \<not> digit_char (hd r)" by blast
  then have "takeWhile digit_char s = n" "dropWhile digit_char s = r"
    using takeWhile_stop [of digit_char n r] by (auto simp: num_ok_iff)
  then show "version_number s = Some r" using n(2) by (simp add: version_number_def num_ok_iff Let_def)
qed

lemma expect_char_iff: "expect_char c s = Some t \<longleftrightarrow> s = c # t"
  by (cases s) (auto simp: expect_char_def)

lemma version_suffix_iff:
  assumes "r = [] \<or> \<not> suffix_char (hd r) \<and> hd r \<noteq> c"
  shows "version_suffix c s = Some r \<longleftrightarrow> (\<exists>p. s = p @ r \<and> suffix_ok c p)"
proof (cases "expect_char c s")
  case None
  then show ?thesis by (auto simp: version_suffix_def suffix_ok_def expect_char_def split: list.splits if_splits)
next
  case (Some t)
  then have s: "s = c # t" by (simp add: expect_char_iff)
  show ?thesis
  proof
    assume v: "version_suffix c s = Some r"
    then have "takeWhile suffix_char t \<noteq> []" "r = dropWhile suffix_char t"
      using Some by (auto simp: version_suffix_def split: if_splits)
    then show "\<exists>p. s = p @ r \<and> suffix_ok c p"
      by (intro exI [of _ "c # takeWhile suffix_char t"])
        (auto simp: s suffix_ok_def list_all_iff dest: set_takeWhileD)
  next
    assume "\<exists>p. s = p @ r \<and> suffix_ok c p"
    then obtain u where "t = u @ r" "u \<noteq> []" "list_all suffix_char u"
      using assms s by (auto simp: suffix_ok_def)
    then have "takeWhile suffix_char t = u" "dropWhile suffix_char t = r"
      using takeWhile_stop [of suffix_char u r] assms by auto
    then show "version_suffix c s = Some r"
      using Some \<open>u \<noteq> []\<close> by (simp add: version_suffix_def)
  qed
qed

lemma separators: "\<not> digit_char CHR ''.''" "\<not> digit_char CHR ''-''" "\<not> digit_char CHR ''+''"
    "\<not> suffix_char CHR ''+''"
  by (simp_all add: digit_char_def suffix_char_def less_eq_char_def)

text \<open>
  The tags the watch reads are exactly the ones its regular expression matches: \<open>v\<close>, three
  numbers without leading zeros between dots, then optionally a pre-release after a dash and build
  metadata after a plus.
\<close>
theorem release_tag_expression:
  "is_release_tag tag \<longleftrightarrow> (\<exists>a b c pre build. tag = ''v'' @ a @ ''.'' @ b @ ''.'' @ c @ pre @ build \<and>
     num_ok a \<and> num_ok b \<and> num_ok c \<and> suffix_ok CHR ''-'' pre \<and> suffix_ok CHR ''+'' build)"
proof
  assume "is_release_tag tag"
  then obtain s1 s2 s3 s4 s5 s6 s7 where
    t: "tag = CHR ''v'' # s1" "s2 = CHR ''.'' # s3" "s4 = CHR ''.'' # s5"
    and v: "version_number s1 = Some s2" "version_number s3 = Some s4" "version_number s5 = Some s6"
    and pre: "version_suffix CHR ''-'' s6 = Some s7"
    and last: "version_suffix CHR ''+'' s7 = Some []"
    by (auto simp: is_release_tag_def bind_eq_Some_conv expect_char_iff)
  have b: "suffix_ok CHR ''+'' s7"
    using last version_suffix_iff [of "[]" "CHR ''+''" s7] by auto
  then have "s7 = [] \<or> \<not> suffix_char (hd s7) \<and> hd s7 \<noteq> CHR ''-''"
    using separators by (auto simp: suffix_ok_def)
  from version_suffix_iff [OF this] pre obtain p where p: "s6 = p @ s7" "suffix_ok CHR ''-'' p" by blast
  obtain a b c where "s1 = a @ s2" "num_ok a" "s3 = b @ s4" "num_ok b" "s5 = c @ s6" "num_ok c"
    using v unfolding version_number_iff by blast
  with t p b show "\<exists>a b c pre build. tag = ''v'' @ a @ ''.'' @ b @ ''.'' @ c @ pre @ build \<and>
     num_ok a \<and> num_ok b \<and> num_ok c \<and> suffix_ok CHR ''-'' pre \<and> suffix_ok CHR ''+'' build"
    by (intro exI [of _ a] exI [of _ b] exI [of _ c] exI [of _ p] exI [of _ s7]) simp
next
  assume "\<exists>a b c pre build. tag = ''v'' @ a @ ''.'' @ b @ ''.'' @ c @ pre @ build \<and>
     num_ok a \<and> num_ok b \<and> num_ok c \<and> suffix_ok CHR ''-'' pre \<and> suffix_ok CHR ''+'' build"
  then obtain a b c pre build where t: "tag = ''v'' @ a @ ''.'' @ b @ ''.'' @ c @ pre @ build"
    "num_ok a" "num_ok b" "num_ok c" "suffix_ok CHR ''-'' pre" "suffix_ok CHR ''+'' build" by blast
  have build: "build = [] \<or> \<not> suffix_char (hd build) \<and> hd build \<noteq> CHR ''-''"
    using t(6) separators by (auto simp: suffix_ok_def)
  have "version_suffix CHR ''-'' (pre @ build) = Some build"
    using version_suffix_iff [OF build] t(5) by blast
  moreover have "version_suffix CHR ''+'' build = Some []" using version_suffix_iff [of "[]"] t(6) by auto
  moreover have "version_number (c @ pre @ build) = Some (pre @ build)"
    using t(4-6) separators unfolding version_number_iff by (intro exI [of _ c]) (auto simp: suffix_ok_def)
  moreover have "version_number (b @ ''.'' @ c @ pre @ build) = Some (''.'' @ c @ pre @ build)"
    "version_number (a @ ''.'' @ b @ ''.'' @ c @ pre @ build) = Some (''.'' @ b @ ''.'' @ c @ pre @ build)"
    using t(2,3) separators unfolding version_number_iff by auto
  ultimately show "is_release_tag tag" using t(1) by (simp add: is_release_tag_def expect_char_def)
qed

end
