(* ===== verification/CIFactsProps.thy ===== *)
theory CIFactsProps
  imports CIFacts "HOL-Library.Multiset"
begin

text \<open>
  What the CI facts promise: when the artifacts count as signed, how the facts agree with each
  other, and which of them depend on the order Go takes a document's workflows in.
\<close>

section \<open>Signing\<close>







section \<open>The order of the workflows\<close>

text \<open>The lists go-build jobs name: where they agree, which job comes last does not matter.\<close>

definition goBuild_lists :: "job_use list \<Rightarrow> string set" where
  "goBuild_lists goBuilds = (\<lambda>g. string_param g ''platforms'') ` set goBuilds - {[]}"

lemma fold_last_wins:
  "fold (\<lambda>g l. if f g \<noteq> [] then f g else l) gs d =
     (if f ` set gs - {[]} = {} then d else last (filter (\<lambda>x. x \<noteq> []) (map f gs)))"
  by (induction gs arbitrary: d) (auto simp: image_iff filter_empty_conv)

lemma last_of_one: "xs \<noteq> [] \<Longrightarrow> set xs \<subseteq> {x} \<Longrightarrow> last xs = x"
  by (metis last_in_set singletonD subset_iff)

lemma buildx_list_any_order:
  assumes "set gs = set hs" and "goBuild_lists gs \<subseteq> {x}"
  shows "buildx_list gs = buildx_list hs"
proof -
  let ?f = "\<lambda>g. string_param g ''platforms''"
  have same: "goBuild_lists hs = goBuild_lists gs" using assms(1) by (simp add: goBuild_lists_def)
  have l: "\<And>ks. set ks = set gs \<Longrightarrow> ?f ` set ks - {[]} \<noteq> {} \<Longrightarrow> last (filter (\<lambda>x. x \<noteq> []) (map ?f ks)) = x"
    using assms(2) by (intro last_of_one) (auto simp: goBuild_lists_def filter_empty_conv)
  show ?thesis
    unfolding buildx_list_def fold_last_wins using l [of gs] l [of hs] assms(1) by simp
qed

lemma named_set: "set (named ns jobs) = {j \<in> set jobs. ju_name j \<in> set ns}"
  by (auto simp: named_def)

lemma named_mset: "mset jobs = mset jobs' \<Longrightarrow> mset (named ns jobs) = mset (named ns jobs')"
  by (simp add: named_def)

lemma image_platforms_any_order:
  assumes "set ps = set ps'" "set bs = set bs'" "set gs = set gs'" "goBuild_lists gs \<subseteq> {x}"
  shows "image_platforms orb ps bs gs = image_platforms orb ps' bs' gs'"
proof -
  have b: "buildx_list gs = buildx_list gs'" using assms(3,4) by (rule buildx_list_any_order)
  have one: "\<And>p. set (push_platforms orb bs gs p) = set (push_platforms orb bs' gs' p)"
    by (simp add: push_platforms_def b assms(2))
  let ?a = "concat (map (push_platforms orb bs gs) ps)"
  let ?b = "concat (map (push_platforms orb bs' gs') ps')"
  have s: "set ?a = set ?b" using assms(1) one by simp
  have "sort (remdups ?a) = sort (remdups ?b)"
    using s by (metis sorted_list_of_set_sort_remdups)
  moreover have "?a = [] \<longleftrightarrow> ?b = []" using s by (metis set_empty)
  ultimately show ?thesis unfolding image_platforms_def Let_def using s by simp
qed

lemma china_custom_sets:
  "china_custom ps custom =
     (if \<exists>p \<in> set ps. bool_param p ''split-china-push'' then ChinaPushSplit
      else if custom \<or> (\<exists>p \<in> set ps. string_param p ''registries-data'' \<noteq> []) then ChinaPushCustom
      else ChinaPushInline)"
  by (induction ps custom rule: china_custom.induct) auto

lemma china_push_any_order: "set ps = set ps' \<Longrightarrow> china_push ps sync = china_push ps' sync"
  unfolding china_push_def china_custom_sets using set_empty [of ps] set_empty [of ps'] by simp

lemma signing_any_order:
  assumes "mset ps = mset ps'" "mset cs = mset cs'"
  shows "signing orb ps cs public = signing orb ps' cs' public"
proof -
  have m: "mset (map job_name (filter sign_off (ps @ cs))) = mset (map job_name (filter sign_off (ps' @ cs')))"
    using assms by simp
  have e: "ps = [] \<longleftrightarrow> ps' = []" "cs = [] \<longleftrightarrow> cs' = []" using assms by (metis mset_zero_iff)+
  have n: "map job_name (filter sign_off (ps @ cs)) = [] \<longleftrightarrow> map job_name (filter sign_off (ps' @ cs')) = []"
    using m by (metis mset_zero_iff)
  have s: "sort (map job_name (filter sign_off (ps @ cs))) = sort (map job_name (filter sign_off (ps' @ cs')))"
    using m by (metis sorted_list_of_multiset_mset)
  show ?thesis unfolding signing_def Let_def e n s by (rule refl)
qed

text \<open>Go takes a document's workflows, and the keys of a job entry, in an order it leaves open. Two
  readings of the same files differ in the order of the jobs only; then the facts other than the
  job list itself are the same and the job lists hold the same jobs, provided the go-build jobs
  name at most one list of platforms. Without that the platforms recorded depend on the order:
  the last go-build job's list wins.\<close>

theorem facts_any_order:
  assumes "mset (cr_jobs a) = mset jobs'"
    and "goBuild_lists (named [jobGoBuild] (cr_jobs a)) \<subseteq> {x}"
  shows "(jobs_facts (a\<lparr>cr_jobs := jobs'\<rparr>) public)\<lparr>ci_jobs := []\<rparr> = (jobs_facts a public)\<lparr>ci_jobs := []\<rparr> \<and>
         mset (ci_jobs (jobs_facts (a\<lparr>cr_jobs := jobs'\<rparr>) public)) = mset (ci_jobs (jobs_facts a public))"
proof -
  note m = named_mset [OF assms(1)]
  have s: "\<And>ns. set (named ns (cr_jobs a)) = set (named ns jobs')" using m by (metis set_mset_mset)
  have e: "\<And>ns. named ns (cr_jobs a) = [] \<longleftrightarrow> named ns jobs' = []" using m by (metis mset_zero_iff)
  note p = image_platforms_any_order [OF s s s assms(2)]
  show ?thesis
    using assms(1) by (simp add: jobs_facts_def Let_def p e signing_any_order [OF m m] china_push_any_order [OF s])
qed

definition two_builds :: ci_read where
  "two_builds = no_ci_read\<lparr>cr_orb := ''9.1.0'', cr_jobs :=
     [\<lparr>ju_name = jobPush, ju_params = []\<rparr>,
      \<lparr>ju_name = jobGoBuild, ju_params = [(''platforms'', YStr ''linux/amd64'')]\<rparr>,
      \<lparr>ju_name = jobGoBuild, ju_params = [(''name'', YStr ''other'')]\<rparr>]\<rparr>"

theorem facts_any_order_witness:
  "(jobs_facts (two_builds\<lparr>cr_jobs := rev (cr_jobs two_builds)\<rparr>) True)\<lparr>ci_jobs := []\<rparr> =
     (jobs_facts two_builds True)\<lparr>ci_jobs := []\<rparr> \<and>
   mset (ci_jobs (jobs_facts (two_builds\<lparr>cr_jobs := rev (cr_jobs two_builds)\<rparr>) True)) =
     mset (ci_jobs (jobs_facts two_builds True))"
proof (rule facts_any_order)
  show "mset (cr_jobs two_builds) = mset (rev (cr_jobs two_builds))" by simp
  have "string_param \<lparr>ju_name = jobGoBuild, ju_params = [(''platforms'', YStr ''linux/amd64'')]\<rparr> ''platforms''
        = ''linux/amd64''" by code_simp
  moreover have "string_param \<lparr>ju_name = jobGoBuild, ju_params = [(''name'', YStr ''other'')]\<rparr> ''platforms'' = []"
    by code_simp
  ultimately show "goBuild_lists (named [jobGoBuild] (cr_jobs two_builds)) \<subseteq> {''linux/amd64''}"
    by (auto simp: goBuild_lists_def named_def two_builds_def jobGoBuild_def jobPush_def)
qed

text \<open>The two orders of two go-build jobs with different lists give different platforms.\<close>

lemma platforms_follow_map_order:
  "image_platforms ''9.1.0'' [\<lparr>ju_name = jobPush, ju_params = []\<rparr>] []
     [\<lparr>ju_name = jobGoBuild, ju_params = [(''platforms'', YStr ''linux/amd64'')]\<rparr>,
      \<lparr>ju_name = jobGoBuild, ju_params = [(''platforms'', YStr ''linux/arm64'')]\<rparr>]
     = ([''linux/arm64''], Some True)"
  "image_platforms ''9.1.0'' [\<lparr>ju_name = jobPush, ju_params = []\<rparr>] []
     [\<lparr>ju_name = jobGoBuild, ju_params = [(''platforms'', YStr ''linux/arm64'')]\<rparr>,
      \<lparr>ju_name = jobGoBuild, ju_params = [(''platforms'', YStr ''linux/amd64'')]\<rparr>]
     = ([''linux/amd64''], Some False)"
  by code_simp+

end
