(* ===== verification/RealityProps.thy ===== *)
theory RealityProps
  imports Reality
begin

text \<open>
  What a record says of a repository's pull requests and commits, counted from its node.
\<close>

section \<open>Pull requests\<close>

definition pr_login :: "pr_node \<Rightarrow> string" where
  "pr_login p = (case pn_author p of None \<Rightarrow> [] | Some l \<Rightarrow> l)"

definition bot_pr :: "pr_node \<Rightarrow> bool" where
  "bot_pr p = is_bot (pr_login p) [] []"

definition renovate_pr :: "pr_node \<Rightarrow> bool" where
  "renovate_pr p \<longleftrightarrow> bot_pr p \<and> is_renovate (pr_login p) [] []"

definition listed_pr :: "pr_node \<Rightarrow> pull_request" where
  "listed_pr p = \<lparr>pr_number = pn_number p, pr_title = pn_title p, pr_author = pr_login p, pr_createdAt = pn_createdAt p\<rparr>"

definition onboarding_pr :: "pr_node \<Rightarrow> bool" where
  "onboarding_pr p = is_onboarding (pn_headRefName p) (pn_title p) (pr_login p)"

lemmas pr_words = pr_login_def bot_pr_def renovate_pr_def listed_pr_def onboarding_pr_def

definition earlier :: "time \<Rightarrow> time option \<Rightarrow> time option" where
  "earlier t o' = Some (case o' of None \<Rightarrow> t | Some u \<Rightarrow> min t u)"

definition later_pr :: "pull_request \<Rightarrow> pull_request option \<Rightarrow> pull_request option" where
  "later_pr p o' = Some (case o' of None \<Rightarrow> p | Some q \<Rightarrow> if pr_createdAt p > pr_createdAt q then p else q)"

lemma count_pr_step:
  "count_pr p (prs, ren) =
    (prs\<lparr>prs_bots := prs_bots prs + (if bot_pr p then 1 else 0),
        prs_renovate := prs_renovate prs + (if renovate_pr p then 1 else 0),
        prs_oldestBotAt := (if bot_pr p then earlier (pn_createdAt p) (prs_oldestBotAt prs) else prs_oldestBotAt prs),
        prs_onboarding := prs_onboarding prs @ (if onboarding_pr p then [listed_pr p] else [])\<rparr>,
     ren\<lparr>rn_lastPullRequest := (if renovate_pr p then later_pr (listed_pr p) (rn_lastPullRequest ren)
        else rn_lastPullRequest ren)\<rparr>)"
  by (auto simp: count_pr_def Let_def pr_words earlier_def later_pr_def split: option.splits)

lemma count_prs:
  "fold count_pr ps (prs, ren) =
    (prs\<lparr>prs_bots := prs_bots prs + int (length (filter bot_pr ps)),
        prs_renovate := prs_renovate prs + int (length (filter renovate_pr ps)),
        prs_oldestBotAt := fold (\<lambda>p. earlier (pn_createdAt p)) (filter bot_pr ps) (prs_oldestBotAt prs),
        prs_onboarding := prs_onboarding prs @ map listed_pr (filter onboarding_pr ps)\<rparr>,
     ren\<lparr>rn_lastPullRequest := fold (\<lambda>p. later_pr (listed_pr p)) (filter renovate_pr ps) (rn_lastPullRequest ren)\<rparr>)"
  by (induction ps arbitrary: prs ren) (auto simp: count_pr_step renovate_pr_def)

lemma fold_earlier:
  "fold (\<lambda>p. earlier (f p)) ps (Some t) = Some (Min (insert t (f ` set ps)))"
proof (induction ps arbitrary: t)
  case (Cons p ps)
  have "Min (insert t (insert (f p) (f ` set ps))) = Min (insert (min (f p) t) (f ` set ps))"
    by (cases "f ` set ps = {}") (auto simp: min.assoc min.commute min.left_commute)
  then show ?case using Cons by (simp add: earlier_def)
qed simp

lemma fold_earlier_None:
  "fold (\<lambda>p. earlier (f p)) ps None = (if ps = [] then None else Some (Min (f ` set ps)))"
proof (cases ps)
  case (Cons p ps')
  have "earlier (f p) None = Some (f p)" by (simp add: earlier_def)
  then show ?thesis using Cons by (simp add: fold_earlier)
qed simp

lemma fold_later:
  "\<exists>q. fold (\<lambda>p. later_pr (g p)) ps (Some r) = Some q \<and> (q = r \<or> q \<in> g ` set ps) \<and>
     pr_createdAt r \<le> pr_createdAt q \<and> (\<forall>p \<in> set ps. pr_createdAt (g p) \<le> pr_createdAt q)"
proof (induction ps arbitrary: r)
  case (Cons p ps)
  let ?r = "if pr_createdAt (g p) > pr_createdAt r then g p else r"
  obtain q where q: "fold (\<lambda>p. later_pr (g p)) ps (Some ?r) = Some q" "q = ?r \<or> q \<in> g ` set ps"
      "pr_createdAt ?r \<le> pr_createdAt q" "\<forall>p \<in> set ps. pr_createdAt (g p) \<le> pr_createdAt q"
    using Cons.IH [of ?r] by blast
  have "fold (\<lambda>p. later_pr (g p)) (p # ps) (Some r) = Some q" using q(1) by (simp add: later_pr_def)
  moreover have "q = r \<or> q \<in> g ` set (p # ps)" using q(2) by (auto split: if_splits)
  moreover have "pr_createdAt r \<le> pr_createdAt q \<and> pr_createdAt (g p) \<le> pr_createdAt q"
    using q(3) by (auto split: if_splits)
  ultimately show ?case using q(4) by auto
qed simp

lemma fold_later_None:
  "case fold (\<lambda>p. later_pr (g p)) ps None of
     None \<Rightarrow> ps = []
   | Some q \<Rightarrow> q \<in> g ` set ps \<and> (\<forall>p \<in> set ps. pr_createdAt (g p) \<le> pr_createdAt q)"
proof (cases ps)
  case (Cons p ps')
  then show ?thesis using fold_later [of g ps' "g p"] by (auto simp: later_pr_def)
qed simp

section \<open>Commits\<close>

definition cn_login :: "commit_node \<Rightarrow> string" where
  "cn_login c = (case cn_user c of None \<Rightarrow> [] | Some l \<Rightarrow> l)"

definition bot_commit :: "commit_node \<Rightarrow> bool" where
  "bot_commit c = is_bot (cn_login c) (cn_name c) (cn_email c)"

definition listed_commit :: "commit_node \<Rightarrow> commit" where
  "listed_commit c = \<lparr>cm_date = cn_committedDate c,
     cm_author = first_non_empty [cn_login c, cn_name c, cn_email c], cm_message = cn_message c\<rparr>"

definition renovate_commit :: "commit_node \<Rightarrow> bool" where
  "renovate_commit c \<longleftrightarrow> bot_commit c \<and> is_renovate (cn_login c) (cn_name c) (cn_email c)"

definition or_first :: "'a option \<Rightarrow> 'a list \<Rightarrow> 'a option" where
  "or_first o' xs = (case o' of Some x \<Rightarrow> Some x | None \<Rightarrow> (case xs of [] \<Rightarrow> None | x # _ \<Rightarrow> Some x))"

lemma count_commit_step:
  "count_commit c (r, ren) =
    (r\<lparr>re_lastCommit := or_first (re_lastCommit r) [listed_commit c],
       re_lastPersonCommit := (if bot_commit c then re_lastPersonCommit r
         else or_first (re_lastPersonCommit r) [listed_commit c]),
       re_botCommits := re_botCommits r + (if bot_commit c then 1 else 0)\<rparr>,
     ren\<lparr>rn_lastCommit := (if renovate_commit c then or_first (rn_lastCommit ren) [cn_committedDate c]
       else rn_lastCommit ren)\<rparr>)"
  by (auto simp: count_commit_def Let_def cn_login_def bot_commit_def listed_commit_def renovate_commit_def
      or_first_def split: option.splits)

lemma or_first_twice [simp]: "or_first (or_first o' [x]) xs = or_first o' (x # xs)"
  by (auto simp: or_first_def split: option.splits)

lemma or_first_Nil [simp]: "or_first o' [] = o'"
  by (auto simp: or_first_def split: option.splits)

lemma count_commits:
  "fold count_commit cs (r, ren) =
    (r\<lparr>re_lastCommit := or_first (re_lastCommit r) (map listed_commit cs),
       re_lastPersonCommit := or_first (re_lastPersonCommit r) (map listed_commit (filter (\<lambda>c. \<not> bot_commit c) cs)),
       re_botCommits := re_botCommits r + int (length (filter bot_commit cs))\<rparr>,
     ren\<lparr>rn_lastCommit := or_first (rn_lastCommit ren) (map cn_committedDate (filter renovate_commit cs))\<rparr>)"
  by (induction cs arbitrary: r ren) (auto simp: count_commit_step)

section \<open>The reality of a node\<close>

text \<open>C23.
  What a record says of a repository's open pull requests and sampled history. The counts are the
  bots' and Renovate's pull requests among those read and the people's the rest of the total, never
  negative; the oldest bot date is the least; Renovate's last pull request is one of Renovate's with
  none newer; the onboarding ones are listed in order. Of the history every commit is counted, the
  last commit is the first listed, the last of a person the first listed no bot made.\<close>

theorem reality_counts:
  "(case node_reality json org teams n of (re, ren) \<Rightarrow>
     let prs = re_openPullRequests re; h = (case node_history n of None \<Rightarrow> [] | Some h \<Rightarrow> h) in
     prs_bots prs = int (length (filter bot_pr (nd_prs n))) \<and>
     prs_renovate prs = int (length (filter renovate_pr (nd_prs n))) \<and> prs_renovate prs \<le> prs_bots prs \<and>
     prs_people prs = max 0 (nd_openPRs n - prs_bots prs) \<and>
     prs_oldestBotAt prs = (if filter bot_pr (nd_prs n) = [] then None
       else Some (Min (pn_createdAt ` set (filter bot_pr (nd_prs n))))) \<and>
     prs_onboarding prs = map listed_pr (filter onboarding_pr (nd_prs n)) \<and>
     (case rn_lastPullRequest ren of
        None \<Rightarrow> filter renovate_pr (nd_prs n) = []
      | Some q \<Rightarrow> q \<in> listed_pr ` set (filter renovate_pr (nd_prs n)) \<and>
          filter (\<lambda>p. renovate_pr p \<and> pn_createdAt p > pr_createdAt q) (nd_prs n) = []) \<and>
     re_historySampled re = int (length h) \<and> re_botCommits re = int (length (filter bot_commit h)) \<and>
     re_lastCommit re = or_first None (map listed_commit h) \<and>
     re_lastPersonCommit re = or_first None (map listed_commit (filter (\<lambda>c. \<not> bot_commit c) h)) \<and>
     rn_lastCommit ren = or_first None (map cn_committedDate (filter renovate_commit h)))"
proof -
  let ?ren0 = "(case node_renovate json n of None \<Rightarrow> zero_renovate | Some r \<Rightarrow> r)
      \<lparr>rn_dashboardIssue := dashboard (nd_oldestIssues n)\<rparr>"
  have z: "rn_lastPullRequest ?ren0 = None" "rn_lastCommit ?ren0 = None"
    by (auto simp: node_renovate_def renovate_state_def zero_renovate_def split: option.splits list.splits)
  have le: "length (filter renovate_pr ps) \<le> length (filter bot_pr ps)" for ps
    by (induction ps) (auto simp: renovate_pr_def)
  let ?last = "fold (\<lambda>p. later_pr (listed_pr p)) (filter renovate_pr (nd_prs n)) None"
  have last: "case ?last of None \<Rightarrow> filter renovate_pr (nd_prs n) = []
      | Some q \<Rightarrow> q \<in> listed_pr ` set (filter renovate_pr (nd_prs n)) \<and>
          filter (\<lambda>p. renovate_pr p \<and> pn_createdAt p > pr_createdAt q) (nd_prs n) = []"
    using fold_later_None [where g = listed_pr and ps = "filter renovate_pr (nd_prs n)"]
    by (auto simp: filter_empty_conv listed_pr_def split: option.splits)
  show ?thesis
    unfolding node_reality_def node_pull_requests_def Let_def count_prs
    using z le [of "nd_prs n"] last
    by (auto simp: count_commits fold_earlier_None zero_pull_requests_def zero_reality_def or_first_def
        split: option.splits)
qed

end
