(* ===== verification/Review.thy ===== *)
theory Review
  imports TeamFiles
begin

text \<open>
  internal/review/review.go: the client of the team-review endpoint. Reading the token file,
  encoding/json and net/http are the fields of \<open>gateway\<close>; the answer of a request is its status and
  the body as far as the client reads it.
\<close>

section \<open>The client\<close>

record review_config =
  rv_baseURL :: string
  rv_tokenFile :: string
  rv_audience :: string
  rv_debugChannel :: string

text \<open>\<open>DefaultAudience\<close>, and the text of \<open>ErrNotConfigured\<close>.\<close>

definition DefaultAudience :: string where "DefaultAudience = ''klaus-gateway''"
definition ErrNotConfigured :: string where
  "ErrNotConfigured = ''team-review endpoint not configured (REVIEWS_URL)''"

text \<open>A client is its configuration; \<open>None\<close> is the endpoint turned off.\<close>

definition new_review :: "review_config \<Rightarrow> string + review_config option" where
  "new_review cfg =
     (if rv_baseURL cfg = [] then Inr None
      else if rv_debugChannel cfg \<noteq> [] \<and> \<not> channelIDPattern (rv_debugChannel cfg) then
        Inl (rv_debugChannel cfg)
      else Inr (Some cfg))"

definition client_field :: "(review_config \<Rightarrow> string) \<Rightarrow> review_config option \<Rightarrow> string" where
  "client_field f c = (case c of None \<Rightarrow> [] | Some cfg \<Rightarrow> f cfg)"

definition review_debug_channel where "review_debug_channel = client_field rv_debugChannel"
definition review_url where "review_url = client_field rv_baseURL"
definition review_audience where "review_audience = client_field rv_audience"

section \<open>Messages\<close>

text \<open>The button's call: the tool with the pull request's number and the mode.\<close>

record approve_call =
  ap_tool :: string
  ap_pullRequest :: int
  ap_mode :: string

record notice =
  nt_team :: string
  nt_channel :: string
  nt_text :: string
  nt_link :: string
  nt_channelName :: string

record ask = notice +
  ak_approve :: approve_call

record posted =
  ps_id :: string
  ps_channel :: string
  ps_ts :: string

record http_request =
  hq_url :: string
  hq_authorization :: string
  hq_body :: string

record 's gateway =
  gw_token :: "string \<Rightarrow> ('s, string, string) io"
  gw_ask :: "ask \<Rightarrow> string + string"
  gw_notice :: "notice \<Rightarrow> string + string"
  gw_do :: "http_request \<Rightarrow> ('s, string, int \<times> string) io"
  gw_decode :: "string \<Rightarrow> string + posted"

datatype review_error =
    NotConfigured
  | TokenUnread string
  | NotEncoded string
  | PostFailed string string
  | Answered string int string
  | NotDecoded string

fun review_text :: "review_error \<Rightarrow> string" where
  "review_text NotConfigured = ErrNotConfigured"
| "review_text (TokenUnread e) = ''team-review: read the ServiceAccount token: '' @ e"
| "review_text (NotEncoded e) = e"
| "review_text (PostFailed path e) = ''team-review: POST '' @ path @ '': '' @ e"
| "review_text (Answered path status body) =
     ''team-review: POST '' @ path @ '' answered '' @ show_int status @ '': '' @ trim_space body"
| "review_text (NotDecoded e) = ''team-review: decode answer: '' @ e"

definition route :: "review_config option \<Rightarrow> string \<Rightarrow> string \<Rightarrow> string \<Rightarrow> string \<times> string" where
  "route c channel name text = (case c of
      None \<Rightarrow> (channel, text)
    | Some cfg \<Rightarrow> if rv_debugChannel cfg = [] then (channel, text)
        else (rv_debugChannel cfg, text @ '' (for #'' @ name @ '')''))"

definition routed :: "review_config option \<Rightarrow> ('a notice_scheme) \<Rightarrow> 'a notice_scheme" where
  "routed c m = (case route c (nt_channel m) (nt_channelName m) (nt_text m) of
      (channel, text) \<Rightarrow> m\<lparr>nt_channel := channel, nt_text := text\<rparr>)"

definition post_review ::
  "'s gateway \<Rightarrow> review_config option \<Rightarrow> string \<Rightarrow> string + string \<Rightarrow> ('s, review_error, posted) io" where
  "post_review W c path body = (case c of
      None \<Rightarrow> io_fail NotConfigured
    | Some cfg \<Rightarrow>
        io_bind (io_wrap TokenUnread (gw_token W (rv_tokenFile cfg))) (\<lambda>tok.
        io_bind (io_wrap NotEncoded (io_of body)) (\<lambda>b.
        io_bind (io_wrap (PostFailed path) (gw_do W \<lparr>hq_url = trim_suffix (rv_baseURL cfg) ''/'' @ path,
            hq_authorization = ''Bearer '' @ trim_space tok, hq_body = b\<rparr>)) (\<lambda>(status, data).
          if status \<noteq> 201 then io_fail (Answered path status data)
          else io_wrap NotDecoded (io_of (gw_decode W data))))))"

definition post_ask :: "'s gateway \<Rightarrow> review_config option \<Rightarrow> ask \<Rightarrow> ('s, review_error, posted) io" where
  "post_ask W c a = post_review W c ''/reviews'' (gw_ask W (routed c a))"

definition post_notice :: "'s gateway \<Rightarrow> review_config option \<Rightarrow> notice \<Rightarrow> ('s, review_error, posted) io" where
  "post_notice W c n = post_review W c ''/notices'' (gw_notice W (routed c n))"

section \<open>Lemmas\<close>

lemma routed_no_debug: "client_field rv_debugChannel c = [] \<Longrightarrow> routed c m = m"
  by (cases c) (auto simp: routed_def route_def client_field_def)

text \<open>With a debug channel, every message goes there and names the channel it was for.\<close>

lemma routed_debug:
  "c = Some cfg \<Longrightarrow> rv_debugChannel cfg \<noteq> [] \<Longrightarrow>
   nt_channel (routed c m) = rv_debugChannel cfg \<and> nt_text (routed c m) = nt_text m @ '' (for #'' @ nt_channelName m @ '')'' \<and>
   nt_link (routed c m) = nt_link m \<and> nt_team (routed c m) = nt_team m"
  by (simp add: routed_def route_def)

lemma post_review_off: "post_review W None path body = io_fail NotConfigured"
  by (simp add: post_review_def)

end
