(* ===== verification/Tools.thy ===== *)
theory Tools
  imports Review Sweeps
begin

text \<open>
  internal/tools/person.go and what the tools share: the dependencies, the caller of a request and
  the unattended identity, the membership checks, the channel of a team. The world is the state \<open>'s\<close>
  the stores, GitHub and the gateway are read and written in; the client of a person's token is
  \<open>tl_person\<close>, the inventory App's client \<open>tl_app\<close>. The log lines are left out.
\<close>

section \<open>Dependencies\<close>

record ('s, 'd, 'o, 'h) tools =
  tl_app :: "'s github option"
  tl_person :: "string \<Rightarrow> string + 's github"
  tl_teams :: "'s github \<Rightarrow> int \<Rightarrow> ('s, string, (string \<times> string) list \<times> int) io"
  tl_inventory :: "'s access option"
  tl_collector :: "('s, 'd, 'o, 'h) collector option"
  tl_review :: "review_config option"
  tl_gateway :: "'s gateway"
  tl_repository :: string
  tl_ref :: string
  tl_workflow :: string
  tl_sweepTeams :: "string list"
  tl_clock :: "'s \<Rightarrow> time"
  tl_engine :: engine
  tl_steps :: "step \<Rightarrow> string"
  tl_paths :: team_paths
  tl_setup :: "'d reposetup"
  tl_yaml :: yaml
  tl_channels :: channel_yaml

text \<open>What a request carries: the verified caller's login and the token.\<close>

record call =
  cx_login :: "string option"
  cx_token :: "string option"

definition org_of :: "('s, 'd, 'o, 'h) tools \<Rightarrow> string" where
  "org_of T = (case tl_collector T of Some C \<Rightarrow> op_org (co_opts C) | None \<Rightarrow> ''giantswarm'')"

definition reconciler_workflow :: "('s, 'd, 'o, 'h) tools \<Rightarrow> string" where
  "reconciler_workflow T = (if tl_workflow T = [] then ReconcilerWorkflow else tl_workflow T)"

section \<open>Identities\<close>

record 's person =
  pe_login :: string
  pe_teams :: "string list"
  pe_repo :: repo
  pe_gh :: "'s github"

datatype identity_error = NoToken | BadToken string | NoApp | BadRepository tf_error

definition team_files_repo :: "('s, 'd, 'o, 'h) tools \<Rightarrow> identity_error + repo" where
  "team_files_repo T = (case new_repo (tl_repository T) (tl_ref T) of
      Inl e \<Rightarrow> Inl (BadRepository e) | Inr r \<Rightarrow> Inr r)"

definition caller_of :: "('s, 'd, 'o, 'h) tools \<Rightarrow> call \<Rightarrow> identity_error + 's person" where
  "caller_of T cx = (case (cx_login cx, cx_token cx) of
      (Some login, Some tok) \<Rightarrow> (case tl_person T tok of
          Inl e \<Rightarrow> Inl (BadToken e)
        | Inr g \<Rightarrow> (case team_files_repo T of
            Inl e \<Rightarrow> Inl e
          | Inr r \<Rightarrow> Inr \<lparr>pe_login = login, pe_teams = [], pe_repo = r\<lparr>ro_as := login\<rparr>, pe_gh = g\<rparr>))
    | _ \<Rightarrow> Inl NoToken)"

text \<open>\<open>strings.EqualFold\<close> on logins, team slugs and the values of a filter, all ASCII.\<close>

definition equal_fold :: "string \<Rightarrow> string \<Rightarrow> bool" where
  "equal_fold a b \<longleftrightarrow> to_lower a = to_lower b"

definition contains_fold :: "string list \<Rightarrow> string \<Rightarrow> bool" where
  "contains_fold vs s \<longleftrightarrow> list_ex (\<lambda>v. equal_fold v s) vs"

text \<open>The pages of the token's teams: each team as its organization's login and its slug. \<open>None\<close>
  where the pages never end.\<close>

partial_function (option) user_teams ::
  "(int \<Rightarrow> ('s, string, (string \<times> string) list \<times> int) io) \<Rightarrow> string \<Rightarrow> int \<Rightarrow> string list \<Rightarrow> 's \<Rightarrow>
   ('s \<times> (string + string list)) option" where
  "user_teams pages org page out s = (case pages page s of
      (s', Inl e) \<Rightarrow> Some (s', Inl e)
    | (s', Inr (teams, next_page)) \<Rightarrow>
        (let out' = out @ map snd (filter (\<lambda>t. equal_fold (fst t) org) teams) in
         if next_page = 0 then Some (s', Inr out') else user_teams pages org next_page out' s'))"

definition person_of ::
  "('s, 'd, 'o, 'h) tools \<Rightarrow> call \<Rightarrow> ('s, identity_error, 's person) pio" where
  "person_of T cx s = (case caller_of T cx of
      Inl e \<Rightarrow> Some (s, Inl e)
    | Inr p \<Rightarrow> (case user_teams (tl_teams T (pe_gh p)) (org_of T) 0 [] s of
        None \<Rightarrow> None
      | Some (s', Inl e) \<Rightarrow> Some (s', Inr p)
      | Some (s', Inr teams) \<Rightarrow> Some (s', Inr (p\<lparr>pe_teams := sort teams\<rparr>))))"

definition member_of :: "'s person \<Rightarrow> string \<Rightarrow> bool" where
  "member_of p team \<longleftrightarrow> list_ex (\<lambda>t. equal_fold t team) (pe_teams p)"

definition member_of_any :: "'s person \<Rightarrow> string list \<Rightarrow> bool" where
  "member_of_any p teams \<longleftrightarrow> list_ex (member_of p) teams"

definition unattended :: "('s, 'd, 'o, 'h) tools \<Rightarrow> identity_error + 's github \<times> repo" where
  "unattended T = (case tl_app T of
      None \<Rightarrow> Inl NoApp
    | Some g \<Rightarrow> (case team_files_repo T of Inl e \<Rightarrow> Inl e | Inr r \<Rightarrow> Inr (g, r)))"

definition caller_teams :: "('s, 'd, 'o, 'h) tools \<Rightarrow> call \<Rightarrow> 's \<Rightarrow> ('s \<times> string list \<times> string) option" where
  "caller_teams T cx s = (case person_of T cx s of
      None \<Rightarrow> None
    | Some (s', Inl e) \<Rightarrow> Some (s', [], ''none'')
    | Some (s', Inr p) \<Rightarrow> Some (s', if pe_teams p = [] then ([], ''none'') else (pe_teams p, ''github'')))"

section \<open>The probe of the team files\<close>

definition probeTTL :: duration where "probeTTL = 15 * minute"

text \<open>The cache by the token's hash; \<open>h\<close> is \<open>sha256.Sum256\<close>. The probe is \<open>Reachable\<close>.\<close>

type_synonym 'k probes = "('k \<times> bool \<times> time) list"

definition probe ::
  "(string \<Rightarrow> 'k) \<Rightarrow> ('s \<Rightarrow> time) \<Rightarrow> string \<Rightarrow> ('s, tf_error, bool) io \<Rightarrow> ('s \<times> 'k probes, tf_error, bool) io" where
  "probe h clock tok reach st = (case st of (s, entries) \<Rightarrow>
     (let now = clock s in
      case map_of entries (h tok) of
        Some (r, until) \<Rightarrow>
          if now < until then (st, Inr r)
          else (case reach s of
              (s', Inl e) \<Rightarrow> ((s', entries), Inl e)
            | (s', Inr r') \<Rightarrow> ((s', AList.update (h tok) (r', now + probeTTL) (filter (\<lambda>e. now < snd (snd e)) entries)), Inr r'))
      | None \<Rightarrow> (case reach s of
              (s', Inl e) \<Rightarrow> ((s', entries), Inl e)
            | (s', Inr r') \<Rightarrow> ((s', AList.update (h tok) (r', now + probeTTL) (filter (\<lambda>e. now < snd (snd e)) entries)), Inr r'))))"

section \<open>A team's channel\<close>

datatype message_error =
    NoIdentity identity_error
  | ChannelUnread tf_error
  | NotMessaged string
  | Off
  | Refused review_error

text \<open>\<open>teamChannel\<close>: the asks channel for an ask, the notices channel for a notice; a file without
  asks is a team that is not messaged.\<close>

definition team_channel ::
  "('s, 'd, 'o, 'h) tools \<Rightarrow> 's github \<Rightarrow> repo \<Rightarrow> string \<Rightarrow> bool \<Rightarrow> ('s, message_error, channel) io" where
  "team_channel T G r team for_ask =
     io_bind (io_wrap ChannelUnread (Channels G (tl_channels T) r team)) (\<lambda>chs. case cs_asks chs of
         None \<Rightarrow> io_fail (NotMessaged (ChannelsPath team))
       | Some ch \<Rightarrow> io_ret (if for_ask then ch else cs_notices chs))"

section \<open>Lemmas\<close>

lemma equal_fold_simps [simp]:
  "equal_fold a a"
  by (auto simp: equal_fold_def)

lemma equal_fold_trans: "equal_fold a b \<Longrightarrow> equal_fold b c \<Longrightarrow> equal_fold a c"
  by (simp add: equal_fold_def)

lemma caller_of_login:
  "caller_of T cx = Inr p \<Longrightarrow> cx_login cx = Some (pe_login p) \<and> ro_as (pe_repo p) = pe_login p \<and>
     (\<exists>tok. cx_token cx = Some tok \<and> tl_person T tok = Inr (pe_gh p))"
  by (auto simp: caller_of_def split: option.splits sum.splits)

lemma person_of_login:
  "person_of T cx s = Some (s', Inr p) \<Longrightarrow> cx_login cx = Some (pe_login p) \<and> ro_as (pe_repo p) = pe_login p \<and>
     (\<exists>tok. cx_token cx = Some tok \<and> tl_person T tok = Inr (pe_gh p))"
  by (auto simp: person_of_def split: option.splits sum.splits prod.splits dest: caller_of_login)

lemma team_channel_asks:
  "team_channel T G r team for_ask s = (s', Inr ch) \<Longrightarrow>
   \<exists>chs asks. Channels G (tl_channels T) r team s = (s', Inr chs) \<and> cs_asks chs = Some asks \<and>
     ch = (if for_ask then asks else cs_notices chs)"
  by (auto simp: team_channel_def io_bind_Inr io_wrap_Inr split: option.splits)

end
