(* ===== verification/Messages.thy ===== *)
theory Messages
  imports Tools
begin

text \<open>
  internal/tools/completion.go and release.go: what the teams are told about a reconciler run and
  about a release nothing was published for. The hooks of the collector are \<open>reconciled\<close> and
  \<open>released\<close>; \<open>None\<close> as a result is a nil dereference.
\<close>

section \<open>The sentences of a run\<close>

record completion =
  mg_text :: string
  mg_link :: string
  mg_finding :: bool
  mg_change :: bool

definition FindingPendingPullRequest :: finding_kind where
  "FindingPendingPullRequest = ''pending-pull-request''"

definition tellable :: "finding_kind \<Rightarrow> bool" where
  "tellable k \<longleftrightarrow> k \<noteq> FindingUnchecked \<and> k \<noteq> FindingPendingPullRequest"

text \<open>The live check's result for a step, where it ran the step.\<close>

definition live_step :: "result option \<Rightarrow> step \<Rightarrow> step_result option" where
  "live_step checks st = (case checks of
      None \<Rightarrow> None
    | Some res \<Rightarrow> (case find (\<lambda>s. sr_step s = st) (res_steps res) of
        None \<Rightarrow> None
      | Some s \<Rightarrow> if sr_verdict s \<noteq> VerdictSkipped \<and> sr_verdict s \<noteq> VerdictFailed then Some s else None))"

fun verified_from :: "step_result option \<Rightarrow> finding_kind list \<Rightarrow> engine_finding list \<Rightarrow> engine_finding list" where
  "verified_from live seen [] = []"
| "verified_from live seen (f # fs) =
     (if \<not> tellable (ef_kind f) then verified_from live seen fs
      else (case live of
          None \<Rightarrow> f # verified_from live seen fs
        | Some l \<Rightarrow>
            if ef_kind f \<in> set seen then verified_from live seen fs
            else filter (\<lambda>g. ef_kind g = ef_kind f) (sr_findings l) @ verified_from live (ef_kind f # seen) fs))"

definition verified :: "result option \<Rightarrow> step_result \<Rightarrow> engine_finding list" where
  "verified checks st = verified_from (live_step checks (sr_step st)) [] (sr_findings st)"

definition describe :: "team_declaration \<Rightarrow> string" where
  "describe d =
     (let parts = (if d_flavours d \<noteq> [] then [str_join (d_flavours d) ''/''] else []) @
        (if d_language d \<noteq> [] then [d_language d] else [])
      in if parts = [] then [] else '' ('' @ str_join parts '', '' @ '')'')"

definition change_text :: "string \<Rightarrow> team_declaration \<Rightarrow> change \<Rightarrow> string" where
  "change_text name d ch =
     (let who = (if ch_by ch = [] then ''someone'' else ch_by ch); team = d_team d in
      if ch_kind ch = ChangeCreated then who @ '' created a new repo: '' @ name @ describe d
      else if ch_kind ch = ChangeAdded then who @ '' added the existing repo '' @ name @ describe d @ '' to '' @ team
      else if ch_kind ch = ChangeTransferred then
        who @ '' transferred the repo '' @ name @ describe d @
          (if ch_fromTeam ch = [] then [] else '' from '' @ ch_fromTeam ch) @ '' to '' @ team
      else if ch_kind ch = ChangeArchived then who @ '' archived the repo '' @ name
      else if ch_kind ch = ChangeDeleted then who @ '' deleted the repo '' @ name
      else if ch_kind ch = ChangeDeprecated then who @ '' deprecated the repo '' @ name
      else [])"

definition change_link :: "last_run \<Rightarrow> change \<Rightarrow> string" where
  "change_link run ch = (case ch_pullRequest ch of
      Some pr \<Rightarrow> if cp_url pr \<noteq> [] then cp_url pr else lr_runURL run
    | None \<Rightarrow> lr_runURL run)"

definition failure_sentence :: "(step \<Rightarrow> string) \<Rightarrow> string \<Rightarrow> step_result \<Rightarrow> string" where
  "failure_sentence sn name st = name @ '': the '' @ sn (sr_step st) @ '' step failed'' @
     (if sr_summary st = [] then [] else '' ('' @ sr_summary st @ '')'') @ '' '' @ em_dash @
     '' look at the run, fix the cause and reconcile again''"

definition finding_sentence :: "string \<Rightarrow> engine_finding \<Rightarrow> string" where
  "finding_sentence name f =
     (if ef_fix f = [] then name @ '': '' @ ef_message f
      else name @ '': '' @ ef_message f @ '' '' @ em_dash @ '' '' @ ef_fix f)"

definition release_watched :: "repo_record \<Rightarrow> bool" where
  "release_watched r = (case su_release (rc_setup r) of None \<Rightarrow> False | Some w \<Rightarrow> rw_state w \<noteq> ReleaseUnchecked)"

definition step_messages :: "(step \<Rightarrow> string) \<Rightarrow> repo_record \<Rightarrow> last_run \<Rightarrow> step_result \<Rightarrow> completion list" where
  "step_messages sn r run st =
     (if sr_verdict st = VerdictFailed
      then [\<lparr>mg_text = failure_sentence sn (rc_name r) st, mg_link = lr_runURL run, mg_finding = False, mg_change = False\<rparr>]
      else []) @
     (if sr_step st = StepRelease \<and> release_watched r then []
      else map (\<lambda>f. \<lparr>mg_text = finding_sentence (rc_name r) f, mg_link = lr_runURL run, mg_finding = True, mg_change = False\<rparr>)
        (verified (su_checks (rc_setup r)) st))"

text \<open>\<open>Completions\<close> reads the run and, for a person's change, the declaration through their
  pointers.\<close>

definition completions :: "(step \<Rightarrow> string) \<Rightarrow> repo_record \<Rightarrow> completion list option" where
  "completions sn r = (case su_lastRun (rc_setup r) of
      None \<Rightarrow> None
    | Some run \<Rightarrow> (case lr_change run of
        None \<Rightarrow> Some []
      | Some ch \<Rightarrow>
          if \<not> person_made (Some ch) then Some []
          else (case rc_declaration r of
              None \<Rightarrow> None
            | Some d \<Rightarrow>
                (let s = change_text (rc_name r) d ch in
                 Some ((if s = [] then [] else [\<lparr>mg_text = s, mg_link = change_link run ch, mg_finding = False, mg_change = True\<rparr>]) @
                   concat (map (step_messages sn r run) (res_steps (lr_result run))))))))"

definition completion_text :: "(step \<Rightarrow> string) \<Rightarrow> repo_record \<Rightarrow> string option" where
  "completion_text sn r = map_option (\<lambda>ms. str_join (map mg_text ms) [newline]) (completions sn r)"

section \<open>Telling the team\<close>

definition notice_of :: "string \<Rightarrow> channel \<Rightarrow> completion \<Rightarrow> notice" where
  "notice_of team ch m = \<lparr>nt_team = team, nt_channel = cl_id ch, nt_text = mg_text m, nt_link = mg_link m,
     nt_channelName = cl_name ch\<rparr>"

text \<open>The loop of \<open>tell\<close> with the gateway's \<open>Notify\<close> as an argument: the findings told, and the
  error of the change sentence's post.\<close>

fun tell_messages ::
  "(notice \<Rightarrow> ('s, review_error, posted) io) \<Rightarrow> string \<Rightarrow> channel \<Rightarrow> string list \<Rightarrow> bool \<Rightarrow> completion list \<Rightarrow>
   string list \<times> review_error option \<Rightarrow> 's \<Rightarrow> 's \<times> string list \<times> review_error option" where
  "tell_messages post team ch known run_told [] acc s = (s, acc)"
| "tell_messages post team ch known run_told (m # ms) (told, err) s =
     (if mg_finding m \<and> mg_text m \<in> set known then
        tell_messages post team ch known run_told ms (told @ [mg_text m], err) s
      else if mg_change m \<and> run_told then tell_messages post team ch known run_told ms (told, err) s
      else (case post (notice_of team ch m) s of
          (s', Inl e) \<Rightarrow> tell_messages post team ch known run_told ms (told, if mg_change m then Some e else err) s'
        | (s', Inr p) \<Rightarrow> tell_messages post team ch known run_told ms (if mg_finding m then told @ [mg_text m] else told, err) s'))"

text \<open>The record with what was told, which \<open>remember\<close> stores.\<close>

definition told_record :: "string list \<Rightarrow> review_error option \<Rightarrow> repo_record \<Rightarrow> repo_record" where
  "told_record told err r = r\<lparr>rc_setup := (rc_setup r)\<lparr>su_told := told,
     su_lastRun := map_option (\<lambda>run. run\<lparr>lr_told := (err = None)\<rparr>) (su_lastRun (rc_setup r))\<rparr>\<rparr>"

definition remember :: "('s, 'd, 'o, 'h) tools \<Rightarrow> repo_record \<Rightarrow> 's \<Rightarrow> 's" where
  "remember T r s = (case tl_inventory T of None \<Rightarrow> s | Some A \<Rightarrow> fst (ac_put A r s))"

definition tell_run ::
  "('s, 'd, 'o, 'h) tools \<Rightarrow> repo_record \<Rightarrow> last_run \<Rightarrow> string \<Rightarrow> channel \<Rightarrow> completion list \<Rightarrow> 's \<Rightarrow> 's \<times> message_error option" where
  "tell_run T r run team ch msgs s =
     (case tell_messages (post_notice (tl_gateway T) (tl_review T)) team ch (su_told (rc_setup r)) (lr_told run) msgs ([], None) s of
        (s', told, err) \<Rightarrow> (remember T (told_record told err r) s', map_option Refused err))"

definition reconciled :: "('s, 'd, 'o, 'h) tools \<Rightarrow> repo_record \<Rightarrow> 's \<Rightarrow> ('s \<times> message_error option) option" where
  "reconciled T r s = (case (su_lastRun (rc_setup r), rc_declaration r) of
      (Some run, Some d) \<Rightarrow> (case completions (tl_steps T) r of
          None \<Rightarrow> None
        | Some msgs \<Rightarrow>
            if msgs = [] \<or> tl_review T = None then Some (s, None)
            else (case unattended T of
                Inl e \<Rightarrow> Some (s, Some (NoIdentity e))
              | Inr (G, repo) \<Rightarrow> (case team_channel T G repo (d_team d) False s of
                  (s', Inl (NotMessaged p)) \<Rightarrow> Some (s', None)
                | (s', Inl e) \<Rightarrow> Some (s', Some e)
                | (s', Inr ch) \<Rightarrow> Some (tell_run T r run (d_team d) ch msgs s'))))
    | _ \<Rightarrow> Some (s, None))"

section \<open>The notice of a release\<close>

text \<open>\<open>Duration.Round\<close> to the minute, half away from zero, saturating, then whole minutes.\<close>

definition round_minute :: "duration \<Rightarrow> duration" where
  "round_minute d =
     (if d < 0 then
        (let r = (- d) mod minute in
         if 2 * r < minute then d + r
         else if min_duration \<le> d - minute + r then d - minute + r else min_duration)
      else
        (let r = d mod minute in
         if 2 * r < minute then d - r
         else if d + minute - r \<le> max_duration then d + minute - r else max_duration))"

text \<open>Go's integer division truncates towards zero.\<close>

definition quot :: "int \<Rightarrow> int \<Rightarrow> int" where
  "quot a b = (if a < 0 then - ((- a) div b) else a div b)"

definition minutes_text :: "duration \<Rightarrow> string" where
  "minutes_text d = (let n = quot (round_minute d) minute in
     if n = 1 then ''1 minute'' else show_int n @ '' minutes'')"

text \<open>\<open>Some None\<close>: nothing to say.\<close>

definition release_notice :: "repo_record \<Rightarrow> completion option option" where
  "release_notice r = (case su_release (rc_setup r) of
      None \<Rightarrow> Some None
    | Some w \<Rightarrow>
        if \<not> untold (Some w) then Some None
        else
          (let pr = (case rw_pullRequest w of None \<Rightarrow> [] | Some p \<Rightarrow> '' (pull request #'' @ show_int (cp_number p) @ '')'');
               confirm = ''then devctl release wait '' @ rc_repository r @ '' '' @ rw_tag w @ '' confirms it'' in
           if rw_state w = ReleaseRed then
             map_option (\<lambda>p. Some \<lparr>mg_text = rc_name r @ '': release '' @ rw_tag w @ pr @ '' is red, the tag pipeline '' @
                 show_int (rp_number p) @ '' failed in '' @ str_join (rw_failedJobs w) '', '' @ '' '' @ em_dash @
                 '' rerun the workflow from failed on CircleCI, '' @ confirm,
               mg_link = (if rp_workflow p = [] then rp_url p else rp_workflow p), mg_finding = False, mg_change = False\<rparr>)
               (rw_pipeline w)
           else
             (let since = (case rw_settledAt w of None \<Rightarrow> []
                | Some t \<Rightarrow> '' '' @ minutes_text (time_sub t (rw_createdAt w)) @ '' after the tag'') in
              Some (Some \<lparr>mg_text = rc_name r @ '': release '' @ rw_tag w @ pr @ '' has no CircleCI pipeline'' @ since @
                  '', nothing was built or published '' @ em_dash @
                  '' trigger the tag's pipeline by hand on CircleCI, '' @ confirm,
                mg_link = ''https://app.circleci.com/pipelines/github/'' @ rc_repository r,
                mg_finding = False, mg_change = False\<rparr>))))"

text \<open>The sentence told, empty where the watch is to ask again, and whether it was posted.\<close>

definition released :: "('s, 'd, 'o, 'h) tools \<Rightarrow> repo_record \<Rightarrow> 's \<Rightarrow> ('s \<times> string \<times> bool) option" where
  "released T r s = (case release_notice r of
      None \<Rightarrow> None
    | Some None \<Rightarrow> Some (s, [], False)
    | Some (Some n) \<Rightarrow> (case rc_declaration r of
        None \<Rightarrow> Some (s, [], False)
      | Some d \<Rightarrow>
          if tl_review T = None then Some (s, mg_text n, False)
          else (case unattended T of
              Inl e \<Rightarrow> Some (s, [], False)
            | Inr (G, repo) \<Rightarrow> (case team_channel T G repo (d_team d) False s of
                (s', Inl (ChannelUnread (FileNotFound p ref))) \<Rightarrow> Some (s', mg_text n, False)
              | (s', Inl (NotMessaged p)) \<Rightarrow> Some (s', mg_text n, False)
              | (s', Inl e) \<Rightarrow> Some (s', [], False)
              | (s', Inr ch) \<Rightarrow> (case post_notice (tl_gateway T) (tl_review T) (notice_of (d_team d) ch n) s' of
                  (s'', Inl e) \<Rightarrow> Some (s'', [], False)
                | (s'', Inr p) \<Rightarrow> Some (s'', mg_text n, True))))))"

end
