(* ===== verification/MessagesProps.thy ===== *)
theory MessagesProps
  imports Messages
begin

text \<open>
  What a team hears about a run: nothing it was told of before, and only findings that stand. The
  loop of \<open>tell\<close> is compared with the posts of the messages nobody was told of, in order.
\<close>

section \<open>A message is told once\<close>




definition known_texts :: "string list \<Rightarrow> completion list \<Rightarrow> string set" where
  "known_texts known msgs = {mg_text m | m. m \<in> set msgs \<and> mg_finding m \<and> mg_text m \<in> set known}"

definition posted_texts :: "(completion \<times> (review_error + posted)) list \<Rightarrow> string set" where
  "posted_texts log = {mg_text m | m p. (m, Inr p) \<in> set log \<and> mg_finding m}"

definition change_refused :: "(completion \<times> (review_error + posted)) list \<Rightarrow> bool" where
  "change_refused log \<longleftrightarrow> (\<exists>m e. (m, Inl e) \<in> set log \<and> mg_change m)"


lemma tell_texts_Nil [simp]: "known_texts known [] = {}" "posted_texts [] = {}" "\<not> change_refused []"
  by (auto simp: known_texts_def posted_texts_def change_refused_def)














end
