(* ===== verification/Watch.thy ===== *)
theory Watch
  imports Messages
begin

text \<open>
  internal/tools/watch.go: watch_repository follows a new repository through its phases. The reads
  of GitHub as the caller and as the inventory App, the record store, CircleCI's client, the clock and
  the sleep are the fields of \<open>watch_env\<close> over the state \<open>'s\<close>. The watcher is a record: each phase's
  check reads, may note what it learnt on the watcher and says whether the phase is done, failed or
  pending. Waking the poller has no effect on the state modelled here and is left out.
\<close>

section \<open>The phases\<close>

datatype phase_name = PhaseDeclared | PhaseMerged | PhaseCreated | PhaseScaffolded | PhaseSetUp | PhaseReleased

record phase =
  ph_name :: phase_name
  ph_at :: time
  ph_seconds :: int

record failure =
  fa_phase :: phase_name
  fa_reason :: string

record watch_release =
  wl_tag :: string
  wl_url :: string

record watch =
  wa_repository :: string
  wa_pullRequest :: string
  wa_phases :: "phase list"
  wa_changed :: bool
  wa_ready :: bool
  wa_withoutRelease :: bool
  wa_withoutCI :: bool
  wa_pending :: "phase_name option"
  wa_pendingReason :: string
  wa_failure :: "failure option"
  wa_release :: "watch_release option"
  wa_findings :: "engine_finding list"
  wa_waited :: int

record watcher =
  wt_name :: string
  wt_number :: int
  wt_out :: watch
  wt_branch :: string
  wt_flavours :: "string list"
  wt_ci :: "ci option"
  wt_knowsEntry :: bool
  wt_ciGenerate :: "bool option"
  wt_releaseWorkflow :: string
  wt_run :: "last_run option"
  wt_dockerfile :: "bool option"
  wt_private :: bool
  wt_pipeline :: "cc_pipeline option"

datatype outcome = Done time | Failed string | Pending string

section \<open>What is read\<close>

record watch_pull =
  wp_title :: string
  wp_body :: string
  wp_url :: string
  wp_createdAt :: time
  wp_merged :: bool
  wp_mergedAt :: time
  wp_state :: string

record watch_repo =
  wo_url :: string
  wo_branch :: string
  wo_private :: bool
  wo_createdAt :: time

record latest =
  le_tag :: string
  le_url :: string
  le_publishedAt :: time

record commit_status =
  st_context :: string
  st_state :: string
  st_updatedAt :: time

record combined_status =
  cb_state :: string
  cb_total :: int
  cb_statuses :: "commit_status list"

record 's watch_env =
  we_org :: string
  we_repo :: repo
  we_pull :: "int \<Rightarrow> ('s, gh_error, watch_pull) io"
  we_repository :: "string \<Rightarrow> ('s, gh_error, watch_repo) io"
  we_commits :: "string \<Rightarrow> string \<Rightarrow> ('s, gh_error, time list) io"
  we_latest :: "string \<Rightarrow> ('s, gh_error, latest) io"
  we_app :: bool
  we_status :: "string \<Rightarrow> string \<Rightarrow> ('s, gh_error, combined_status) io"
  we_dockerfile :: "string \<Rightarrow> string \<Rightarrow> ('s, gh_error, unit) io"
  we_access :: "'s access"
  we_circleci :: "'s cc_client option"
  we_token :: bool
  we_tag_of :: "cc_pipeline \<Rightarrow> string"
  we_engine :: engine
  we_failed :: "result \<Rightarrow> step_result list"
  we_steps :: "step \<Rightarrow> string"
  we_rx :: regexp
  we_has_chart :: "string list \<Rightarrow> bool"
  we_clock :: "'s \<Rightarrow> time"
  we_sleep :: "duration \<Rightarrow> ('s, string, unit) io"
  we_interval :: duration
  we_settle :: duration

definition contextImagePush :: string where "contextImagePush = ''push-to-registries''"
definition DefaultWatchInterval :: duration where "DefaultWatchInterval = 5 * second"
definition DefaultWatchSettle :: duration where "DefaultWatchSettle = 60 * second"
definition MaxWatchTimeout :: int where "MaxWatchTimeout = 150"

definition watch_interval :: "'s watch_env \<Rightarrow> duration" where
  "watch_interval V = (if we_interval V > 0 then we_interval V else DefaultWatchInterval)"

definition watch_settle :: "'s watch_env \<Rightarrow> duration" where
  "watch_settle V = (if we_settle V > 0 then we_settle V else DefaultWatchSettle)"

definition not_found :: "gh_error \<Rightarrow> bool" where
  "not_found e \<longleftrightarrow> ge_resp e = Some 404"

datatype follow_error = NoSuchPull string | RecordUnread store_error | SleepEnded string

type_synonym 's check = "watcher \<Rightarrow> 's \<Rightarrow> 's \<times> (follow_error + watcher \<times> outcome)"

definition slug_of :: "'s watch_env \<Rightarrow> watcher \<Rightarrow> string" where
  "slug_of V w = we_org V @ ''/'' @ wt_name w"

section \<open>The declaration pull request\<close>

definition read_pull :: "'s watch_env \<Rightarrow> (watch_pull \<Rightarrow> watcher \<times> outcome) \<Rightarrow> 's check" where
  "read_pull V k w s = (let r = we_repo V; slug = ro_owner r @ ''/'' @ ro_name r @ ''#'' @ show_int (wt_number w) in
     case we_pull V (wt_number w) s of
       (s', Inl e) \<Rightarrow> (s', if not_found e then Inl (NoSuchPull slug)
          else Inr (w, Pending (''read '' @ slug @ '' as you: '' @ ge_text e)))
     | (s', Inr pr) \<Rightarrow> (s', Inr (k pr)))"

definition check_declared :: "'s watch_env \<Rightarrow> 's check" where
  "check_declared V w = read_pull V (\<lambda>pr.
     if \<not> str_contains (wp_title pr @ [newline] @ wp_body pr) (wt_name w) then
       (w, Failed (wp_url pr @ '' does not declare '' @ wt_name w @ '': it names neither in its title nor in its body''))
     else (w\<lparr>wt_out := (wt_out w)\<lparr>wa_pullRequest := wp_url pr\<rparr>\<rparr>, Done (wp_createdAt pr))) w"

definition check_merged :: "'s watch_env \<Rightarrow> 's check" where
  "check_merged V w = read_pull V (\<lambda>pr.
     if wp_merged pr then (w, Done (wp_mergedAt pr))
     else if wp_state pr = ''closed'' then (w, Failed (wp_url pr @ '' was closed without being merged''))
     else (w, Pending [])) w"

section \<open>The repository\<close>

definition check_created :: "'s watch_env \<Rightarrow> 's check" where
  "check_created V w s = (case we_repository V (wt_name w) s of
      (s', Inl e) \<Rightarrow> (s', Inr (w, if not_found e then Pending []
         else Pending (''read '' @ slug_of V w @ '' as you: '' @ ge_text e)))
    | (s', Inr r) \<Rightarrow> (s', Inr (w\<lparr>wt_out := (wt_out w)\<lparr>wa_repository := wo_url r\<rparr>, wt_branch := wo_branch r,
         wt_private := wo_private r\<rparr>, Done (wo_createdAt r))))"

definition check_scaffolded :: "'s watch_env \<Rightarrow> 's check" where
  "check_scaffolded V w s = (case we_commits V (wt_name w) (wt_branch w) s of
      (s', Inl e) \<Rightarrow> (s', Inr (w, if ge_resp e = Some 409 \<or> not_found e then Pending []
         else Pending (''read the commits of '' @ slug_of V w @ '' as you: '' @ ge_text e)))
    | (s', Inr []) \<Rightarrow> (s', Inr (w, Pending []))
    | (s', Inr (at # _)) \<Rightarrow> (s', Inr (w, Done at)))"

section \<open>The set-up\<close>

definition reached :: "watcher \<Rightarrow> phase_name \<Rightarrow> time option" where
  "reached w name = map_option ph_at (find (\<lambda>p. ph_name p = name) (wa_phases (wt_out w)))"

definition set_up_run :: "watcher \<Rightarrow> last_run option \<Rightarrow> pending_run option \<Rightarrow> bool" where
  "set_up_run w run expected = (case run of
      None \<Rightarrow> False
    | Some l \<Rightarrow>
        if (case lr_change l of None \<Rightarrow> False | Some ch \<Rightarrow> (case ch_pullRequest ch of
              None \<Rightarrow> False | Some pr \<Rightarrow> cp_number pr = wt_number w)) then True
        else if follows expected (wt_number w) then False
        else (case reached w PhaseMerged of None \<Rightarrow> False | Some t \<Rightarrow> lr_timestamp l > t))"

definition findings_text :: "engine_finding list \<Rightarrow> string" where
  "findings_text fs = str_join (map ef_message fs) ''; ''"

definition note_entry :: "repo_record \<Rightarrow> watcher \<Rightarrow> watcher" where
  "note_entry r w = (case rc_declaration r of
      None \<Rightarrow> w
    | Some d \<Rightarrow> w\<lparr>wt_knowsEntry := True, wt_flavours := d_flavours d, wt_ciGenerate := d_ciGenerate d,
        wt_releaseWorkflow := d_releaseWorkflow d\<rparr>)\<lparr>wt_ci := rc_ci r\<rparr>"

text \<open>The verdict on the run that sets the repository up.\<close>

definition run_verdict :: "'s watch_env \<Rightarrow> last_run \<Rightarrow> outcome" where
  "run_verdict V run =
     (let fs = we_failed V (lr_result run) in
      if fs \<noteq> [] then Failed (str_join (map (\<lambda>f. ''the '' @ we_steps V (sr_step f) @ '' step failed: '' @ sr_summary f) fs) ''; ''
         @ '' ('' @ lr_runURL run @ '')'')
      else (case the_step (we_engine V) (lr_result run) StepEntry of
          Some s \<Rightarrow> Failed (''the reconciler refused the entry and ran no step: '' @ findings_text (sr_findings s) @
            '' ('' @ lr_runURL run @ '')'')
        | None \<Rightarrow> Done (lr_timestamp run)))"

definition missed :: "watcher \<Rightarrow> repo_record \<Rightarrow> bool" where
  "missed w r = (case su_missingRun (rc_setup r) of None \<Rightarrow> False
     | Some m \<Rightarrow> follows (Some (mr_pendingRun m)) (wt_number w) \<and> pn_mergedAt (mr_pendingRun m) \<noteq> None)"

definition check_set_up :: "'s watch_env \<Rightarrow> 's check" where
  "check_set_up V w s = (case ac_get (we_access V) (slug_of V w) s of
      (s', Inl (ErrNotFound k)) \<Rightarrow> (s', Inr (w, Pending []))
    | (s', Inl e) \<Rightarrow> (s', Inl (RecordUnread e))
    | (s', Inr r) \<Rightarrow>
        (let w' = note_entry r w in
         if missed w' r then (s', Inr (w', Failed (case missing_run_finding r of Some f \<Rightarrow> fd_message f | None \<Rightarrow> [])))
         else if \<not> set_up_run w' (su_lastRun (rc_setup r)) (su_pendingRun (rc_setup r)) then (s', Inr (w', Pending []))
         else (case su_lastRun (rc_setup r) of
             None \<Rightarrow> (s', Inr (w', Pending []))
           | Some run \<Rightarrow> (s', Inr (w'\<lparr>wt_run := Some run,
               wt_out := (wt_out w')\<lparr>wa_findings := eng_findings (we_engine V) (lr_result run)\<rparr>\<rparr>, run_verdict V run)))))"

section \<open>What the entry says of CI and releases\<close>

definition without_ci :: "watcher \<Rightarrow> bool" where
  "without_ci w \<longleftrightarrow> wt_knowsEntry w \<and> wt_ciGenerate w \<noteq> Some True"

definition releaseWorkflowAutoRelease :: string where "releaseWorkflowAutoRelease = ''auto-release''"

text \<open>\<open>autoReleases\<close> of create_repository.go on an entry's \<open>gen.ci\<close>; \<open>None\<close> without one.\<close>

definition auto_releases :: "(bool option \<times> string) option \<Rightarrow> bool" where
  "auto_releases ci = (case ci of None \<Rightarrow> False
     | Some (gen, workflow) \<Rightarrow> if workflow \<noteq> [] then workflow = releaseWorkflowAutoRelease else gen = Some True)"

definition without_release :: "watcher \<Rightarrow> bool" where
  "without_release w \<longleftrightarrow> wt_knowsEntry w \<and> \<not> auto_releases (Some (wt_ciGenerate w, wt_releaseWorkflow w))"

section \<open>The release\<close>

text \<open>The reconciler run's release step; \<open>None\<close> is the nil dereference of a watcher without a run.\<close>

definition release_step_verdict :: "'s watch_env \<Rightarrow> watcher \<Rightarrow> string \<Rightarrow> outcome option" where
  "release_step_verdict V w tag = (case wt_run w of
      None \<Rightarrow> None
    | Some run \<Rightarrow> (case the_step (we_engine V) (lr_result run) StepRelease of
        None \<Rightarrow> Some (Pending [])
      | Some s \<Rightarrow>
          if sr_verdict s = VerdictFailed then
            Some (Failed (''the reconciler's release step failed: '' @ sr_summary s @ '' ('' @ lr_runURL run @ '')''))
          else (case find (\<lambda>f. (ef_kind f = FindingRedRelease \<or> ef_kind f = FindingMissedTagBuild) \<and>
                  str_contains (ef_message f) tag) (sr_findings s) of
              Some f \<Rightarrow> Some (Failed (ef_message f @ '' '' @ em_dash @ '' '' @ ef_fix f @ '' ('' @ lr_runURL run @ '')''))
            | None \<Rightarrow> Some (Pending []))))"

definition is_failed :: "outcome \<Rightarrow> bool" where
  "is_failed o' = (case o' of Failed r \<Rightarrow> True | _ \<Rightarrow> False)"

definition pipeline_outcome :: "time \<Rightarrow> string \<Rightarrow> tag_pipeline \<Rightarrow> outcome" where
  "pipeline_outcome now tag tp =
     (let p = tp_pipeline tp; flows = str_join (tp_workflows tp) '', '';
          line = ''the tag pipeline of '' @ tag @ '', pipeline '' @ show_int (rp_number p) @ '' ('' @ rp_url p @ '')''
      in if Red tp then Failed (line @ '' is red: '' @ flows @ '' '' @ em_dash @ '' failed '' @
             str_join (tp_failed tp) '', '' @ '' ('' @ rp_workflow p @ '')'')
         else if Built tp then Done now
         else if tp_running tp then Pending (line @ '': '' @ flows @ '' '' @ em_dash @ '' waiting for the running workflows'')
         else if tp_workflows tp = [] then Pending (line @ '': no workflow yet'')
         else Pending (line @ '': '' @ flows @ '' '' @ em_dash @ '' no workflow has run yet''))"

definition read_found ::
  "'s watch_env \<Rightarrow> 's cc_client \<Rightarrow> string \<Rightarrow> watcher \<Rightarrow> cc_pipeline \<Rightarrow> 's \<Rightarrow> 's \<times> watcher \<times> outcome" where
  "read_found V CL tag w p s = (case read_tag_pipeline (we_engine V) CL (we_org V) (wt_name w) p s of
      (s', tp, Some e) \<Rightarrow> (s', w, Pending (''read the tag pipeline of '' @ tag @ '' on CircleCI ('' @
        rp_url (tp_pipeline tp) @ ''): '' @ e))
    | (s', tp, None) \<Rightarrow> (s', w, pipeline_outcome (we_clock V s') tag tp))"

definition tag_pipeline_verdict ::
  "'s watch_env \<Rightarrow> 's cc_client \<Rightarrow> string \<Rightarrow> watcher \<Rightarrow> 's \<Rightarrow> ('s \<times> watcher \<times> outcome) option" where
  "tag_pipeline_verdict V CL tag w s =
     (case (case wt_pipeline w of None \<Rightarrow> None | Some p \<Rightarrow> if we_tag_of V p = tag then Some p else None) of
        Some p \<Rightarrow> Some (read_found V CL tag w p s)
      | None \<Rightarrow> (case ck_find CL (we_org V) (wt_name w) tag s of
          (s', Inl e) \<Rightarrow> Some (s', w, Pending (''read the pipelines of '' @ slug_of V w @ '' on CircleCI: '' @ ce_text e))
        | (s', Inr None) \<Rightarrow> map_option (\<lambda>o'. (s', w, if is_failed o' then o'
             else Pending (''CircleCI has no pipeline for '' @ tag @ '' of '' @ slug_of V w @ '' yet'')))
             (release_step_verdict V w tag)
        | (s', Inr (Some p)) \<Rightarrow> Some (read_found V CL tag (w\<lparr>wt_pipeline := Some p\<rparr>) p s')))"

definition has_context :: "combined_status \<Rightarrow> string \<Rightarrow> bool" where
  "has_context st sub \<longleftrightarrow> list_ex (\<lambda>c. str_contains (st_context c) sub) (cb_statuses st)"

text \<open>The Dockerfile read once.\<close>

definition read_dockerfile :: "'s watch_env \<Rightarrow> watcher \<Rightarrow> 's \<Rightarrow> 's \<times> watcher \<times> (string + bool)" where
  "read_dockerfile V w s = (case wt_dockerfile w of
      Some b \<Rightarrow> (s, w, Inr b)
    | None \<Rightarrow> (case we_dockerfile V (wt_name w) (wt_branch w) s of
        (s', Inr u) \<Rightarrow> (s', w\<lparr>wt_dockerfile := Some True\<rparr>, Inr True)
      | (s', Inl e) \<Rightarrow>
          if not_found e then (s', w\<lparr>wt_dockerfile := Some False\<rparr>, Inr False)
          else (s', w, Inl (''read the Dockerfile of '' @ slug_of V w @ '' as the inventory App: '' @ ge_text e))))"

definition awaited :: "'s watch_env \<Rightarrow> watcher \<Rightarrow> combined_status \<Rightarrow> 's \<Rightarrow> 's \<times> watcher \<times> (string + string list)" where
  "awaited V w st s = (case read_dockerfile V w s of
      (s', w', Inl e) \<Rightarrow> (s', w', Inl e)
    | (s', w', Inr docker) \<Rightarrow> (s', w', Inr (
        (if we_has_chart V (wt_flavours w) \<and> \<not> has_context st ''chart'' then [''a chart job''] else []) @
        (if docker \<and> \<not> has_context st contextImagePush then [contextImagePush] else []))))"

definition newest_status :: "combined_status \<Rightarrow> time" where
  "newest_status st = fold (\<lambda>c at. if st_updatedAt c > at then st_updatedAt c else at) (cb_statuses st) zero_time"

definition status_texts :: "(string \<Rightarrow> bool) \<Rightarrow> combined_status \<Rightarrow> string list" where
  "status_texts P st = map (\<lambda>c. st_context c @ '' ('' @ st_state c @ '')'') (filter (\<lambda>c. P (st_state c)) (cb_statuses st))"

definition statuses_verdict :: "'s watch_env \<Rightarrow> watcher \<Rightarrow> string \<Rightarrow> combined_status \<Rightarrow> 's \<Rightarrow> 's \<times> watcher \<times> outcome" where
  "statuses_verdict V w tag st s =
     (let red = status_texts (\<lambda>x. x \<noteq> ''success'' \<and> x \<noteq> ''pending'') st;
          line = ''the CircleCI statuses on '' @ tag @ '': '' @ str_join (status_texts (\<lambda>x. True) st) '', ''
      in if red \<noteq> [] then (s, w, Failed (''the CircleCI statuses on '' @ tag @ '' are '' @ cb_state st @ '': '' @ str_join red '', ''))
         else if list_ex (\<lambda>c. st_state c = ''pending'') (cb_statuses st) then
           (s, w, Pending (line @ '' '' @ em_dash @ '' waiting for the pending ones''))
         else (case awaited V w st s of
             (s', w', Inl e) \<Rightarrow> (s', w', Pending (line @ '' '' @ em_dash @ '' '' @ e))
           | (s', w', Inr (a # as)) \<Rightarrow> (s', w', Pending (line @ '' '' @ em_dash @ '' awaiting '' @ str_join (a # as) '', ''))
           | (s', w', Inr []) \<Rightarrow>
               (let newest = newest_status st; age = time_sub (we_clock V s') newest in
                if age < watch_settle V then (s', w', Pending (line @ '' '' @ em_dash @ '' green for '' @
                    duration_text (round_second age) @ '', released once unchanged for '' @ duration_text (watch_settle V) @
                    '' (CircleCI posts a job's status as the job starts)''))
                else (s', w', Done newest))))"

definition tag_pipeline_reported :: "'s watch_env \<Rightarrow> watcher \<Rightarrow> string \<Rightarrow> combined_status \<Rightarrow> bool" where
  "tag_pipeline_reported V w tag st =
     reported (map st_context (cb_statuses st)) (tag_only (we_rx V) (wt_ci w) tag (wt_branch w))"

definition reads_tag_pipeline :: "'s watch_env \<Rightarrow> watcher \<Rightarrow> 's cc_client option" where
  "reads_tag_pipeline V w = (case we_circleci V of
      None \<Rightarrow> None | Some CL \<Rightarrow> if we_token V \<or> \<not> wt_private w then Some CL else None)"

definition no_app_text :: string where
  "no_app_text = ''the inventory App giantswarm-repo-manager-inventory is not configured (GITHUB_APP_ID, GITHUB_APP_INSTALLATION_ID, GITHUB_APP_PRIVATE_KEY_FILE): no identity for unattended reads''"

text \<open>The released phase from the statuses, where the manager reads no tag pipeline.\<close>

definition statuses_release ::
  "'s watch_env \<Rightarrow> watcher \<Rightarrow> string \<Rightarrow> 's \<Rightarrow> ('s \<times> watcher \<times> outcome) option" where
  "statuses_release V w tag s =
     (if \<not> we_app V then
        map_option (\<lambda>o'. (s, w, if is_failed o' then o' else Pending (''the CircleCI statuses on '' @ tag @
          '' are not read '' @ em_dash @ '' '' @ no_app_text @ ''; the reconciler run's release step alone decides'')))
          (release_step_verdict V w tag)
      else (case we_status V (wt_name w) tag s of
          (s', Inl e) \<Rightarrow> Some (s', w, Pending (''read the statuses of '' @ slug_of V w @ ''@'' @ tag @
            '' as the inventory App: '' @ ge_text e))
        | (s', Inr st) \<Rightarrow>
            if tag_pipeline_reported V w tag st then Some (statuses_verdict V w tag st s')
            else Option.bind (release_step_verdict V w tag) (\<lambda>o'.
              if is_failed o' \<or> cb_total st = 0 then Some (s', w, o') else Some (statuses_verdict V w tag st s'))))"

definition check_released :: "'s watch_env \<Rightarrow> watcher \<Rightarrow> ('s, follow_error, watcher \<times> outcome) pio" where
  "check_released V w s = (case we_latest V (wt_name w) s of
      (s', Inl e) \<Rightarrow> Some (s', Inr (w, if not_found e then Pending []
         else Pending (''read the releases of '' @ slug_of V w @ '' as you: '' @ ge_text e)))
    | (s', Inr rel) \<Rightarrow>
        (let tag = le_tag rel; w' = w\<lparr>wt_out := (wt_out w)\<lparr>wa_release := Some \<lparr>wl_tag = tag, wl_url = le_url rel\<rparr>\<rparr>\<rparr> in
         if without_ci w' then Some (s', Inr (w', Done (le_publishedAt rel)))
         else map_option (\<lambda>(s'', w'', o'). (s'', Inr (w'', o')))
           (case reads_tag_pipeline V w' of
              Some CL \<Rightarrow> tag_pipeline_verdict V CL tag w' s'
            | None \<Rightarrow> statuses_release V w' tag s')))"

section \<open>The watch\<close>

fun run_check :: "'s watch_env \<Rightarrow> phase_name \<Rightarrow> watcher \<Rightarrow> ('s, follow_error, watcher \<times> outcome) pio" where
  "run_check V PhaseDeclared w = pio_of (check_declared V w)"
| "run_check V PhaseMerged w = pio_of (check_merged V w)"
| "run_check V PhaseCreated w = pio_of (check_created V w)"
| "run_check V PhaseScaffolded w = pio_of (check_scaffolded V w)"
| "run_check V PhaseSetUp w = pio_of (check_set_up V w)"
| "run_check V PhaseReleased w = check_released V w"

definition phase_order :: "phase_name list" where
  "phase_order = [PhaseDeclared, PhaseMerged, PhaseCreated, PhaseScaffolded, PhaseSetUp, PhaseReleased]"

definition whole_seconds :: "duration \<Rightarrow> int" where
  "whole_seconds d = quot (round_second d) second"

definition add_phase :: "phase_name \<Rightarrow> time \<Rightarrow> watcher \<Rightarrow> watcher" where
  "add_phase name at w =
     (let ps = wa_phases (wt_out w);
          secs = (if ps = [] then 0 else whole_seconds (time_sub at (ph_at (last ps))))
      in w\<lparr>wt_out := (wt_out w)\<lparr>wa_phases := ps @ [\<lparr>ph_name = name, ph_at = at, ph_seconds = secs\<rparr>]\<rparr>\<rparr>)"

definition ready_now :: "watcher \<Rightarrow> watcher" where
  "ready_now w = w\<lparr>wt_out := (wt_out w)\<lparr>wa_ready := True, wa_pending := None, wa_pendingReason := []\<rparr>\<rparr>"

fun advance_over :: "'s watch_env \<Rightarrow> phase_name list \<Rightarrow> watcher \<Rightarrow> ('s, follow_error, watcher) pio" where
  "advance_over V [] w s = Some (s, Inr (ready_now w))"
| "advance_over V (name # names) w s = pio_bind (run_check V name w) (\<lambda>(w', o') s'. case o' of
      Failed reason \<Rightarrow> Some (s', Inr (w'\<lparr>wt_out := (wt_out w')\<lparr>wa_failure := Some \<lparr>fa_phase = name, fa_reason = reason\<rparr>,
        wa_pending := None, wa_pendingReason := []\<rparr>\<rparr>))
    | Pending reason \<Rightarrow> Some (s', Inr (w'\<lparr>wt_out := (wt_out w')\<lparr>wa_pending := Some name, wa_pendingReason := reason\<rparr>\<rparr>))
    | Done at \<Rightarrow>
        (let w'' = add_phase name at w' in
         if name = PhaseSetUp then
           (let w3 = w''\<lparr>wt_out := (wt_out w'')\<lparr>wa_withoutCI := without_ci w''\<rparr>\<rparr> in
            if without_release w3 then Some (s', Inr (ready_now (w3\<lparr>wt_out := (wt_out w3)\<lparr>wa_withoutRelease := True\<rparr>\<rparr>)))
            else advance_over V names w3 s')
         else advance_over V names w'' s')) s"

definition advance :: "'s watch_env \<Rightarrow> watcher \<Rightarrow> ('s, follow_error, watcher) pio" where
  "advance V w = advance_over V (drop (length (wa_phases (wt_out w))) phase_order) w"

definition settled_call :: "watch \<Rightarrow> bool" where
  "settled_call w \<longleftrightarrow> wa_ready w \<or> wa_failure w \<noteq> None \<or> wa_changed w"

text \<open>The loop of the call: \<open>None\<close> where it never returns (or dereferences nil).\<close>

partial_function (option) watch_loop ::
  "'s watch_env \<Rightarrow> time \<Rightarrow> nat \<Rightarrow> watcher \<Rightarrow> 's \<Rightarrow> ('s \<times> (follow_error + watcher)) option" where
  "watch_loop V deadline known w s =
     (if settled_call (wt_out w) then Some (s, Inr w)
      else
        (let remaining = time_sub deadline (we_clock V s) in
         if remaining \<le> 0 then Some (s, Inr w)
         else (case we_sleep V (min (watch_interval V) remaining) s of
             (s1, Inl e) \<Rightarrow> Some (s1, Inl (SleepEnded e))
           | (s1, Inr u) \<Rightarrow> (case advance V w s1 of
               None \<Rightarrow> None
             | Some (s2, Inl e) \<Rightarrow> Some (s2, Inl e)
             | Some (s2, Inr w') \<Rightarrow> watch_loop V deadline known
                 (w'\<lparr>wt_out := (wt_out w')\<lparr>wa_changed := known < length (wa_phases (wt_out w'))\<rparr>\<rparr>) s2))))"

definition start_watcher :: "string \<Rightarrow> int \<Rightarrow> watcher" where
  "start_watcher name number = \<lparr>wt_name = name, wt_number = number,
     wt_out = \<lparr>wa_repository = [], wa_pullRequest = [], wa_phases = [], wa_changed = False, wa_ready = False,
       wa_withoutRelease = False, wa_withoutCI = False, wa_pending = None, wa_pendingReason = [], wa_failure = None,
       wa_release = None, wa_findings = [], wa_waited = 0\<rparr>,
     wt_branch = [], wt_flavours = [], wt_ci = None, wt_knowsEntry = False, wt_ciGenerate = None,
     wt_releaseWorkflow = [], wt_run = None, wt_dockerfile = None, wt_private = False, wt_pipeline = None\<rparr>"

text \<open>\<open>watch\<close> from the first read to the answer; \<open>timeout\<close> is the wait it is told.\<close>

definition follow_repository ::
  "'s watch_env \<Rightarrow> string \<Rightarrow> int \<Rightarrow> duration \<Rightarrow> ('s, follow_error, watch) pio" where
  "follow_repository V name number timeout s =
     (let start = we_clock V s in
      pio_bind (advance V (start_watcher name number)) (\<lambda>w.
      pio_bind (watch_loop V (start + timeout) (length (wa_phases (wt_out w))) w) (\<lambda>w' s'.
        Some (s', Inr ((wt_out w')\<lparr>wa_waited := whole_seconds (time_sub (we_clock V s') start)\<rparr>)))) s)"

end
