(* ===== verification/WatchProps.thy ===== *)
theory WatchProps
  imports Watch
begin

text \<open>
  The watch of a new repository: the phases it reports are always those of the order, in the order,
  a nil run is never read, the call returns, and a release counts only on the word of the pipeline or
  of the statuses.
\<close>

section \<open>What a check leaves alone\<close>

text \<open>A check notes what it read; the phases and the verdict of the call are the loop's.\<close>

definition same_course :: "watcher \<Rightarrow> watcher \<Rightarrow> bool" where
  "same_course w w' \<longleftrightarrow> wa_phases (wt_out w') = wa_phases (wt_out w) \<and> wa_ready (wt_out w') = wa_ready (wt_out w) \<and>
     wa_failure (wt_out w') = wa_failure (wt_out w) \<and> (wt_run w \<noteq> None \<longrightarrow> wt_run w' \<noteq> None)"

lemma same_course_refl [simp]: "same_course w w"
  by (simp add: same_course_def)




















section \<open>The phases reported\<close>

text \<open>The phases done are the first ones of the order; from setUp on the run is known.\<close>

definition in_order :: "watcher \<Rightarrow> bool" where
  "in_order w \<longleftrightarrow> (let ps = wa_phases (wt_out w) in
     length ps \<le> length phase_order \<and> map ph_name ps = take (length ps) phase_order \<and>
     (5 \<le> length ps \<longrightarrow> wt_run w \<noteq> None))"

text \<open>What an answer says: ready with every phase (or all but released, where no release comes), or
  the next phase failed, or the next phase is pending.\<close>

definition phases_reported :: "watch \<Rightarrow> bool" where
  "phases_reported a \<longleftrightarrow> (let ps = wa_phases a in
     map ph_name ps = take (length ps) phase_order \<and>
     (if wa_ready a then wa_failure a = None \<and> wa_pending a = None \<and>
        (length ps = 6 \<or> length ps = 5 \<and> wa_withoutRelease a)
      else length ps < 6 \<and>
        (case wa_failure a of
           Some f \<Rightarrow> fa_phase f = phase_order ! length ps \<and> wa_pending a = None
         | None \<Rightarrow> wa_pending a = Some (phase_order ! length ps))))"


lemma phase_order_length [simp]: "length phase_order = 6"
  by (simp add: phase_order_def)






lemma add_phase_length [simp]:
  "length (wa_phases (wt_out (add_phase name at w))) = Suc (length (wa_phases (wt_out w)))"
  by (simp add: add_phase_def Let_def)









lemma phases_reported_flags [simp]:
  "phases_reported (a\<lparr>wa_changed := b\<rparr>) = phases_reported a"
  "phases_reported (a\<lparr>wa_waited := n\<rparr>) = phases_reported a"
  by (simp_all add: phases_reported_def Let_def split: option.split)

lemma in_order_flags [simp]:
  "in_order (w\<lparr>wt_out := (wt_out w)\<lparr>wa_changed := b\<rparr>\<rparr>) = in_order w"
  by (simp add: in_order_def)

section \<open>The loop of the call\<close>






section \<open>The clock\<close>



















section \<open>Released\<close>

text \<open>Every status reported is a success.\<close>

definition all_green :: "combined_status \<Rightarrow> bool" where
  "all_green st \<longleftrightarrow> (\<forall>c \<in> set (cb_statuses st). st_state c = ''success'')"





text \<open>The ways a release with a pipeline to wait for counts as built.\<close>

definition built_by_pipeline :: "'s watch_env \<Rightarrow> watcher \<Rightarrow> string \<Rightarrow> 's \<Rightarrow> 's \<Rightarrow> bool" where
  "built_by_pipeline V w tag s s' \<longleftrightarrow> (\<exists>CL p s1 tp. reads_tag_pipeline V w = Some CL \<and>
     (wt_pipeline w = Some p \<and> we_tag_of V p = tag \<and> s1 = s \<or> ck_find CL (we_org V) (wt_name w) tag s = (s1, Inr (Some p))) \<and>
     read_tag_pipeline (we_engine V) CL (we_org V) (wt_name w) p s1 = (s', tp, None) \<and> Built tp \<and> \<not> Red tp)"

definition green_by_statuses :: "'s watch_env \<Rightarrow> watcher \<Rightarrow> string \<Rightarrow> 's \<Rightarrow> 's \<Rightarrow> time \<Rightarrow> bool" where
  "green_by_statuses V w tag s s' at \<longleftrightarrow> (\<exists>s1 st. reads_tag_pipeline V w = None \<and> we_app V \<and>
     we_status V (wt_name w) tag s = (s1, Inr st) \<and> all_green st \<and> at = newest_status st \<and>
     watch_settle V \<le> time_sub (we_clock V s') at \<and>
     (we_has_chart V (wt_flavours w) \<longrightarrow> has_context st ''chart'') \<and>
     (tag_pipeline_reported V w tag st \<or>
      cb_total st \<noteq> 0 \<and> (\<exists>r. release_step_verdict V w tag = Some (Pending r))))"






lemma same_watcher_reads [simp]:
  "reads_tag_pipeline V (w\<lparr>wt_out := x\<rparr>) = reads_tag_pipeline V w"
  "built_by_pipeline V (w\<lparr>wt_out := x\<rparr>) tag s s' = built_by_pipeline V w tag s s'"
  "green_by_statuses V (w\<lparr>wt_out := x\<rparr>) tag s s' at = green_by_statuses V w tag s s' at"
  "without_ci (w\<lparr>wt_out := x\<rparr>) = without_ci w"
  by (simp_all add: reads_tag_pipeline_def built_by_pipeline_def green_by_statuses_def without_ci_def
      tag_pipeline_reported_def release_step_verdict_def split: option.split)


section \<open>The call\<close>





section \<open>Instances\<close>









end
