(* ===== verification/Plans.thy ===== *)
theory Plans
  imports Watch Complex_Main
begin

text \<open>
  internal/tools/writes.go, write.go and schema.go, and the argument helpers of inventory.go and
  filter.go: what a write tool is asked, the plan it renders, and the commit that opens the plan's pull
  request and posts its messages. devctl's reposetup beyond the edits of a team file is the record
  \<open>write_lib\<close>; a JSON value's scalars are read and built through it. The log lines and waking
  the poller are left out. A plan's state is the world of the stores and of GitHub; a commit's is that
  world with the collector's memory, which the refresh of an unknown record reads.
\<close>

section \<open>Arguments\<close>

text \<open>The argument of a call, as encoding/json decodes it.\<close>

datatype arg = AString string | ABool bool | ANumber rat | AObject "(string \<times> jvalue) list" | AArray "jvalue list" | ANull

type_synonym args = "string \<rightharpoonup> arg"

definition argRepository :: string where "argRepository = ''repository''"
definition argTeam :: string where "argTeam = ''team''"
definition argEntry :: string where "argEntry = ''entry''"
definition argEntries :: string where "argEntries = ''entries''"
definition argToTeam :: string where "argToTeam = ''toTeam''"
definition argLifecycle :: string where "argLifecycle = ''lifecycle''"
definition argPullRequest :: string where "argPullRequest = ''pullRequest''"
definition argReason :: string where "argReason = ''reason''"
definition argConfirm :: string where "argConfirm = ''confirm''"
definition argTimeout :: string where "argTimeout = ''timeout''"

definition arg_text :: "args \<Rightarrow> string \<Rightarrow> string" where
  "arg_text a k = (case a k of Some (AString v) \<Rightarrow> v | _ \<Rightarrow> [])"

definition string_arg :: "args \<Rightarrow> string \<Rightarrow> string" where
  "string_arg a k = trim_space (arg_text a k)"

definition arg_bool :: "args \<Rightarrow> string \<Rightarrow> bool option" where
  "arg_bool a k = (case a k of Some (ABool b) \<Rightarrow> Some b | _ \<Rightarrow> None)"

definition number :: "args \<Rightarrow> string \<Rightarrow> rat \<Rightarrow> rat" where
  "number a k d = (case a k of Some (ANumber v) \<Rightarrow> v | _ \<Rightarrow> d)"

text \<open>Go's conversion of a float to an integer drops the fraction.\<close>

definition go_int :: "rat \<Rightarrow> int" where
  "go_int r = (if r < 0 then - \<lfloor>- r\<rfloor> else \<lfloor>r\<rfloor>)"

text \<open>The refusals of the tools, each with what its text names.\<close>

datatype tool_error =
    Required string
  | NotAPerson identity_error
  | NoReader identity_error identity_error
  | FilesFailed tf_error
  | EntryFailed entry_error
  | ParseEntryFailed entry_error
  | FieldsUnread string string
  | OtherName string string
  | OwnedAlready string string
  | ReceivingTeam tf_error
  | AdoptingTeam tf_error
  | DeclaredAlready string string
  | DeclaredBy string string string
  | NotInserted string string
  | LibraryFailed string
  | UnknownLifecycle
  | LifecycleAlready string string
  | ConfirmMissing string
  | ConfirmOther string string
  | NoVerdict string
  | SchemaUnread tf_error
  | SchemaNotCompiled string
  | NoSchema
  | SchemaRefuses "string list"
  | PullUnread int gh_error
  | OwnPullRequest string int string
  | NotAMember string string string
  | NothingToDecide int
  | SeveralTeams int "string list"
  | ReadingFiles string tf_error
  | DispatchRefused tf_error
  | AdoptDeleted
  | NotOnGitHub string
  | AlignRefused string
  | EntriesRefused "(string \<times> string list) list"
  | InventoryOff
  | CollectorOff
  | InventoryFailed store_error
  | RefreshFailed collect_error
  | UnknownScope string
  | NoTeamKnown string string
  | SweepOff
  | BadTimeout
  | Follow follow_error
  | BadMode string
  | ModeRequired
  | ApplyRefused
  | NeedsCaller string

definition repository_key :: "('s, 'd, 'o, 'h) tools \<Rightarrow> args \<Rightarrow> tool_error + string" where
  "repository_key T a =
     (let name = string_arg a argRepository in
      if name = [] then Inl (Required argRepository)
      else if \<not> str_contains name ''/'' then Inr (org_of T @ ''/'' @ name)
      else Inr name)"

definition repository_name :: "('s, 'd, 'o, 'h) tools \<Rightarrow> args \<Rightarrow> tool_error + string" where
  "repository_name T a = map_sum id (\<lambda>key. trim_prefix key (org_of T @ ''/'')) (repository_key T a)"

section \<open>The library\<close>

text \<open>
  \<open>fields\<close> is what the tools read of \<open>reposetup.Fields\<close> (\<open>gen.ci\<close> as its generate and
  releaseWorkflow), \<open>checked_entry\<close> and \<open>verdicts\<close> what the validator answers; a problem and a notice
  are their texts.
\<close>

record fields =
  fl_lifecycle :: string
  fl_align :: bool
  fl_ci :: "(bool option \<times> string) option"

record checked_entry =
  vd_name :: string
  vd_accepted :: bool
  vd_problems :: "string list"
  vd_free :: bool
  vd_rendered :: string

record verdicts =
  vs_team :: string
  vs_entries :: "checked_entry list"
  vs_accepted :: bool
  vs_notices :: "string list"

record 'd validation_request =
  vq_team :: string
  vq_entries :: "'d list"
  vq_existing :: bool
  vq_author :: string
  vq_authorTeams :: "string list"

text \<open>
  A JSON value's string, the value of a string, \<open>true\<close>, and the values Go compares equal to
  \<open>true\<close> and to nil; the validator and the schema compiler; the cache of the compiled schema as a
  part of the state; the findings of a refused entry and when a check finished; the texts of the errors of internal/teamfiles and of an identity where an answer
  carries them.
\<close>

record ('s, 'd, 'h) write_lib =
  wl_str :: "jvalue \<Rightarrow> string option"
  wl_of_str :: "string \<Rightarrow> jvalue"
  wl_true :: jvalue
  wl_is_true :: "jvalue \<Rightarrow> bool"
  wl_is_nil :: "jvalue \<Rightarrow> bool"
  wl_fields :: "'d \<Rightarrow> string + fields"
  wl_compile :: "string \<Rightarrow> string + 'h"
  wl_embedded :: "'h option"
  wl_validate :: "'h \<Rightarrow> string \<Rightarrow> bool \<Rightarrow> 'd validation_request \<Rightarrow> ('s, string, verdicts) io"
  wl_cached :: "'s \<Rightarrow> (string \<times> 'h) option"
  wl_cache :: "string \<times> 'h \<Rightarrow> 's \<Rightarrow> 's"
  wl_refused :: "string \<Rightarrow> string \<Rightarrow> checked_entry \<Rightarrow> time \<Rightarrow> engine_finding list"
  wl_finishedAt :: "result \<Rightarrow> time"
  wl_text :: "tf_error \<Rightarrow> string"
  wl_identity_text :: "identity_error \<Rightarrow> string"
  wl_message_text :: "message_error \<Rightarrow> string"

section \<open>The schema a plan is held to\<close>

definition compiled ::
  "('s, 'd, 'h) write_lib \<Rightarrow> string \<Rightarrow> ('s, string, 'h) io" where
  "compiled W doc s = (case wl_cached W s of
      Some (doc', schema) \<Rightarrow>
        if doc' = doc then (s, Inr schema)
        else (case wl_compile W doc of Inl e \<Rightarrow> (s, Inl e) | Inr h \<Rightarrow> (wl_cache W (doc, h) s, Inr h))
    | None \<Rightarrow> (case wl_compile W doc of Inl e \<Rightarrow> (s, Inl e) | Inr h \<Rightarrow> (wl_cache W (doc, h) s, Inr h)))"

text \<open>A repository to read with the client that reads it.\<close>

type_synonym 's reader = "'s github \<times> repo"

definition schema_reader :: "('s, 'd, 'o, 'h) tools \<Rightarrow> 's person option \<Rightarrow> 's reader option" where
  "schema_reader T p = (case p of
      Some q \<Rightarrow> Some (pe_gh q, pe_repo q)
    | None \<Rightarrow> (case unattended T of Inr r \<Rightarrow> Some r | Inl e \<Rightarrow> None))"

definition embedded_schema :: "('s, 'd, 'h) write_lib \<Rightarrow> ('s, tool_error, 'h) io" where
  "embedded_schema W = (case wl_embedded W of None \<Rightarrow> io_fail NoSchema | Some h \<Rightarrow> io_ret h)"

definition validator_schema ::
  "('s, 'd, 'o, 'h) tools \<Rightarrow> ('s, 'd, 'h) write_lib \<Rightarrow> 's reader option \<Rightarrow> ('s, tool_error, 'h) io" where
  "validator_schema T W rd = (case rd of
      None \<Rightarrow> embedded_schema W
    | Some (G, r) \<Rightarrow>
        io_bind (io_wrap SchemaUnread (Schema G (tl_paths T) r)) (\<lambda>doc. case doc of
            None \<Rightarrow> embedded_schema W
          | Some text \<Rightarrow> io_wrap SchemaNotCompiled (compiled W text)))"

definition run_validator ::
  "('s, 'd, 'o, 'h) tools \<Rightarrow> ('s, 'd, 'h) write_lib \<Rightarrow> 's reader option \<Rightarrow> 'd validation_request \<Rightarrow>
   ('s, tool_error, verdicts) io" where
  "run_validator T W rd q =
     io_bind (validator_schema T W rd) (\<lambda>h.
       io_wrap LibraryFailed (wl_validate W h (org_of T) (tl_app T \<noteq> None) q))"

definition existing_verdict ::
  "('s, 'd, 'o, 'h) tools \<Rightarrow> ('s, 'd, 'h) write_lib \<Rightarrow> 's reader \<Rightarrow> string \<Rightarrow> 'd \<Rightarrow> ('s, tool_error, checked_entry) io" where
  "existing_verdict T W rd team d =
     io_bind (io_wrap LibraryFailed (io_of (rs_yaml (tl_setup T) d))) (\<lambda>y.
     io_bind (io_wrap LibraryFailed (io_of (rs_parse (tl_setup T) team y))) (\<lambda>ds.
     io_bind (run_validator T W (Some rd) \<lparr>vq_team = team, vq_entries = ds, vq_existing = True, vq_author = [],
         vq_authorTeams = []\<rparr>) (\<lambda>res.
       case find (\<lambda>e. vd_name e = rs_name (tl_setup T) d) (vs_entries res) of
         Some e \<Rightarrow> io_ret e
       | None \<Rightarrow> io_fail (NoVerdict (rs_name (tl_setup T) d)))))"

definition schema_problems ::
  "('s, 'd, 'o, 'h) tools \<Rightarrow> ('s, 'd, 'h) write_lib \<Rightarrow> 's reader \<Rightarrow> string \<Rightarrow> 'd \<Rightarrow> ('s, tool_error, string list) io" where
  "schema_problems T W rd team d = io_bind (existing_verdict T W rd team d) (\<lambda>e. io_ret (vd_problems e))"

section \<open>The plan\<close>

record planned_pull =
  pp_repository :: string
  pp_branch :: string
  pp_title :: string
  pp_files :: "string list"
  pp_body :: string
  pp_as :: string

record planned_message =
  pm_team :: string
  pm_channel :: string
  pm_channelName :: string
  pm_text :: string
  pm_deliverable :: bool
  pm_reason :: string

record plan =
  pln_repository :: string
  pln_team :: string
  pln_fromTeam :: string
  pln_before :: string
  pln_entry :: string
  pln_problems :: "string list"
  pln_accepted :: bool
  pln_pull :: planned_pull
  pln_ask :: "planned_message option"
  pln_notice :: "planned_message option"
  pln_change :: tf_change
  pln_changeKind :: string

definition empty_change :: tf_change where
  "empty_change = \<lparr>tc_branch = [], tc_title = [], tc_body = [], tc_files = []\<rparr>"

definition new_plan :: plan where
  "new_plan = \<lparr>pln_repository = [], pln_team = [], pln_fromTeam = [], pln_before = [], pln_entry = [], pln_problems = [],
     pln_accepted = False, pln_pull = \<lparr>pp_repository = [], pp_branch = [], pp_title = [], pp_files = [], pp_body = [], pp_as = []\<rparr>,
     pln_ask = None, pln_notice = None, pln_change = empty_change, pln_changeKind = []\<rparr>"

text \<open>The line every pull request of this server carries, and what reads it back.\<close>

definition marker_head :: string where "marker_head = ''<!-- giantswarm-repo-manager: team=''"
definition marker_tail :: string where "marker_tail = '' -->''"

definition marker :: "string \<Rightarrow> string" where
  "marker team = marker_head @ team @ marker_tail"

definition team_from_marker :: "string \<Rightarrow> string" where
  "team_from_marker body = (case str_cut body marker_head of
      (before, after, False) \<Rightarrow> []
    | (before, after, True) \<Rightarrow> (case str_cut after marker_tail of
        (team, rest, False) \<Rightarrow> [] | (team, rest, True) \<Rightarrow> team))"

text \<open>The files of the change are a Go map; the plan names their paths in the order of the pairs.\<close>

definition finish :: "repo \<Rightarrow> string \<Rightarrow> string \<Rightarrow> string \<Rightarrow> string \<Rightarrow> plan \<Rightarrow> plan" where
  "finish r as_who branch title body pl =
     (let b = trim_space body @ [newline, newline] @ marker (pln_team pl) @ [newline] in
      pl\<lparr>pln_change := (pln_change pl)\<lparr>tc_branch := branch, tc_title := title, tc_body := b\<rparr>,
         pln_pull := \<lparr>pp_repository = ro_owner r @ ''/'' @ ro_name r, pp_branch = branch, pp_title = title,
           pp_files = map fst (tc_files (pln_change pl)), pp_body = b, pp_as = as_who\<rparr>,
         pln_accepted := (pln_problems pl = [])\<rparr>)"

section \<open>Who reads, and what is read\<close>

record 's planner =
  pr_reader :: "'s reader"
  pr_as :: string

definition planner_of ::
  "('s, 'd, 'o, 'h) tools \<Rightarrow> ('s, 'd, 'h) write_lib \<Rightarrow> call \<Rightarrow> ('s, tool_error, 's planner) pio" where
  "planner_of T W cx s = (case person_of T cx s of
      None \<Rightarrow> None
    | Some (s', Inr p) \<Rightarrow> Some (s', Inr \<lparr>pr_reader = (pe_gh p, pe_repo p), pr_as = pe_login p\<rparr>)
    | Some (s', Inl e) \<Rightarrow> (case unattended T of
        Inl e' \<Rightarrow> Some (s', Inl (NoReader e e'))
      | Inr rd \<Rightarrow> Some (s', Inr \<lparr>pr_reader = rd, pr_as = ''unknown until you connect GitHub in muster ('' @
          wl_identity_text W e @ '')''\<rparr>)))"

definition inventory_hint :: "('s, 'd, 'o, 'h) tools \<Rightarrow> string \<Rightarrow> 's \<Rightarrow> 's \<times> string" where
  "inventory_hint T name s = (case tl_inventory T of
      None \<Rightarrow> (s, [])
    | Some A \<Rightarrow> (case ac_get A (org_of T @ ''/'' @ name) s of
        (s', Inl e) \<Rightarrow> (s', [])
      | (s', Inr r) \<Rightarrow> (s', case rc_declaration r of None \<Rightarrow> [] | Some d \<Rightarrow> d_team d)))"

text \<open>\<open>FindEntry\<close> answers only a file that declares the name, so the entry is there.\<close>

definition entry_for ::
  "('s, 'd, 'o, 'h) tools \<Rightarrow> 's reader \<Rightarrow> string \<Rightarrow> string \<Rightarrow> ('s, tool_error, 'd team_file \<times> 'd) io" where
  "entry_for T rd name hint s =
     (case (if hint = [] then inventory_hint T name s else (s, hint)) of (s', hint') \<Rightarrow>
        io_bind (io_wrap FilesFailed (FindEntry (fst rd) (tl_paths T) (tl_setup T) (snd rd) name hint')) (\<lambda>tf.
          case rs_entry (tl_setup T) (tf_entries tf) name of
            Some d \<Rightarrow> io_ret (tf, d)
          | None \<Rightarrow> io_fail (FilesFailed (NoEntry name [tf_team tf]))) s')"

text \<open>A message to a team, planned from its channel file. The channel of a refused read is empty.\<close>

definition plan_message ::
  "('s, 'd, 'o, 'h) tools \<Rightarrow> ('s, 'd, 'h) write_lib \<Rightarrow> 's reader \<Rightarrow> string \<Rightarrow> string \<Rightarrow> bool \<Rightarrow> 's \<Rightarrow> 's \<times> planned_message" where
  "plan_message T W rd team text for_ask s =
     (let m = \<lparr>pm_team = team, pm_channel = [], pm_channelName = [], pm_text = text, pm_deliverable = False, pm_reason = []\<rparr> in
      if tl_review T = None then (s, m\<lparr>pm_reason := ErrNotConfigured\<rparr>)
      else (case team_channel T (fst rd) (snd rd) team for_ask s of
          (s', Inl e) \<Rightarrow> (s', m\<lparr>pm_reason := wl_message_text W e\<rparr>)
        | (s', Inr ch) \<Rightarrow> (s', m\<lparr>pm_channel := cl_id ch, pm_channelName := cl_name ch, pm_deliverable := True\<rparr>)))"

section \<open>The commit\<close>

record delivery =
  dv_team :: string
  dv_channel :: string
  dv_channelName :: string
  dv_intendedChannel :: string
  dv_delivered :: bool
  dv_reviewID :: string
  dv_error :: string

record committed =
  cm_pullRequest :: opened_pull
  cm_ask :: "delivery option"
  cm_notice :: "delivery option"
  cm_pendingRun :: "pending_run option"

definition ToolPrefix :: string where "ToolPrefix = ''giantswarm-repo-manager''"
definition ToolApproveChange :: string where "ToolApproveChange = ''approve_change''"
definition ModeCommit :: string where "ModeCommit = ''commit''"

definition message_notice :: "planned_message \<Rightarrow> string \<Rightarrow> notice" where
  "message_notice m link = \<lparr>nt_team = pm_team m, nt_channel = pm_channel m, nt_text = pm_text m, nt_link = link,
     nt_channelName = pm_channelName m\<rparr>"

definition message_ask :: "planned_message \<Rightarrow> string \<Rightarrow> int \<Rightarrow> ask" where
  "message_ask m link n = notice.extend (message_notice m link) (ask.fields
     \<lparr>ap_tool = ''x_'' @ ToolPrefix @ ''_'' @ ToolApproveChange, ap_pullRequest = n, ap_mode = ModeCommit\<rparr>)"

definition deliver ::
  "('s, 'd, 'o, 'h) tools \<Rightarrow> planned_message \<Rightarrow> string \<Rightarrow> int \<Rightarrow> bool \<Rightarrow> 's \<Rightarrow> 's \<times> delivery" where
  "deliver T m link n for_ask s =
     (let d = \<lparr>dv_team = pm_team m, dv_channel = pm_channel m, dv_channelName = pm_channelName m, dv_intendedChannel = [],
         dv_delivered = False, dv_reviewID = [], dv_error = []\<rparr> in
      if \<not> pm_deliverable m then (s, d\<lparr>dv_error := pm_reason m\<rparr>)
      else (case (if for_ask then post_ask (tl_gateway T) (tl_review T) (message_ask m link n) s
                  else post_notice (tl_gateway T) (tl_review T) (message_notice m link) s) of
          (s', Inl e) \<Rightarrow> (s', d\<lparr>dv_error := review_text e\<rparr>)
        | (s', Inr p) \<Rightarrow> (s', d\<lparr>dv_delivered := True, dv_reviewID := ps_id p,
            dv_intendedChannel := (if ps_channel p \<noteq> [] \<and> ps_channel p \<noteq> pm_channel m then pm_channel m else []),
            dv_channel := (if ps_channel p \<noteq> [] then ps_channel p else pm_channel m)\<rparr>)))"

text \<open>Storing a record whose run was just marked; waking the poller has no effect here.\<close>

definition put_expected_run :: "'s access \<Rightarrow> repo_record \<Rightarrow> 's \<Rightarrow> 's \<times> store_error option" where
  "put_expected_run A r = ac_put A r"

text \<open>The record the expectation is marked on: the stored one, one built by a refresh, or for a
  repository to be created an empty one. \<open>None\<close> is an unreadable record.\<close>

definition record_to_mark ::
  "('s, 'd, 'o, 'h) tools \<Rightarrow> 's access \<Rightarrow> ('s, 'd, 'o, 'h) collector \<Rightarrow> string \<Rightarrow> string \<Rightarrow>
   ('s, 'd, 'o, 'h) world \<Rightarrow> (('s, 'd, 'o, 'h) world \<times> repo_record option) option" where
  "record_to_mark T A C repository kind st = (case ac_get A repository (fst st) of
      (s1, Inr r) \<Rightarrow> Some ((s1, snd st), Some r)
    | (s1, Inl (ErrNotFound k)) \<Rightarrow> (case refresh C None repository None SourceRefresh (s1, snd st) of
        None \<Rightarrow> None
      | Some (st', Inr r) \<Rightarrow> Some (st', Some r)
      | Some (st', Inl (NeitherDeclaredNorThere k')) \<Rightarrow> Some (st', if kind = ChangeCreated
            then Some (zero_record\<lparr>rc_repository := repository, rc_name := trim_prefix repository (org_of T @ ''/'')\<rparr>) else None)
      | Some (st', Inl e) \<Rightarrow> Some (st', None))
    | (s1, Inl e) \<Rightarrow> Some ((s1, snd st), None))"

definition expect_after ::
  "('s, 'd, 'o, 'h) tools \<Rightarrow> string \<Rightarrow> string \<Rightarrow> string \<Rightarrow> opened_pull \<Rightarrow>
   ('s, 'd, 'o, 'h) world \<Rightarrow> (('s, 'd, 'o, 'h) world \<times> pending_run option) option" where
  "expect_after T login repository kind pr st = (case (tl_inventory T, tl_collector T) of
      (Some A, Some C) \<Rightarrow> (case record_to_mark T A C repository kind st of
          None \<Rightarrow> None
        | Some (st1, None) \<Rightarrow> Some (st1, None)
        | Some (st1, Some r) \<Rightarrow>
            (let r' = opened (tl_engine T) (tl_clock T (fst st1)) login kind
                 \<lparr>cp_number = op_number pr, cp_url = op_url pr\<rparr> r in
             case put_expected_run A r' (fst st1) of
               (s2, Some e) \<Rightarrow> Some ((s2, snd st1), None)
             | (s2, None) \<Rightarrow> Some ((s2, snd st1), su_pendingRun (rc_setup r'))))
    | _ \<Rightarrow> Some (st, None))"

text \<open>The pull request opened with auto-merge armed as the author; a refusal leaves it unarmed.\<close>

definition armed :: "'s github \<Rightarrow> repo \<Rightarrow> opened_pull \<Rightarrow> 's \<Rightarrow> 's \<times> opened_pull" where
  "armed G r pr s =
     (if op_autoMerge pr then (s, pr)
      else (case EnableAutoMerge G r (op_nodeID pr) s of
          (s', Inl e) \<Rightarrow> (s', pr) | (s', Inr u) \<Rightarrow> (s', pr\<lparr>op_autoMerge := True\<rparr>)))"

definition deliver_if ::
  "('s, 'd, 'o, 'h) tools \<Rightarrow> planned_message option \<Rightarrow> opened_pull \<Rightarrow> bool \<Rightarrow> 's \<Rightarrow> 's \<times> delivery option" where
  "deliver_if T m pr for_ask s = (case m of
      None \<Rightarrow> (s, None)
    | Some m' \<Rightarrow> map_prod id Some (deliver T m' (op_url pr) (op_number pr) for_ask s))"

definition commit_plan ::
  "('s, 'd, 'o, 'h) tools \<Rightarrow> 's person \<Rightarrow> plan \<Rightarrow> (('s, 'd, 'o, 'h) world, tool_error, committed) pio" where
  "commit_plan T p pl st =
     (if \<not> pln_accepted pl then Some (st, Inl (SchemaRefuses (pln_problems pl)))
      else (case OpenPullRequest (pe_gh p) (pe_repo p) (pln_change pl) (fst st) of
          (s1, Inl e) \<Rightarrow> Some ((s1, snd st), Inl (FilesFailed e))
        | (s1, Inr pr0) \<Rightarrow>
            (case armed (pe_gh p) (pe_repo p) pr0 s1 of (s2, pr) \<Rightarrow>
             case deliver_if T (pln_ask pl) pr True s2 of (s3, dask) \<Rightarrow>
             case deliver_if T (pln_notice pl) pr False s3 of (s4, dnotice) \<Rightarrow>
             (let out = \<lparr>cm_pullRequest = pr, cm_ask = dask, cm_notice = dnotice, cm_pendingRun = None\<rparr> in
              if pln_changeKind pl = [] then Some ((s4, snd st), Inr out)
              else map_option (\<lambda>(st', run). (st', Inr (out\<lparr>cm_pendingRun := run\<rparr>)))
                (expect_after T (pe_login p) (pln_repository pl) (pln_changeKind pl) pr (s4, snd st))))))"

definition problems_text :: "string list \<Rightarrow> string" where
  "problems_text ps = str_join ps ''; ''"

section \<open>The framework of a write\<close>

text \<open>\<open>registerWrite\<close>: the mode's guard first, then the dry run, then the commit of a caller.\<close>

definition modeApply :: string where "modeApply = ''apply''"

definition check_mode :: "string \<Rightarrow> bool \<Rightarrow> tool_error option" where
  "check_mode mode dryRun =
     (let m = to_lower (trim_space mode) in
      if m = ModeCommit then None
      else if m = modeApply then Some ApplyRefused
      else if m = [] then (if dryRun then None else Some ModeRequired)
      else Some (BadMode mode))"

definition ArgDryRun :: string where "ArgDryRun = ''dryRun''"
definition ArgMode :: string where "ArgMode = ''mode''"

text \<open>The answer is the dry run's or the commit's.\<close>

definition run_write ::
  "string \<Rightarrow> (args \<Rightarrow> ('w, tool_error, 'p) pio) \<Rightarrow> (args \<Rightarrow> ('w, tool_error, 'c) pio) \<Rightarrow> call \<Rightarrow> args \<Rightarrow>
   ('w, tool_error, 'p + 'c) pio" where
  "run_write tool dry_run commit cx a st =
     (let dryRun = (arg_bool a ArgDryRun = Some True); a' = a(ArgDryRun := None, ArgMode := None) in
      case check_mode (arg_text a ArgMode) dryRun of
        Some e \<Rightarrow> Some (st, Inl e)
      | None \<Rightarrow>
          if dryRun then pio_bind (dry_run a') (\<lambda>x. pio_of (io_ret (Inl x))) st
          else if cx_login cx = None then Some (st, Inl (NeedsCaller tool))
          else pio_bind (commit a') (\<lambda>x. pio_of (io_ret (Inr x))) st)"

section \<open>update_repository\<close>

definition ToolUpdateRepository :: string where "ToolUpdateRepository = ''update_repository''"
definition ToolTransferRepository :: string where "ToolTransferRepository = ''transfer_repository''"
definition ToolSetLifecycle :: string where "ToolSetLifecycle = ''set_lifecycle''"

definition alignTrue :: string where "alignTrue = ''`align: true`''"

abbreviation para :: string where "para \<equiv> [newline, newline]"

definition reason_line :: "string \<Rightarrow> string" where
  "reason_line reason = (if trim_space reason = [] then [] else ''Reason: '' @ trim_space reason)"

definition reason_suffix :: "string \<Rightarrow> string" where
  "reason_suffix reason =
     (let r = trim_space reason;
          r' = (if \<not> has_suffix r ''.'' \<and> \<not> has_suffix r ''!'' \<and> \<not> has_suffix r ''?'' then r @ ''.'' else r)
      in if r = [] then [] else '' Reason: '' @ r')"

definition decides :: "string \<Rightarrow> string \<Rightarrow> string" where
  "decides team as_who = '' A member of '' @ team @ '' other than '' @ as_who @ '' approves.''"

definition opened_by :: "string \<Rightarrow> string" where
  "opened_by tool = ''Opened by giantswarm-repo-manager (`'' @ tool @ ''`) as the caller.''"

text \<open>The yaml of an entry, empty where devctl does not render it.\<close>

definition yaml_of :: "('s, 'd, 'o, 'h) tools \<Rightarrow> 'd \<Rightarrow> string" where
  "yaml_of T d = (case rs_yaml (tl_setup T) d of Inl e \<Rightarrow> [] | Inr y \<Rightarrow> y)"

definition fields_of :: "('s, 'd, 'h) write_lib \<Rightarrow> string \<Rightarrow> 'd \<Rightarrow> tool_error + fields" where
  "fields_of W name d = map_sum (FieldsUnread name) id (wl_fields W d)"

definition replace_plan ::
  "('s, 'd, 'o, 'h) tools \<Rightarrow> ('s, 'd, 'h) write_lib \<Rightarrow> 's reader \<Rightarrow> 'd team_file \<Rightarrow> string \<Rightarrow> 'd \<Rightarrow> 'd \<Rightarrow>
   ('s, tool_error, plan) io" where
  "replace_plan T W rd tf name before after =
     io_bind (schema_problems T W rd (tf_team tf) after) (\<lambda>problems.
     io_bind (io_wrap EntryFailed (io_of (replace_entry (tl_yaml T) (tl_setup T) (fi_content (tf_file tf)) name after))) (\<lambda>content.
       io_ret (new_plan\<lparr>pln_repository := org_of T @ ''/'' @ name, pln_team := tf_team tf, pln_problems := problems,
         pln_change := empty_change\<lparr>tc_files := [(fi_path (tf_file tf), content)]\<rparr>, pln_changeKind := ChangeChanged,
         pln_before := yaml_of T before, pln_entry := yaml_of T after\<rparr>)))"

text \<open>The entry of a call: its name, where it has one, must be the repository's.\<close>

definition entry_arg :: "args \<Rightarrow> (string \<times> jvalue) list option" where
  "entry_arg a = (case a argEntry of Some (AObject kvs) \<Rightarrow> Some kvs | _ \<Rightarrow> None)"

definition entry_name :: "('s, 'd, 'h) write_lib \<Rightarrow> (string \<times> jvalue) list \<Rightarrow> string" where
  "entry_name W kvs = (case map_of kvs FieldName of None \<Rightarrow> []
     | Some v \<Rightarrow> (case wl_str W v of None \<Rightarrow> [] | Some n \<Rightarrow> n))"

definition named_entry :: "('s, 'd, 'h) write_lib \<Rightarrow> string \<Rightarrow> (string \<times> jvalue) list \<Rightarrow> tool_error + (string \<times> jvalue) list" where
  "named_entry W name kvs =
     (if entry_name W kvs \<noteq> [] \<and> entry_name W kvs \<noteq> name then Inl (OtherName (entry_name W kvs) name)
      else Inr (AList.update FieldName (wl_of_str W name) kvs))"

definition plan_update ::
  "('s, 'd, 'o, 'h) tools \<Rightarrow> ('s, 'd, 'h) write_lib \<Rightarrow> args \<Rightarrow> 's planner \<Rightarrow> ('s, tool_error, plan) io" where
  "plan_update T W a pn =
     io_bind (io_of (repository_name T a)) (\<lambda>name.
     case entry_arg a of
       None \<Rightarrow> io_fail (Required argEntry)
     | Some kvs \<Rightarrow>
         io_bind (io_of (named_entry W name kvs)) (\<lambda>entry.
         io_bind (io_wrap EntryFailed (io_of (entry_from_value (tl_yaml T) (tl_setup T) (JMap entry)))) (\<lambda>after.
         io_bind (entry_for T (pr_reader pn) name []) (\<lambda>(tf, before).
         io_bind (replace_plan T W (pr_reader pn) tf name before after) (\<lambda>pl.
           io_ret (finish (snd (pr_reader pn)) (pr_as pn) (''reposetup/update-'' @ name)
             (''chore(repositories): update '' @ name @ '' ('' @ tf_team tf @ '')'')
             (''## Problem'' @ para @ ''The configuration of `'' @ org_of T @ ''/'' @ name @ ''` changes.'' @ para @
              ''## Solution'' @ para @ ''The entry in `'' @ fi_path (tf_file tf) @
              ''` is replaced; the reconciler applies the difference after this merges.'' @ para @
              reason_line (arg_text a argReason) @ para @ opened_by ToolUpdateRepository) pl))))))"

section \<open>transfer_repository\<close>

definition transfer_body ::
  "string \<Rightarrow> string \<Rightarrow> 'd team_file \<Rightarrow> 'd team_file \<Rightarrow> string \<Rightarrow> string \<Rightarrow> string" where
  "transfer_body org name src dst to reason =
     ''## Problem'' @ para @ ''`'' @ org @ ''/'' @ name @ ''` changes owner.'' @ para @ ''## Solution'' @ para @
     ''The entry moves from `'' @ fi_path (tf_file src) @ ''` (giving team: **'' @ tf_team src @ ''**) to `'' @
     fi_path (tf_file dst) @ ''` (receiving team: **'' @ to @ ''**), unchanged. '' @
     ''The reconciler re-applies team permissions, CODEOWNERS and the catalog mapping for '' @ to @
     '' after this merges.'' @ para @ reason_line reason @ para @ opened_by ToolTransferRepository"

definition transfer_texts :: "string \<Rightarrow> string \<Rightarrow> string \<Rightarrow> string \<Rightarrow> string \<Rightarrow> string \<Rightarrow> string \<times> string" where
  "transfer_texts as_who org name giving to reason =
     (let head = as_who @ '' asks to transfer `'' @ org @ ''/'' @ name @ ''` from '' @ giving @ '' to '' @ to in
      (head @ '': your team receives it.'' @ reason_suffix reason @ decides to as_who,
       head @ '': your team gives it; '' @ to @ '' decides.'' @ reason_suffix reason))"

text \<open>The entry cut out of one file and inserted into the other.\<close>

definition moved_entry ::
  "('s, 'd, 'o, 'h) tools \<Rightarrow> 'd team_file \<Rightarrow> 'd team_file \<Rightarrow> string \<Rightarrow> string \<Rightarrow> 'd \<Rightarrow> tool_error + (string \<times> string) list" where
  "moved_entry T src dst name to d =
     (case remove_entry (tl_yaml T) (fi_content (tf_file src)) name of
        Inl e \<Rightarrow> Inl (EntryFailed e)
      | Inr without \<Rightarrow> (case rs_insert (tl_setup T) to (fi_content (tf_file dst)) d of
          Inl e \<Rightarrow> Inl (NotInserted (fi_path (tf_file dst)) e)
        | Inr withit \<Rightarrow> Inr (AList.update (fi_path (tf_file dst)) withit [(fi_path (tf_file src), without)])))"

definition plan_transfer ::
  "('s, 'd, 'o, 'h) tools \<Rightarrow> ('s, 'd, 'h) write_lib \<Rightarrow> args \<Rightarrow> 's planner \<Rightarrow> ('s, tool_error, plan) io" where
  "plan_transfer T W a pn =
     io_bind (io_of (repository_name T a)) (\<lambda>name.
     let to = string_arg a argToTeam; rd = pr_reader pn; reason = arg_text a argReason in
     if to = [] then io_fail (Required argToTeam)
     else
       io_bind (entry_for T rd name []) (\<lambda>(src, d).
       if tf_team src = to then io_fail (OwnedAlready name to)
       else
         io_bind (io_wrap ReceivingTeam (TeamFile (fst rd) (tl_paths T) (tl_setup T) (snd rd) to)) (\<lambda>dst.
         if rs_entry (tl_setup T) (tf_entries dst) name \<noteq> None then io_fail (DeclaredAlready (fi_path (tf_file dst)) name)
         else
           io_bind (schema_problems T W rd to d) (\<lambda>problems.
           io_bind (io_of (moved_entry T src dst name to d)) (\<lambda>files s.
             (let pl = finish (snd rd) (pr_as pn) (''reposetup/transfer-'' @ name)
                   (''chore(repositories): transfer '' @ name @ '' from '' @ tf_team src @ '' to '' @ to)
                   (transfer_body (org_of T) name src dst to reason)
                   (new_plan\<lparr>pln_repository := org_of T @ ''/'' @ name, pln_team := to, pln_fromTeam := tf_team src,
                     pln_problems := problems, pln_change := empty_change\<lparr>tc_files := files\<rparr>,
                     pln_changeKind := ChangeTransferred, pln_entry := yaml_of T d\<rparr>);
                  texts = transfer_texts (pr_as pn) (org_of T) name (tf_team src) to reason in
              case plan_message T W rd to (fst texts) True s of (s1, m1) \<Rightarrow>
              case plan_message T W rd (tf_team src) (snd texts) False s1 of (s2, m2) \<Rightarrow>
                (s2, Inr (pl\<lparr>pln_ask := Some m1, pln_notice := Some m2\<rparr>))))))))"

section \<open>set_lifecycle\<close>

definition confirmed :: "('s, 'd, 'o, 'h) tools \<Rightarrow> string \<Rightarrow> args \<Rightarrow> tool_error + unit" where
  "confirmed T name a =
     (let typed = string_arg a argConfirm in
      if typed = [] then Inl (ConfirmMissing name)
      else if \<not> equal_fold (trim_prefix typed (org_of T @ ''/'')) name then Inl (ConfirmOther typed name)
      else Inr ())"

definition lifecycle_effect :: "string \<Rightarrow> string \<times> string" where
  "lifecycle_effect lc =
     (if lc = LifecycleArchived then
        (''the reconciler archives the repository on GitHub and unfollows it on CircleCI; the entry stays in the team file as the record'',
         ChangeArchived)
      else if lc = LifecycleDeleted then
        (''the reconciler unfollows the repository on CircleCI and deletes it on GitHub '' @ em_dash @
         '' code, issues, pull requests, releases and packages with it; an organization owner can restore it on GitHub for 90 days; the entry stays in the team file as the record of the deletion'',
         ChangeDeleted)
      else (''security-only Renovate updates and the catalog's deprecation flag'', ChangeDeprecated))"

definition verb :: "string \<Rightarrow> string" where
  "verb lc = (if lc = LifecycleArchived then ''archive'' else if lc = LifecycleDeleted then ''delete'' else ''deprecate'')"

definition lifecycle_arg :: "('s, 'd, 'o, 'h) tools \<Rightarrow> string \<Rightarrow> args \<Rightarrow> tool_error + string" where
  "lifecycle_arg T name a =
     (let lc = arg_text a argLifecycle in
      if lc = LifecycleDeprecated \<or> lc = LifecycleArchived then Inr lc
      else if lc = LifecycleDeleted then map_sum id (\<lambda>u. lc) (confirmed T name a)
      else Inl UnknownLifecycle)"

text \<open>The entry with the lifecycle, and with the opt-in where it has none.\<close>

definition with_lifecycle ::
  "('s, 'd, 'o, 'h) tools \<Rightarrow> string \<Rightarrow> bool \<Rightarrow> 'd \<Rightarrow> tool_error + 'd" where
  "with_lifecycle T lc align before =
     map_sum EntryFailed id (bind_result (set_field (tl_yaml T) (tl_setup T) before FieldLifecycle lc) (\<lambda>after.
       if align then Inr after else set_field (tl_yaml T) (tl_setup T) after FieldAlign ''true''))"

definition opts_in :: "bool \<Rightarrow> string" where
  "opts_in align = (if align then [] else '' The change also opts the repository in to alignment ('' @ alignTrue @
     '' in its entry), so the reconciler applies the lifecycle.'')"

definition lifecycle_body :: "string \<Rightarrow> string \<Rightarrow> string \<Rightarrow> bool \<Rightarrow> string \<Rightarrow> string \<Rightarrow> string" where
  "lifecycle_body org name lc align path reason =
     ''## Problem'' @ para @ ''`'' @ org @ ''/'' @ name @ ''` is to be '' @ lc @ ''.'' @ para @ ''## Solution'' @ para @
     ''`lifecycle: '' @ lc @ ''`'' @ (if align then [] else '' and '' @ alignTrue) @ '' in `'' @ path @ ''` '' @ em_dash @ '' '' @
     fst (lifecycle_effect lc) @ ''.'' @ opts_in align @ para @ reason_line reason @ para @ opened_by ToolSetLifecycle"

definition plan_lifecycle ::
  "('s, 'd, 'o, 'h) tools \<Rightarrow> ('s, 'd, 'h) write_lib \<Rightarrow> args \<Rightarrow> 's planner \<Rightarrow> ('s, tool_error, plan) io" where
  "plan_lifecycle T W a pn =
     io_bind (io_of (repository_name T a)) (\<lambda>name.
     io_bind (io_of (lifecycle_arg T name a)) (\<lambda>lc.
     let rd = pr_reader pn; reason = arg_text a argReason in
     io_bind (entry_for T rd name []) (\<lambda>(tf, before).
     io_bind (io_of (fields_of W name before)) (\<lambda>f.
     if fl_lifecycle f = lc then io_fail (LifecycleAlready name lc)
     else
       io_bind (io_of (with_lifecycle T lc (fl_align f) before)) (\<lambda>after.
       io_bind (replace_plan T W rd tf name before after) (\<lambda>pl0 s.
         (let pl = finish (snd rd) (pr_as pn) (''reposetup/'' @ lc @ ''-'' @ name)
               (''chore(repositories): '' @ verb lc @ '' '' @ name @ '' ('' @ tf_team tf @ '')'')
               (lifecycle_body (org_of T) name lc (fl_align f) (fi_path (tf_file tf)) reason)
               (pl0\<lparr>pln_changeKind := snd (lifecycle_effect lc)\<rparr>);
              text = pr_as pn @ '' asks to '' @ verb lc @ '' `'' @ org_of T @ ''/'' @ name @ ''` (owned by '' @ tf_team tf @ '').'' @
                opts_in (fl_align f) @ reason_suffix reason @ decides (tf_team tf) (pr_as pn) in
          case plan_message T W rd (tf_team tf) text True s of (s1, m) \<Rightarrow> (s1, Inr (pl\<lparr>pln_ask := Some m\<rparr>)))))))))"

section \<open>A write with a plan\<close>

text \<open>The dry run plans as whom the call can be, the commit as the person; the plan runs on the world.\<close>

definition dry_run_plan ::
  "('s, 'd, 'o, 'h) tools \<Rightarrow> ('s, 'd, 'h) write_lib \<Rightarrow> (args \<Rightarrow> 's planner \<Rightarrow> ('s, tool_error, plan) io) \<Rightarrow> call \<Rightarrow> args \<Rightarrow>
   (('s, 'd, 'o, 'h) world, tool_error, plan) pio" where
  "dry_run_plan T W mk cx a = on_world (pio_bind (planner_of T W cx) (\<lambda>pn. pio_of (mk a pn)))"

definition commit_as_person ::
  "('s, 'd, 'o, 'h) tools \<Rightarrow> (args \<Rightarrow> 's planner \<Rightarrow> ('s, tool_error, plan) io) \<Rightarrow> call \<Rightarrow> args \<Rightarrow>
   (('s, 'd, 'o, 'h) world, tool_error, committed) pio" where
  "commit_as_person T mk cx a =
     pio_bind (on_world (pio_wrap NotAPerson (person_of T cx))) (\<lambda>p.
     pio_bind (on_world (pio_of (mk a \<lparr>pr_reader = (pe_gh p, pe_repo p), pr_as = pe_login p\<rparr>))) (\<lambda>pl.
       commit_plan T p pl))"

definition update_repository ::
  "('s, 'd, 'o, 'h) tools \<Rightarrow> ('s, 'd, 'h) write_lib \<Rightarrow> call \<Rightarrow> args \<Rightarrow> (('s, 'd, 'o, 'h) world, tool_error, plan + committed) pio" where
  "update_repository T W cx = run_write ToolUpdateRepository (dry_run_plan T W (plan_update T W) cx)
     (commit_as_person T (plan_update T W) cx) cx"

definition transfer_repository ::
  "('s, 'd, 'o, 'h) tools \<Rightarrow> ('s, 'd, 'h) write_lib \<Rightarrow> call \<Rightarrow> args \<Rightarrow> (('s, 'd, 'o, 'h) world, tool_error, plan + committed) pio" where
  "transfer_repository T W cx = run_write ToolTransferRepository (dry_run_plan T W (plan_transfer T W) cx)
     (commit_as_person T (plan_transfer T W) cx) cx"

definition set_lifecycle ::
  "('s, 'd, 'o, 'h) tools \<Rightarrow> ('s, 'd, 'h) write_lib \<Rightarrow> call \<Rightarrow> args \<Rightarrow> (('s, 'd, 'o, 'h) world, tool_error, plan + committed) pio" where
  "set_lifecycle T W cx = run_write ToolSetLifecycle (dry_run_plan T W (plan_lifecycle T W) cx)
     (commit_as_person T (plan_lifecycle T W) cx) cx"

end
