(* ===== verification/Approvals.thy ===== *)
theory Approvals
  imports Plans
begin

text \<open>
  internal/tools/writes.go (approve_change) and conflict.go: who may approve a pull request of the team
  files, the re-rendering of a conflicting one as the approver, the review, the landing and the
  answer's sentence; and the ask the poller's conflict hook posts for an approved pull request. The log
  lines are left out. A loop over the pages of reviews or teams that never ends is \<open>None\<close>.
\<close>

section \<open>The decision\<close>

record decision =
  dn_repo :: repo
  dn_number :: int
  dn_team :: string
  dn_author :: string
  dn_pr :: gh_pull

record approval =
  al_pullRequest :: int
  al_team :: string
  al_author :: string
  al_login :: string
  al_teams :: "string list"
  al_member :: bool
  al_reviewURL :: string
  al_merged :: bool
  al_autoMerge :: bool
  al_rerendered :: "rerendered option"
  al_rerenderError :: string
  al_message :: string

definition decision_of ::
  "('s, 'd, 'o, 'h) tools \<Rightarrow> 's github \<Rightarrow> repo \<Rightarrow> int \<Rightarrow> ('s, tool_error, decision) io" where
  "decision_of T G r n =
     io_bind (io_wrap (PullUnread n) (gh_get_pull G (ro_owner r) (ro_name r) n)) (\<lambda>pr.
       let d = \<lparr>dn_repo = r, dn_number = n, dn_team = [], dn_author = gp_author pr, dn_pr = pr\<rparr>;
           team = team_from_marker (gp_body pr) in
       if team \<noteq> [] then io_ret (d\<lparr>dn_team := team\<rparr>)
       else
         io_bind (io_wrap FilesFailed (ChangedTeamFiles G (tl_paths T) r n)) (\<lambda>teams. case teams of
             [] \<Rightarrow> io_fail (NothingToDecide n)
           | [t] \<Rightarrow> io_ret (d\<lparr>dn_team := t\<rparr>)
           | _ \<Rightarrow> io_fail (SeveralTeams n teams)))"

text \<open>The author first, then a person outside the deciding team.\<close>

definition approval_by :: "decision \<Rightarrow> 's person \<Rightarrow> tool_error + approval" where
  "approval_by d p =
     (let member = member_of p (dn_team d) in
      if equal_fold (dn_author d) (pe_login p) then Inl (OwnPullRequest (pe_login p) (dn_number d) (dn_team d))
      else if \<not> member then Inl (NotAMember (pe_login p) (dn_team d)
        (''the review of '' @ pull_slug (dn_repo d) (dn_number d) @ '' is not yours to give''))
      else Inr \<lparr>al_pullRequest = dn_number d, al_team = dn_team d, al_author = dn_author d, al_login = pe_login p,
        al_teams = pe_teams p, al_member = member, al_reviewURL = [], al_merged = False, al_autoMerge = False,
        al_rerendered = None, al_rerenderError = [], al_message = []\<rparr>)"

section \<open>The approval\<close>

text \<open>\<open>mergeableAgain\<close>: the conflict noted on the records whose pending run is the pull request.\<close>

fun mergeable_again :: "'s access \<Rightarrow> string \<Rightarrow> int \<Rightarrow> string list \<Rightarrow> 's \<Rightarrow> 's" where
  "mergeable_again A org n [] s = s"
| "mergeable_again A org n (name # names) s = mergeable_again A org n names
     (case ac_get A (org @ ''/'' @ name) s of
        (s', Inl e) \<Rightarrow> s'
      | (s', Inr r) \<Rightarrow>
          if follows (su_pendingRun (rc_setup r)) n \<and> conflicting (su_pendingRun (rc_setup r))
          then fst (ac_put A (mergeable r) s') else s')"

definition rerender_as ::
  "('s, 'd, 'o, 'h) tools \<Rightarrow> 's person \<Rightarrow> decision \<Rightarrow> 's \<Rightarrow> 's \<times> (tf_error + rerendered option)" where
  "rerender_as T p d s = (case Conflicts (pe_gh p) (pe_repo p) (dn_pr d) s of
      (s1, Inl e) \<Rightarrow> (s1, Inr None)
    | (s1, Inr (pr, False)) \<Rightarrow> (s1, Inr None)
    | (s1, Inr (pr, True)) \<Rightarrow> (case Rerender (pe_gh p) (tl_yaml T) (tl_setup T) (tl_paths T) (pe_repo p) pr s1 of
        (s2, Inl e) \<Rightarrow> (s2, Inl e)
      | (s2, Inr rr) \<Rightarrow> (case tl_inventory T of
          None \<Rightarrow> (s2, Inr (Some rr))
        | Some A \<Rightarrow> (mergeable_again A (org_of T) (dn_number d) (rr_entries rr) s2, Inr (Some rr)))))"

text \<open>The answer's one sentence.\<close>

definition outcome_text :: "decision \<Rightarrow> string \<Rightarrow> landing \<Rightarrow> rerendered option \<Rightarrow> string \<Rightarrow> string" where
  "outcome_text d login l rr rerenderError =
     (let pr = pull_slug (dn_repo d) (dn_number d);
          head = ''Approved as '' @ login;
          subject = (if rr = None then pr
            else pr @ '', re-rendered on '' @ ro_ref (dn_repo d) @ '' first (a neighbouring entry had changed),'')
      in if rerenderError \<noteq> [] then
           head @ ''; '' @ pr @ '' is not merged: it conflicts with '' @ ro_ref (dn_repo d) @
           '' (a neighbouring entry changed first) and re-rendering it failed: '' @ trim_suffix rerenderError ''.'' @
           ''. Rebase it on GitHub.''
         else if la_merged l then head @ '' and merged: '' @ trim_suffix subject '','' @ ''.''
         else if la_autoMerge l then head @ ''; '' @ subject @ '' merges by itself once its checks pass.''
         else head @ ''; '' @ subject @ '' is not merged: '' @ trim_suffix (la_reason l) ''.'' @ ''. Merge it on GitHub.'')"

definition approve_as ::
  "('s, 'd, 'o, 'h) tools \<Rightarrow> ('s, 'd, 'h) write_lib \<Rightarrow> 's person \<Rightarrow> decision \<Rightarrow> approval \<Rightarrow> ('s, tool_error, approval) io" where
  "approve_as T W p d a s =
     (case rerender_as T p d s of (s1, rr) \<Rightarrow>
       (let done_rr = (case rr of Inr r \<Rightarrow> r | Inl e \<Rightarrow> None);
            err = (case rr of Inl e \<Rightarrow> wl_text W e | Inr r \<Rightarrow> []) in
        case Approve (pe_gh p) (pe_repo p) (dn_number d)
            (''Approved as a member of '' @ dn_team d @ '' through giantswarm-repo-manager.'') s1 of
          (s2, Inl e) \<Rightarrow> (s2, Inl (FilesFailed e))
        | (s2, Inr url) \<Rightarrow> (case Land (pe_gh p) (pe_repo p) (dn_number d) s2 of
            (s3, l) \<Rightarrow> (s3, Inr (a\<lparr>al_rerendered := done_rr, al_rerenderError := err, al_reviewURL := url,
              al_merged := la_merged l, al_autoMerge := la_autoMerge l,
              al_message := outcome_text d (pe_login p) l done_rr err\<rparr>)))))"

definition approve ::
  "('s, 'd, 'o, 'h) tools \<Rightarrow> ('s, 'd, 'h) write_lib \<Rightarrow> call \<Rightarrow> bool \<Rightarrow> args \<Rightarrow> ('s, tool_error, approval) pio" where
  "approve T W cx submit a =
     (let n = go_int (number a argPullRequest 0) in
      if n \<le> 0 then pio_of (io_fail (Required argPullRequest))
      else
        pio_bind (pio_wrap NotAPerson (person_of T cx)) (\<lambda>p. pio_of (
          io_bind (decision_of T (pe_gh p) (pe_repo p) n) (\<lambda>d.
          io_bind (io_of (approval_by d p)) (\<lambda>al.
            if \<not> submit then io_ret al else approve_as T W p d al)))))"

definition approve_change ::
  "('s, 'd, 'o, 'h) tools \<Rightarrow> ('s, 'd, 'h) write_lib \<Rightarrow> call \<Rightarrow> args \<Rightarrow> ('s, tool_error, approval + approval) pio" where
  "approve_change T W cx = run_write ToolApproveChange (approve T W cx False) (approve T W cx True) cx"

section \<open>The conflict hook\<close>

definition conflict_text :: "repo_record \<Rightarrow> pending_run \<Rightarrow> repo \<Rightarrow> string \<Rightarrow> string" where
  "conflict_text rec p r team =
     pn_by p @ CHR 0x27 # ''s approved '' @ pull_request_noun (pn_kind p) @ '' pull request for '' @ rc_repository rec @
     '' conflicts with '' @ ro_ref r @ '': a neighbouring entry changed first, and it cannot merge as it stands. '' @
     ''Approve re-renders it on '' @ ro_ref r @ '' as you and lands it.'' @ decides team (pn_by p)"

text \<open>\<open>Conflicted\<close> with the body of the pull request; the answer is what became of the ask.\<close>

definition conflicted ::
  "('s, 'd, 'o, 'h) tools \<Rightarrow> ('s, 'd, 'h) write_lib \<Rightarrow> repo_record \<Rightarrow> string \<Rightarrow> 's \<Rightarrow> ('s \<times> delivery option) option" where
  "conflicted T W rec body s = (case su_pendingRun (rc_setup rec) of
      None \<Rightarrow> Some (s, None)
    | Some p \<Rightarrow> (case pn_pullRequest p of
        None \<Rightarrow> Some (s, None)
      | Some pr \<Rightarrow> (case unattended T of
          Inl e \<Rightarrow> Some (s, None)
        | Inr (G, r) \<Rightarrow> (case Approved G r (cp_number pr) s of
            None \<Rightarrow> None
          | Some (s1, Inl e) \<Rightarrow> Some (s1, None)
          | Some (s1, Inr False) \<Rightarrow> Some (s1, None)
          | Some (s1, Inr True) \<Rightarrow>
              (let named = team_from_marker body;
                   team = (if named \<noteq> [] then named else case rc_declaration rec of None \<Rightarrow> [] | Some d \<Rightarrow> d_team d)
               in if team = [] then Some (s1, None)
                  else (case plan_message T W (G, r) team (conflict_text rec p r team) True s1 of
                      (s2, m) \<Rightarrow> Some (map_prod id Some (deliver T m (cp_url pr) (cp_number pr) True s2))))))))"

end
