(* ===== verification/Aligns.thy ===== *)
theory Aligns
  imports Approvals
begin

text \<open>
  internal/tools/writes.go (align_repository): what an Align now does to a repository, decided by its
  entry, the warning a person reads first, the opt-in's pull request, and the dispatch of the
  reconciler with the record that waits for its run. And the tool watch_repository as it is called
  (watch.go).
\<close>

section \<open>Texts\<close>

definition ToolAlignRepository :: string where "ToolAlignRepository = ''align_repository''"

datatype align_mode = DispatchModeAlign | DispatchModeCheck | DispatchModeOptIn

record planned_step =
  pd_step :: string
  pd_changes :: "string list"

definition alignChanges :: string where
  "alignChanges = ''merge settings (squash only, auto-merge, delete branch on merge, update branch), wiki and projects off, issues on, team permissions (employees admin, bots push), branch protection (one approving review, enforce_admins on, strict up-to-date, every reporting check required), the CircleCI follow and setup workflows, a CODEOWNERS pull request, description and visibility, the owning team's issue label team/<team> (created when missing), lifecycle, catalog and mapping, and a missed release build''"

definition runsAsYou :: string where "runsAsYou = ''It runs as you.''"

definition align_warning :: "string \<Rightarrow> string \<Rightarrow> bool \<Rightarrow> bool \<Rightarrow> string" where
  "align_warning repository team optedIn declared =
     (let head = ''Align now changes '' @ repository @
            '' on GitHub and CircleCI to its declared set-up and the company baseline: '' @ alignChanges @ ''. '' @ runsAsYou @ '' '';
          declare_it = '' from the team alone and changes nothing; declare the repository with '' @ alignTrue @
            '' in its entry to have it aligned.''
      in if \<not> declared \<and> team = [] then
           head @ repository @ '' has no entry and no team is known for it: pass team. The run then checks'' @ declare_it
         else if \<not> declared then head @ repository @ '' has no entry: this run checks'' @ declare_it
         else if optedIn then
           head @ repository @ '' is opted in to alignment ('' @ alignTrue @ '' in its entry): the planned changes are applied.''
         else
           repository @ '' has not opted in to alignment. Align now opts it in '' @ em_dash @ '' '' @ alignTrue @
           '' in its entry, in a pull request '' @ team @ '' reviews (the ask goes to '' @ team @ CHR 0x27 #
           ''s channel; a member other than you approves) '' @ em_dash @
           '' and the reconciler applies the planned changes when it merges: '' @ alignChanges @ ''. '' @ runsAsYou)"

definition dispatch_then :: "string \<Rightarrow> string" where
  "dispatch_then name = ''the inventory reads the run's reconcile-'' @ name @
     '' artifact from GitHub within seconds of the run completing: get_repository shows setup.pendingRun until then, setup.lastRun after, with its failed steps and findings; the team's standup channel hears nothing about a dispatch''"

definition opt_in_then :: "string \<Rightarrow> string" where
  "opt_in_then repository = ''when the pull request merges, the reconciler aligns '' @ repository @
     '' (its push run); the record shows setup.pendingRun until that run reports''"

definition planned_sentence :: "planned_step list \<Rightarrow> string \<Rightarrow> string" where
  "planned_sentence planned checkedAt =
     (if planned = [] then
        ''the reconciler applies what its run finds once merged ('' @
          (if checkedAt = [] then ''no check has run yet'' else ''the last check found the repository converged'') @ '')''
      else
        (let n = (\<Sum>s\<leftarrow>planned. length (pd_changes s));
             count = (if n = 0 then ''the planned changes'' else if n = 1 then ''1 planned change''
               else show_nat n @ '' planned changes'')
         in ''the reconciler applies '' @ count @ '' once merged '' @ em_dash @ '' '' @ str_join (map pd_step planned) '', ''))"

definition planned_list :: "planned_step list \<Rightarrow> string" where
  "planned_list planned =
     (if planned = [] then []
      else para @ ''Planned changes from the last check:'' @ [newline] @
        concat (map (\<lambda>s. newline # ''- **'' @ pd_step s @ ''**: '' @ str_join (pd_changes s) ''; '') planned))"

section \<open>The opt-in\<close>

definition opt_in_body :: "string \<Rightarrow> string \<Rightarrow> string \<Rightarrow> string \<Rightarrow> planned_step list \<Rightarrow> string" where
  "opt_in_body org name path applies planned =
     ''## Problem'' @ para @ ''`'' @ org @ ''/'' @ name @
     ''` is to be aligned with its declared set-up and the company baseline, and its entry has not opted in: without '' @ alignTrue @
     '' the reconciler checks and changes nothing.'' @ para @ ''## Solution'' @ para @ alignTrue @ '' in the entry in `'' @ path @
     ''`, nothing else changed; '' @ applies @ ''.'' @ planned_list planned @ para @ opened_by ToolAlignRepository"

definition plan_opt_in ::
  "('s, 'd, 'o, 'h) tools \<Rightarrow> ('s, 'd, 'h) write_lib \<Rightarrow> 's planner \<Rightarrow> 'd team_file \<Rightarrow> 'd \<Rightarrow> planned_step list \<Rightarrow> string \<Rightarrow>
   ('s, tool_error, plan) io" where
  "plan_opt_in T W pn tf before planned checkedAt =
     (let name = rs_name (tl_setup T) before; rd = pr_reader pn in
      io_bind (io_wrap EntryFailed (io_of (set_field (tl_yaml T) (tl_setup T) before FieldAlign ''true''))) (\<lambda>after.
      io_bind (replace_plan T W rd tf name before after) (\<lambda>pl0 s.
        (let applies = planned_sentence planned checkedAt;
             pl = finish (snd rd) (pr_as pn) (''reposetup/align-'' @ name)
               (''chore(repositories): opt '' @ name @ '' in to alignment ('' @ tf_team tf @ '')'')
               (opt_in_body (org_of T) name (fi_path (tf_file tf)) applies planned) pl0;
             text = pr_as pn @ '' asks to align `'' @ org_of T @ ''/'' @ name @ ''` (owned by '' @ tf_team tf @
               ''): the change opts it in to alignment ('' @ alignTrue @ '') and '' @ applies @ ''.'' @ decides (tf_team tf) (pr_as pn) in
         case plan_message T W rd (tf_team tf) text True s of (s1, m) \<Rightarrow> (s1, Inr (pl\<lparr>pln_ask := Some m\<rparr>))))))"

section \<open>The dispatch\<close>

record dispatch =
  dp_workflow :: string
  dp_inputs :: "(string \<times> string) list"
  dp_as :: string
  dp_dispatched :: bool
  dp_runsURL :: string
  dp_then :: string
  dp_findings :: "engine_finding list"
  dp_pendingRun :: "pending_run option"
  dp_team :: string
  dp_declared :: bool
  dp_optedIn :: bool
  dp_mode :: align_mode
  dp_plan :: "plan option"
  dp_committed :: "committed option"
  dp_planned :: "planned_step list"
  dp_checkedAt :: string
  dp_warning :: string

definition refused_text :: string where
  "refused_text = ''the inventory's last check refused the entry (findings): unless the team file changed since, the run reports the refusal and runs no step '' @ em_dash @ '' fix the entry with update_repository first; ''"

text \<open>The record of the repository, where the inventory answers one.\<close>

definition known_record :: "('s, 'd, 'o, 'h) tools \<Rightarrow> args \<Rightarrow> 's \<Rightarrow> 's \<times> repo_record option" where
  "known_record T a s = (case (tl_inventory T, repository_key T a) of
      (Some A, Inr key) \<Rightarrow> (case ac_get A key s of (s', Inl e) \<Rightarrow> (s', None) | (s', Inr r) \<Rightarrow> (s', Some r))
    | _ \<Rightarrow> (s, None))"

text \<open>The last check: the findings of a refused entry, when it ran, and what an alignment applies.\<close>

definition last_check ::
  "('s, 'd, 'o, 'h) tools \<Rightarrow> ('s, 'd, 'h) write_lib \<Rightarrow> repo_record option \<Rightarrow> (bool \<times> engine_finding list) \<times> string \<times> planned_step list" where
  "last_check T W rec = (case (case rec of None \<Rightarrow> None | Some r \<Rightarrow> su_checks (rc_setup r)) of
      None \<Rightarrow> ((False, []), [], [])
    | Some res \<Rightarrow>
        ((if the_step (tl_engine T) res StepEntry \<noteq> None then (True, eng_findings (tl_engine T) res) else (False, [])),
         rfc3339 (wl_finishedAt W res),
         map (\<lambda>s. \<lparr>pd_step = tl_steps T (sr_step s), pd_changes = sr_changes s\<rparr>)
           (filter (\<lambda>s. sr_verdict s = VerdictDrift) (res_steps res))))"

text \<open>The entry on the team files: its file, itself and its fields; \<open>None\<close> without one.\<close>

definition declared_entry ::
  "('s, 'd, 'o, 'h) tools \<Rightarrow> ('s, 'd, 'h) write_lib \<Rightarrow> 's person \<Rightarrow> string \<Rightarrow> string \<Rightarrow>
   ('s, tool_error, ('d team_file \<times> 'd \<times> fields) option) io" where
  "declared_entry T W p name hint s =
     (case FindEntry (pe_gh p) (tl_paths T) (tl_setup T) (pe_repo p) name hint s of
        (s', Inl (NoEntry n ts)) \<Rightarrow> (s', Inr None)
      | (s', Inl e) \<Rightarrow> (s', Inl (ReadingFiles name e))
      | (s', Inr tf) \<Rightarrow> (case rs_entry (tl_setup T) (tf_entries tf) name of
          None \<Rightarrow> (s', Inr None)
        | Some d \<Rightarrow> (s', map_sum id (\<lambda>f. Some (tf, d, f)) (fields_of W name d))))"

definition dispatch_inputs :: "string \<Rightarrow> args \<Rightarrow> (string \<times> string) list" where
  "dispatch_inputs name a = (argRepository, name) #
     (if string_arg a argTeam = [] then [] else [(argTeam, string_arg a argTeam)])"

text \<open>The answer before anything is written, with the opt-in's plan where there is one.\<close>

definition plan_dispatch ::
  "('s, 'd, 'o, 'h) tools \<Rightarrow> ('s, 'd, 'h) write_lib \<Rightarrow> call \<Rightarrow> args \<Rightarrow>
   ('s, tool_error, 's person \<times> repo_record option \<times> dispatch) pio" where
  "plan_dispatch T W cx a =
     pio_bind (pio_of (io_of (repository_name T a))) (\<lambda>name.
     pio_bind (\<lambda>s. Some (case known_record T a s of (s', r) \<Rightarrow> (s', Inr r))) (\<lambda>rec.
     pio_bind (pio_wrap NotAPerson (person_of T cx)) (\<lambda>p.
     let repository = org_of T @ ''/'' @ name; workflow = reconciler_workflow T; team = string_arg a argTeam;
         hint = (if team \<noteq> [] then team else case rec of None \<Rightarrow> [] | Some r \<Rightarrow>
           (case rc_declaration r of None \<Rightarrow> [] | Some d \<Rightarrow> d_team d));
         pn = \<lparr>pr_reader = (pe_gh p, pe_repo p), pr_as = pe_login p\<rparr> in
     case last_check T W rec of ((refused, fs), checkedAt, planned) \<Rightarrow>
     pio_of (io_bind (declared_entry T W p name hint) (\<lambda>found.
       let d = \<lparr>dp_workflow = workflow, dp_inputs = dispatch_inputs name a, dp_as = pe_login p, dp_dispatched = False,
             dp_runsURL = WorkflowURL (pe_repo p) workflow,
             dp_then = (if refused then refused_text else []) @ dispatch_then name, dp_findings = fs,
             dp_pendingRun = None, dp_team = team, dp_declared = False, dp_optedIn = False, dp_mode = DispatchModeCheck,
             dp_plan = None, dp_committed = None, dp_planned = planned, dp_checkedAt = checkedAt,
             dp_warning = align_warning repository team False False\<rparr> in
       case found of
         None \<Rightarrow> io_ret (p, rec, d)
       | Some (tf, entry, f) \<Rightarrow>
           let team' = (if team = [] then tf_team tf else team);
               d' = d\<lparr>dp_team := team', dp_declared := True, dp_optedIn := fl_align f,
                 dp_warning := align_warning repository team' (fl_align f) True\<rparr> in
           if fl_align f then io_ret (p, rec, d'\<lparr>dp_mode := DispatchModeAlign\<rparr>)
           else
             io_bind (plan_opt_in T W pn tf entry planned checkedAt) (\<lambda>pl.
               io_ret (p, rec, d'\<lparr>dp_mode := DispatchModeOptIn, dp_plan := Some pl,
                 dp_then := (if refused then refused_text else []) @ opt_in_then repository\<rparr>)))))))"

text \<open>The record marked as waiting for the dispatched run.\<close>

definition mark_dispatch ::
  "('s, 'd, 'o, 'h) tools \<Rightarrow> string \<Rightarrow> repo_record option \<Rightarrow> 's \<Rightarrow> 's \<times> pending_run option" where
  "mark_dispatch T login rec s = (case (rec, tl_inventory T) of
      (Some r, Some A) \<Rightarrow>
        (let r' = dispatched (tl_engine T) (tl_clock T s) login r in
         case put_expected_run A r' s of
           (s', Some e) \<Rightarrow> (s', None) | (s', None) \<Rightarrow> (s', su_pendingRun (rc_setup r')))
    | _ \<Rightarrow> (s, None))"

definition align ::
  "('s, 'd, 'o, 'h) tools \<Rightarrow> ('s, 'd, 'h) write_lib \<Rightarrow> call \<Rightarrow> bool \<Rightarrow> args \<Rightarrow>
   (('s, 'd, 'o, 'h) world, tool_error, dispatch) pio" where
  "align T W cx run a =
     pio_bind (on_world (plan_dispatch T W cx a)) (\<lambda>(p, rec, d).
       if \<not> run then pio_of (io_ret d)
       else (case dp_plan d of
           Some pl \<Rightarrow> pio_bind (commit_plan T p pl) (\<lambda>c. pio_of (io_ret (d\<lparr>dp_committed := Some c\<rparr>)))
         | None \<Rightarrow> on_world (pio_of (\<lambda>s. case Dispatch (pe_gh p) (pe_repo p) (dp_workflow d) (dp_inputs d) s of
             (s1, Inl e) \<Rightarrow> (s1, Inl (DispatchRefused e))
           | (s1, Inr u) \<Rightarrow> (case mark_dispatch T (pe_login p) rec s1 of
               (s2, run') \<Rightarrow> (s2, Inr (d\<lparr>dp_dispatched := True, dp_pendingRun := run'\<rparr>)))))))"

definition align_repository ::
  "('s, 'd, 'o, 'h) tools \<Rightarrow> ('s, 'd, 'h) write_lib \<Rightarrow> call \<Rightarrow> args \<Rightarrow>
   (('s, 'd, 'o, 'h) world, tool_error, dispatch + dispatch) pio" where
  "align_repository T W cx = run_write ToolAlignRepository (align T W cx False) (align T W cx True) cx"

section \<open>watch_repository\<close>

definition DefaultWatchTimeout :: rat where "DefaultWatchTimeout = 120"

text \<open>\<open>V\<close> makes the watch's reads for the caller.\<close>

definition watch_repository ::
  "('s, 'd, 'o, 'h) tools \<Rightarrow> ('s person \<Rightarrow> 's watch_env) \<Rightarrow> call \<Rightarrow> args \<Rightarrow> ('s, tool_error, watch) pio" where
  "watch_repository T V cx a =
     (if tl_inventory T = None then pio_of (io_fail InventoryOff)
      else pio_bind (pio_of (io_of (repository_name T a))) (\<lambda>name.
        let pr = go_int (number a argPullRequest 0); timeout = number a argTimeout DefaultWatchTimeout in
        if pr \<le> 0 then pio_of (io_fail (Required argPullRequest))
        else if timeout \<le> 0 \<or> timeout > rat_of_int MaxWatchTimeout then pio_of (io_fail BadTimeout)
        else pio_bind (pio_wrap NotAPerson (pio_of (io_of (caller_of T cx)))) (\<lambda>p.
          pio_wrap Follow (follow_repository (V p) name pr (go_int (timeout * rat_of_int second))))))"

end
