(* ===== verification/Creation.thy ===== *)
theory Creation
  imports Aligns
begin

text \<open>
  internal/tools/create_repository.go and adopt_repository.go: the entries of new repositories shaped,
  validated, planned and declared in one pull request, and the adoption of a repository that exists.
\<close>

section \<open>Entries of a creation\<close>

definition ToolCreateRepository :: string where "ToolCreateRepository = ''create_repository''"
definition ToolWatchRepository :: string where "ToolWatchRepository = ''watch_repository''"
definition ToolAdoptRepository :: string where "ToolAdoptRepository = ''adopt_repository''"

definition FirstRelease :: string where
  "FirstRelease = ''v0.1.0 follows from the scaffold's auto-release''"
definition NoFirstRelease :: string where
  "NoFirstRelease = ''no release follows on its own: the entry's release workflow (gen.ci.releaseWorkflow, else auto-release with gen.ci.generate: true) is not auto-release''"
definition FirstReleasePerRepository :: string where
  "FirstReleasePerRepository = ''per repository: see repositories[].firstRelease''"

definition entries_arg :: "args \<Rightarrow> tool_error + jvalue list" where
  "entries_arg a =
     (let out = (case entry_arg a of Some kvs \<Rightarrow> [JMap kvs] | None \<Rightarrow> []) @
        (case a argEntries of Some (AArray es) \<Rightarrow> es | _ \<Rightarrow> [])
      in if out = [] then Inl (Required argEntry) else Inr out)"

text \<open>A creation opts in, and says private where it says no visibility.\<close>

definition opted_in :: "('s, 'd, 'h) write_lib \<Rightarrow> jvalue \<Rightarrow> tool_error + jvalue" where
  "opted_in W e = (case e of
      JMap m \<Rightarrow>
        if (case map_of m FieldAlign of None \<Rightarrow> False | Some v \<Rightarrow> \<not> wl_is_true W v) then Inl (AlignRefused (entry_name W m))
        else
          (let out = AList.update FieldAlign (wl_true W) m in
           Inr (JMap (if (case map_of out FieldVisibility of None \<Rightarrow> True
                          | Some v \<Rightarrow> wl_is_nil W v \<or> wl_str W v = Some [])
             then AList.update FieldVisibility (wl_of_str W VisibilityPrivate) out else out)))
    | _ \<Rightarrow> Inr e)"

definition with_newline :: "string \<Rightarrow> string" where
  "with_newline y = (if has_suffix y [newline] then y else y @ [newline])"

fun entry_texts :: "('s, 'd, 'o, 'h) tools \<Rightarrow> ('s, 'd, 'h) write_lib \<Rightarrow> jvalue list \<Rightarrow> tool_error + string" where
  "entry_texts T W [] = Inr []"
| "entry_texts T W (e # es) =
     bind_result (opted_in W e) (\<lambda>e'.
     bind_result (map_sum ParseEntryFailed id (entry_from_value (tl_yaml T) (tl_setup T) e')) (\<lambda>d.
     bind_result (map_sum LibraryFailed id (rs_yaml (tl_setup T) d)) (\<lambda>y.
     bind_result (entry_texts T W es) (\<lambda>rest. Inr (with_newline y @ rest)))))"

definition parse_entries ::
  "('s, 'd, 'o, 'h) tools \<Rightarrow> ('s, 'd, 'h) write_lib \<Rightarrow> string \<Rightarrow> jvalue list \<Rightarrow> tool_error + 'd list" where
  "parse_entries T W team es = bind_result (entry_texts T W es) (\<lambda>text.
     map_sum LibraryFailed id (rs_parse (tl_setup T) team text))"

definition rendered_entries ::
  "('s, 'd, 'o, 'h) tools \<Rightarrow> string \<Rightarrow> checked_entry list \<Rightarrow> tool_error + 'd list" where
  "rendered_entries T team es =
     map_sum LibraryFailed id (rs_parse (tl_setup T) team (concat (map (\<lambda>e. with_newline (vd_rendered e)) es)))"

definition first_release :: "('s, 'd, 'h) write_lib \<Rightarrow> 'd \<Rightarrow> string" where
  "first_release W d = (case wl_fields W d of
      Inr f \<Rightarrow> if auto_releases (fl_ci f) then FirstRelease else NoFirstRelease
    | Inl e \<Rightarrow> NoFirstRelease)"

section \<open>The dry run\<close>

record validation =
  va_result :: verdicts
  va_author :: string
  va_authorLogin :: string
  va_authorTeams :: "string list"
  va_teamsSource :: string
  va_machineApproved :: bool
  va_findings :: "engine_finding list"

text \<open>Who the author is to the validator: the login of the verified bearer, the teams of the person or
  why there are none.\<close>

definition author_of ::
  "('s, 'd, 'h) write_lib \<Rightarrow> call \<Rightarrow> identity_error + 's person \<Rightarrow> string \<times> string \<times> string list \<times> string" where
  "author_of W cx p = (case cx_login cx of
      None \<Rightarrow> ([], [], [], ''none'')
    | Some login \<Rightarrow> (case p of
        Inl e \<Rightarrow> (login, [], [], ''none: '' @ wl_identity_text W e)
      | Inr q \<Rightarrow>
          if pe_teams q = [] then (login, pe_login q, [], ''none: no team of yours in the org is readable as you (the App giantswarm-repo-manager's Organization members: read)'')
          else (login, pe_login q, pe_teams q, ''github'')))"

definition refusal_findings ::
  "('s, 'd, 'o, 'h) tools \<Rightarrow> ('s, 'd, 'h) write_lib \<Rightarrow> string \<Rightarrow> time \<Rightarrow> checked_entry list \<Rightarrow> engine_finding list" where
  "refusal_findings T W team now es =
     concat (map (\<lambda>e. wl_refused W (org_of T) team e now) (filter (\<lambda>e. \<not> vd_accepted e) es))"

definition dry_run ::
  "('s, 'd, 'o, 'h) tools \<Rightarrow> ('s, 'd, 'h) write_lib \<Rightarrow> call \<Rightarrow> args \<Rightarrow> identity_error + 's person \<Rightarrow> ('s, tool_error, validation) io" where
  "dry_run T W cx a p =
     (let team = string_arg a argTeam in
      if team = [] then io_fail (Required argTeam)
      else
        io_bind (io_of (entries_arg a)) (\<lambda>entries.
        io_bind (io_of (parse_entries T W team entries)) (\<lambda>ds.
        case author_of W cx p of (author, login, teams, source) \<Rightarrow>
        io_bind (run_validator T W (schema_reader T (case p of Inr q \<Rightarrow> Some q | Inl e \<Rightarrow> None))
            \<lparr>vq_team = team, vq_entries = ds, vq_existing = False, vq_author = author, vq_authorTeams = teams\<rparr>) (\<lambda>res s.
          (s, Inr \<lparr>va_result = res, va_author = author, va_authorLogin = login, va_authorTeams = teams,
            va_teamsSource = source, va_machineApproved = (vs_accepted res \<and> vs_notices res = []),
            va_findings = refusal_findings T W team (tl_clock T s) (vs_entries res)\<rparr>)))))"

section \<open>The declaration\<close>

text \<open>\<open>insertEntries\<close>: the entries inserted one after the other, none the file declares.\<close>

fun insert_entries ::
  "('s, 'd, 'o, 'h) tools \<Rightarrow> string \<Rightarrow> 'd team_file \<Rightarrow> 'd list \<Rightarrow> string \<Rightarrow> tool_error + string" where
  "insert_entries T team tf [] content = Inr content"
| "insert_entries T team tf (d # ds) content =
     (if rs_entry (tl_setup T) (tf_entries tf) (rs_name (tl_setup T) d) \<noteq> None
      then Inl (DeclaredAlready (fi_path (tf_file tf)) (rs_name (tl_setup T) d))
      else (case rs_insert (tl_setup T) team content d of
          Inl e \<Rightarrow> Inl (NotInserted (rs_name (tl_setup T) d) e)
        | Inr content' \<Rightarrow> insert_entries T team tf ds content'))"

definition creation_body ::
  "string \<Rightarrow> string \<Rightarrow> string list \<Rightarrow> string \<Rightarrow> string list \<Rightarrow> string list \<Rightarrow> string \<Rightarrow> string \<Rightarrow> string" where
  "creation_body org team names path releases notices reason login =
     ''## Problem'' @ para @ ''New repositories of '' @ team @ '': `'' @ str_join names ''`, `'' @ ''`.'' @ para @
     ''## Solution'' @ para @ ''Entries added to `'' @ path @
     ''`. Once this merges, the reconciler creates the repositories as its App, pushes their scaffold and sets them up:'' @
     concat (map (\<lambda>(n, f). newline # ''- https://github.com/'' @ org @ ''/'' @ n @ '': '' @ f) (zip names releases)) @
     (if notices = [] then [] else para @ ''Notices from the dry run:'' @ concat (map (\<lambda>n. newline # ''- '' @ n) notices)) @
     para @ reason_line reason @ para @ ''Opened by giantswarm-repo-manager (`'' @ ToolCreateRepository @ ''`) as @'' @ login @ ''.''"

text \<open>The plan accepts by itself: the entries were validated before it.\<close>

definition declaration_plan ::
  "('s, 'd, 'o, 'h) tools \<Rightarrow> ('s, 'd, 'h) write_lib \<Rightarrow> 's person \<Rightarrow> verdicts \<Rightarrow> 'd list \<Rightarrow> args \<Rightarrow> ('s, tool_error, plan) io" where
  "declaration_plan T W p v entries a =
     (let team = vs_team v; r = pe_repo p; names = map (rs_name (tl_setup T)) entries in
      io_bind (io_wrap FilesFailed (TeamFile (pe_gh p) (tl_paths T) (tl_setup T) r team)) (\<lambda>tf.
      io_bind (io_of (insert_entries T team tf entries (fi_content (tf_file tf)))) (\<lambda>content.
        io_ret (finish r (pe_login p) (''reposetup/create-'' @ str_join names ''-'')
          (''feat(repositories): declare '' @ str_join names '', '' @ '' for '' @ team)
          (creation_body (org_of T) team names (fi_path (tf_file tf)) (map (first_release W) entries) (vs_notices v)
            (arg_text a argReason) (pe_login p))
          (new_plan\<lparr>pln_repository := org_of T @ ''/'' @ str_join names '','', pln_team := team, pln_accepted := True,
            pln_change := empty_change\<lparr>tc_files := [(fi_path (tf_file tf), content)]\<rparr>\<rparr>)))))"

text \<open>The plan of a validation: the pull request, or why it would not be opened.\<close>

definition plan_creation ::
  "('s, 'd, 'o, 'h) tools \<Rightarrow> ('s, 'd, 'h) write_lib \<Rightarrow> 's person \<Rightarrow> verdicts \<Rightarrow> args \<Rightarrow> 's \<Rightarrow> 's \<times> (tool_error + planned_pull)" where
  "plan_creation T W p v a s =
     (case rendered_entries T (vs_team v) (vs_entries v) of
        Inl e \<Rightarrow> (s, Inl e)
      | Inr entries \<Rightarrow> map_prod id (map_sum id pln_pull) (declaration_plan T W p v entries a s))"

definition validate ::
  "('s, 'd, 'o, 'h) tools \<Rightarrow> ('s, 'd, 'h) write_lib \<Rightarrow> call \<Rightarrow> args \<Rightarrow>
   ('s, tool_error, validation \<times> (tool_error + planned_pull) option) pio" where
  "validate T W cx a s =
     (case (if cx_login cx = None then Some (s, Inl NoToken) else person_of T cx s) of
        None \<Rightarrow> None
      | Some (s1, p) \<Rightarrow> (case dry_run T W cx a p s1 of
          (s2, Inl e) \<Rightarrow> Some (s2, Inl e)
        | (s2, Inr v) \<Rightarrow> (case p of
            Inl e \<Rightarrow> Some (s2, Inr (v, None))
          | Inr q \<Rightarrow>
              if \<not> vs_accepted (va_result v) then Some (s2, Inr (v, None))
              else (case plan_creation T W q (va_result v) a s2 of (s3, pl) \<Rightarrow> Some (s3, Inr (v, Some pl))))))"

section \<open>The creation\<close>

record created_repository =
  cr_name :: string
  cr_url :: string
  cr_firstRelease :: string
  cr_pendingRun :: "pending_run option"

record created =
  ct_repositories :: "created_repository list"
  ct_committed :: committed
  ct_firstRelease :: string

fun expect_created ::
  "('s, 'd, 'o, 'h) tools \<Rightarrow> ('s, 'd, 'h) write_lib \<Rightarrow> string \<Rightarrow> opened_pull \<Rightarrow> 'd list \<Rightarrow>
   ('s, 'd, 'o, 'h) world \<Rightarrow> (('s, 'd, 'o, 'h) world \<times> created_repository list) option" where
  "expect_created T W login pr [] st = Some (st, [])"
| "expect_created T W login pr (d # ds) st =
     (let name = org_of T @ ''/'' @ rs_name (tl_setup T) d in
      case expect_after T login name ChangeCreated pr st of
        None \<Rightarrow> None
      | Some (st', run) \<Rightarrow> map_option (\<lambda>(st'', rest). (st'',
          \<lparr>cr_name = rs_name (tl_setup T) d, cr_url = ''https://github.com/'' @ name, cr_firstRelease = first_release W d,
            cr_pendingRun = run\<rparr> # rest)) (expect_created T W login pr ds st'))"

definition common_release :: "string list \<Rightarrow> string" where
  "common_release rs = foldl (\<lambda>acc r. if acc = [] \<or> acc = r then r else FirstReleasePerRepository) [] rs"

definition commit_create ::
  "('s, 'd, 'o, 'h) tools \<Rightarrow> ('s, 'd, 'h) write_lib \<Rightarrow> call \<Rightarrow> args \<Rightarrow> (('s, 'd, 'o, 'h) world, tool_error, created) pio" where
  "commit_create T W cx a =
     pio_bind (on_world (pio_wrap NotAPerson (person_of T cx))) (\<lambda>p.
     pio_bind (on_world (pio_of (dry_run T W cx a (Inr p)))) (\<lambda>v.
     let res = va_result v in
     if \<not> vs_accepted res then pio_of (io_fail (EntriesRefused
       (map (\<lambda>e. (vd_name e, vd_problems e)) (filter (\<lambda>e. \<not> vd_accepted e) (vs_entries res)))))
     else
       pio_bind (pio_of (io_of (rendered_entries T (vs_team res) (vs_entries res)))) (\<lambda>entries.
       pio_bind (on_world (pio_of (declaration_plan T W p res entries a))) (\<lambda>pl.
       pio_bind (commit_plan T p pl) (\<lambda>c st. map_option (\<lambda>(st', rs). (st', Inr
           \<lparr>ct_repositories = rs, ct_committed = c, ct_firstRelease = common_release (map cr_firstRelease rs)\<rparr>))
         (expect_created T W (pe_login p) (cm_pullRequest c) entries st))))))"

section \<open>The adoption\<close>

text \<open>The entry of an adoption and whether the opt-in was added for its lifecycle.\<close>

definition adopted_entry ::
  "('s, 'd, 'o, 'h) tools \<Rightarrow> ('s, 'd, 'h) write_lib \<Rightarrow> string \<Rightarrow> (string \<times> jvalue) list \<Rightarrow> tool_error + 'd \<times> bool" where
  "adopted_entry T W name kvs =
     bind_result (named_entry W name kvs) (\<lambda>shaped.
     bind_result (map_sum ParseEntryFailed id (entry_from_value (tl_yaml T) (tl_setup T) (JMap shaped))) (\<lambda>d.
     bind_result (fields_of W name d) (\<lambda>f.
       if fl_lifecycle f = LifecycleDeleted then Inl AdoptDeleted
       else if (fl_lifecycle f = LifecycleDeprecated \<or> fl_lifecycle f = LifecycleArchived) \<and> \<not> fl_align f then
         map_sum EntryFailed (\<lambda>d'. (d', True)) (set_field (tl_yaml T) (tl_setup T) d FieldAlign ''true'')
       else Inr (d, False))))"

definition ends_life :: "string \<Rightarrow> bool" where
  "ends_life lc \<longleftrightarrow> lc = LifecycleDeprecated \<or> lc = LifecycleArchived \<or> lc = LifecycleDeleted"

definition adopt_verb :: "string \<Rightarrow> string" where
  "adopt_verb lc = (if ends_life lc then ''adopt and '' @ verb lc else ''adopt'')"

definition adopt_effect :: "fields \<Rightarrow> string" where
  "adopt_effect f =
     (if ends_life (fl_lifecycle f) then fst (lifecycle_effect (fl_lifecycle f))
      else if fl_align f then
        ''the reconciler aligns the repository with its declared set-up and the company baseline once this merges ('' @ alignTrue @ '' in the entry)''
      else ''the reconciler checks the repository against its declaration once this merges and reports the drift; without '' @ alignTrue @
        '' in the entry nothing on GitHub or CircleCI changes'')"

text \<open>The file that declares a name, looked up under the inventory's team first; \<open>None\<close> without one.\<close>

definition find_everywhere ::
  "('s, 'd, 'o, 'h) tools \<Rightarrow> 's reader \<Rightarrow> string \<Rightarrow> ('s, tool_error, 'd team_file option) io" where
  "find_everywhere T rd name s = (case FindEntry (fst rd) (tl_paths T) (tl_setup T) (snd rd) name [] s of
      (s', Inr tf) \<Rightarrow> (s', Inr (Some tf))
    | (s', Inl (NoEntry n ts)) \<Rightarrow> (s', Inr None)
    | (s', Inl e) \<Rightarrow> (s', Inl (ReadingFiles name e)))"

definition declared_by ::
  "('s, 'd, 'o, 'h) tools \<Rightarrow> 's reader \<Rightarrow> string \<Rightarrow> ('s, tool_error, 'd team_file option) io" where
  "declared_by T rd name s = (case tl_inventory T of
      None \<Rightarrow> find_everywhere T rd name s
    | Some A \<Rightarrow> (case ac_get A (org_of T @ ''/'' @ name) s of
        (s1, Inl e) \<Rightarrow> find_everywhere T rd name s1
      | (s1, Inr r) \<Rightarrow> (case rc_declaration r of
          None \<Rightarrow> find_everywhere T rd name s1
        | Some d \<Rightarrow> (case FindEntry (fst rd) (tl_paths T) (tl_setup T) (snd rd) name (d_team d) s1 of
            (s2, Inr tf) \<Rightarrow> (s2, Inr (Some tf))
          | (s2, Inl (NoEntry n ts)) \<Rightarrow> find_everywhere T rd name s2
          | (s2, Inl e) \<Rightarrow> (s2, Inl (ReadingFiles name e))))))"

definition adopt_body :: "string \<Rightarrow> string \<Rightarrow> string \<Rightarrow> fields \<Rightarrow> string \<Rightarrow> string \<Rightarrow> string" where
  "adopt_body org name path f optsIn reason =
     ''## Problem'' @ para @ ''`'' @ org @ ''/'' @ name @
     ''` exists on GitHub and no team file declares it: it cannot be configured, transferred, deprecated or archived, and every reconciler run checks it from a team alone.'' @ para @
     ''## Solution'' @ para @ ''The entry is added to `'' @ path @ ''`; '' @ adopt_effect f @ ''.'' @ optsIn @ para @ reason_line reason @
     para @ opened_by ToolAdoptRepository"

text \<open>The pull request and the ask of an adoption whose entry is fit to be declared.\<close>

definition adoption_plan ::
  "('s, 'd, 'o, 'h) tools \<Rightarrow> ('s, 'd, 'h) write_lib \<Rightarrow> args \<Rightarrow> 's planner \<Rightarrow> string \<Rightarrow> string \<Rightarrow> 'd team_file \<Rightarrow> 'd \<Rightarrow>
   fields \<Rightarrow> bool \<Rightarrow> checked_entry \<Rightarrow> ('s, tool_error, plan) io" where
  "adoption_plan T W a pn name team tf d f optedIn v =
     (let rd = pr_reader pn; reason = arg_text a argReason; what = adopt_verb (fl_lifecycle f);
          optsIn = (if optedIn then '' The entry also opts the repository in to alignment ('' @ alignTrue @
            ''), so the reconciler applies the lifecycle.'' else []) in
      io_bind (io_of (insert_entries T team tf [d] (fi_content (tf_file tf)))) (\<lambda>content s.
        (let pl = finish (snd rd) (pr_as pn) (''reposetup/adopt-'' @ name)
               (''chore(repositories): '' @ what @ '' '' @ name @ '' into '' @ team)
               (adopt_body (org_of T) name (fi_path (tf_file tf)) f optsIn reason)
               (new_plan\<lparr>pln_repository := org_of T @ ''/'' @ name, pln_team := team, pln_problems := vd_problems v,
                 pln_change := empty_change\<lparr>tc_files := [(fi_path (tf_file tf), content)]\<rparr>, pln_changeKind := ChangeAdded,
                 pln_entry := yaml_of T d\<rparr>);
             text = pr_as pn @ '' asks to '' @ what @ '' `'' @ org_of T @ ''/'' @ name @ ''` into '' @ team @
               '': the repository exists on GitHub and no team file declares it.'' @ optsIn @ reason_suffix reason @
               decides team (pr_as pn) in
         case plan_message T W rd team text True s of (s1, m) \<Rightarrow> (s1, Inr (pl\<lparr>pln_ask := Some m\<rparr>)))))"

definition plan_adopt ::
  "('s, 'd, 'o, 'h) tools \<Rightarrow> ('s, 'd, 'h) write_lib \<Rightarrow> args \<Rightarrow> 's planner \<Rightarrow> ('s, tool_error, plan) io" where
  "plan_adopt T W a pn =
     io_bind (io_of (repository_name T a)) (\<lambda>name.
     let team = string_arg a argTeam; rd = pr_reader pn in
     if team = [] then io_fail (Required argTeam)
     else (case entry_arg a of
       None \<Rightarrow> io_fail (Required argEntry)
     | Some kvs \<Rightarrow>
         io_bind (io_of (adopted_entry T W name kvs)) (\<lambda>(d, optedIn).
         io_bind (io_of (fields_of W name d)) (\<lambda>f.
         io_bind (io_wrap AdoptingTeam (TeamFile (fst rd) (tl_paths T) (tl_setup T) (snd rd) team)) (\<lambda>tf.
         io_bind (declared_by T rd name) (\<lambda>found. case found of
           Some other \<Rightarrow> io_fail (DeclaredBy name (tf_team other) (fi_path (tf_file other)))
         | None \<Rightarrow>
             io_bind (existing_verdict T W rd team d) (\<lambda>v.
               if vd_free v then io_fail (NotOnGitHub name)
               else adoption_plan T W a pn name team tf d f optedIn v)))))))"

section \<open>The tools\<close>

definition create_repository ::
  "('s, 'd, 'o, 'h) tools \<Rightarrow> ('s, 'd, 'h) write_lib \<Rightarrow> call \<Rightarrow> args \<Rightarrow>
   (('s, 'd, 'o, 'h) world, tool_error, (validation \<times> (tool_error + planned_pull) option) + created) pio" where
  "create_repository T W cx = run_write ToolCreateRepository (\<lambda>a. on_world (validate T W cx a)) (commit_create T W cx) cx"

definition adopt_repository ::
  "('s, 'd, 'o, 'h) tools \<Rightarrow> ('s, 'd, 'h) write_lib \<Rightarrow> call \<Rightarrow> args \<Rightarrow> (('s, 'd, 'o, 'h) world, tool_error, plan + committed) pio" where
  "adopt_repository T W cx = run_write ToolAdoptRepository (dry_run_plan T W (plan_adopt T W) cx)
     (commit_as_person T (plan_adopt T W) cx) cx"

end
