(* ===== verification/Access.thy ===== *)
theory Access
  imports Creation
begin

text \<open>
  internal/server/bearer.go, internal/identity/identity.go, the person's client and the REST counter of
  internal/gh/gh.go, and get_info (internal/tools/server.go): who a request is, how the token is
  verified and cached, and what the server says about itself. \<open>h\<close> is \<open>sha256.Sum256\<close>, \<open>user\<close> is
  go-github's GET /user with a token; parsing a URL, a number of a header and encoding the metadata are
  arguments.
\<close>

section \<open>The guard's configuration\<close>

record identity =
  id_login :: string
  id_number :: int

record oauth_config =
  oa_baseURL :: string
  oa_authorizationServer :: string
  oa_cacheTTL :: duration

definition DefaultCacheTTL :: duration where "DefaultCacheTTL = 15 * minute"
definition cacheMax :: nat where "cacheMax = 10000"
definition SignIn :: string where
  "SignIn = ''connect giantswarm-repo-manager in muster (core_auth_login server=giantswarm-repo-manager), then call again''"

datatype config_error = UrlRequired string | UrlNotAbsolute string string

text \<open>\<open>parse\<close> is \<open>url.Parse\<close>: the scheme and the host.\<close>

definition validate_url :: "(string \<Rightarrow> (string \<times> string) option) \<Rightarrow> string \<Rightarrow> string \<Rightarrow> config_error option" where
  "validate_url parse what raw =
     (if raw = [] then Some (UrlRequired what)
      else (case parse raw of
          None \<Rightarrow> Some (UrlNotAbsolute what raw)
        | Some (scheme, host) \<Rightarrow>
            if host = [] \<or> scheme \<noteq> ''https'' \<and> scheme \<noteq> ''http'' then Some (UrlNotAbsolute what raw) else None))"

definition validate_config :: "(string \<Rightarrow> (string \<times> string) option) \<Rightarrow> oauth_config \<Rightarrow> config_error option" where
  "validate_config parse cfg = (case validate_url parse ''oauth: base URL'' (oa_baseURL cfg) of
      Some e \<Rightarrow> Some e
    | None \<Rightarrow> validate_url parse ''oauth: authorization server'' (oa_authorizationServer cfg))"

definition new_guard :: "(string \<Rightarrow> (string \<times> string) option) \<Rightarrow> oauth_config \<Rightarrow> config_error + oauth_config" where
  "new_guard parse cfg = (case validate_config parse cfg of
      Some e \<Rightarrow> Inl e
    | None \<Rightarrow> Inr (cfg\<lparr>oa_baseURL := trim_suffix (oa_baseURL cfg) ''/'',
        oa_cacheTTL := (if oa_cacheTTL cfg \<le> 0 then DefaultCacheTTL else oa_cacheTTL cfg)\<rparr>))"

definition metadata_path :: "string \<Rightarrow> string" where
  "metadata_path mcpPath = ''/.well-known/oauth-protected-resource'' @ mcpPath"

section \<open>A request's bearer\<close>

definition bearer_of :: "string \<Rightarrow> string" where
  "bearer_of header = (case str_cut header '' '' of (scheme, token, ok) \<Rightarrow>
     if \<not> ok \<or> \<not> equal_fold scheme ''Bearer'' then [] else trim_space token)"

definition refused_by :: "gh_error \<Rightarrow> int option" where
  "refused_by e = (case ge_status e of
      None \<Rightarrow> None | Some st \<Rightarrow> if st = 401 \<or> st = 403 then Some st else None)"

text \<open>The cache of verified tokens: pairs with distinct keys.\<close>

type_synonym 'k verified_tokens = "('k \<times> identity \<times> time) list"

definition purge :: "time \<Rightarrow> 'k verified_tokens \<Rightarrow> 'k verified_tokens" where
  "purge now cache = filter (\<lambda>e. now < snd (snd e)) cache"

definition remember_token :: "time \<Rightarrow> duration \<Rightarrow> 'k \<Rightarrow> identity \<Rightarrow> 'k verified_tokens \<Rightarrow> 'k verified_tokens" where
  "remember_token now ttl k who cache =
     (let room = (if cacheMax \<le> length cache then purge now cache else cache) in
      if length room < cacheMax then AList.update k (who, now + ttl) room else room)"

definition verify_token ::
  "(string \<Rightarrow> 'k) \<Rightarrow> (string \<Rightarrow> ('s, gh_error, identity) io) \<Rightarrow> ('s \<Rightarrow> time) \<Rightarrow> duration \<Rightarrow> string \<Rightarrow>
   ('s \<times> 'k verified_tokens, gh_error, identity) io" where
  "verify_token h user clock ttl token st =
     (let now = clock (fst st); k = h token in
      case (case map_of (snd st) k of None \<Rightarrow> None | Some (who, until) \<Rightarrow> if now < until then Some who else None) of
        Some who \<Rightarrow> (st, Inr who)
      | None \<Rightarrow> (case user token (fst st) of
          (s', Inl e) \<Rightarrow> ((s', snd st), Inl e)
        | (s', Inr who) \<Rightarrow> ((s', remember_token now ttl k who (snd st)), Inr who)))"

datatype admission =
    Challenged string string
  | BadGateway string
  | Admitted identity string

definition protect ::
  "(string \<Rightarrow> 'k) \<Rightarrow> (string \<Rightarrow> ('s, gh_error, identity) io) \<Rightarrow> ('s \<Rightarrow> time) \<Rightarrow> duration \<Rightarrow> string \<Rightarrow>
   's \<times> 'k verified_tokens \<Rightarrow> ('s \<times> 'k verified_tokens) \<times> admission" where
  "protect h user clock ttl header st =
     (let token = bearer_of header in
      if token = [] then (st, Challenged [] (''no bearer token: '' @ SignIn))
      else (case verify_token h user clock ttl token st of
          (st', Inr who) \<Rightarrow> (st', Admitted who token)
        | (st', Inl e) \<Rightarrow> (st', case refused_by e of
              Some status \<Rightarrow> Challenged ''invalid_token'' (''GitHub refused the bearer token ('' @ show_int status @
                ''): no GitHub authorization for you yet '' @ em_dash @ '' '' @ SignIn)
            | None \<Rightarrow> BadGateway (''could not verify the bearer token with GitHub: '' @ ge_text e))))"

text \<open>The call a tool sees of an admitted request.\<close>

definition call_of :: "admission \<Rightarrow> call option" where
  "call_of a = (case a of Admitted who token \<Rightarrow> Some \<lparr>cx_login = Some (id_login who), cx_token = Some token\<rparr> | _ \<Rightarrow> None)"

section \<open>The REST counter\<close>

text \<open>A response's path and its three rate-limit headers, read as numbers where they are some.\<close>

definition count_response :: "string \<Rightarrow> int option \<Rightarrow> int option \<Rightarrow> time option \<Rightarrow> usage \<Rightarrow> usage" where
  "count_response path remaining limit reset u =
     (if has_suffix path ''/graphql'' then u
      else u\<lparr>us_calls := us_calls u + 1,
        us_remaining := (case remaining of Some v \<Rightarrow> v | None \<Rightarrow> us_remaining u),
        us_limit := (case limit of Some v \<Rightarrow> v | None \<Rightarrow> us_limit u),
        us_resetAt := (case reset of Some t \<Rightarrow> t | None \<Rightarrow> us_resetAt u)\<rparr>)"

definition graphql_url :: "string \<Rightarrow> string" where
  "graphql_url apiURL = (if apiURL = [] then ''https://api.github.com/graphql'' else trim_suffix apiURL ''/'' @ ''/graphql'')"

section \<open>get_info\<close>

record app_identity =
  ai_slug :: string
  ai_installation :: int

definition app_identity_text :: "string + app_identity \<Rightarrow> string" where
  "app_identity_text a = (case a of
      Inl e \<Rightarrow> ''app installation 0 (GET /app failed: '' @ e @ '')''
    | Inr i \<Rightarrow> ''app '' @ ai_slug i @ '' (installation '' @ show_int (ai_installation i) @ '')'')"

definition api_url :: "string \<Rightarrow> string" where
  "api_url u = (if u = [] then ''https://api.github.com'' else u)"

datatype readable = ReadableTrue | ReadableFalse | ReadableUnknown

record team_files_info =
  ti_repository :: string
  ti_ref :: string
  ti_readable :: readable
  ti_reason :: string

text \<open>The probe as the caller; \<open>r\<close> is the cached probe of the token (\<open>Tools.probe\<close>).\<close>

definition team_files_info_of ::
  "('s, 'd, 'o, 'h) tools \<Rightarrow> ('s, 'd, 'h) write_lib \<Rightarrow> call \<Rightarrow> (string \<Rightarrow> ('s, tf_error, bool) io \<Rightarrow> ('s, tf_error, bool) io) \<Rightarrow> 's \<Rightarrow>
   's \<times> team_files_info" where
  "team_files_info_of T W cx r s =
     (let info = \<lparr>ti_repository = (if tl_repository T = [] then DefaultRepository else tl_repository T),
            ti_ref = (if tl_ref T = [] then DefaultRef else tl_ref T), ti_readable = ReadableUnknown, ti_reason = []\<rparr> in
      case caller_of T cx of
        Inl e \<Rightarrow> (s, info\<lparr>ti_reason := ''no caller to probe as: '' @ wl_identity_text W e\<rparr>)
      | Inr p \<Rightarrow> (case r (case cx_token cx of Some t \<Rightarrow> t | None \<Rightarrow> []) (Reachable (pe_gh p) (pe_repo p)) s of
          (s', Inl e) \<Rightarrow> (s', info\<lparr>ti_reason := wl_text W e\<rparr>)
        | (s', Inr True) \<Rightarrow> (s', info\<lparr>ti_readable := ReadableTrue\<rparr>)
        | (s', Inr False) \<Rightarrow> (s', info\<lparr>ti_readable := ReadableFalse,
            ti_reason := ''your authorization of the App '' @ WriteApp @ '' does not reach '' @ ti_repository info @
              '': the App must be installed on all repositories (an org owner's setting), or your own access does not include it''\<rparr>)))"

record inventory_info =
  iv_address :: string
  iv_connected :: bool
  iv_records :: nat
  iv_error :: string

definition inventory_info_of ::
  "string option \<Rightarrow> ('s, string, unit) io \<Rightarrow> ('s, string, nat) io \<Rightarrow> 's \<Rightarrow> 's \<times> inventory_info" where
  "inventory_info_of address do_ping do_count s =
     (let off = \<lparr>iv_address = [], iv_connected = False, iv_records = 0, iv_error = []\<rparr> in
      case address of
        None \<Rightarrow> (s, off\<lparr>iv_error := ''inventory store not configured (VALKEY_ADDR)''\<rparr>)
      | Some addr \<Rightarrow> (case do_ping s of
          (s1, Inl e) \<Rightarrow> (s1, off\<lparr>iv_address := addr, iv_error := e\<rparr>)
        | (s1, Inr u) \<Rightarrow> (case do_count s1 of
            (s2, Inl e) \<Rightarrow> (s2, off\<lparr>iv_address := addr, iv_connected := True, iv_error := e\<rparr>)
          | (s2, Inr n) \<Rightarrow> (s2, off\<lparr>iv_address := addr, iv_connected := True, iv_records := n\<rparr>))))"

section \<open>Settings\<close>

text \<open>\<open>splitList\<close> of main.go: a comma-separated list without its empty items.\<close>

definition split_list :: "string \<Rightarrow> string list" where
  "split_list s = filter (\<lambda>p. p \<noteq> []) (map trim_space (split_on (CHR '','') s))"

definition env_or :: "string option \<Rightarrow> string \<Rightarrow> string" where
  "env_or value d = (case value of Some v \<Rightarrow> if v \<noteq> [] then v else d | None \<Rightarrow> d)"

end
