(* ===== verification/AccessProps.thy ===== *)
theory AccessProps
  imports Access
begin

text \<open>
  Nobody is admitted on an old word: along any sequence of requests, the caller of an admitted
  request is the one GitHub answered for a token of that hash, within the time the cache trusts it.
\<close>

section \<open>The guard's history\<close>

text \<open>What GitHub answered and when: the token's hash, the identity, the time of the request.\<close>

type_synonym 'k answers = "('k \<times> identity \<times> time) set"

definition answered_now ::
  "(string \<Rightarrow> 'k) \<Rightarrow> (string \<Rightarrow> ('s, gh_error, identity) io) \<Rightarrow> ('s \<Rightarrow> time) \<Rightarrow> string \<Rightarrow> 's \<Rightarrow> 'k answers" where
  "answered_now h user clock token s = {(h token, who, clock s) | who. snd (user token s) = Inr who}"

text \<open>The guard after requests with the headers given and whatever the world does between them.\<close>

inductive guarded ::
  "(string \<Rightarrow> 'k) \<Rightarrow> (string \<Rightarrow> ('s, gh_error, identity) io) \<Rightarrow> ('s \<Rightarrow> time) \<Rightarrow> duration \<Rightarrow>
   'k answers \<Rightarrow> 's \<times> 'k verified_tokens \<Rightarrow> bool"
  for h user clock ttl where
  guard_start: "guarded h user clock ttl {} (s, [])"
| guard_world: "guarded h user clock ttl A (s, cache) \<Longrightarrow> guarded h user clock ttl A (s', cache)"
| guard_request: "guarded h user clock ttl A st \<Longrightarrow> protect h user clock ttl header st = (st', a) \<Longrightarrow>
    guarded h user clock ttl (A \<union> answered_now h user clock (bearer_of header) (fst st)) st'"

definition cache_backed :: "duration \<Rightarrow> 'k answers \<Rightarrow> 'k verified_tokens \<Rightarrow> bool" where
  "cache_backed ttl A cache \<longleftrightarrow> length cache \<le> cacheMax \<and> distinct (map fst cache) \<and>
     (\<forall>(k, who, until) \<in> set cache. \<exists>t. (k, who, t) \<in> A \<and> until = t + ttl)"

lemma cache_backed_mono: "cache_backed ttl A cache \<Longrightarrow> A \<subseteq> B \<Longrightarrow> cache_backed ttl B cache"
  by (fastforce simp: cache_backed_def)

lemma purge_backed: "cache_backed ttl A cache \<Longrightarrow> cache_backed ttl A (purge now cache)"
  by (auto simp: cache_backed_def purge_def distinct_map_filter intro: le_trans [OF length_filter_le])

lemma update_length: "length (AList.update k v xs) \<le> Suc (length xs)"
  by (induction xs) auto

lemma update_set: "x \<in> set (AList.update k v xs) \<Longrightarrow> x = (k, v) \<or> x \<in> set xs"
  by (induction xs) (auto split: if_splits)

lemma remember_backed:
  assumes "cache_backed ttl A cache" and "(k, who, now) \<in> A"
  shows "cache_backed ttl A (remember_token now ttl k who cache)"
proof -
  let ?room = "if cacheMax \<le> length cache then purge now cache else cache"
  have room: "cache_backed ttl A ?room" using assms(1) purge_backed by auto
  show ?thesis
  proof (cases "length ?room < cacheMax")
    case True
    have "length (AList.update k (who, now + ttl) ?room) \<le> cacheMax"
      using update_length [of k "(who, now + ttl)" ?room] True by linarith
    moreover have "distinct (map fst (AList.update k (who, now + ttl) ?room))"
      using room by (intro distinct_update) (simp add: cache_backed_def)
    moreover have "\<exists>t. (k', who', t) \<in> A \<and> until = t + ttl"
      if "(k', who', until) \<in> set (AList.update k (who, now + ttl) ?room)" for k' who' until
      using update_set [OF that] room assms(2) by (auto simp: cache_backed_def)
    ultimately have "cache_backed ttl A (AList.update k (who, now + ttl) ?room)"
      unfolding cache_backed_def by auto
    then show ?thesis unfolding remember_token_def Let_def by (simp only: True if_True)
  next
    case False
    then show ?thesis unfolding remember_token_def Let_def using room by (simp only: if_False)
  qed
qed

lemma verify_backed:
  assumes "cache_backed ttl A (snd st)" and "verify_token h user clock ttl token st = (st', r)"
  shows "cache_backed ttl (A \<union> answered_now h user clock token (fst st)) (snd st')"
proof -
  let ?B = "A \<union> answered_now h user clock token (fst st)"
  have base: "cache_backed ttl ?B (snd st)" by (rule cache_backed_mono [OF assms(1)]) simp
  obtain s1 q where u: "user token (fst st) = (s1, q)" by fastforce
  have "cache_backed ttl ?B (remember_token (clock (fst st)) ttl (h token) who (snd st))" if "q = Inr who" for who
    by (rule remember_backed [OF base]) (simp add: answered_now_def u that)
  then show ?thesis
    using assms(2) base u
    by (cases q) (auto simp: verify_token_def Let_def split: option.splits if_splits)
qed

lemma guarded_backed: "guarded h user clock ttl A st \<Longrightarrow> cache_backed ttl A (snd st)"
proof (induction rule: guarded.induct)
  case (guard_start s)
  then show ?case by (simp add: cache_backed_def)
next
  case (guard_request A st header st' a)
  show ?case
  proof (cases "bearer_of header = []")
    case True
    then have "st' = st" using guard_request.hyps(2) by (simp add: protect_def)
    then show ?thesis using guard_request.IH by (metis cache_backed_mono Un_upper1)
  next
    case False
    obtain st1 r where v: "verify_token h user clock ttl (bearer_of header) st = (st1, r)" by fastforce
    then have "st' = st1" using guard_request.hyps(2) False by (cases r) (auto simp: protect_def Let_def)
    then show ?thesis using verify_backed [OF guard_request.IH v] by simp
  qed
qed simp

text \<open>C40.
  Nobody is admitted on an old word. Along any sequence of requests, whatever the clock and GitHub do
  in between: an admitted request carries a nonempty bearer token, and its caller is the identity GitHub
  answers for it now, or answered for a token of the same hash less than the cache's time to live ago;
  and the cache never holds more than its bound.\<close>

theorem admitted_recently_verified:
  assumes "guarded h user clock ttl A st" and "protect h user clock ttl header st = (st', Admitted who token)"
  shows "token = bearer_of header \<and> token \<noteq> [] \<and> length (snd st') \<le> cacheMax \<and>
    (snd (user token (fst st)) = Inr who \<or> (\<exists>t. (h token, who, t) \<in> A \<and> clock (fst st) < t + ttl))"
proof -
  have tok: "token = bearer_of header" "token \<noteq> []"
    using assms(2) by (auto simp: protect_def Let_def split: if_splits prod.splits sum.splits option.splits)
  have bounded: "length (snd st') \<le> cacheMax"
    using guarded_backed [OF guard_request [OF assms]] by (simp add: cache_backed_def)
  have v: "verify_token h user clock ttl token st = (st', Inr who)"
    using assms(2) tok by (auto simp: protect_def Let_def split: prod.splits sum.splits option.splits)
  have backed: "cache_backed ttl A (snd st)" by (rule guarded_backed [OF assms(1)])
  have "snd (user token (fst st)) = Inr who \<or> (\<exists>t. (h token, who, t) \<in> A \<and> clock (fst st) < t + ttl)"
  proof (cases "\<exists>until. map_of (snd st) (h token) = Some (who, until) \<and> clock (fst st) < until")
    case True
    then obtain until where u: "map_of (snd st) (h token) = Some (who, until)" "clock (fst st) < until" by blast
    from map_of_SomeD [OF u(1)] backed obtain t where "(h token, who, t) \<in> A" "until = t + ttl"
      by (fastforce simp: cache_backed_def)
    then show ?thesis using u(2) by blast
  next
    case False
    then show ?thesis using v
      by (auto simp: verify_token_def Let_def split: option.splits if_splits prod.splits sum.splits)
  qed
  then show ?thesis using tok bounded by blast
qed

text \<open>A caller verified once and admitted again from the cache while GitHub is away.\<close>

definition sample_user :: "string \<Rightarrow> (int, gh_error, identity) io" where
  "sample_user token s = (s, if s = 0 then Inr \<lparr>id_login = ''alice'', id_number = 1\<rparr>
     else Inl \<lparr>ge_resp = None, ge_status = None, ge_text = ''down''\<rparr>)"

theorem admitted_recently_verified_witness:
  "\<exists>A st st' t. guarded id sample_user id 100 A st \<and> protect id sample_user id 100 ''bearer tok'' st = (st', Admitted \<lparr>id_login = ''alice'', id_number = 1\<rparr> ''tok'') \<and>
     fst st = 60 \<and> snd (sample_user ''tok'' 60) \<noteq> Inr \<lparr>id_login = ''alice'', id_number = 1\<rparr> \<and>
     (''tok'', \<lparr>id_login = ''alice'', id_number = 1\<rparr>, t) \<in> A \<and> (60::int) < t + 100"
proof -
  let ?alice = "\<lparr>id_login = ''alice'', id_number = 1\<rparr>"
  let ?st = "(60::int, [(''tok'', ?alice, 100::int)])"
  have first: "protect id sample_user id 100 ''bearer tok'' (0, []) = ((0, [(''tok'', ?alice, 100)]), Admitted ?alice ''tok'')"
    by code_simp
  obtain A where g: "guarded id sample_user id 100 A ?st"
    using guard_world [OF guard_request [OF guard_start first]] by blast
  have again: "protect id sample_user id 100 ''bearer tok'' ?st = (?st, Admitted ?alice ''tok'')" by code_simp
  have down: "snd (sample_user ''tok'' 60) \<noteq> Inr ?alice" by (simp add: sample_user_def)
  from admitted_recently_verified [OF g again] down obtain t where "(''tok'', ?alice, t) \<in> A" "(60::int) < t + 100" by auto
  then show ?thesis using g again down by (intro exI [of _ A] exI [of _ ?st] exI [of _ t]) auto
qed

end
