(* ===== verification/Samples.thy ===== *)
theory Samples
  imports Plans SweepsProps TeamFilesProps
begin

text \<open>
  The instance the witnesses of the tools' properties run on: a one-line language of entries for devctl
  and yaml.v3 (\<open>- key value key value\<close>, one entry a file), a GitHub whose state logs each write by
  name, and the tools over them. The state is the log of \<open>SweepsProps\<close>: the records put and the names
  of the writes.
\<close>

section \<open>Entries of one line\<close>

definition words_of :: "string \<Rightarrow> ynode" where
  "words_of s = YNode MappingNode [] 1 [] (map scalar (split_on CHR '' '' (trim_prefix (trim_space s) ''- '')))"

definition line_of :: "ynode \<Rightarrow> string" where
  "line_of n = ''- '' @ str_join (map yn_value (yn_content n)) '' ''"

definition words_yaml :: yaml where
  "words_yaml = \<lparr>y_unmarshal = (\<lambda>s. Inr (YNode DocumentNode [] 1 [] [YNode SequenceNode [] 1 [] [words_of s]])),
     y_encode = (\<lambda>n. case n of
        YNode DocumentNode v l h [YNode SequenceNode v' l' h' [m]] \<Rightarrow> Inr (line_of m)
      | YNode SequenceNode v l h [m] \<Rightarrow> Inr (line_of m)
      | _ \<Rightarrow> Inl ''not one entry'')\<rparr>"

definition words_setup :: "string reposetup" where
  "words_setup = \<lparr>rs_parse = (\<lambda>team s. Inr [trim_space s]),
     rs_entry = (\<lambda>ds n. find (\<lambda>d. mapping_value (words_of d) FieldName = n) ds),
     rs_name = (\<lambda>d. mapping_value (words_of d) FieldName), rs_yaml = (\<lambda>d. Inr d),
     rs_insert = (\<lambda>team s d. Inr (s @ d))\<rparr>"

definition words_fields :: "string \<Rightarrow> fields" where
  "words_fields d = \<lparr>fl_lifecycle = mapping_value (words_of d) FieldLifecycle,
     fl_align = (mapping_value (words_of d) FieldAlign = ''true''), fl_ci = None\<rparr>"

section \<open>A GitHub that logs its writes\<close>

definition noted :: "string \<Rightarrow> 'a \<Rightarrow> (put_log, gh_error, 'a) io" where
  "noted what x s = ((fst s, snd s @ [what]), Inr x)"

definition noting_github :: "(string \<Rightarrow> string option) \<Rightarrow> gh_pull \<Rightarrow> put_log github" where
  "noting_github F pull = \<lparr>
     gh_contents = (\<lambda>ow n p ref. if p = ''r'' then io_ret (DirContents [\<lparr>de_type = ''file'', de_name = ''a.yaml'', de_path = ''r/a.yaml''\<rparr>]) else
        case F p of None \<Rightarrow> io_fail gone | Some c \<Rightarrow> io_ret (FileContents (Some c) ''s'')),
     gh_repository = (\<lambda>ow n. io_ret ()),
     gh_get_ref = (\<lambda>ow n ref. if ref = ''heads/main'' then io_ret ''base'' else io_fail gone),
     gh_create_tree = (\<lambda>ow n b fs. noted ''tree'' ''tree''),
     gh_create_commit = (\<lambda>ow n m t b. noted ''commit'' ''commit''),
     gh_create_ref = (\<lambda>ow n ref s. noted ''branch'' ()),
     gh_update_ref = (\<lambda>ow n ref s f. noted ''push'' ()),
     gh_create_pull = (\<lambda>ow n t h b d. noted ''pull'' (pull\<lparr>gp_title := t, gp_body := d\<rparr>)),
     gh_list_pulls = (\<lambda>ow n h b. io_ret [pull]),
     gh_get_pull = (\<lambda>ow n k. io_ret pull),
     gh_merge = (\<lambda>ow n k t. noted ''merge'' ()),
     gh_auto_merge = (\<lambda>i. noted ''auto-merge'' []),
     gh_list_files = (\<lambda>ow n k. io_ret []),
     gh_create_review = (\<lambda>ow n k b. noted ''review'' ''review''),
     gh_list_reviews = (\<lambda>ow n k p. io_ret ([], 0)),
     gh_dispatch = (\<lambda>ow n w ref ins. noted ''dispatch'' ()),
     gh_membership = (\<lambda>og t l. io_ret ''active''),
     gh_compare = (\<lambda>ow n b h. io_ret (''base'', [])),
     gh_wait = io_ret ()\<rparr>"

section \<open>The tools over them\<close>

definition words_paths :: team_paths where
  "words_paths = \<lparr>tp_dir = ''r'', tp_file = (\<lambda>t. ''r/'' @ t @ ''.yaml''),
     tp_team = (\<lambda>p. trim_suffix (trim_prefix p ''r/'') ''.yaml''), tp_schema = ''s''\<rparr>"

text \<open>The team files hold the entry of \<open>api\<close>, of team a; alice is in team a.\<close>

definition sample_files :: "string \<Rightarrow> string option" where
  "sample_files p = (if p = ''r/a.yaml'' then Some ''- name api align true'' else None)"

definition sample_tools :: "gh_pull \<Rightarrow> (put_log, string, unit, unit) tools" where
  "sample_tools pull = \<lparr>tl_app = Some (noting_github sample_files pull),
     tl_person = (\<lambda>tok. Inr (noting_github sample_files pull)),
     tl_teams = (\<lambda>G page. io_ret ([(''org'', ''a'')], 0)),
     tl_inventory = Some \<lparr>ac_get = (\<lambda>k. io_ret (zero_record\<lparr>rc_repository := k, rc_name := ''api''\<rparr>)),
       ac_put = (\<lambda>r s. ((fst s @ [r], snd s), None)), ac_list = (\<lambda>s. Some (s, Inr []))\<rparr>,
     tl_collector = Some (sample_collector []), tl_review = None,
     tl_gateway = \<lparr>gw_token = (\<lambda>p. io_ret []), gw_ask = (\<lambda>a. Inr []), gw_notice = (\<lambda>n. Inr []),
       gw_do = (\<lambda>r. io_ret (200, [])), gw_decode = (\<lambda>t. Inl [])\<rparr>,
     tl_repository = [], tl_ref = [], tl_workflow = [], tl_sweepTeams = [], tl_clock = (\<lambda>s. 7),
     tl_engine = sample_engine, tl_steps = (\<lambda>st. ''step''), tl_paths = words_paths, tl_setup = words_setup,
     tl_yaml = words_yaml, tl_channels = \<lparr>cy_decode = (\<lambda>t. NoDocument), cy_single = (\<lambda>t. True)\<rparr>\<rparr>"

definition sample_lib :: "(put_log, string, unit) write_lib" where
  "sample_lib = \<lparr>wl_str = (\<lambda>v. case v of JScalar n \<Rightarrow> Some (yn_value n) | _ \<Rightarrow> None), wl_of_str = (\<lambda>s. JScalar (scalar s)),
     wl_true = JScalar (scalar ''true''), wl_is_true = (\<lambda>v. v = JScalar (scalar ''true'')), wl_is_nil = (\<lambda>v. False),
     wl_fields = (\<lambda>d. Inr (words_fields d)), wl_compile = (\<lambda>t. Inr ()), wl_embedded = Some (),
     wl_validate = (\<lambda>h og live q. io_ret \<lparr>vs_team = vq_team q, vs_entries = map (\<lambda>d. \<lparr>vd_name = rs_name words_setup d,
         vd_accepted = True, vd_problems = [], vd_free = True, vd_rendered = d\<rparr>) (vq_entries q), vs_accepted = True,
         vs_notices = []\<rparr>),
     wl_cached = (\<lambda>s. None), wl_cache = (\<lambda>c s. s), wl_refused = (\<lambda>a b c t. []), wl_finishedAt = (\<lambda>r. 0),
     wl_text = (\<lambda>e. ''error''), wl_identity_text = (\<lambda>e. ''nobody''), wl_message_text = (\<lambda>e. ''unsent'')\<rparr>"

definition sample_person :: "gh_pull \<Rightarrow> put_log person" where
  "sample_person pull = \<lparr>pe_login = ''alice'', pe_teams = [''a''],
     pe_repo = \<lparr>ro_owner = ''giantswarm'', ro_name = ''github'', ro_ref = ''main'', ro_as = ''alice''\<rparr>,
     pe_gh = noting_github sample_files pull\<rparr>"

definition sample_call :: call where
  "sample_call = \<lparr>cx_login = Some ''alice'', cx_token = Some ''tok''\<rparr>"

end
