(* ===== verification/PlansProps.thy ===== *)
theory PlansProps
  imports Samples ReconcilerProps
begin

text \<open>
  What the write tools write: who decides a pull request, what a deletion needs, and what a commit
  leaves on the record.
\<close>

section \<open>The marker of a body\<close>

lemma str_index_first: "c \<notin> set pre \<Longrightarrow> str_index (pre @ (c # cs) @ rest) (c # cs) = Some (length pre)"
proof (induction pre)
  case Nil
  have "has_prefix ((c # cs) @ rest) (c # cs)" by (rule has_prefix_append)
  then show ?case by simp
next
  case (Cons p pre)
  then have "\<not> has_prefix (p # pre @ (c # cs) @ rest) (c # cs)" by (auto simp: has_prefix_conv)
  then show ?case using Cons by simp
qed

lemma str_cut_first: "c \<notin> set pre \<Longrightarrow> str_cut (pre @ (c # cs) @ rest) (c # cs) = (pre, rest, True)"
  by (simp add: str_cut_def str_index_first del: append_Cons)

lemma team_from_marker_first:
  assumes "CHR ''<'' \<notin> set pre" and "CHR '' '' \<notin> set team"
  shows "team_from_marker (pre @ marker team @ rest) = team"
proof -
  obtain hs where hs: "marker_head = CHR ''<'' # hs" by (simp add: marker_head_def)
  obtain ts where ts: "marker_tail = CHR '' '' # ts" by (simp add: marker_tail_def)
  have "str_cut (pre @ marker_head @ (team @ marker_tail @ rest)) marker_head = (pre, team @ marker_tail @ rest, True)"
    unfolding hs by (rule str_cut_first [OF assms(1)])
  moreover have "str_cut (team @ marker_tail @ rest) marker_tail = (team, rest, True)"
    unfolding ts by (rule str_cut_first [OF assms(2)])
  ultimately show ?thesis by (simp add: team_from_marker_def marker_def)
qed

text \<open>A text that starts with a printed ASCII character and ends with one is not trimmed.\<close>

definition printed :: "char \<Rightarrow> bool" where
  "printed c \<longleftrightarrow> CHR 0x20 < c \<and> c < CHR 0x7F"

lemma trim_printed:
  assumes "b = c # x" "printed c" and "b = y @ [d]" "printed d"
  shows "trim_space b = b"
proof (rule trim_space_fix)
  have p: "\<not> ascii_space e \<and> e \<noteq> CHR 0xC2 \<and> \<not> CHR 0x80 \<le> e" if "printed e" for e
    using that by (auto simp: printed_def ascii_space_def less_char_def less_eq_char_def)
  show "space_len b = 0" unfolding assms(1) using p [OF assms(2)]
    by (cases x; cases "tl x") (auto simp: space_rune3_def less_eq_char_def)
  show "space_len_rev (rev b) = 0" unfolding assms(3) using p [OF assms(4)]
    by (cases "rev y"; cases "tl (rev y)") (auto simp: space_rune3_def less_eq_char_def)
qed

lemma printed_chars: "printed (CHR ''#'')" "printed (CHR ''.'')" "printed (CHR ''<'')" "printed (CHR ''!'')"
  by (simp_all add: printed_def less_char_def)

definition update_head :: "string \<Rightarrow> string \<Rightarrow> string" where
  "update_head repository path = ''## Problem'' @ para @ ''The configuration of `'' @ repository @ ''` changes.'' @ para @
     ''## Solution'' @ para @ ''The entry in `'' @ path @
     ''` is replaced; the reconciler applies the difference after this merges.'' @ para"

lemma plan_update_body:
  assumes "plan_update T W a pn s = (s', Inr pl)"
  shows "\<exists>path content. tc_files (pln_change pl) = [(path, content)] \<and>
    tc_body (pln_change pl) = update_head (pln_repository pl) path @ reason_line (arg_text a argReason) @
      para @ opened_by ToolUpdateRepository @ para @ marker (pln_team pl) @ [newline]"
proof -
  obtain name tf before after pl0 s1 s2 where
    r: "replace_plan T W (pr_reader pn) tf name before after s1 = (s2, Inr pl0)"
    and pl: "pl = finish (snd (pr_reader pn)) (pr_as pn) (''reposetup/update-'' @ name)
             (''chore(repositories): update '' @ name @ '' ('' @ tf_team tf @ '')'')
             (update_head (org_of T @ ''/'' @ name) (fi_path (tf_file tf)) @
              reason_line (arg_text a argReason) @ para @ opened_by ToolUpdateRepository) pl0"
    using assms unfolding plan_update_def update_head_def
    by (auto simp: io_bind_Inr split: option.splits prod.splits)
  obtain content where pl0: "tc_files (pln_change pl0) = [(fi_path (tf_file tf), content)]"
      "pln_repository pl0 = org_of T @ ''/'' @ name"
    using r unfolding replace_plan_def by (auto simp: io_bind_Inr)
  let ?b = "update_head (org_of T @ ''/'' @ name) (fi_path (tf_file tf)) @
     reason_line (arg_text a argReason) @ para @ opened_by ToolUpdateRepository"
  obtain x where x: "?b = CHR ''#'' # x" by (simp add: update_head_def)
  have "opened_by ToolUpdateRepository = ''Opened by giantswarm-repo-manager (`update_repository`) as the caller'' @ ''.''"
    by (simp add: opened_by_def ToolUpdateRepository_def)
  then obtain y where "?b = y @ ''.''" by (metis append.assoc)
  from trim_printed [OF x printed_chars(1) this printed_chars(2)] show ?thesis
    unfolding pl using pl0 by (intro exI [of _ "fi_path (tf_file tf)"] exI [of _ content]) (simp add: finish_def Let_def)
qed

lemma set_trim_left: "set (trim_left s) \<subseteq> set s"
proof (induction s rule: trim_left.induct)
  case (1 s)
  show ?case
  proof (cases "space_len s = 0")
    case False
    then show ?thesis using 1 set_drop_subset [of "space_len s" s] by (subst trim_left.simps) auto
  qed (simp add: trim_left_fix)
qed

lemma set_trim_left_rev: "set (trim_left_rev s) \<subseteq> set s"
proof (induction s rule: trim_left_rev.induct)
  case (1 s)
  show ?case
  proof (cases "space_len_rev s = 0")
    case False
    then show ?thesis using 1 set_drop_subset [of "space_len_rev s" s] by (subst trim_left_rev.simps) auto
  qed (simp add: trim_left_rev_fix)
qed

lemma set_trim_space: "set (trim_space s) \<subseteq> set s"
  using set_trim_left_rev [of "rev (trim_left s)"] set_trim_left [of s] by (auto simp: trim_space_def)

text \<open>No opening bracket in the parts of a body but the reason and the marker.\<close>

lemma update_head_plain:
  "CHR ''<'' \<notin> set repository \<Longrightarrow> CHR ''<'' \<notin> set path \<Longrightarrow> CHR ''<'' \<notin> set (update_head repository path)"
  by (simp add: update_head_def newline_def)

lemma reason_line_plain: "CHR ''<'' \<notin> set reason \<Longrightarrow> CHR ''<'' \<notin> set (reason_line reason)"
  using set_trim_space [of reason] by (auto simp: reason_line_def)

lemma opened_by_plain: "CHR ''<'' \<notin> set (para @ opened_by ToolUpdateRepository @ para)"
  by (simp add: opened_by_def ToolUpdateRepository_def newline_def)

text \<open>
  C32. Who decides an update. In the body of an update's pull request the reason of the call stands
  before the server's marker, and \<open>teamFromMarker\<close> takes the first: a reason without an opening
  bracket leaves the decision to the team whose file is changed, while one that quotes the marker of
  another team makes that team the one \<open>approve_change\<close> and the conflict hook read. (The names of the
  repository and of the file hold no bracket, the team no space.)
\<close>

theorem update_decided_by_first_marker:
  assumes plan: "plan_update T W a pn s = (s', Inr pl)"
    and names: "CHR ''<'' \<notin> set (pln_repository pl)" "CHR ''<'' \<notin> set (concat (map fst (tc_files (pln_change pl))))"
    and team: "CHR '' '' \<notin> set (pln_team pl)"
  shows "(CHR ''<'' \<notin> set (arg_text a argReason) \<longrightarrow> team_from_marker (tc_body (pln_change pl)) = pln_team pl) \<and>
    (\<forall>pre other rest. trim_space (arg_text a argReason) = pre @ marker other @ rest \<and> CHR ''<'' \<notin> set pre \<and>
       CHR '' '' \<notin> set other \<longrightarrow> team_from_marker (tc_body (pln_change pl)) = other)"
proof -
  from plan_update_body [OF plan] obtain path content where f: "tc_files (pln_change pl) = [(path, content)]"
    and b: "tc_body (pln_change pl) = update_head (pln_repository pl) path @ reason_line (arg_text a argReason) @
      para @ opened_by ToolUpdateRepository @ para @ marker (pln_team pl) @ [newline]" by blast
  have head: "CHR ''<'' \<notin> set (update_head (pln_repository pl) path)"
    by (rule update_head_plain) (use names f in simp_all)
  have "team_from_marker (tc_body (pln_change pl)) = pln_team pl" if "CHR ''<'' \<notin> set (arg_text a argReason)"
    unfolding b using team_from_marker_first [of "update_head (pln_repository pl) path @ reason_line (arg_text a argReason) @
      para @ opened_by ToolUpdateRepository @ para" "pln_team pl" "[newline]"] head reason_line_plain [OF that] opened_by_plain team
    by simp
  moreover have "team_from_marker (tc_body (pln_change pl)) = other"
    if "trim_space (arg_text a argReason) = pre @ marker other @ rest" "CHR ''<'' \<notin> set pre" "CHR '' '' \<notin> set other"
    for pre other rest
  proof -
    have "reason_line (arg_text a argReason) = ''Reason: '' @ pre @ marker other @ rest"
      using that(1) by (simp add: reason_line_def marker_def marker_head_def)
    then show ?thesis
      unfolding b using team_from_marker_first [of "update_head (pln_repository pl) path @ ''Reason: '' @ pre" other
        "rest @ para @ opened_by ToolUpdateRepository @ para @ marker (pln_team pl) @ [newline]"] head that(2,3)
      by simp
  qed
  ultimately show ?thesis by blast
qed

text \<open>An update of api, of team a, whose reason quotes the marker of team b.\<close>

definition sample_update :: args where
  "sample_update = [argRepository \<mapsto> AString ''api'', argEntry \<mapsto> AObject [(FieldName, JScalar (scalar ''api''))],
     argReason \<mapsto> AString (marker ''b'' @ ''!'')]"

definition sample_planner :: "put_log planner" where
  "sample_planner = \<lparr>pr_reader = (pe_gh (sample_person (sample_pull 7 None)), pe_repo (sample_person (sample_pull 7 None))),
     pr_as = ''alice''\<rparr>"

abbreviation "words_tools \<equiv> sample_tools (sample_pull 7 None)"

definition api_line :: string where "api_line = ''- name api align true''"

definition api_file :: "string team_file" where
  "api_file = \<lparr>tf_file = \<lparr>fi_path = ''r/a.yaml'', fi_content = api_line, fi_sha = ''s''\<rparr>, tf_team = ''a'', tf_entries = [api_line]\<rparr>"

lemma sample_entry_for: "entry_for words_tools (pr_reader sample_planner) ''api'' [] s = (s, Inr (api_file, api_line))"
  by code_simp

lemma sample_update_entry:
  "repository_name words_tools sample_update = Inr ''api''"
  "entry_arg sample_update = Some [(FieldName, JScalar (scalar ''api''))]"
  "named_entry sample_lib ''api'' [(FieldName, JScalar (scalar ''api''))] = Inr [(FieldName, JScalar (scalar ''api''))]"
  "entry_from_value (tl_yaml words_tools) (tl_setup words_tools) (JMap [(FieldName, JScalar (scalar ''api''))]) = Inr ''- name api''"
  by code_simp+

lemma sample_problems: "schema_problems words_tools sample_lib (pr_reader sample_planner) ''a'' ''- name api'' s = (s, Inr [])"
  by code_simp

lemma sample_content: "replace_entry (tl_yaml words_tools) (tl_setup words_tools) api_line ''api'' ''- name api'' = Inr (''- name api'' @ [CHR 0x0A])"
  by code_simp

lemma sample_org: "org_of (sample_tools pull) = ''org''"
  by (simp add: sample_tools_def org_of_def sample_collector_def)

lemma api_file_fields [simp]:
  "fi_path (tf_file api_file) = ''r/a.yaml''" "fi_content (tf_file api_file) = api_line" "tf_team api_file = ''a''"
  by (simp_all add: api_file_def)

lemmas io_run = io_bind_def io_wrap_def io_simps prod.case sum.case

definition sample_replaced :: plan where
  "sample_replaced = new_plan\<lparr>pln_repository := ''org'' @ ''/'' @ ''api'', pln_team := ''a'', pln_problems := [],
     pln_change := empty_change\<lparr>tc_files := [(''r/a.yaml'', ''- name api'' @ [CHR 0x0A])]\<rparr>, pln_changeKind := ChangeChanged,
     pln_before := yaml_of words_tools api_line, pln_entry := yaml_of words_tools ''- name api''\<rparr>"

lemma sample_replace:
  "replace_plan words_tools sample_lib (pr_reader sample_planner) api_file ''api'' api_line ''- name api'' s = (s, Inr sample_replaced)"
  by (simp only: replace_plan_def io_run api_file_fields sample_problems sample_content sample_org sample_replaced_def)

lemma sample_replaced_fields [simp]:
  "pln_repository sample_replaced = ''org/api''" "map fst (tc_files (pln_change sample_replaced)) = [''r/a.yaml'']"
  "pln_team sample_replaced = ''a''"
  by (simp_all add: sample_replaced_def)

lemma finish_fields [simp]:
  "pln_repository (finish r w b t x pl) = pln_repository pl" "tc_files (pln_change (finish r w b t x pl)) = tc_files (pln_change pl)"
  "pln_team (finish r w b t x pl) = pln_team pl" "pln_changeKind (finish r w b t x pl) = pln_changeKind pl"
  by (simp_all add: finish_def Let_def)

lemma io_bind_step: "m g = (g', Inr x) \<Longrightarrow> io_bind m f g = f x g'"
  by (simp add: io_bind_def)

lemma io_bind_of [simp]: "io_bind (io_of (Inr x)) f g = f x g" "io_bind (io_wrap w (io_of (Inr x))) f g = f x g"
  by (simp_all add: io_bind_def io_wrap_def)

lemma sample_update_runs:
  "\<exists>pl. plan_update words_tools sample_lib sample_update sample_planner s = (s, Inr pl) \<and>
     pln_repository pl = ''org/api'' \<and> map fst (tc_files (pln_change pl)) = [''r/a.yaml''] \<and> pln_team pl = ''a''"
  unfolding plan_update_def
  by (simp only: sample_update_entry io_bind_of option.case io_bind_step [OF sample_entry_for] io_bind_step [OF sample_replace]
      prod.case io_simps)
    (rule exI, rule conjI, rule refl, simp only: finish_fields sample_replaced_fields simp_thms)

lemma sample_update_reason: "trim_space (arg_text sample_update argReason) = [] @ marker ''b'' @ ''!''"
proof -
  have "arg_text sample_update argReason = marker ''b'' @ ''!''"
    by (simp add: arg_text_def sample_update_def)
  moreover have "trim_space (marker ''b'' @ ''!'') = marker ''b'' @ ''!''"
    by (rule trim_printed [of _ "CHR ''<''" "tl (marker ''b'' @ ''!'')" "marker ''b''" "CHR ''!''"])
      (simp_all add: printed_chars marker_def marker_head_def)
  ultimately show ?thesis by simp
qed

theorem update_decided_by_first_marker_witness:
  "\<exists>pl. plan_update words_tools sample_lib sample_update sample_planner ([], []) = (([], []), Inr pl) \<and>
     pln_team pl = ''a'' \<and> team_from_marker (tc_body (pln_change pl)) = ''b''"
proof -
  obtain pl where p: "plan_update words_tools sample_lib sample_update sample_planner ([], []) = (([], []), Inr pl)"
    and n: "pln_repository pl = ''org/api''" "map fst (tc_files (pln_change pl)) = [''r/a.yaml'']" and t: "pln_team pl = ''a''"
    using sample_update_runs [of "([], [])"] by (elim exE conjE) (rule that)
  have "\<forall>pre other rest. trim_space (arg_text sample_update argReason) = pre @ marker other @ rest \<and> CHR ''<'' \<notin> set pre \<and>
       CHR '' '' \<notin> set other \<longrightarrow> team_from_marker (tc_body (pln_change pl)) = other"
    by (rule update_decided_by_first_marker [OF p, THEN conjunct2]) (simp_all add: n t)
  from this [THEN spec, of "[]", THEN spec, of "''b''", THEN spec, of "''!''"]
  have "team_from_marker (tc_body (pln_change pl)) = ''b''"
    by (rule mp) (intro conjI, rule sample_update_reason, simp_all)
  with p t show ?thesis by (intro exI [of _ pl] conjI)
qed

section \<open>A deletion\<close>

lemma arg_text_upd [simp]: "arg_text (a(k := None)) k' = (if k' = k then [] else arg_text a k')"
  by (simp add: arg_text_def)

lemma arg_names_differ [simp]:
  "argRepository \<noteq> ArgDryRun" "argRepository \<noteq> ArgMode" "argLifecycle \<noteq> ArgDryRun" "argLifecycle \<noteq> ArgMode"
  "argConfirm \<noteq> ArgDryRun" "argConfirm \<noteq> ArgMode" "argReason \<noteq> ArgDryRun" "argReason \<noteq> ArgMode"
  by (simp_all add: argRepository_def argLifecycle_def argConfirm_def argReason_def ArgDryRun_def ArgMode_def)

text \<open>A write the framework commits: the mode named, no dry run, a caller there.\<close>

lemma run_write_commit:
  assumes "run_write tool dry commit cx a st = Some (st', Inr (Inr x))"
  shows "arg_bool a ArgDryRun \<noteq> Some True \<and> to_lower (trim_space (arg_text a ArgMode)) = ModeCommit \<and> cx_login cx \<noteq> None \<and>
    commit (a(ArgDryRun := None, ArgMode := None)) st = Some (st', Inr x)"
  using assms unfolding run_write_def check_mode_def Let_def
  by (auto simp: pio_bind_Inr split: if_splits)

lemma commit_as_person_Inr:
  assumes "commit_as_person T mk cx a st = Some (st', Inr cm)"
  shows "\<exists>p s1 s2 pl. person_of T cx (fst st) = Some (s1, Inr p) \<and>
    mk a \<lparr>pr_reader = (pe_gh p, pe_repo p), pr_as = pe_login p\<rparr> s1 = (s2, Inr pl) \<and>
    commit_plan T p pl (s2, snd st) = Some (st', Inr cm)"
proof -
  obtain st1 p st2 pl where "on_world (pio_wrap NotAPerson (person_of T cx)) st = Some (st1, Inr p)"
    and m: "on_world (pio_of (mk a \<lparr>pr_reader = (pe_gh p, pe_repo p), pr_as = pe_login p\<rparr>)) st1 = Some (st2, Inr pl)"
    and c: "commit_plan T p pl st2 = Some (st', Inr cm)"
    using assms unfolding commit_as_person_def pio_bind_Inr by (elim exE conjE) (rule that)
  then have "person_of T cx (fst st) = Some (fst st1, Inr p)" "snd st1 = snd st"
    by (simp_all add: on_world_Inr pio_wrap_Inr)
  moreover have "mk a \<lparr>pr_reader = (pe_gh p, pe_repo p), pr_as = pe_login p\<rparr> (fst st1) = (fst st2, Inr pl)" "snd st2 = snd st1"
    using m by (simp_all add: on_world_pio_of)
  ultimately show ?thesis using c
    by - (rule exI [of _ p], rule exI [of _ "fst st1"], rule exI [of _ "fst st2"], rule exI [of _ pl], cases st2, simp)
qed

lemma replace_plan_Inr:
  assumes "replace_plan T W rd tf name before after s = (s', Inr pl)"
  shows "\<exists>content. replace_entry (tl_yaml T) (tl_setup T) (fi_content (tf_file tf)) name after = Inr content \<and>
    tc_files (pln_change pl) = [(fi_path (tf_file tf), content)] \<and> pln_team pl = tf_team tf"
  using assms unfolding replace_plan_def by (auto simp: io_bind_Inr io_wrap_Inr)

lemma lifecycle_arg_deleted:
  "arg_text a argLifecycle = LifecycleDeleted \<Longrightarrow> lifecycle_arg T name a = Inr lc \<Longrightarrow>
     lc = LifecycleDeleted \<and> string_arg a argConfirm \<noteq> [] \<and>
     equal_fold (trim_prefix (string_arg a argConfirm) (org_of T @ ''/'')) name"
  by (auto simp: lifecycle_arg_def confirmed_def lifecycles Let_def split: if_splits)

text \<open>What a successful plan of a lifecycle is.\<close>

lemma plan_lifecycle_Inr:
  assumes "plan_lifecycle T W a pn s = (s', Inr pl)"
  shows "\<exists>name lc s1 tf before f after content.
    repository_name T a = Inr name \<and> lifecycle_arg T name a = Inr lc \<and>
    entry_for T (pr_reader pn) name [] s = (s1, Inr (tf, before)) \<and> wl_fields W before = Inr f \<and> fl_lifecycle f \<noteq> lc \<and>
    with_lifecycle T lc (fl_align f) before = Inr after \<and>
    replace_entry (tl_yaml T) (tl_setup T) (fi_content (tf_file tf)) name after = Inr content \<and>
    tc_files (pln_change pl) = [(fi_path (tf_file tf), content)] \<and> pln_changeKind pl = snd (lifecycle_effect lc) \<and>
    pln_team pl = tf_team tf"
proof -
  obtain name lc s1 tf before f after s2 pl0 where
    "repository_name T a = Inr name" "lifecycle_arg T name a = Inr lc"
    "entry_for T (pr_reader pn) name [] s = (s1, Inr (tf, before))" "fields_of W name before = Inr f" "fl_lifecycle f \<noteq> lc"
    "with_lifecycle T lc (fl_align f) before = Inr after"
    and r: "replace_plan T W (pr_reader pn) tf name before after s1 = (s2, Inr pl0)"
    and pl: "tc_files (pln_change pl) = tc_files (pln_change pl0)" "pln_team pl = pln_team pl0"
      "pln_changeKind pl = snd (lifecycle_effect lc)"
    using assms unfolding plan_lifecycle_def Let_def
    by (auto simp: io_bind_Inr case_prod_beta split: if_splits)
  moreover from replace_plan_Inr [OF r] obtain content where
    "replace_entry (tl_yaml T) (tl_setup T) (fi_content (tf_file tf)) name after = Inr content"
    "tc_files (pln_change pl0) = [(fi_path (tf_file tf), content)]" "pln_team pl0 = tf_team tf" by blast
  moreover have "wl_fields W before = Inr f"
    using \<open>fields_of W name before = Inr f\<close> by (cases "wl_fields W before") (simp_all add: fields_of_def)
  ultimately show ?thesis
    by (intro exI [of _ name] exI [of _ lc] exI [of _ s1] exI [of _ tf] exI [of _ before] exI [of _ f] exI [of _ after]
        exI [of _ content]) simp
qed

text \<open>
  C30. Nothing is deleted on a word the person did not type. Where \<open>set_lifecycle\<close> committed a deletion,
  the call was no dry run, named the mode and had a caller; the confirmation is not empty and names the
  repository, with or without its organization; and what was committed as that caller is one file: the
  one that declares the repository, with its entry, and nothing else, replaced by the entry that is
  declared deleted, marked to expect the deletion's run.
\<close>

theorem deletion_confirmed:
  assumes run: "set_lifecycle T W cx a st = Some (st', Inr (Inr cm))" and deleted: "arg_text a argLifecycle = LifecycleDeleted"
  shows "arg_bool a ArgDryRun \<noteq> Some True \<and> to_lower (trim_space (arg_text a ArgMode)) = ModeCommit \<and>
    string_arg a argConfirm \<noteq> [] \<and>
    (\<exists>p name s1 s2 tf before f after content pl s3. cx_login cx = Some (pe_login p) \<and> repository_name T a = Inr name \<and>
      equal_fold (trim_prefix (string_arg a argConfirm) (org_of T @ ''/'')) name \<and>
      entry_for T (pe_gh p, pe_repo p) name [] s1 = (s2, Inr (tf, before)) \<and> wl_fields W before = Inr f \<and>
      with_lifecycle T LifecycleDeleted (fl_align f) before = Inr after \<and>
      replace_entry (tl_yaml T) (tl_setup T) (fi_content (tf_file tf)) name after = Inr content \<and>
      tc_files (pln_change pl) = [(fi_path (tf_file tf), content)] \<and> pln_changeKind pl = ChangeDeleted \<and>
      commit_plan T p pl (s3, snd st) = Some (st', Inr cm))"
proof -
  let ?a = "a(ArgDryRun := None, ArgMode := None)"
  from run_write_commit [OF run [unfolded set_lifecycle_def]]
  have framework: "arg_bool a ArgDryRun \<noteq> Some True" "to_lower (trim_space (arg_text a ArgMode)) = ModeCommit"
    and c: "commit_as_person T (plan_lifecycle T W) cx ?a st = Some (st', Inr cm)" by blast+
  from commit_as_person_Inr [OF c] obtain p s1 s2 pl where p: "person_of T cx (fst st) = Some (s1, Inr p)"
    and plan: "plan_lifecycle T W ?a \<lparr>pr_reader = (pe_gh p, pe_repo p), pr_as = pe_login p\<rparr> s1 = (s2, Inr pl)"
    and commit: "commit_plan T p pl (s2, snd st) = Some (st', Inr cm)" by blast
  have same: "repository_name T ?a = repository_name T a" "string_arg ?a argConfirm = string_arg a argConfirm"
    "arg_text ?a argLifecycle = arg_text a argLifecycle"
    by (simp_all add: repository_name_def repository_key_def string_arg_def)
  from plan_lifecycle_Inr [OF plan] obtain name lc s3 tf before f after content where
    n: "repository_name T ?a = Inr name" "lifecycle_arg T name ?a = Inr lc"
    and e: "entry_for T (pe_gh p, pe_repo p) name [] s1 = (s3, Inr (tf, before))" "wl_fields W before = Inr f"
    "with_lifecycle T lc (fl_align f) before = Inr after"
    "replace_entry (tl_yaml T) (tl_setup T) (fi_content (tf_file tf)) name after = Inr content"
    "tc_files (pln_change pl) = [(fi_path (tf_file tf), content)]" "pln_changeKind pl = snd (lifecycle_effect lc)"
    by (simp only: planner.simps) (elim exE conjE, rule that)
  have lc: "lc = LifecycleDeleted" "string_arg a argConfirm \<noteq> []"
    "equal_fold (trim_prefix (string_arg a argConfirm) (org_of T @ ''/'')) name"
    using lifecycle_arg_deleted [OF _ n(2)] deleted same by simp_all
  have kind: "snd (lifecycle_effect LifecycleDeleted) = ChangeDeleted"
    by (simp add: lifecycle_effect_def lifecycles)
  have login: "cx_login cx = Some (pe_login p)" using person_of_login [OF p] by blast
  show ?thesis
    by (intro conjI framework lc(2), (rule exI)+, intro conjI, rule login, rule n(1) [unfolded same(1)], rule lc(3), rule e(1),
        rule e(2), rule e(3) [unfolded lc(1)], rule e(4), rule e(5), rule e(6) [unfolded lc(1) kind], rule commit)
qed

end
