(* ===== verification/DryRuns.thy ===== *)
theory DryRuns
  imports PlansProps Approvals Creation
begin

text \<open>
  What a call that is not a commit leaves as it is: a dry run, a call without the mode or with another
  one, and a call without a caller. The reads are a hypothesis on the clients, the store and the
  validator (\<open>tools_read_only\<close>): they leave the part \<open>v\<close> of the state a client can write as it is, and
  the cache of the compiled schema is no part of it.
\<close>

section \<open>The reads\<close>

definition client_reads :: "('s \<Rightarrow> 'v) \<Rightarrow> 's github \<Rightarrow> bool" where
  "client_reads v G \<longleftrightarrow> reads_keep v G \<and> (\<forall>ow n k. io_keeps v (gh_get_pull G ow n k)) \<and>
     (\<forall>ow n k. io_keeps v (gh_list_files G ow n k))"

definition tools_read_only :: "('s \<Rightarrow> 'v) \<Rightarrow> ('s, 'd, 'o, 'h) tools \<Rightarrow> ('s, 'd, 'h) write_lib \<Rightarrow> bool" where
  "tools_read_only v T W \<longleftrightarrow>
     (\<forall>G. tl_app T = Some G \<longrightarrow> client_reads v G) \<and> (\<forall>tok G. tl_person T tok = Inr G \<longrightarrow> client_reads v G) \<and>
     (\<forall>G page. io_keeps v (tl_teams T G page)) \<and> (\<forall>A k. tl_inventory T = Some A \<longrightarrow> io_keeps v (ac_get A k)) \<and>
     (\<forall>h og live q. io_keeps v (wl_validate W h og live q)) \<and> (\<forall>c s. v (wl_cache W c s) = v s)"

definition reader_reads :: "('s \<Rightarrow> 'v) \<Rightarrow> 's reader \<Rightarrow> bool" where
  "reader_reads v rd \<longleftrightarrow> client_reads v (fst rd)"

named_theorems keeps "what the reading operations keep"

declare io_keeps_ret [keeps] io_keeps_fail [keeps] io_keeps_of [keeps] io_keeps_bind [keeps] io_keeps_wrap [keeps]
  io_keeps_try [keeps] pio_keeps_of [keeps] pio_keeps_wrap [keeps] pio_keeps_bind [keeps]

lemma client_reads_keep: "client_reads v G \<Longrightarrow> reads_keep v G"
  by (simp add: client_reads_def)

lemma io_keepsI: "(\<And>s s' r. m s = (s', r) \<Longrightarrow> v s' = v s) \<Longrightarrow> io_keeps v m"
  by (simp add: io_keeps_def)

lemma pio_keepsI: "(\<And>s s' r. m s = Some (s', r) \<Longrightarrow> v s' = v s) \<Longrightarrow> pio_keeps v m"
  by (simp add: pio_keeps_def)

lemma keeps_TeamFile [keeps]: "client_reads v G \<Longrightarrow> io_keeps v (TeamFile G P R r team)"
  unfolding TeamFile_def by (auto intro!: keeps keeps_Read client_reads_keep split: sum.splits)

lemma keeps_Teams [keeps]: "client_reads v G \<Longrightarrow> io_keeps v (Teams G P r)"
  unfolding Teams_def
  by (auto intro!: keeps keeps_read_error reads_keepD client_reads_keep split: sum.splits contents.splits)

lemma keeps_find_in_teams [keeps]: "client_reads v G \<Longrightarrow> io_keeps v (find_in_teams G P R r name teams)"
  by (induction teams) (auto intro!: keeps)

lemma keeps_FindEntry [keeps]: "client_reads v G \<Longrightarrow> io_keeps v (FindEntry G P R r name hint)"
  unfolding FindEntry_def by (auto intro!: keeps split: option.splits)

lemma keeps_Schema [keeps]: "client_reads v G \<Longrightarrow> io_keeps v (Schema G P r)"
  unfolding Schema_def by (auto intro!: keeps_read_optional client_reads_keep)

lemma keeps_Channels [keeps]: "client_reads v G \<Longrightarrow> io_keeps v (Channels G D r team)"
  unfolding Channels_def by (auto intro!: keeps keeps_Read client_reads_keep)

lemma keeps_team_channel [keeps]: "client_reads v G \<Longrightarrow> io_keeps v (team_channel T G r team b)"
  unfolding team_channel_def by (auto intro!: keeps split: option.splits)

lemma keeps_ChangedTeamFiles [keeps]: "client_reads v G \<Longrightarrow> io_keeps v (ChangedTeamFiles G P r k)"
  unfolding ChangedTeamFiles_def by (auto intro!: keeps simp: client_reads_def)

section \<open>The plans\<close>

lemma keeps_compiled [keeps]: "tools_read_only v T W \<Longrightarrow> io_keeps v (compiled W doc)"
  by (rule io_keepsI) (auto simp: compiled_def tools_read_only_def split: option.splits prod.splits if_splits sum.splits)

lemma keeps_validator_schema [keeps]:
  "tools_read_only v T W \<Longrightarrow> (\<And>G r. rd = Some (G, r) \<Longrightarrow> client_reads v G) \<Longrightarrow> io_keeps v (validator_schema T W rd)"
  unfolding validator_schema_def embedded_schema_def by (auto intro!: keeps split: option.splits)

lemma keeps_run_validator [keeps]:
  "tools_read_only v T W \<Longrightarrow> (\<And>G r. rd = Some (G, r) \<Longrightarrow> client_reads v G) \<Longrightarrow> io_keeps v (run_validator T W rd q)"
  unfolding run_validator_def by (auto intro!: keeps simp: tools_read_only_def)

lemma keeps_existing_verdict [keeps]:
  "tools_read_only v T W \<Longrightarrow> reader_reads v rd \<Longrightarrow> io_keeps v (existing_verdict T W rd team d)"
  unfolding existing_verdict_def by (auto intro!: keeps simp: reader_reads_def split: option.splits)

lemma keeps_schema_problems [keeps]:
  "tools_read_only v T W \<Longrightarrow> reader_reads v rd \<Longrightarrow> io_keeps v (schema_problems T W rd team d)"
  unfolding schema_problems_def by (auto intro!: keeps)

lemma get_keeps: "tools_read_only v T W \<Longrightarrow> tl_inventory T = Some A \<Longrightarrow> ac_get A k s = (s', r) \<Longrightarrow> v s' = v s"
  unfolding tools_read_only_def by (meson io_keepsD)

lemma inventory_hint_keeps: "tools_read_only v T W \<Longrightarrow> v (fst (inventory_hint T name s)) = v s"
  by (auto simp: inventory_hint_def split: option.splits prod.splits sum.splits dest: get_keeps)

lemma keeps_entry_for [keeps]:
  assumes "tools_read_only v T W" "reader_reads v rd"
  shows "io_keeps v (entry_for T rd name hint)"
proof (rule io_keepsI)
  fix s s' r assume run: "entry_for T rd name hint s = (s', r)"
  have find: "io_keeps v (io_bind (io_wrap FilesFailed (FindEntry (fst rd) (tl_paths T) (tl_setup T) (snd rd) name h)) (\<lambda>tf.
      case rs_entry (tl_setup T) (tf_entries tf) name of Some d \<Rightarrow> io_ret (tf, d)
      | None \<Rightarrow> io_fail (FilesFailed (NoEntry name [tf_team tf]))))" for h
    using assms(2) by (auto intro!: keeps simp: reader_reads_def split: option.splits)
  obtain s1 h where h: "(if hint = [] then inventory_hint T name s else (s, hint)) = (s1, h)" by fastforce
  have "v s1 = v s" using h inventory_hint_keeps [OF assms(1), of name s] by (auto split: if_splits)
  moreover have "v s' = v s1" using run h io_keepsD [OF find] by (simp add: entry_for_def)
  ultimately show "v s' = v s" by simp
qed

lemma plan_message_keeps:
  "reader_reads v rd \<Longrightarrow> plan_message T W rd team text b s = (s', m) \<Longrightarrow> v s' = v s"
  by (auto simp: plan_message_def Let_def reader_reads_def split: if_splits prod.splits sum.splits dest: io_keepsD [OF keeps_team_channel])

lemma keeps_replace_plan [keeps]:
  "tools_read_only v T W \<Longrightarrow> reader_reads v rd \<Longrightarrow> io_keeps v (replace_plan T W rd tf name before after)"
  unfolding replace_plan_def by (auto intro!: keeps)

lemma keeps_plan_update [keeps]:
  "tools_read_only v T W \<Longrightarrow> reader_reads v (pr_reader pn) \<Longrightarrow> io_keeps v (plan_update T W a pn)"
  unfolding plan_update_def by (auto intro!: keeps split: option.splits)

text \<open>A last step that plans messages and answers.\<close>

lemma keeps_messages:
  assumes "reader_reads v rd"
  shows "io_keeps v (\<lambda>s. case plan_message T W rd team text b s of (s1, m) \<Rightarrow> (s1, Inr (f m)))"
    and "io_keeps v (\<lambda>s. case plan_message T W rd team text b s of (s1, m) \<Rightarrow>
      case plan_message T W rd team' text' b' s1 of (s2, m') \<Rightarrow> (s2, Inr (g m m')))"
  by (rule io_keepsI, fastforce split: prod.splits dest: plan_message_keeps [OF assms])+

lemma keeps_plan_lifecycle [keeps]:
  "tools_read_only v T W \<Longrightarrow> reader_reads v (pr_reader pn) \<Longrightarrow> io_keeps v (plan_lifecycle T W a pn)"
  unfolding plan_lifecycle_def Let_def by (auto intro!: keeps keeps_messages)

lemma keeps_plan_transfer [keeps]:
  "tools_read_only v T W \<Longrightarrow> reader_reads v (pr_reader pn) \<Longrightarrow> io_keeps v (plan_transfer T W a pn)"
  unfolding plan_transfer_def Let_def by (auto intro!: keeps keeps_messages simp: reader_reads_def)

lemma keeps_find_everywhere [keeps]: "reader_reads v rd \<Longrightarrow> io_keeps v (find_everywhere T rd name)"
  by (rule io_keepsI) (auto simp: find_everywhere_def reader_reads_def split: prod.splits sum.splits tf_error.splits
      dest: io_keepsD [OF keeps_FindEntry])

lemma keeps_declared_by [keeps]:
  assumes "tools_read_only v T W" "reader_reads v rd"
  shows "io_keeps v (declared_by T rd name)"
proof (rule io_keepsI)
  fix s s' r assume run: "declared_by T rd name s = (s', r)"
  have f: "v s2 = v s1" if "FindEntry (fst rd) (tl_paths T) (tl_setup T) (snd rd) name h s1 = (s2, q)" for h s1 s2 q
    using that assms(2) by (auto simp: reader_reads_def dest: io_keepsD [OF keeps_FindEntry])
  have e: "v s2 = v s1" if "find_everywhere T rd name s1 = (s2, q)" for s1 s2 q
    using that io_keepsD [OF keeps_find_everywhere [OF assms(2)]] by blast
  show "v s' = v s"
    using run unfolding declared_by_def
    by (auto split: option.splits prod.splits sum.splits tf_error.splits dest!: f e get_keeps [OF assms(1)])
qed

lemma keeps_plan_adopt [keeps]:
  assumes "tools_read_only v T W" "reader_reads v (pr_reader pn)"
  shows "io_keeps v (plan_adopt T W a pn)"
proof -
  have "io_keeps v (adoption_plan T W a pn name team tf d f optedIn q)" for name team tf d f optedIn q
    unfolding adoption_plan_def Let_def by (rule io_keeps_bind [OF io_keeps_of keeps_messages(1) [OF assms(2)]])
  then show ?thesis
    using assms unfolding plan_adopt_def Let_def
    by (auto intro!: keeps split: option.splits simp: reader_reads_def)
qed

lemma keeps_plan_opt_in [keeps]:
  "tools_read_only v T W \<Longrightarrow> reader_reads v (pr_reader pn) \<Longrightarrow> io_keeps v (plan_opt_in T W pn tf before planned checkedAt)"
  unfolding plan_opt_in_def Let_def by (auto intro!: keeps keeps_messages)

section \<open>Who plans\<close>

lemma user_teams_keeps:
  fixes pages :: "int \<Rightarrow> ('s, string, (string \<times> string) list \<times> int) io"
  assumes "\<And>page. io_keeps v (pages page)" and "user_teams pages og page out s = Some y"
  shows "v (fst y) = v s"
proof (rule user_teams.raw_induct [where P = "\<lambda>pages' og page out s y. pages' = pages \<longrightarrow> v (fst y) = v s",
      OF _ assms(2), THEN mp, OF _ refl])
  fix g :: "(int \<Rightarrow> ('s, string, (string \<times> string) list \<times> int) io) \<Rightarrow> string \<Rightarrow> int \<Rightarrow> string list \<Rightarrow> 's \<Rightarrow>
      ('s \<times> (string + string list)) option"
    and pages' og page out s y
  assume IH: "\<And>pages' og page out s y. g pages' og page out s = Some y \<Longrightarrow> pages' = pages \<longrightarrow> v (fst y) = v s"
    and eq: "(case pages' page s of
      (s', Inl e) \<Rightarrow> Some (s', Inl e)
    | (s', Inr (teams, next_page)) \<Rightarrow>
        (let out' = out @ map snd (filter (\<lambda>t. equal_fold (fst t) og) teams) in
         if next_page = 0 then Some (s', Inr out') else g pages' og next_page out' s')) = Some y"
  show "pages' = pages \<longrightarrow> v (fst y) = v s"
  proof
    assume p: "pages' = pages"
    obtain s' r where q: "pages' page s = (s', r)" by fastforce
    have "v s' = v s" using assms(1) q p io_keepsD by metis
    then show "v (fst y) = v s"
      using eq q p IH by (auto simp: Let_def split: sum.splits prod.splits if_splits)
  qed
qed

lemma person_of_keeps:
  assumes "tools_read_only v T W" and "person_of T cx s = Some (s', r)"
  shows "v s' = v s"
proof (cases "caller_of T cx")
  case (Inr p)
  have teams: "io_keeps v (tl_teams T G page)" for G page using assms(1) by (simp add: tools_read_only_def)
  obtain y where y: "user_teams (tl_teams T (pe_gh p)) (org_of T) 0 [] s = Some y" "s' = fst y"
    using assms(2) Inr by (auto simp: person_of_def split: option.splits prod.splits sum.splits)
  show ?thesis unfolding y(2) by (rule user_teams_keeps [OF teams y(1)])
qed (use assms(2) in \<open>simp add: person_of_def\<close>)

lemma keeps_person_of [keeps]:
  assumes "tools_read_only v T W"
  shows "pio_keeps v (person_of T cx)"
proof (rule pio_keepsI)
  fix s s' r assume run: "person_of T cx s = Some (s', r)"
  show "v s' = v s" by (rule person_of_keeps [OF assms run])
qed

lemma person_reads:
  assumes "tools_read_only v T W" and "person_of T cx s = Some (s', Inr p)"
  shows "client_reads v (pe_gh p)"
proof -
  obtain tok where "tl_person T tok = Inr (pe_gh p)" using person_of_login [OF assms(2)] by blast
  then show ?thesis using assms(1) by (auto simp: tools_read_only_def)
qed

lemma unattended_reads: "tools_read_only v T W \<Longrightarrow> unattended T = Inr rd \<Longrightarrow> reader_reads v rd"
  by (auto simp: unattended_def tools_read_only_def reader_reads_def split: option.splits sum.splits)

lemma planner_of_keeps:
  assumes "tools_read_only v T W" and "planner_of T W cx s = Some (s', r)"
  shows "v s' = v s \<and> (\<forall>pn. r = Inr pn \<longrightarrow> reader_reads v (pr_reader pn))"
proof -
  obtain q where p: "person_of T cx s = Some (s', q)"
    using assms(2) by (auto simp: planner_of_def split: option.splits prod.splits sum.splits)
  have "reader_reads v (pr_reader pn)" if "r = Inr pn" for pn
  proof (cases q)
    case (Inr w)
    have "client_reads v (pe_gh w)" by (rule person_reads [OF assms(1) p [unfolded Inr]])
    then show ?thesis using assms(2) p Inr that by (auto simp: planner_of_def reader_reads_def)
  next
    case (Inl e)
    then have "unattended T = Inr (pr_reader pn)"
      using assms(2) p that by (auto simp: planner_of_def split: sum.splits)
    then show ?thesis using unattended_reads [OF assms(1)] by simp
  qed
  then show ?thesis using person_of_keeps [OF assms(1) p] by simp
qed

section \<open>What is not a commit\<close>

text \<open>A call the framework does not hand to the tool's commit.\<close>

definition not_committing :: "call \<Rightarrow> args \<Rightarrow> bool" where
  "not_committing cx a \<longleftrightarrow>
     arg_bool a ArgDryRun = Some True \<or> to_lower (trim_space (arg_text a ArgMode)) \<noteq> ModeCommit \<or> cx_login cx = None"

lemma run_write_not_committing:
  assumes "not_committing cx a" and "run_write tool dry commit cx a st = Some (st', r)"
    and "\<And>x. pio_keeps u (dry (a(ArgDryRun := None, ArgMode := None)))"
  shows "u st' = u st"
proof -
  have d: "pio_keeps u (pio_bind (dry (a(ArgDryRun := None, ArgMode := None))) (\<lambda>x. pio_of (io_ret (Inl x))))"
    by (intro keeps assms(3))
  have "pio_bind (dry (a(ArgDryRun := None, ArgMode := None))) (\<lambda>x. pio_of (io_ret (Inl x))) st = Some (st', r) \<or> st' = st"
    using assms(1,2) by (auto simp: run_write_def Let_def not_committing_def check_mode_def split: if_splits)
  then show ?thesis using pio_keepsD [OF d] by auto
qed

text \<open>The world with the collector's memory: the part \<open>v\<close> of the state and the whole memory.\<close>

lemma on_world_keeps: "pio_keeps v m \<Longrightarrow> pio_keeps (\<lambda>st. (v (fst st), snd st)) (on_world m)"
  by (auto simp: pio_keeps_def on_world_def split: option.splits)

lemma dry_run_plan_keeps:
  assumes "tools_read_only v T W" and "\<And>pn. reader_reads v (pr_reader pn) \<Longrightarrow> io_keeps v (mk a pn)"
  shows "pio_keeps (\<lambda>st. (v (fst st), snd st)) (dry_run_plan T W mk cx a)"
  unfolding dry_run_plan_def
proof (rule on_world_keeps, rule pio_keepsI)
  fix s s' r assume run: "pio_bind (planner_of T W cx) (\<lambda>pn. pio_of (mk a pn)) s = Some (s', r)"
  then obtain s1 q where p: "planner_of T W cx s = Some (s1, q)"
    by (auto simp: pio_bind_def split: option.splits prod.splits)
  note k = planner_of_keeps [OF assms(1) p]
  show "v s' = v s"
  proof (cases q)
    case (Inl e)
    then show ?thesis using run p k by (simp add: pio_bind_def)
  next
    case (Inr pn)
    then have "mk a pn s1 = (s', r)" using run p by (simp add: pio_bind_def)
    then have "v s' = v s1" using io_keepsD [OF assms(2)] k Inr by blast
    then show ?thesis using k by simp
  qed
qed

lemma pio_keeps_bind_person:
  assumes T: "tools_read_only v T W" and "\<And>p. client_reads v (pe_gh p) \<Longrightarrow> pio_keeps v (f p)"
  shows "pio_keeps v (pio_bind (pio_wrap w (person_of T cx)) f)"
proof (rule pio_keepsI)
  fix s s' r assume run: "pio_bind (pio_wrap w (person_of T cx)) f s = Some (s', r)"
  then obtain s1 q where p: "person_of T cx s = Some (s1, q)"
    by (auto simp: pio_bind_def pio_wrap_def split: option.splits prod.splits sum.splits)
  have "v s1 = v s" by (rule person_of_keeps [OF T p])
  moreover have "v s' = v s1"
  proof (cases q)
    case (Inr pn)
    then have "f pn s1 = Some (s', r)" using run p by (simp add: pio_bind_def pio_wrap_def)
    then show ?thesis using pio_keepsD [OF assms(2) [OF person_reads [OF T p [unfolded Inr]]]] by blast
  qed (use run p in \<open>simp add: pio_bind_def pio_wrap_def\<close>)
  ultimately show "v s' = v s" by simp
qed

lemma approve_keeps:
  assumes "tools_read_only v T W"
  shows "pio_keeps v (approve T W cx False a)"
proof -
  have "io_keeps v (decision_of T G r n)" if "client_reads v G" for G r n
    using that unfolding decision_of_def Let_def
    by (auto intro!: keeps simp: client_reads_def split: list.splits)
  then show ?thesis
    unfolding approve_def Let_def by (auto intro!: keeps pio_keeps_bind_person [OF assms])
qed

lemma known_record_keeps:
  assumes "tools_read_only v T W"
  shows "known_record T a s = (s', q) \<Longrightarrow> v s' = v s"
  by (auto simp: known_record_def split: option.splits sum.splits prod.splits dest: get_keeps [OF assms])

lemma keeps_declared_entry [keeps]:
  "client_reads v (pe_gh p) \<Longrightarrow> io_keeps v (declared_entry T W p name hint)"
  by (rule io_keepsI) (auto simp: declared_entry_def split: prod.splits sum.splits tf_error.splits option.splits
      dest: io_keepsD [OF keeps_FindEntry])

lemma align_keeps:
  assumes "tools_read_only v T W"
  shows "pio_keeps (\<lambda>st. (v (fst st), snd st)) (align T W cx False a)"
proof -
  have known: "pio_keeps v (\<lambda>s. Some (case known_record T a s of (s', r) \<Rightarrow> (s', Inr r)))"
    by (rule pio_keepsI) (auto split: prod.splits dest: known_record_keeps [OF assms])
  have "pio_keeps v (plan_dispatch T W cx a)"
    unfolding plan_dispatch_def Let_def
    by (auto intro!: keeps known pio_keeps_bind_person [OF assms] simp: assms reader_reads_def split: prod.splits option.splits)
  then show ?thesis
    unfolding align_def by (auto intro!: keeps on_world_keeps)
qed

lemma keeps_dry_run [keeps]:
  assumes "tools_read_only v T W" and "\<And>q. p = Inr q \<Longrightarrow> client_reads v (pe_gh q)"
  shows "io_keeps v (dry_run T W cx a p)"
proof -
  have "\<And>G r. schema_reader T (case p of Inr q \<Rightarrow> Some q | Inl e \<Rightarrow> None) = Some (G, r) \<Longrightarrow> client_reads v G"
    using assms unattended_reads [OF assms(1)]
    by (auto simp: schema_reader_def reader_reads_def split: sum.splits option.splits)
  then have v: "io_keeps v (run_validator T W (schema_reader T (case p of Inr q \<Rightarrow> Some q | Inl e \<Rightarrow> None)) q)" for q
    using keeps_run_validator [OF assms(1)] by blast
  have "io_keeps v (\<lambda>s. (s, Inr (f s)))" for f by (simp add: io_keeps_def)
  then show ?thesis
    unfolding dry_run_def Let_def by (auto intro!: keeps v split: prod.splits)
qed

lemma plan_creation_keeps:
  assumes "client_reads v (pe_gh p)" and "plan_creation T W p res a s = (s', r)"
  shows "v s' = v s"
proof -
  have k: "io_keeps v (declaration_plan T W p res entries a)" for entries
    unfolding declaration_plan_def Let_def using assms(1) by (auto intro!: keeps)
  show ?thesis
  proof (cases "rendered_entries T (vs_team res) (vs_entries res)")
    case (Inr entries)
    obtain s1 q where d: "declaration_plan T W p res entries a s = (s1, q)" by fastforce
    then show ?thesis using io_keepsD [OF k d] assms(2) Inr by (simp add: plan_creation_def)
  qed (use assms(2) in \<open>simp add: plan_creation_def\<close>)
qed

lemma validate_keeps:
  assumes T: "tools_read_only v T W"
  shows "pio_keeps v (validate T W cx a)"
proof (rule pio_keepsI)
  fix s s' r assume run: "validate T W cx a s = Some (s', r)"
  then obtain s1 p where p: "(if cx_login cx = None then Some (s, Inl NoToken) else person_of T cx s) = Some (s1, p)"
    by (auto simp: validate_def split: option.splits if_splits)
  have reads: "\<And>q. p = Inr q \<Longrightarrow> client_reads v (pe_gh q)" and s1: "v s1 = v s"
    using p person_reads [OF T] person_of_keeps [OF T] by (auto split: if_splits)
  obtain s2 q where d: "dry_run T W cx a p s1 = (s2, q)" by fastforce
  have s2: "v s2 = v s1" using io_keepsD [OF keeps_dry_run [OF T reads] d] .
  show "v s' = v s"
  proof (cases "\<exists>w res. p = Inr w \<and> q = Inr res \<and> vs_accepted (va_result res)")
    case True
    then obtain w res where pq: "p = Inr w" "q = Inr res" "vs_accepted (va_result res)" by blast
    then obtain pl where pl: "plan_creation T W w (va_result res) a s2 = (s', pl)"
      using run p d by (auto simp: validate_def split: prod.splits)
    show ?thesis using plan_creation_keeps [OF reads [OF pq(1)] pl] s1 s2 by simp
  next
    case False
    then have "s' = s2" using run p d by (auto simp: validate_def split: sum.splits if_splits)
    then show ?thesis using s1 s2 by simp
  qed
qed

lemma not_committing_world:
  assumes "not_committing cx a" and "\<And>a. pio_keeps (\<lambda>st. (v (fst st), snd st)) (dry a)"
  shows "run_write tool dry commit cx a st = Some (st', r) \<longrightarrow> v (fst st') = v (fst st) \<and> snd st' = snd st"
  using run_write_not_committing [where u = "\<lambda>st. (v (fst st), snd st)" and dry = dry, OF assms(1) _ assms(2)] by blast

text \<open>
  C28. Nothing is written but by a commit. Whatever tool is called, where the call is a dry run, names
  another mode than commit or none, or has no caller, the answer leaves what a client can write on GitHub
  and in the inventory as it was, and the collector's memory too: no pull request, no review, no dispatch,
  no run expected. (\<open>tools_read_only\<close> is about the reads of go-github, the store and the validator.)
\<close>

theorem only_commits_write:
  assumes T: "tools_read_only v T W" and nc: "not_committing cx a"
  shows "(update_repository T W cx a st = Some (st1, r1) \<longrightarrow> v (fst st1) = v (fst st) \<and> snd st1 = snd st) \<and>
    (transfer_repository T W cx a st = Some (st2, r2) \<longrightarrow> v (fst st2) = v (fst st) \<and> snd st2 = snd st) \<and>
    (set_lifecycle T W cx a st = Some (st3, r3) \<longrightarrow> v (fst st3) = v (fst st) \<and> snd st3 = snd st) \<and>
    (adopt_repository T W cx a st = Some (st4, r4) \<longrightarrow> v (fst st4) = v (fst st) \<and> snd st4 = snd st) \<and>
    (create_repository T W cx a st = Some (st5, r5) \<longrightarrow> v (fst st5) = v (fst st) \<and> snd st5 = snd st) \<and>
    (align_repository T W cx a st = Some (st6, r6) \<longrightarrow> v (fst st6) = v (fst st) \<and> snd st6 = snd st) \<and>
    (approve_change T W cx a s = Some (s7, r7) \<longrightarrow> v s7 = v s)"
proof -
  have plans: "pio_keeps (\<lambda>st. (v (fst st), snd st)) (dry_run_plan T W (plan_update T W) cx a')"
    "pio_keeps (\<lambda>st. (v (fst st), snd st)) (dry_run_plan T W (plan_transfer T W) cx a')"
    "pio_keeps (\<lambda>st. (v (fst st), snd st)) (dry_run_plan T W (plan_lifecycle T W) cx a')"
    "pio_keeps (\<lambda>st. (v (fst st), snd st)) (dry_run_plan T W (plan_adopt T W) cx a')" for a'
    by (rule dry_run_plan_keeps [OF T], rule keeps_plan_update [OF T] keeps_plan_transfer [OF T] keeps_plan_lifecycle [OF T]
        keeps_plan_adopt [OF T], assumption)+
  have review: "approve_change T W cx a s = Some (s7, r7) \<longrightarrow> v s7 = v s"
    unfolding approve_change_def
    by (rule impI, rule run_write_not_committing [where u = v and dry = "approve T W cx False", OF nc _ approve_keeps [OF T]])
  show ?thesis
    unfolding update_repository_def transfer_repository_def set_lifecycle_def adopt_repository_def create_repository_def
      align_repository_def
    by (intro conjI not_committing_world [OF nc] plans on_world_keeps validate_keeps [OF T] align_keeps [OF T] review)
qed

text \<open>The instance: every plan's read of the sample leaves its log as it is.\<close>

lemma noting_reads: "client_reads id (noting_github F pull)"
  by (auto simp: client_reads_def reads_keep_def noting_github_def split: option.splits intro!: keeps)

lemma sample_read_only: "tools_read_only id (sample_tools pull) sample_lib"
  by (auto simp: tools_read_only_def sample_tools_def sample_lib_def noting_reads intro!: keeps)

lemma sample_repository: "new_repo [] [] = Inr \<lparr>ro_owner = ''giantswarm'', ro_name = ''github'', ro_ref = ''main'', ro_as = []\<rparr>"
  by code_simp

lemma sample_person_of: "person_of (sample_tools pull) sample_call s = Some (s, Inr (sample_person pull))"
proof -
  have "caller_of (sample_tools pull) sample_call = Inr ((sample_person pull)\<lparr>pe_teams := []\<rparr>)"
    by (simp add: caller_of_def sample_call_def sample_tools_def team_files_repo_def sample_repository sample_person_def)
  moreover have "user_teams (tl_teams (sample_tools pull) G) (org_of (sample_tools pull)) 0 [] s = Some (s, Inr [''a''])" for G
    by (subst user_teams.simps) (simp add: sample_tools_def sample_collector_def org_of_def)
  ultimately show ?thesis by (simp add: person_of_def sample_person_def)
qed

lemma sample_dry_update:
  "\<exists>pl. update_repository words_tools sample_lib sample_call (sample_update(ArgDryRun \<mapsto> ABool True)) (([], []), m) =
     Some ((([], []), m), Inr (Inl pl))"
proof -
  have a: "sample_update(ArgDryRun := None, ArgMode := None) = sample_update"
    by (simp add: sample_update_def argRepository_def argEntry_def argReason_def ArgDryRun_def ArgMode_def fun_eq_iff)
  have mode: "arg_bool (sample_update(ArgDryRun \<mapsto> ABool True)) ArgDryRun = Some True"
    "arg_text (sample_update(ArgDryRun \<mapsto> ABool True)) ArgMode = []"
    by (simp_all add: arg_bool_def arg_text_def sample_update_def argRepository_def argEntry_def argReason_def ArgDryRun_def ArgMode_def)
  have trim: "to_lower (trim_space []) = []" by code_simp
  have "planner_of words_tools sample_lib sample_call s = Some (s, Inr sample_planner)" for s
    by (simp add: planner_of_def sample_person_of sample_planner_def) (simp add: sample_person_def)
  moreover obtain pl where "plan_update words_tools sample_lib sample_update sample_planner ([], []) = (([], []), Inr pl)"
    using sample_update_runs [of "([], [])"] by (elim exE conjE) (rule that)
  ultimately have "dry_run_plan words_tools sample_lib (plan_update words_tools sample_lib) sample_call sample_update (([], []), m) =
    Some ((([], []), m), Inr pl)"
    by (simp add: dry_run_plan_def on_world_def pio_bind_def)
  then show ?thesis
    by (intro exI [of _ pl]) (simp add: update_repository_def run_write_def a mode check_mode_def trim ModeCommit_def modeApply_def pio_bind_def)
qed

theorem only_commits_write_witness:
  "\<exists>st' r. update_repository words_tools sample_lib sample_call (sample_update(ArgDryRun \<mapsto> ABool True)) (([], []), fresh_memory) =
     Some (st', Inr (Inl r)) \<and> fst st' = ([], []) \<and> snd st' = fresh_memory"
proof -
  have nc: "not_committing sample_call (sample_update(ArgDryRun \<mapsto> ABool True))"
    by (simp add: not_committing_def arg_bool_def)
  obtain pl where u: "update_repository words_tools sample_lib sample_call (sample_update(ArgDryRun \<mapsto> ABool True)) (([], []), fresh_memory) =
     Some ((([], []), fresh_memory), Inr (Inl pl))"
    using sample_dry_update by blast
  from only_commits_write [OF sample_read_only nc, THEN conjunct1, rule_format, OF u] u show ?thesis by auto
qed

end
