(* ===== verification/CommitProps.thy ===== *)
theory CommitProps
  imports DryRuns
begin

text \<open>
  What a commit of a plan leaves behind: the pull request it opened and the run its record expects.
\<close>

section \<open>The run a commit expects\<close>

lemma opened_pending:
  "su_pendingRun (rc_setup (opened E now login kind cp r)) = Some \<lparr>pn_dispatchedAt = now, pn_by = login, pn_kind = kind,
     pn_pullRequest = Some cp, pn_mergedAt = None, pn_conflictsSince = None\<rparr>"
  by (simp add: opened_def expect_run_def finalize_def)

lemma expect_after_run:
  assumes "expect_after T login repository kind pr st = Some (st', Some run)"
  shows "pn_by run = login \<and> pn_kind run = kind \<and> pn_pullRequest run = Some \<lparr>cp_number = op_number pr, cp_url = op_url pr\<rparr> \<and>
    pn_mergedAt run = None \<and>
    (\<exists>A r s. tl_inventory T = Some A \<and> ac_put A r s = (fst st', None) \<and> su_pendingRun (rc_setup r) = Some run)"
proof -
  obtain A st1 r where a: "tl_inventory T = Some A"
    and p: "put_expected_run A (opened (tl_engine T) (tl_clock T (fst st1)) login kind
        \<lparr>cp_number = op_number pr, cp_url = op_url pr\<rparr> r) (fst st1) = (fst st', None)"
    and run: "su_pendingRun (rc_setup (opened (tl_engine T) (tl_clock T (fst st1)) login kind
        \<lparr>cp_number = op_number pr, cp_url = op_url pr\<rparr> r)) = Some run"
    using assms unfolding expect_after_def Let_def
    by (auto split: option.splits prod.splits)
  then show ?thesis by (auto simp: opened_pending put_expected_run_def)
qed

lemma armed_same: "armed G r pr s = (s', pr') \<Longrightarrow> op_number pr' = op_number pr \<and> op_url pr' = op_url pr"
  by (auto simp: armed_def split: if_splits prod.splits sum.splits)

text \<open>
  C31. A commit opens what the schema accepts, and its record waits for exactly that pull request. A plan
  with problems commits nothing: the state is the one before and the refusal carries the problems. A plan
  that commits answers the pull request \<open>OpenPullRequest\<close> gave for its change, and the pending run it
  answers, if any, names the person, the plan's kind of change and that pull request, is not merged, and
  is the one stored last in the inventory.
\<close>

theorem commit_marks_pull_request:
  assumes run: "commit_plan T p pl st = Some (st', r)"
  shows "(\<not> pln_accepted pl \<longrightarrow> st' = st \<and> r = Inl (SchemaRefuses (pln_problems pl))) \<and>
    (\<forall>cm. r = Inr cm \<longrightarrow> pln_accepted pl \<and>
      (\<exists>s1 pr. OpenPullRequest (pe_gh p) (pe_repo p) (pln_change pl) (fst st) = (s1, Inr pr) \<and>
        op_number (cm_pullRequest cm) = op_number pr \<and> op_url (cm_pullRequest cm) = op_url pr) \<and>
      (\<forall>pending. cm_pendingRun cm = Some pending \<longrightarrow> pn_by pending = pe_login p \<and> pn_kind pending = pln_changeKind pl \<and>
        pn_pullRequest pending = Some \<lparr>cp_number = op_number (cm_pullRequest cm), cp_url = op_url (cm_pullRequest cm)\<rparr> \<and>
        pn_mergedAt pending = None \<and>
        (\<exists>A rec s. tl_inventory T = Some A \<and> ac_put A rec s = (fst st', None) \<and> su_pendingRun (rc_setup rec) = Some pending)))"
proof (cases "pln_accepted pl")
  case False
  then show ?thesis using run by (auto simp: commit_plan_def)
next
  case True
  have "(\<exists>s1 pr. OpenPullRequest (pe_gh p) (pe_repo p) (pln_change pl) (fst st) = (s1, Inr pr) \<and>
        op_number (cm_pullRequest cm) = op_number pr \<and> op_url (cm_pullRequest cm) = op_url pr) \<and>
      (\<forall>pending. cm_pendingRun cm = Some pending \<longrightarrow>
        (\<exists>st0. expect_after T (pe_login p) (pln_repository pl) (pln_changeKind pl) (cm_pullRequest cm) st0 = Some (st', Some pending)))"
    if r: "r = Inr cm" for cm
  proof -
    obtain s1 pr0 where o: "OpenPullRequest (pe_gh p) (pe_repo p) (pln_change pl) (fst st) = (s1, Inr pr0)"
      using run True r by (auto simp: commit_plan_def split: prod.splits sum.splits)
    obtain s2 pr where a: "armed (pe_gh p) (pe_repo p) pr0 s1 = (s2, pr)" by fastforce
    obtain s3 da where da: "deliver_if T (pln_ask pl) pr True s2 = (s3, da)" by fastforce
    obtain s4 dn where dn: "deliver_if T (pln_notice pl) pr False s3 = (s4, dn)" by fastforce
    have c: "cm_pullRequest cm = pr \<and> (\<forall>pending. cm_pendingRun cm = Some pending \<longrightarrow>
        expect_after T (pe_login p) (pln_repository pl) (pln_changeKind pl) pr (s4, snd st) = Some (st', Some pending))"
      using run True r o a da dn by (auto simp: commit_plan_def Let_def split: if_splits)
    then show ?thesis using o armed_same [OF a] by auto
  qed
  then show ?thesis using True expect_after_run by fastforce
qed

text \<open>A plan of the sample that commits: a branch that is new, a kind of change, no notice.\<close>

definition committable :: "plan \<Rightarrow> bool" where
  "committable pl \<longleftrightarrow> pln_accepted pl \<and> tc_files (pln_change pl) \<noteq> [] \<and> tc_branch (pln_change pl) \<noteq> ''main'' \<and>
     pln_changeKind pl \<noteq> [] \<and> pln_notice pl = None"

lemma sample_opens:
  assumes "committable pl"
  shows "\<exists>pr. OpenPullRequest (noting_github F pull) (pe_repo (sample_person pull)) (pln_change pl) ([], []) =
      (([], [''tree'', ''commit'', ''branch'', ''pull'']), Inr pr) \<and> \<not> op_autoMerge pr \<and> op_number pr = gp_number pull"
  using assms
  by (auto simp: committable_def OpenPullRequest_def commit_files_def io_bind_def io_wrap_def io_try_def noting_github_def noted_def
      sample_person_def gone_def)

lemma sample_commits:
  assumes "committable pl"
  shows "\<exists>cm st' pending. commit_plan words_tools (sample_person (sample_pull 7 None)) pl (([], []), m) = Some (st', Inr cm) \<and>
     cm_pendingRun cm = Some pending"
proof -
  let ?p = "sample_person (sample_pull 7 None)"
  obtain pr where o: "OpenPullRequest (pe_gh ?p) (pe_repo ?p) (pln_change pl) ([], []) =
      (([], [''tree'', ''commit'', ''branch'', ''pull'']), Inr pr)"
    using sample_opens [OF assms] by (auto simp: sample_person_def)
  obtain s2 pr' where a: "armed (pe_gh ?p) (pe_repo ?p) pr ([], [''tree'', ''commit'', ''branch'', ''pull'']) = (s2, pr')" by fastforce
  obtain s3 da where da: "deliver_if words_tools (pln_ask pl) pr' True s2 = (s3, da)" by fastforce
  have dn: "deliver_if words_tools (pln_notice pl) pr' False s3 = (s3, None)"
    using assms by (simp add: committable_def deliver_if_def)
  obtain st' run where e: "expect_after words_tools (pe_login ?p) (pln_repository pl) (pln_changeKind pl) pr' (s3, m) = Some (st', Some run)"
    by (simp add: expect_after_def record_to_mark_def sample_tools_def put_expected_run_def opened_pending Let_def)
  show ?thesis
    using assms o a da dn e by (simp add: commit_plan_def committable_def)
qed

definition sample_commit_plan :: plan where
  "sample_commit_plan = new_plan\<lparr>pln_repository := ''org/api'', pln_team := ''a'', pln_accepted := True,
     pln_change := \<lparr>tc_branch = ''reposetup/update-api'', tc_title = ''t'', tc_body = [], tc_files = [(''r/a.yaml'', ''x'')]\<rparr>,
     pln_changeKind := ChangeChanged\<rparr>"

theorem commit_marks_pull_request_witness:
  "\<exists>st' cm pending. commit_plan words_tools (sample_person (sample_pull 7 None)) sample_commit_plan (([], []), fresh_memory) = Some (st', Inr cm) \<and>
     cm_pendingRun cm = Some pending \<and> pn_by pending = ''alice''"
proof -
  have "committable sample_commit_plan" by code_simp
  then obtain cm st' pending where c: "commit_plan words_tools (sample_person (sample_pull 7 None)) sample_commit_plan (([], []), fresh_memory) = Some (st', Inr cm)"
    "cm_pendingRun cm = Some pending"
    using sample_commits by blast
  from commit_marks_pull_request [OF c(1), THEN conjunct2, rule_format, OF refl] c(2)
  have "pn_by pending = pe_login (sample_person (sample_pull 7 None))" by blast
  then show ?thesis using c by (intro exI [of _ st'] exI [of _ cm] exI [of _ pending]) (simp add: sample_person_def)
qed

section \<open>The deletion of api by alice\<close>

definition sample_deletion :: args where
  "sample_deletion = [argRepository \<mapsto> AString ''api'', argLifecycle \<mapsto> AString LifecycleDeleted,
     argConfirm \<mapsto> AString ''org/api'', ArgMode \<mapsto> AString ModeCommit]"

definition sample_deletion_args :: args where
  "sample_deletion_args = sample_deletion(ArgDryRun := None, ArgMode := None)"

definition deleted_line :: string where "deleted_line = ''- name api align true lifecycle deleted''"

lemma sample_deletion_entry:
  "repository_name words_tools sample_deletion_args = Inr ''api''"
  "lifecycle_arg words_tools ''api'' sample_deletion_args = Inr LifecycleDeleted"
  "fields_of sample_lib ''api'' api_line = Inr \<lparr>fl_lifecycle = [], fl_align = True, fl_ci = None\<rparr>"
  "with_lifecycle words_tools LifecycleDeleted True api_line = Inr deleted_line"
  by code_simp+

lemma sample_deletion_replace:
  "schema_problems words_tools sample_lib (pr_reader sample_planner) ''a'' deleted_line s = (s, Inr [])"
  "replace_entry (tl_yaml words_tools) (tl_setup words_tools) api_line ''api'' deleted_line = Inr (deleted_line @ [CHR 0x0A])"
  by code_simp+

definition sample_deleted :: plan where
  "sample_deleted = new_plan\<lparr>pln_repository := ''org'' @ ''/'' @ ''api'', pln_team := ''a'', pln_problems := [],
     pln_change := empty_change\<lparr>tc_files := [(''r/a.yaml'', deleted_line @ [CHR 0x0A])]\<rparr>, pln_changeKind := ChangeChanged,
     pln_before := yaml_of words_tools api_line, pln_entry := yaml_of words_tools deleted_line\<rparr>"

lemma sample_deletion_replaced:
  "replace_plan words_tools sample_lib (pr_reader sample_planner) api_file ''api'' api_line deleted_line s = (s, Inr sample_deleted)"
  by (simp only: replace_plan_def io_run api_file_fields sample_deletion_replace sample_org sample_deleted_def)

lemma sample_unsent: "plan_message words_tools sample_lib rd team text for_ask s =
    (s, \<lparr>pm_team = team, pm_channel = [], pm_channelName = [], pm_text = text, pm_deliverable = False, pm_reason = ErrNotConfigured\<rparr>)"
  by (simp add: plan_message_def Let_def) (simp add: sample_tools_def)

lemma sample_fields_lifecycle: "[] \<noteq> LifecycleDeleted" by (simp add: lifecycles)

lemma finish_committable:
  "committable (finish r w branch t x (pl\<lparr>pln_changeKind := kind\<rparr>)\<lparr>pln_ask := ask\<rparr>) \<longleftrightarrow> pln_problems pl = [] \<and>
     tc_files (pln_change pl) \<noteq> [] \<and> branch \<noteq> ''main'' \<and> kind \<noteq> [] \<and> pln_notice pl = None"
  by (simp add: committable_def finish_def Let_def)

lemma sample_deletion_plan:
  "\<exists>pl. plan_lifecycle words_tools sample_lib sample_deletion_args sample_planner s = (s, Inr pl) \<and> committable pl"
  unfolding plan_lifecycle_def Let_def
  by (simp only: sample_deletion_entry io_bind_of io_bind_step [OF sample_entry_for] prod.case fields.simps if_True if_False
      sample_fields_lifecycle io_bind_step [OF sample_deletion_replaced] sample_unsent)
    (rule exI, rule conjI, rule refl, simp only: finish_committable,
     simp add: sample_deleted_def lifecycle_effect_def lifecycles new_plan_def ChangeDeleted_def)

lemma sample_deletion_committed:
  "\<exists>cm st'. set_lifecycle words_tools sample_lib sample_call sample_deletion (([], []), fresh_memory) = Some (st', Inr (Inr cm))"
proof -
  let ?p = "sample_person (sample_pull 7 None)"
  obtain pl where pl: "plan_lifecycle words_tools sample_lib sample_deletion_args sample_planner ([], []) = (([], []), Inr pl)"
    and c: "committable pl" using sample_deletion_plan [of "([], [])"] by (elim exE conjE) (rule that)
  obtain cm st' where cm: "commit_plan words_tools ?p pl (([], []), fresh_memory) = Some (st', Inr cm)"
    using sample_commits [OF c, of fresh_memory] by (elim exE conjE) (rule that)
  have planner: "\<lparr>pr_reader = (pe_gh ?p, pe_repo ?p), pr_as = pe_login ?p\<rparr> = sample_planner"
    by (simp add: sample_planner_def) (simp add: sample_person_def)
  have "commit_as_person words_tools (plan_lifecycle words_tools sample_lib) sample_call sample_deletion_args (([], []), fresh_memory) =
    Some (st', Inr cm)"
    by (simp only: commit_as_person_def pio_bind_def pio_wrap_def on_world_def fst_conv snd_conv sample_person_of option.case prod.case
        sum.case planner pio_of_simp pl cm)
  moreover have "arg_bool sample_deletion ArgDryRun = None" "check_mode (arg_text sample_deletion ArgMode) False = None"
    by code_simp+
  moreover have "cx_login sample_call \<noteq> None" by (simp add: sample_call_def)
  ultimately show ?thesis
    by (intro exI [of _ cm] exI [of _ st'])
      (simp add: set_lifecycle_def run_write_def sample_deletion_args_def pio_bind_def)
qed

theorem deletion_confirmed_witness:
  "\<exists>cm st'. set_lifecycle words_tools sample_lib sample_call sample_deletion (([], []), fresh_memory) = Some (st', Inr (Inr cm)) \<and>
     string_arg sample_deletion argConfirm \<noteq> []"
proof -
  obtain cm st' where c: "set_lifecycle words_tools sample_lib sample_call sample_deletion (([], []), fresh_memory) = Some (st', Inr (Inr cm))"
    using sample_deletion_committed by (elim exE) (rule that)
  have "arg_text sample_deletion argLifecycle = LifecycleDeleted" by code_simp
  from deletion_confirmed [OF c this] have "string_arg sample_deletion argConfirm \<noteq> []" by (elim conjE)
  with c show ?thesis by - (rule exI, rule exI, rule conjI)
qed

end
