(* ===== verification/ApprovalsProps.thy ===== *)
theory ApprovalsProps
  imports DryRuns
begin

text \<open>
  Who approves a pull request of the team files: what \<open>approve_change\<close> writes on GitHub and in the
  inventory, it writes for a member of the deciding team who did not open it.
\<close>

section \<open>The decision\<close>

lemma keeps_decision_of: "client_reads v G \<Longrightarrow> io_keeps v (decision_of T G r n)"
  unfolding decision_of_def Let_def
  by (auto intro!: keeps simp: client_reads_def split: list.splits)

text \<open>The team of a decision is the marker's, or the one team whose file the pull request changes.\<close>

lemma decision_of_Inr:
  assumes "decision_of T G r n s = (s', Inr d)"
  shows "dn_number d = n \<and> dn_repo d = r \<and> dn_author d = gp_author (dn_pr d) \<and>
    (\<exists>s1. gh_get_pull G (ro_owner r) (ro_name r) n s = (s1, Inr (dn_pr d)) \<and>
      (dn_team d = team_from_marker (gp_body (dn_pr d)) \<and> dn_team d \<noteq> [] \<or>
       team_from_marker (gp_body (dn_pr d)) = [] \<and> ChangedTeamFiles G (tl_paths T) r n s1 = (s', Inr [dn_team d])))"
proof -
  obtain s1 pr where pr: "gh_get_pull G (ro_owner r) (ro_name r) n s = (s1, Inr pr)"
    using assms by (auto simp: decision_of_def io_bind_Inr io_wrap_Inr)
  show ?thesis
  proof (cases "team_from_marker (gp_body pr) = []")
    case True
    then obtain teams where t: "ChangedTeamFiles G (tl_paths T) r n s1 = (s', Inr teams)"
      and "(case teams of [] \<Rightarrow> io_fail (NothingToDecide n)
        | [t] \<Rightarrow> io_ret \<lparr>dn_repo = r, dn_number = n, dn_team = t, dn_author = gp_author pr, dn_pr = pr\<rparr>
        | _ \<Rightarrow> io_fail (SeveralTeams n teams)) s' = (s', Inr d)"
      using assms pr by (auto simp: decision_of_def Let_def io_bind_def io_wrap_def split: prod.splits sum.splits list.splits)
    then obtain t where "teams = [t]" "d = \<lparr>dn_repo = r, dn_number = n, dn_team = t, dn_author = gp_author pr, dn_pr = pr\<rparr>"
      by (cases teams; cases "tl teams") auto
    then show ?thesis using pr t True by simp
  next
    case False
    then have "d = \<lparr>dn_repo = r, dn_number = n, dn_team = team_from_marker (gp_body pr), dn_author = gp_author pr, dn_pr = pr\<rparr>"
      using assms pr by (simp add: decision_of_def Let_def io_bind_def io_wrap_def)
    then show ?thesis using pr False by simp
  qed
qed

lemma approval_by_Inr:
  "approval_by d p = Inr al \<Longrightarrow> member_of p (dn_team d) \<and> \<not> equal_fold (dn_author d) (pe_login p) \<and> al_team al = dn_team d"
  by (auto simp: approval_by_def Let_def split: if_splits)

text \<open>The approvals a person may submit.\<close>

definition may_approve :: "('s, 'd, 'o, 'h) tools \<Rightarrow> call \<Rightarrow> int \<Rightarrow> 's \<Rightarrow> bool" where
  "may_approve T cx n s \<longleftrightarrow> 0 < n \<and> (\<exists>p d s1 s2. person_of T cx s = Some (s1, Inr p) \<and> cx_login cx = Some (pe_login p) \<and>
     decision_of T (pe_gh p) (pe_repo p) n s1 = (s2, Inr d) \<and> member_of p (dn_team d) \<and>
     \<not> equal_fold (dn_author d) (pe_login p))"

lemma approve_writes:
  assumes T: "tools_read_only v T W" and run: "approve T W cx True a s = Some (s', r)"
  shows "v s' = v s \<or> may_approve T cx (go_int (number a argPullRequest 0)) s"
proof (cases "go_int (number a argPullRequest 0) \<le> 0")
  case True
  then show ?thesis using run by (simp add: approve_def)
next
  case False
  let ?n = "go_int (number a argPullRequest 0)"
  obtain s1 q where p: "person_of T cx s = Some (s1, q)"
    using run False by (auto simp: approve_def Let_def pio_bind_def pio_wrap_def split: option.splits prod.splits sum.splits)
  have s1: "v s1 = v s" by (rule person_of_keeps [OF T p])
  show ?thesis
  proof (cases q)
    case (Inl e)
    then show ?thesis using run False p s1 by (simp add: approve_def Let_def pio_bind_def pio_wrap_def)
  next
    case (Inr w)
    obtain s2 dec where d: "decision_of T (pe_gh w) (pe_repo w) ?n s1 = (s2, dec)" by fastforce
    have s2: "v s2 = v s1"
      by (rule io_keepsD [OF keeps_decision_of [OF person_reads [OF T p [unfolded Inr]]] d])
    show ?thesis
    proof (cases "\<exists>dd al. dec = Inr dd \<and> approval_by dd w = Inr al")
      case True
      then obtain dd al where dd: "dec = Inr dd" "approval_by dd w = Inr al" by blast
      have "cx_login cx = Some (pe_login w)" using person_of_login [OF p [unfolded Inr]] by blast
      then have "may_approve T cx ?n s"
        unfolding may_approve_def using False p Inr d dd approval_by_Inr [OF dd(2)] by auto
      then show ?thesis by blast
    next
      case False': False
      have "s' = s2"
        using run False p Inr d False'
        by (cases dec; cases "approval_by (projr dec) w") (auto simp: approve_def Let_def pio_bind_def pio_wrap_def io_bind_def)
      then show ?thesis using s1 s2 by simp
    qed
  qed
qed

text \<open>
  C29. A decision is written for its team alone. Whatever \<open>approve_change\<close> answers, if anything a client
  can write on GitHub or in the inventory has changed, then the call was a commit, its pull request has a
  number, and the person it was made as is a member of the deciding team - the marker's in the body as
  GitHub gave it, else that of the one team file changed - and did not open the pull request.
\<close>

theorem approvals_by_members:
  assumes T: "tools_read_only v T W" and run: "approve_change T W cx a s = Some (s', r)" and written: "v s' \<noteq> v s"
  shows "\<not> not_committing cx a \<and> 0 < go_int (number a argPullRequest 0) \<and>
    (\<exists>p (d :: decision) s1 s2 s3. person_of T cx s = Some (s1, Inr p) \<and> cx_login cx = Some (pe_login p) \<and>
      gh_get_pull (pe_gh p) (ro_owner (pe_repo p)) (ro_name (pe_repo p)) (go_int (number a argPullRequest 0)) s1 = (s2, Inr (dn_pr d)) \<and>
      (dn_team d = team_from_marker (gp_body (dn_pr d)) \<and> dn_team d \<noteq> [] \<or>
       team_from_marker (gp_body (dn_pr d)) = [] \<and>
       ChangedTeamFiles (pe_gh p) (tl_paths T) (pe_repo p) (go_int (number a argPullRequest 0)) s2 = (s3, Inr [dn_team d])) \<and>
      list_ex (\<lambda>t. equal_fold t (dn_team d)) (pe_teams p) \<and> \<not> equal_fold (gp_author (dn_pr d)) (pe_login p))"
proof -
  let ?a = "a(ArgDryRun := None, ArgMode := None)" and ?n = "go_int (number a argPullRequest 0)"
  have c: "\<not> not_committing cx a"
    using run written run_write_not_committing [where u = v and dry = "approve T W cx False", OF _ _ approve_keeps [OF T]]
    unfolding approve_change_def by blast
  then obtain q where "approve T W cx True ?a s = Some (s', q)"
    using run by (auto simp: approve_change_def run_write_def Let_def not_committing_def check_mode_def pio_bind_def
        ModeCommit_def modeApply_def split: option.splits prod.splits sum.splits)
  then have "may_approve T cx (go_int (number ?a argPullRequest 0)) s" using approve_writes [OF T] written by blast
  moreover have "number ?a argPullRequest 0 = number a argPullRequest 0"
    by (simp add: number_def argPullRequest_def ArgDryRun_def ArgMode_def)
  ultimately obtain p d s1 s3 where "0 < ?n" and p: "person_of T cx s = Some (s1, Inr p)" "cx_login cx = Some (pe_login p)"
    and d: "decision_of T (pe_gh p) (pe_repo p) ?n s1 = (s3, Inr d)"
    and m: "member_of p (dn_team d)" "\<not> equal_fold (dn_author d) (pe_login p)"
    unfolding may_approve_def by auto
  from decision_of_Inr [OF d] obtain s2 where
    pr: "dn_author d = gp_author (dn_pr d)"
      "gh_get_pull (pe_gh p) (ro_owner (pe_repo p)) (ro_name (pe_repo p)) ?n s1 = (s2, Inr (dn_pr d))"
      "dn_team d = team_from_marker (gp_body (dn_pr d)) \<and> dn_team d \<noteq> [] \<or> team_from_marker (gp_body (dn_pr d)) = [] \<and>
       ChangedTeamFiles (pe_gh p) (tl_paths T) (pe_repo p) ?n s2 = (s3, Inr [dn_team d])"
    by (elim exE conjE) (rule that)
  have m': "list_ex (\<lambda>t. equal_fold t (dn_team d)) (pe_teams p)" "\<not> equal_fold (gp_author (dn_pr d)) (pe_login p)"
    using m by (simp_all add: member_of_def pr(1))
  show ?thesis
  proof (intro conjI)
    show "\<not> not_committing cx a" by (rule c)
    show "0 < ?n" by (rule \<open>0 < ?n\<close>)
  qed (rule exI [of _ p], rule exI [of _ d], rule exI [of _ s1], rule exI [of _ s2], rule exI [of _ s3],
      intro conjI p pr m')
qed

text \<open>A pull request of bob's that names team a, approved by alice.\<close>

definition sample_review_pull :: gh_pull where
  "sample_review_pull = (sample_pull 7 (Some True))\<lparr>gp_author := ''bob'', gp_body := marker ''a''\<rparr>"

definition sample_approval :: args where
  "sample_approval = [argPullRequest \<mapsto> ANumber 7, ArgMode \<mapsto> AString ModeCommit]"

definition sample_decision :: decision where
  "sample_decision = \<lparr>dn_repo = pe_repo (sample_person sample_review_pull), dn_number = 7, dn_team = ''a'', dn_author = ''bob'',
     dn_pr = sample_review_pull\<rparr>"

lemma sample_decides:
  "decision_of (sample_tools sample_review_pull) (pe_gh (sample_person sample_review_pull)) (pe_repo (sample_person sample_review_pull)) 7 s =
     (s, Inr sample_decision)"
proof -
  have "team_from_marker (gp_body sample_review_pull) = ''a''" by code_simp
  then show ?thesis
    by (simp add: decision_of_def Let_def io_bind_def io_wrap_def sample_person_def noting_github_def sample_decision_def)
      (simp add: sample_review_pull_def)
qed

lemma sample_approves:
  "\<exists>al. approval_by sample_decision (sample_person sample_review_pull) = Inr al \<and>
     (\<exists>al'. approve_as (sample_tools sample_review_pull) sample_lib (sample_person sample_review_pull) sample_decision al ([], []) =
       (([], [''review'', ''merge'']), Inr al'))"
proof -
  let ?p = "sample_person sample_review_pull"
  have "\<not> equal_fold ''bob'' ''alice''" "equal_fold ''a'' ''a''" by (simp_all add: equal_fold_def) code_simp
  then obtain al where al: "approval_by sample_decision ?p = Inr al"
    by (simp add: approval_by_def sample_decision_def sample_person_def member_of_def Let_def)
  have "Conflicts (pe_gh ?p) (pe_repo ?p) sample_review_pull s = (s, Inr (sample_review_pull, False))" for s
    by (simp add: Conflicts_def sample_review_pull_def sample_pull_def)
  then have r: "rerender_as (sample_tools sample_review_pull) ?p sample_decision s = (s, Inr None)" for s
    by (simp add: rerender_as_def sample_decision_def)
  have a: "Approve (pe_gh ?p) (pe_repo ?p) 7 b ([], []) = (([], [''review'']), Inr ''review'')" for b
    by (simp add: Approve_def io_wrap_def sample_person_def noting_github_def noted_def)
  have l: "Land (pe_gh ?p) (pe_repo ?p) 7 ([], [''review'']) = (([], [''review'', ''merge'']), landed True False [])"
    by (simp add: Land_def sample_person_def noting_github_def noted_def sample_review_pull_def sample_pull_def)
  have n: "dn_number sample_decision = 7" by (simp add: sample_decision_def)
  show ?thesis
    by (rule exI [of _ al]) (simp add: al approve_as_def r a l n Let_def)
qed

theorem approvals_by_members_witness:
  "\<exists>s' r. approve_change (sample_tools sample_review_pull) sample_lib sample_call sample_approval ([], []) = Some (s', r) \<and>
     snd s' = [''review'', ''merge''] \<and> \<not> not_committing sample_call sample_approval"
proof -
  let ?T = "sample_tools sample_review_pull" and ?a = "sample_approval(ArgDryRun := None, ArgMode := None)"
  have mode: "arg_bool sample_approval ArgDryRun = None" "arg_text sample_approval ArgMode = ModeCommit"
    by (simp_all add: arg_bool_def arg_text_def sample_approval_def argPullRequest_def ArgDryRun_def ArgMode_def)
  have trim: "to_lower (trim_space ModeCommit) = ModeCommit" by code_simp
  have n: "go_int (number ?a argPullRequest 0) = 7"
    by (simp add: number_def sample_approval_def argPullRequest_def ArgDryRun_def ArgMode_def go_int_def)
  obtain al al' where al: "approval_by sample_decision (sample_person sample_review_pull) = Inr al"
    "approve_as ?T sample_lib (sample_person sample_review_pull) sample_decision al ([], []) = (([], [''review'', ''merge'']), Inr al')"
    using sample_approves by (elim exE conjE) (rule that)
  have "approve ?T sample_lib sample_call True ?a ([], []) = Some (([], [''review'', ''merge'']), Inr al')"
    by (simp add: approve_def n Let_def pio_bind_def pio_wrap_def sample_person_of io_bind_step [OF sample_decides] al(1) al(2))
  then have run: "approve_change ?T sample_lib sample_call sample_approval ([], []) = Some (([], [''review'', ''merge'']), Inr (Inr al'))"
    by (simp add: approve_change_def run_write_def mode check_mode_def trim pio_bind_def sample_call_def)
  have "\<not> not_committing sample_call sample_approval"
    by (rule approvals_by_members [OF sample_read_only run, THEN conjunct1]) simp
  with run show ?thesis by auto
qed

end
