(* ===== verification/Listing.thy ===== *)
theory Listing
  imports Aligns "HOL-Library.Product_Lexorder"
begin

text \<open>
  internal/tools/filter.go and inventory.go: the inventory's tools. A listing's filter as the call and
  the caller's teams give it, the records it selects, the rows in their order, and the tools that show a
  record, refresh one and start a sweep. A sweep that is started runs in the background
  (\<open>Sweeps.sweep\<close>); here only whether one was started shows.
\<close>

section \<open>The filter\<close>

definition ScopeMine :: string where "ScopeMine = ''mine''"
definition ScopeTeam :: string where "ScopeTeam = ''team''"
definition ScopeUnassigned :: string where "ScopeUnassigned = ''unassigned''"
definition ScopeAll :: string where "ScopeAll = ''all''"

definition RenovateConfigured :: string where "RenovateConfigured = ''configured''"
definition RenovateMissing :: string where "RenovateMissing = ''missing''"
definition RenovateActive :: string where "RenovateActive = ''active''"
definition RenovateInactive :: string where "RenovateInactive = ''inactive''"

definition LifecycleActive :: string where "LifecycleActive = ''active''"
definition TeamNone :: string where "TeamNone = ''none''"

definition DefaultRenovateActive :: duration where "DefaultRenovateActive = 180 * 24 * hour"
definition defaultLimit :: rat where "defaultLimit = 100"

record list_filter =
  lf_scope :: string
  lf_teams :: "string list"
  lf_teamsSource :: string
  lf_none :: bool
  lf_note :: string
  lf_undeclared :: bool
  lf_teamNone :: bool
  lf_search :: string
  lf_renovate :: string
  lf_visibility :: string
  lf_fork :: "bool option"
  lf_lifecycle :: string
  lf_archived :: "bool option"
  lf_inactive :: duration
  lf_finding :: string
  lf_orb :: string
  lf_arm64 :: "bool option"
  lf_chinaPush :: string
  lf_signing :: string

text \<open>\<open>time.Duration(d*24) * time.Hour\<close>: the hours without their fraction, times an hour in 64 bits.\<close>

definition wrap64 :: "int \<Rightarrow> int" where
  "wrap64 x = (x + 2 ^ 63) mod 2 ^ 64 - 2 ^ 63"

definition days_duration :: "rat \<Rightarrow> duration" where
  "days_duration d = wrap64 (go_int (d * 24) * hour)"

text \<open>The scope: the teams with their source, then whether only undeclared repositories, or the ones
  without a declaration, are asked for, and a selection of nothing with its note.\<close>

definition narrow_to_own :: "string \<Rightarrow> list_filter \<Rightarrow> list_filter" where
  "narrow_to_own team f =
     (if contains_fold (lf_teams f) team then f\<lparr>lf_teams := [team], lf_teamsSource := ''argument''\<rparr>
      else f\<lparr>lf_none := True, lf_note := team @ '' is not one of your teams ('' @ str_join (lf_teams f) '', '' @ ''): no rows''\<rparr>)"

definition with_caller_teams ::
  "('s, 'd, 'o, 'h) tools \<Rightarrow> call \<Rightarrow> list_filter \<Rightarrow> ('s, tool_error, list_filter) pio" where
  "with_caller_teams T cx f s = map_option (\<lambda>(s', teams, source). (s', Inr (f\<lparr>lf_teams := teams, lf_teamsSource := source\<rparr>)))
     (caller_teams T cx s)"

definition scoped ::
  "('s, 'd, 'o, 'h) tools \<Rightarrow> call \<Rightarrow> string \<Rightarrow> list_filter \<Rightarrow> ('s, tool_error, list_filter) pio" where
  "scoped T cx team f =
     (let named = f\<lparr>lf_teams := [team], lf_teamsSource := ''argument''\<rparr> in
      if lf_scope f = ScopeAll then pio_of (io_ret
        (if team = TeamNone then f\<lparr>lf_teamNone := True\<rparr> else if team \<noteq> [] then named else f))
      else if lf_scope f = ScopeUnassigned then pio_of (io_ret (f\<lparr>lf_undeclared := True\<rparr>))
      else if lf_scope f = ScopeTeam then
        (if team \<noteq> [] \<and> team \<noteq> TeamNone then pio_of (io_ret named) else with_caller_teams T cx f)
      else if lf_scope f = ScopeMine then
        pio_bind (with_caller_teams T cx f) (\<lambda>f'. pio_of (io_ret
          (if team \<noteq> [] \<and> lf_teams f' \<noteq> [] then narrow_to_own team f' else f')))
      else pio_of (io_fail (UnknownScope (lf_scope f))))"

definition page_filters :: "args \<Rightarrow> list_filter \<Rightarrow> list_filter" where
  "page_filters a f = f\<lparr>lf_undeclared := (arg_bool a ''undeclared'' = Some True \<or> lf_undeclared f),
     lf_search := to_lower (string_arg a ''search''), lf_renovate := string_arg a ''renovate'',
     lf_visibility := to_lower (string_arg a ''visibility''), lf_fork := arg_bool a ''fork'',
     lf_lifecycle := string_arg a argLifecycle, lf_archived := arg_bool a ''archived'',
     lf_inactive := (if number a ''inactiveDays'' 0 > 0 then days_duration (number a ''inactiveDays'' 0) else 0),
     lf_finding := string_arg a ''finding'', lf_orb := string_arg a ''orb'', lf_arm64 := arg_bool a ''arm64'',
     lf_chinaPush := string_arg a ''chinaPush'', lf_signing := string_arg a ''signing''\<rparr>"

definition empty_filter :: "string \<Rightarrow> list_filter" where
  "empty_filter scope = \<lparr>lf_scope = scope, lf_teams = [], lf_teamsSource = [], lf_none = False, lf_note = [],
     lf_undeclared = False, lf_teamNone = False, lf_search = [], lf_renovate = [], lf_visibility = [], lf_fork = None,
     lf_lifecycle = [], lf_archived = None, lf_inactive = 0, lf_finding = [], lf_orb = [], lf_arm64 = None,
     lf_chinaPush = [], lf_signing = []\<rparr>"

definition filter_of :: "('s, 'd, 'o, 'h) tools \<Rightarrow> call \<Rightarrow> args \<Rightarrow> ('s, tool_error, list_filter) pio" where
  "filter_of T cx a =
     (let given = arg_text a ''scope''; scope = (if given = [] then ScopeAll else given) in
      pio_bind (scoped T cx (string_arg a argTeam) (empty_filter scope)) (\<lambda>f.
        if (lf_scope f = ScopeMine \<or> lf_scope f = ScopeTeam) \<and> lf_teams f = []
        then pio_of (io_fail (NoTeamKnown (lf_scope f) (lf_teamsSource f)))
        else pio_of (io_ret (page_filters a f))))"

section \<open>What a filter selects\<close>

definition orb_matches :: "string \<Rightarrow> string \<Rightarrow> bool" where
  "orb_matches have wanted \<longleftrightarrow> have = wanted \<or> has_prefix have (wanted @ ''.'')"

definition declared_lifecycle :: "repo_record \<Rightarrow> string" where
  "declared_lifecycle r = (case rc_declaration r of None \<Rightarrow> [] | Some d \<Rightarrow> d_lifecycle d)"

definition archived :: "repo_record \<Rightarrow> bool" where
  "archived r \<longleftrightarrow> equal_fold (declared_lifecycle r) LifecycleArchived \<or>
     (case rc_reality r of None \<Rightarrow> False | Some re \<Rightarrow> re_isArchived re)"

definition over :: "repo_record \<Rightarrow> bool" where
  "over r \<longleftrightarrow> archived r \<or> equal_fold (declared_lifecycle r) LifecycleDeleted"

definition matches_lifecycle :: "repo_record \<Rightarrow> string \<Rightarrow> bool" where
  "matches_lifecycle r lc =
     (let declared = declared_lifecycle r in
      if equal_fold lc LifecycleArchived then archived r
      else if equal_fold lc LifecycleActive then
        (declared = [] \<or> equal_fold declared LifecycleActive) \<and> \<not> archived r
      else equal_fold declared lc)"

definition renovate_state_of :: "repo_record \<Rightarrow> duration \<Rightarrow> time \<Rightarrow> string" where
  "renovate_state_of r period now =
     (let rn = rc_renovate r;
          recent_commit = (case rn_lastCommit rn of None \<Rightarrow> False | Some t \<Rightarrow> time_sub now t < period);
          recent_pull = (case rn_lastPullRequest rn of None \<Rightarrow> False | Some pr \<Rightarrow> time_sub now (pr_createdAt pr) < period)
      in if \<not> rn_configured rn then RenovateMissing
         else if recent_commit \<or> recent_pull then RenovateActive else RenovateInactive)"

definition has_finding :: "repo_record \<Rightarrow> string \<Rightarrow> bool" where
  "has_finding r kind \<longleftrightarrow> list_ex (\<lambda>f. fd_kind f = kind) (rc_findings r)"

text \<open>Each filter of the call with the records it keeps; a record matches that every filter keeps.\<close>

definition keeps_scope :: "list_filter \<Rightarrow> repo_record \<Rightarrow> bool" where
  "keeps_scope f r \<longleftrightarrow> \<not> lf_none f \<and>
     (lf_undeclared f \<longrightarrow> rc_declaration r = None \<and> rc_reality r \<noteq> None) \<and>
     (lf_teamNone f \<longrightarrow> rc_declaration r = None) \<and>
     (lf_teams f \<noteq> [] \<longrightarrow> (case rc_declaration r of None \<Rightarrow> False | Some d \<Rightarrow> contains_fold (lf_teams f) (d_team d)))"

definition keeps_reality :: "list_filter \<Rightarrow> repo_record \<Rightarrow> bool" where
  "keeps_reality f r \<longleftrightarrow>
     (lf_search f \<noteq> [] \<longrightarrow> str_contains (to_lower (rc_repository r)) (lf_search f) \<or>
        (case rc_reality r of None \<Rightarrow> False | Some re \<Rightarrow> str_contains (to_lower (re_description re)) (lf_search f))) \<and>
     (lf_visibility f \<noteq> [] \<longrightarrow> (case rc_reality r of None \<Rightarrow> False | Some re \<Rightarrow> to_lower (re_visibility re) = lf_visibility f)) \<and>
     (case lf_fork f of None \<Rightarrow> True | Some b \<Rightarrow> (case rc_reality r of None \<Rightarrow> False | Some re \<Rightarrow> re_isFork re = b))"

definition keeps_state :: "list_filter \<Rightarrow> duration \<Rightarrow> time \<Rightarrow> repo_record \<Rightarrow> bool" where
  "keeps_state f period now r \<longleftrightarrow>
     (lf_renovate f \<noteq> [] \<longrightarrow> renovate_state_of r period now = lf_renovate f \<or>
        lf_renovate f = RenovateConfigured \<and> rn_configured (rc_renovate r)) \<and>
     (lf_lifecycle f \<noteq> [] \<longrightarrow> matches_lifecycle r (lf_lifecycle f)) \<and>
     (case lf_archived f of None \<Rightarrow> True | Some b \<Rightarrow> over r = b) \<and>
     (lf_inactive f > 0 \<longrightarrow> (case rc_reality r of None \<Rightarrow> True | Some re \<Rightarrow> (case re_lastPersonCommit re of
        None \<Rightarrow> True | Some c \<Rightarrow> \<not> time_sub now (cm_date c) < lf_inactive f))) \<and>
     (lf_finding f \<noteq> [] \<longrightarrow> has_finding r (lf_finding f))"

definition keeps_ci :: "list_filter \<Rightarrow> repo_record \<Rightarrow> bool" where
  "keeps_ci f r \<longleftrightarrow>
     (let has = (\<lambda>P. case rc_ci r of None \<Rightarrow> False | Some c \<Rightarrow> P c) in
      (lf_orb f \<noteq> [] \<longrightarrow> has (\<lambda>c. orb_matches (ci_orb c) (lf_orb f))) \<and>
      (case lf_arm64 f of None \<Rightarrow> True | Some b \<Rightarrow> has (\<lambda>c. ci_arm64 c = Some b)) \<and>
      (lf_chinaPush f \<noteq> [] \<longrightarrow> has (\<lambda>c. ci_chinaPush c = lf_chinaPush f)) \<and>
      (lf_signing f \<noteq> [] \<longrightarrow> has (\<lambda>c. ci_signing c = lf_signing f)))"

definition matches :: "list_filter \<Rightarrow> duration \<Rightarrow> time \<Rightarrow> repo_record \<Rightarrow> bool" where
  "matches f period now r \<longleftrightarrow>
     keeps_scope f r \<and> keeps_reality f r \<and> keeps_state f period now r \<and> keeps_ci f r"

section \<open>The rows\<close>

record row_ci =
  rwc_orb :: string
  rwc_arm64 :: "bool option"
  rwc_chinaPush :: string
  rwc_signing :: string

record row_setup =
  rws_converged :: "bool option"
  rws_refused :: bool
  rws_checkedAt :: string
  rws_lastRun :: string
  rws_pendingRun :: "pending_run option"
  rws_error :: string

record row =
  row_repository :: string
  row_team :: string
  row_lifecycle :: string
  row_visibility :: string
  row_archived :: bool
  row_fork :: bool
  row_gone :: bool
  row_renovate :: string
  row_lastPersonCommit :: string
  row_findings :: "string list"
  row_ci :: "row_ci option"
  row_setup :: row_setup
  row_age :: string

text \<open>\<open>Format("2006-01-02")\<close> of a time in UTC.\<close>

definition date_text :: "time \<Rightarrow> string" where
  "date_text t = takeWhile (\<lambda>c. c \<noteq> CHR ''T'') (rfc3339 t)"

definition row_setup_of :: "engine \<Rightarrow> setup_state \<Rightarrow> row_setup" where
  "row_setup_of E su = \<lparr>rws_converged = map_option res_converged (su_checks su),
     rws_refused = (case su_checks su of None \<Rightarrow> False | Some res \<Rightarrow> the_step E res StepEntry \<noteq> None),
     rws_checkedAt = (case su_checkedAt su of None \<Rightarrow> [] | Some t \<Rightarrow> rfc3339 t),
     rws_lastRun = (case su_lastRun su of None \<Rightarrow> [] | Some l \<Rightarrow> lr_runURL l),
     rws_pendingRun = su_pendingRun su, rws_error = su_checkError su\<rparr>"

definition row_of :: "engine \<Rightarrow> duration \<Rightarrow> time \<Rightarrow> repo_record \<Rightarrow> row" where
  "row_of E period now r =
     (let from = (\<lambda>d f. case rc_reality r of None \<Rightarrow> d | Some re \<Rightarrow> f re);
          flag = (\<lambda>f. case rc_reality r of None \<Rightarrow> False | Some re \<Rightarrow> f re) in
      \<lparr>row_repository = rc_repository r,
       row_team = (case rc_declaration r of None \<Rightarrow> [] | Some d \<Rightarrow> d_team d),
       row_lifecycle = declared_lifecycle r,
       row_visibility = from [] re_visibility, row_archived = flag re_isArchived, row_fork = flag re_isFork,
       row_gone = (rc_reality r = None),
       row_renovate = from [] (\<lambda>re. renovate_state_of r period now),
       row_lastPersonCommit = from [] (\<lambda>re. case re_lastPersonCommit re of None \<Rightarrow> [] | Some c \<Rightarrow> date_text (cm_date c)),
       row_findings = map fd_kind (rc_findings r),
       row_ci = map_option (\<lambda>c. \<lparr>rwc_orb = ci_orb c, rwc_arm64 = ci_arm64 c, rwc_chinaPush = ci_chinaPush c,
         rwc_signing = ci_signing c\<rparr>) (rc_ci r),
       row_setup = row_setup_of E (rc_setup r),
       row_age = duration_text (round_second (time_sub now (rc_refreshedAt r)))\<rparr>)"

definition row_key :: "row \<Rightarrow> string \<times> string" where
  "row_key w = (to_lower (row_repository w), row_repository w)"

definition sort_rows :: "row list \<Rightarrow> row list" where
  "sort_rows = sort_key row_key"

section \<open>The tools\<close>

record listing =
  lg_scope :: string
  lg_teams :: "string list"
  lg_teamsSource :: string
  lg_note :: string
  lg_sweep :: "sweep_summary option"
  lg_sweepRunning :: bool
  lg_total :: nat
  lg_matched :: nat
  lg_shown :: nat
  lg_repositories :: "row list"

definition renovate_period :: "duration \<Rightarrow> duration" where
  "renovate_period active = (if active > 0 then active else DefaultRenovateActive)"

definition shown_rows :: "int \<Rightarrow> row list \<Rightarrow> row list" where
  "shown_rows limit rows = (if limit > 0 \<and> int (length rows) > limit then take (nat limit) rows else rows)"

definition listing_of ::
  "engine \<Rightarrow> list_filter \<Rightarrow> duration \<Rightarrow> time \<Rightarrow> int \<Rightarrow> sweep_summary option \<Rightarrow> bool \<Rightarrow> repo_record list \<Rightarrow> listing" where
  "listing_of E f period now limit done_sweep running records =
     (let matched = map (row_of E period now) (filter (matches f period now) records);
          rows = shown_rows limit (sort_rows matched)
      in \<lparr>lg_scope = lf_scope f, lg_teams = lf_teams f, lg_teamsSource = lf_teamsSource f, lg_note = lf_note f,
          lg_sweep = done_sweep, lg_sweepRunning = running, lg_total = length records, lg_matched = length matched,
          lg_shown = length rows, lg_repositories = rows\<rparr>)"

text \<open>\<open>last_sweep\<close> is the store's \<open>Sweep\<close>; \<open>active\<close> the server's Renovate period.\<close>

definition list_repositories ::
  "('s, 'd, 'o, 'h) tools \<Rightarrow> ('s, store_error, sweep_summary option) io \<Rightarrow> duration \<Rightarrow> call \<Rightarrow> args \<Rightarrow>
   (('s, 'd, 'o, 'h) world, tool_error, listing) pio" where
  "list_repositories T last_sweep active cx a = (case tl_inventory T of
      None \<Rightarrow> pio_of (io_fail InventoryOff)
    | Some A \<Rightarrow>
        pio_bind (on_world (filter_of T cx a)) (\<lambda>f.
        pio_bind (on_world (pio_wrap InventoryFailed (ac_list A))) (\<lambda>records st.
        (let now = tl_clock T (fst st) in
         pio_bind (on_world (pio_of (io_wrap InventoryFailed last_sweep))) (\<lambda>done_sweep st'.
           Some (st', Inr (listing_of (tl_engine T) f (renovate_period active) now (go_int (number a ''limit'' defaultLimit))
             done_sweep (tl_collector T \<noteq> None \<and> me_running (snd st')) records))) st))))"

definition show_repository :: "('s, 'd, 'o, 'h) tools \<Rightarrow> args \<Rightarrow> ('s, tool_error, repo_record) io" where
  "show_repository T a = (case tl_inventory T of
      None \<Rightarrow> io_fail InventoryOff
    | Some A \<Rightarrow> io_bind (io_of (repository_key T a)) (\<lambda>key.
        io_bind (io_wrap InventoryFailed (ac_get A key)) (\<lambda>r s. (s, Inr (with_age (tl_clock T s) r)))))"

definition refresh_repository ::
  "('s, 'd, 'o, 'h) tools \<Rightarrow> args \<Rightarrow> (('s, 'd, 'o, 'h) world, tool_error, repo_record) pio" where
  "refresh_repository T a = (case tl_collector T of
      None \<Rightarrow> pio_of (io_fail CollectorOff)
    | Some C \<Rightarrow> pio_bind (pio_of (io_of (repository_key T a))) (\<lambda>key.
        pio_bind (pio_wrap RefreshFailed (refresh C None key None SourceRefresh)) (\<lambda>r st.
          Some (st, Inr (with_age (tl_clock T (fst st)) r)))))"

record sweep_answer =
  sw_running :: bool
  sw_started :: bool
  sw_last :: "sweep_summary option"
  sw_login :: string
  sw_teams :: "string list"

text \<open>\<open>StartSweep\<close> starts one unless one is running.\<close>

definition start_sweep :: "('s, 'd, 'o, 'h) world \<Rightarrow> bool" where
  "start_sweep st \<longleftrightarrow> \<not> me_running (snd st)"

definition sweep_inventory ::
  "('s, 'd, 'o, 'h) tools \<Rightarrow> call \<Rightarrow> (('s, 'd, 'o, 'h) world, tool_error, sweep_answer) pio" where
  "sweep_inventory T cx = (case tl_collector T of
      None \<Rightarrow> pio_of (io_fail CollectorOff)
    | Some C \<Rightarrow>
        if tl_sweepTeams T = [] then pio_of (io_fail SweepOff)
        else pio_bind (on_world (pio_wrap NotAPerson (person_of T cx))) (\<lambda>p st.
          if \<not> member_of_any p (tl_sweepTeams T) then Some (st, Inl (NotAMember (pe_login p)
            (str_join (tl_sweepTeams T) '' or '') ''the sweep is not yours to start''))
          else pio_bind (on_world (pio_of (io_wrap InventoryFailed (sa_sweep (co_store C))))) (\<lambda>last st'.
            Some (st', Inr \<lparr>sw_running = True, sw_started = start_sweep st, sw_last = last, sw_login = pe_login p,
              sw_teams = tl_sweepTeams T\<rparr>)) st))"

end
