(* ===== verification/ListingProps.thy ===== *)
theory ListingProps
  imports Listing Samples "HOL-Library.Multiset"
begin

text \<open>
  What a listing shows of the inventory: every record its filter keeps, in order, up to the limit, and
  which records the filter of the idle repositories keeps.
\<close>

section \<open>The rows\<close>

lemma sort_rows_facts: "sorted (map row_key (sort_rows ws))" "mset (sort_rows ws) = mset ws" "length (sort_rows ws) = length ws"
  by (simp_all add: sort_rows_def)

text \<open>What the limit leaves: the first rows, and the hidden ones after them.\<close>

lemma shown_rows_split:
  "\<exists>hidden. shown_rows limit rows @ hidden = rows \<and> (limit \<le> 0 \<longrightarrow> hidden = []) \<and>
     length (shown_rows limit rows) = (if limit > 0 then min (nat limit) (length rows) else length rows)"
  by (rule exI [of _ "drop (length (shown_rows limit rows)) rows"]) (auto simp: shown_rows_def)

lemma sorted_split: "sorted (map k (xs @ ys)) \<Longrightarrow> x \<in> set xs \<Longrightarrow> y \<in> set ys \<Longrightarrow> k x \<le> k y"
  by (auto simp: sorted_append)

text \<open>What a listing holds of the records, under a filter.\<close>

lemma listing_of_rows:
  fixes E :: engine and f :: list_filter and period :: duration and now :: time and records :: "repo_record list"
    and done_sweep :: "sweep_summary option" and running :: bool and limit :: int
  defines "rows \<equiv> map (row_of E period now) (filter (matches f period now) records)"
  defines "lg \<equiv> listing_of E f period now limit done_sweep running records"
  shows "lg_total lg = length records \<and> lg_matched lg = length rows \<and>
    lg_shown lg = (if limit > 0 then min (nat limit) (length rows) else length rows) \<and> lg_shown lg = length (lg_repositories lg) \<and>
    (\<exists>hidden. mset (lg_repositories lg @ hidden) = mset rows \<and> sorted (map row_key (lg_repositories lg @ hidden)) \<and>
      (limit \<le> 0 \<longrightarrow> hidden = []))"
proof -
  obtain hidden where h: "shown_rows limit (sort_rows rows) @ hidden = sort_rows rows" "limit \<le> 0 \<longrightarrow> hidden = []"
    and n: "length (shown_rows limit (sort_rows rows)) =
      (if limit > 0 then min (nat limit) (length (sort_rows rows)) else length (sort_rows rows))"
    using shown_rows_split by blast
  have lg: "lg_repositories lg = shown_rows limit (sort_rows rows)"
    by (simp add: lg_def rows_def listing_of_def Let_def)
  have "mset (lg_repositories lg @ hidden) = mset rows" "sorted (map row_key (lg_repositories lg @ hidden))"
    unfolding lg h(1) by (simp_all add: sort_rows_facts)
  then show ?thesis using h(2) n
    by (auto simp: lg_def rows_def listing_of_def Let_def sort_rows_facts)
qed

text \<open>The steps of a listing: its filter, the records, what it answers of them.\<close>

lemma list_repositories_Inr:
  assumes "list_repositories T last_sweep active cx a st = Some (st', Inr lg)"
  shows "\<exists>A f s1 s2 records done_sweep running. tl_inventory T = Some A \<and> filter_of T cx a (fst st) = Some (s1, Inr f) \<and>
    ac_list A s1 = Some (s2, Inr records) \<and>
    lg = listing_of (tl_engine T) f (renovate_period active) (tl_clock T s2) (go_int (number a ''limit'' defaultLimit))
      done_sweep running records"
proof -
  obtain A where A: "tl_inventory T = Some A"
    using assms by (cases "tl_inventory T") (auto simp: list_repositories_def)
  obtain st1 f st2 records st3 done_sweep where f: "on_world (filter_of T cx a) st = Some (st1, Inr f)"
    and r: "on_world (pio_wrap InventoryFailed (ac_list A)) st1 = Some (st2, Inr records)"
    and rest: "Some (st3, Inr (listing_of (tl_engine T) f (renovate_period active) (tl_clock T (fst st2))
        (go_int (number a ''limit'' defaultLimit)) done_sweep (tl_collector T \<noteq> None \<and> me_running (snd st3)) records)) =
      Some (st', Inr lg)"
    using assms unfolding list_repositories_def A option.case pio_bind_Inr Let_def
    by (elim exE conjE) (rule that, assumption, assumption, simp)
  obtain running where "lg = listing_of (tl_engine T) f (renovate_period active) (tl_clock T (fst st2))
      (go_int (number a ''limit'' defaultLimit)) done_sweep running records"
    using rest by auto
  moreover have "filter_of T cx a (fst st) = Some (fst st1, Inr f)"
    using f by (auto simp: on_world_def split: option.splits prod.splits)
  moreover have "ac_list A (fst st1) = Some (fst st2, Inr records)"
    using r by (auto simp: on_world_def pio_wrap_def split: option.splits prod.splits sum.splits)
  ultimately show ?thesis using A by blast
qed

text \<open>
  C34. A listing leaves no match out and shows no other record. What \<open>list_repositories\<close> answers counts
  all records and the matches, and its rows with the hidden ones are the rows of exactly the records
  that match its filter at the time they were read, sorted by name without regard to case; the limit
  cuts the last rows only, and a limit of zero or less cuts none.
\<close>

theorem listing_exact:
  assumes "list_repositories T last_sweep active cx a st = Some (st', Inr lg)"
  shows "\<exists>A f s1 s2 records rows hidden. tl_inventory T = Some A \<and> filter_of T cx a (fst st) = Some (s1, Inr f) \<and>
    ac_list A s1 = Some (s2, Inr records) \<and>
    rows = map (row_of (tl_engine T) (renovate_period active) (tl_clock T s2))
      (filter (matches f (renovate_period active) (tl_clock T s2)) records) \<and>
    lg_total lg = length records \<and> lg_matched lg = length rows \<and> lg_shown lg = length (lg_repositories lg) \<and>
    mset (lg_repositories lg @ hidden) = mset rows \<and> sorted (map row_key (lg_repositories lg @ hidden)) \<and>
    (let limit = go_int (number a ''limit'' defaultLimit) in
       lg_shown lg = (if limit > 0 then min (nat limit) (length rows) else length rows) \<and> (limit \<le> 0 \<longrightarrow> hidden = []))"
proof -
  obtain A f s1 s2 records done_sweep running where
    "tl_inventory T = Some A" "filter_of T cx a (fst st) = Some (s1, Inr f)" "ac_list A s1 = Some (s2, Inr records)"
    and lg: "lg = listing_of (tl_engine T) f (renovate_period active) (tl_clock T s2)
      (go_int (number a ''limit'' defaultLimit)) done_sweep running records"
    using list_repositories_Inr [OF assms] by blast
  moreover note listing_of_rows [of "tl_engine T" f "renovate_period active" "tl_clock T s2"
      "go_int (number a ''limit'' defaultLimit)" done_sweep running records, folded lg]
  ultimately show ?thesis unfolding Let_def by blast
qed

section \<open>The idle repositories\<close>

lemma go_int_of_int [simp]: "go_int (of_int k) = k"
  by (simp add: go_int_def)

lemma days_in_range: "1 \<le> d \<Longrightarrow> d \<le> 106751 \<Longrightarrow> days_duration (of_int d) = d * 24 * hour"
proof -
  assume d: "1 \<le> d" "d \<le> 106751"
  have "go_int (of_int d * 24) = d * 24" using go_int_of_int [of "d * 24"] by simp
  then show ?thesis using d by (simp add: days_duration_def wrap64_def duration_units)
qed

lemma wraps_negative:
  fixes y :: int
  assumes "2 ^ 63 \<le> y" and "y < 3 * 2 ^ 63"
  shows "wrap64 y = y - 2 ^ 64"
proof -
  have "(y + 2 ^ 63) mod 2 ^ 64 = (y + 2 ^ 63 - 2 ^ 64) mod 2 ^ 64" by (simp only: minus_mod_self2)
  also have "\<dots> = y + 2 ^ 63 - 2 ^ 64" by (rule mod_pos_pos_trivial) (use assms in simp_all)
  finally show ?thesis by (simp add: wrap64_def)
qed

lemma days_past_range: "106752 \<le> d \<Longrightarrow> d \<le> 213503 \<Longrightarrow> days_duration (of_int d) < 0"
proof -
  assume d: "106752 \<le> d" "d \<le> 213503"
  have g: "go_int (of_int d * 24) = d * 24" using go_int_of_int [of "d * 24"] by simp
  have "days_duration (of_int d) = wrap64 (86400000000000 * d)" by (simp add: days_duration_def g duration_units)
  also have "\<dots> = 86400000000000 * d - 2 ^ 64" by (rule wraps_negative) (use d in simp_all)
  finally show ?thesis using d by simp
qed

lemma filter_of_inactive:
  assumes "filter_of T cx a s = Some (s', Inr f)"
  shows "lf_inactive f = (if number a ''inactiveDays'' 0 > 0 then days_duration (number a ''inactiveDays'' 0) else 0)"
  using assms by (auto simp: filter_of_def Let_def pio_bind_Inr page_filters_def split: if_splits)

definition idle_for :: "duration \<Rightarrow> time \<Rightarrow> repo_record \<Rightarrow> bool" where
  "idle_for d now r \<longleftrightarrow> (case rc_reality r of None \<Rightarrow> True | Some re \<Rightarrow> (case re_lastPersonCommit re of
     None \<Rightarrow> True | Some c \<Rightarrow> d \<le> now - cm_date c))"

lemma matches_inactive:
  assumes "lf_inactive f \<le> max_duration"
  shows "matches f period now r \<longleftrightarrow> matches (f\<lparr>lf_inactive := 0\<rparr>) period now r \<and>
    (lf_inactive f > 0 \<longrightarrow> idle_for (lf_inactive f) now r)"
proof -
  have "\<not> time_sub now t < lf_inactive f \<longleftrightarrow> lf_inactive f \<le> now - t" if "lf_inactive f > 0" for t
    using time_sub_less_iff [of "lf_inactive f" now t] that assms by (auto simp: min_duration_def)
  then have i: "(lf_inactive f > 0 \<longrightarrow> (case rc_reality r of None \<Rightarrow> True | Some re \<Rightarrow> (case re_lastPersonCommit re of
      None \<Rightarrow> True | Some c \<Rightarrow> \<not> time_sub now (cm_date c) < lf_inactive f))) \<longleftrightarrow> (lf_inactive f > 0 \<longrightarrow> idle_for (lf_inactive f) now r)"
    by (cases "rc_reality r") (simp_all add: idle_for_def split: option.split)
  moreover have "keeps_scope (f\<lparr>lf_inactive := 0\<rparr>) r = keeps_scope f r" "keeps_reality (f\<lparr>lf_inactive := 0\<rparr>) r = keeps_reality f r"
    "keeps_ci (f\<lparr>lf_inactive := 0\<rparr>) r = keeps_ci f r"
    by (simp_all add: keeps_scope_def keeps_reality_def keeps_ci_def cong: option.case_cong)
  moreover have "keeps_state f period now r \<longleftrightarrow>
      keeps_state (f\<lparr>lf_inactive := 0\<rparr>) period now r \<and> (lf_inactive f > 0 \<longrightarrow> idle_for (lf_inactive f) now r)"
    unfolding keeps_state_def i by (simp cong: option.case_cong, blast?)
  ultimately show ?thesis by (simp only: matches_def) blast
qed

text \<open>
  C35. The filter of the idle repositories, and where it overflows. A listing asked for the repositories
  without a person's commit for a whole number of days keeps, of what the other filters keep, exactly
  those whose last known commit is that old or which have none; but above 106751 days the product wraps
  in 64 bits, the duration is negative and the filter drops no record, up to 213503 days.
\<close>

theorem inactive_days:
  assumes f: "filter_of T cx a s = Some (s', Inr f)" and days: "number a ''inactiveDays'' 0 = of_int d"
  shows "(1 \<le> d \<and> d \<le> 106751 \<longrightarrow> (\<forall>period now r. matches f period now r \<longleftrightarrow>
      matches (f\<lparr>lf_inactive := 0\<rparr>) period now r \<and> idle_for (d * 24 * hour) now r)) \<and>
    (106752 \<le> d \<and> d \<le> 213503 \<longrightarrow> lf_inactive f < 0 \<and>
      (\<forall>period now r. matches f period now r \<longleftrightarrow> matches (f\<lparr>lf_inactive := 0\<rparr>) period now r))"
proof (intro conjI impI allI)
  fix period now r
  assume d: "1 \<le> d \<and> d \<le> 106751"
  then have i: "lf_inactive f = d * 24 * hour"
    using filter_of_inactive [OF f] days days_in_range [of d] by simp
  moreover have "0 < d * 24 * hour" "d * 24 * hour \<le> max_duration" using d by (simp_all add: duration_units max_duration_def)
  ultimately show "matches f period now r \<longleftrightarrow> matches (f\<lparr>lf_inactive := 0\<rparr>) period now r \<and> idle_for (d * 24 * hour) now r"
    using matches_inactive [of f period now r] by simp
next
  assume d: "106752 \<le> d \<and> d \<le> 213503"
  then show i: "lf_inactive f < 0" using filter_of_inactive [OF f] days days_past_range [of d] by simp
  fix period now r
  show "matches f period now r \<longleftrightarrow> matches (f\<lparr>lf_inactive := 0\<rparr>) period now r"
    using matches_inactive [of f period now r] i by (simp add: max_duration_def)
qed

section \<open>Witnesses\<close>

definition listed_records :: "repo_record list" where
  "listed_records = [zero_record\<lparr>rc_repository := ''org/web'', rc_name := ''web''\<rparr>, zero_record\<lparr>rc_repository := ''org/api'', rc_name := ''api''\<rparr>]"

definition listing_tools :: "(put_log, string, unit, unit) tools" where
  "listing_tools = (sample_tools (sample_pull 7 None))\<lparr>tl_inventory := Some \<lparr>ac_get = (\<lambda>k. io_ret zero_record),
     ac_put = (\<lambda>r s. (s, None)), ac_list = (\<lambda>s. Some (s, Inr listed_records))\<rparr>\<rparr>"

lemma listing_tools_inventory: "tl_inventory listing_tools = Some \<lparr>ac_get = (\<lambda>k. io_ret zero_record),
     ac_put = (\<lambda>r s. (s, None)), ac_list = (\<lambda>s. Some (s, Inr listed_records))\<rparr>"
  by (simp add: listing_tools_def)

definition all_filter :: "args \<Rightarrow> list_filter" where "all_filter a = page_filters a (empty_filter ScopeAll)"

lemma sample_filter:
  assumes "arg_text a ''scope'' = []" and "string_arg a argTeam = []"
  shows "filter_of T cx a s = Some (s, Inr (all_filter a))"
  using assms by (simp add: filter_of_def scoped_def empty_filter_def ScopeAll_def ScopeMine_def ScopeTeam_def TeamNone_def
      pio_bind_def all_filter_def Let_def)

definition two_rows :: args where "two_rows = [''limit'' \<mapsto> ANumber 2]"

lemma two_rows_args: "arg_text two_rows ''scope'' = []" "string_arg two_rows argTeam = []"
  by code_simp+

theorem listing_exact_witness:
  "\<exists>lg. list_repositories listing_tools (io_ret None) 0 sample_call two_rows (([], []), fresh_memory) =
     Some ((([], []), fresh_memory), Inr lg) \<and> lg_total lg = 2 \<and> lg_shown lg = length (lg_repositories lg)"
proof -
  have run: "\<exists>lg. list_repositories listing_tools (io_ret None) 0 sample_call two_rows (([], []), fresh_memory) =
     Some ((([], []), fresh_memory), Inr lg)"
    by (simp add: list_repositories_def listing_tools_inventory pio_bind_def on_world_def sample_filter two_rows_args
        pio_wrap_def io_wrap_def Let_def)
  then obtain lg where lg: "list_repositories listing_tools (io_ret None) 0 sample_call two_rows (([], []), fresh_memory) =
     Some ((([], []), fresh_memory), Inr lg)" by (elim exE) (rule that)
  from listing_exact [OF lg] have "lg_total lg = 2 \<and> lg_shown lg = length (lg_repositories lg)"
    by (auto simp: listing_tools_inventory listed_records_def)
  with lg show ?thesis by - (rule exI, rule conjI)
qed

definition idle_args :: args where "idle_args = [''inactiveDays'' \<mapsto> ANumber 200000]"

theorem inactive_days_witness:
  "filter_of listing_tools sample_call idle_args ([], []) = Some (([], []), Inr (all_filter idle_args)) \<and>
   lf_inactive (all_filter idle_args) < 0"
proof
  have "arg_text idle_args ''scope'' = []" "string_arg idle_args argTeam = []" by code_simp+
  then show f: "filter_of listing_tools sample_call idle_args ([], []) = Some (([], []), Inr (all_filter idle_args))"
    by (rule sample_filter)
  have "number idle_args ''inactiveDays'' 0 = of_int 200000" by (simp add: number_def idle_args_def)
  from inactive_days [OF f this] show "lf_inactive (all_filter idle_args) < 0" by simp
qed

end
