(* ===== verification/CreationProps.thy ===== *)
theory CreationProps
  imports Creation DryRuns
begin

text \<open>
  What an adoption declares: one entry, of a repository that exists and that no team file declared when
  they were all read.
\<close>

section \<open>No file declares it\<close>




lemma io_wrap_Inl: "io_wrap w m g = (g', Inl e) \<longleftrightarrow> (\<exists>e'. m g = (g', Inl e') \<and> e = w e')"
  by (auto simp: io_wrap_def split: prod.splits sum.splits)









section \<open>What an adoption changes\<close>




section \<open>The adoption of web by alice\<close>

















end
