(* ===== verification/Spec2Isabelle.thy ===== *)
theory Spec2Isabelle
  imports ReconcilerProps CIJobs StoreProps EntriesProps TeamFilesProps StepsProps ReleaseWatchProps CIFactsProps RealityProps
    SweepsProps MessagesProps WatchProps AccessProps DryRuns CommitProps ApprovalsProps Aligns ListingProps CreationProps
begin

text \<open>Header.\<close>

end
